(* ===== verification/Prelude.thy ===== *)
theory Prelude
  imports Main "HOL-Library.Word"
begin

text \<open>
  Shared vocabulary of the development: bytes and addresses, the 32-bit wrap-around of C
  arithmetic on the ARM target, little-endian encoding of C integers in packed structs, memory
  blocks overwritten in place, and the result type of code that may be stopped by undefined
  behaviour or may never return.
\<close>

named_theorems run_simps "rewrite rules for runs: binding, returning, faulting"
named_theorems frame_simps "which part of the state an operation leaves alone"

type_synonym byte = "8 word"
type_synonym addr = "32 word"


section \<open>C integers\<close>

text \<open>An \<open>int\<close> of the target is a 32-bit two's complement value. It is kept as an HOL
  integer, and arithmetic that can leave the range is wrapped explicitly.\<close>

definition wrap32 :: "int \<Rightarrow> int" where
  "wrap32 x = (x + 2147483648) mod 4294967296 - 2147483648"

definition c_int :: "int \<Rightarrow> bool" where
  "c_int x \<longleftrightarrow> - 2147483648 \<le> x \<and> x < 2147483648"

lemma wrap32_id [simp]: "c_int x \<Longrightarrow> wrap32 x = x"
  by (simp add: wrap32_def c_int_def)

lemma wrap32_range: "c_int (wrap32 x)"
  by (simp add: wrap32_def c_int_def)

lemma wrap32_idem [simp]: "wrap32 (wrap32 x) = wrap32 x"
  by (simp add: wrap32_range)

lemma wrap32_eq_iff: "wrap32 x = wrap32 y \<longleftrightarrow> x mod 4294967296 = y mod 4294967296"
proof -
  have "wrap32 x = wrap32 y
    \<longleftrightarrow> (x + 2147483648) mod 4294967296 = (y + 2147483648) mod 4294967296"
    by (simp add: wrap32_def)
  also have "\<dots> \<longleftrightarrow> x mod 4294967296 = y mod 4294967296"
    by (simp only: mod_eq_dvd_iff) simp
  finally show ?thesis .
qed

lemma wrap32_mod [simp]: "wrap32 (x mod 4294967296) = wrap32 x"
  by (simp add: wrap32_eq_iff)

lemma wrap32_high:
  assumes "2147483648 \<le> x" and "x < 4294967296"
  shows "wrap32 x = x - 4294967296"
proof -
  have "wrap32 x = wrap32 (x - 4294967296)" by (simp add: wrap32_eq_iff)
  also have "\<dots> = x - 4294967296" using assms by (intro wrap32_id) (simp add: c_int_def)
  finally show ?thesis .
qed


section \<open>Little-endian encoding\<close>

fun le_bytes :: "nat \<Rightarrow> int \<Rightarrow> byte list" where
  "le_bytes 0 x = []"
| "le_bytes (Suc n) x = word_of_int x # le_bytes n (x div 256)"

fun le_val :: "byte list \<Rightarrow> int" where
  "le_val [] = 0"
| "le_val (b # bs) = uint b + 256 * le_val bs"

lemma length_le_bytes [simp]: "length (le_bytes n x) = n"
  by (induction n arbitrary: x) auto

lemma le_val_nonneg: "0 \<le> le_val bs"
  by (induction bs) auto

lemma le_val_bound: "le_val bs < 256 ^ length bs"
proof (induction bs)
  case Nil
  then show ?case by simp
next
  case (Cons b bs)
  have b: "uint b \<le> 255" using uint_lt2p [of b] by simp
  have "uint b + 256 * le_val bs \<le> 255 + 256 * (256 ^ length bs - 1)"
    using Cons.IH b by (intro add_mono mult_left_mono) auto
  then show ?case by simp
qed

lemma le_val_le_bytes: "le_val (le_bytes n x) = x mod 256 ^ n"
proof (induction n arbitrary: x)
  case 0
  then show ?case by simp
next
  case (Suc n)
  have "uint (word_of_int x :: byte) = x mod 256"
    by (simp add: uint_word_of_int)
  then show ?case
    using Suc.IH [of "x div 256"] zmod_zmult2_eq [of "256 ^ n" x 256] by simp
qed

lemma le_bytes_le_val: "le_bytes (length bs) (le_val bs) = bs"
proof (induction bs)
  case Nil
  then show ?case by simp
next
  case (Cons b bs)
  have b: "0 \<le> uint b" "uint b < 256" using uint_lt2p [of b] by simp_all
  have "(word_of_int (uint b + 256 * le_val bs) :: byte) = b"
  proof -
    have "uint (word_of_int (uint b + 256 * le_val bs) :: byte) = (uint b + 256 * le_val bs) mod 2 ^ 8"
      by (simp only: uint_word_of_int) simp
    also have "\<dots> = uint b" using b by simp
    finally show ?thesis by (simp only: word_uint_eq_iff)
  qed
  moreover have "(uint b + 256 * le_val bs) div 256 = le_val bs"
    using b by simp
  ultimately show ?case using Cons.IH by simp
qed

text \<open>A C \<open>int\<close> as it lies in memory, and as it is read back.\<close>

definition enc32 :: "int \<Rightarrow> byte list" where
  "enc32 x = le_bytes 4 x"

definition dec32 :: "byte list \<Rightarrow> int" where
  "dec32 bs = wrap32 (le_val (take 4 bs))"

lemma length_enc32 [simp]: "length (enc32 x) = 4"
  by (simp add: enc32_def)

lemma enc32_not_Nil [simp]: "enc32 x \<noteq> []"
  using length_enc32 [of x] by (metis length_0_conv zero_neq_numeral)

lemma dec32_enc32 [simp]: "dec32 (enc32 x @ bs) = wrap32 x"
  by (simp add: dec32_def enc32_def le_val_le_bytes)

lemma dec32_enc32_exact [simp]: "dec32 (enc32 x) = wrap32 x"
  using dec32_enc32 [of x "[]"] by simp

lemma enc32_dec32: "length bs = 4 \<Longrightarrow> enc32 (dec32 bs) = bs"
proof -
  assume l: "length bs = 4"
  have "le_val (enc32 (dec32 bs)) = dec32 bs mod 4294967296"
    by (simp add: enc32_def le_val_le_bytes)
  also have "\<dots> = le_val bs mod 4294967296"
    using l by (simp add: dec32_def flip: wrap32_eq_iff)
  also have "\<dots> = le_val bs"
    using l le_val_bound [of bs] le_val_nonneg [of bs] by simp
  finally have "le_bytes 4 (le_val (enc32 (dec32 bs))) = le_bytes 4 (le_val bs)" by simp
  then show ?thesis
    using l le_bytes_le_val [of bs] le_bytes_le_val [of "enc32 (dec32 bs)"] by simp
qed


section \<open>Memory written in place\<close>

text \<open>\<open>overlay bs buf\<close> is the buffer after \<open>bs\<close> has been stored at its start.\<close>

definition overlay :: "byte list \<Rightarrow> byte list \<Rightarrow> byte list" where
  "overlay bs buf = bs @ drop (length bs) buf"

definition overlay_at :: "nat \<Rightarrow> byte list \<Rightarrow> byte list \<Rightarrow> byte list" where
  "overlay_at off bs buf = take off buf @ bs @ drop (off + length bs) buf"

lemma length_overlay [simp]: "length bs \<le> length buf \<Longrightarrow> length (overlay bs buf) = length buf"
  by (simp add: overlay_def)

lemma overlay_full [simp]: "length bs = length buf \<Longrightarrow> overlay bs buf = bs"
  by (simp add: overlay_def)

lemma overlay_Nil [simp]: "overlay [] buf = buf"
  by (simp add: overlay_def)

lemma overlay_at_0: "overlay_at 0 bs buf = overlay bs buf"
  by (simp add: overlay_at_def overlay_def)

lemma overlay_at_full [simp]: "length bs = length buf \<Longrightarrow> overlay_at 0 bs buf = bs"
  by (simp add: overlay_at_def)

lemma length_overlay_at [simp]:
  "off + length bs \<le> length buf \<Longrightarrow> length (overlay_at off bs buf) = length buf"
  by (simp add: overlay_at_def)

lemma drop_take_split:
  assumes "g \<le> k" and "k \<le> m"
  shows "drop g (take m xs) = drop g (take k xs) @ drop k (take m xs)"
proof -
  have "drop g (take m xs) = take (k - g) (drop g (take m xs)) @ drop (k - g) (drop g (take m xs))"
    by (rule append_take_drop_id [symmetric])
  then show ?thesis using assms by (simp add: take_drop min_def)
qed

lemma take_overlay_at:
  "off + length bs \<le> length buf \<Longrightarrow>
   take (off + length bs) (overlay_at off bs buf) = take off buf @ bs"
  by (simp add: overlay_at_def)


section \<open>What the code prints\<close>

text \<open>The digits \<open>printf\<close> writes for \<open>%d\<close>, and for \<open>%x\<close> of a value that is not negative.\<close>

function digits :: "nat \<Rightarrow> nat \<Rightarrow> nat list" where
  "digits b n = (if b < 2 \<or> n < b then [n] else digits b (n div b) @ [n mod b])"
  by pat_completeness auto
termination
  by (relation "measure snd") (auto intro: div_less_dividend)

declare digits.simps [simp del]

definition digit_char :: "nat \<Rightarrow> char" where
  "digit_char d = char_of (if d < 10 then 48 + d else 87 + d)"

definition dec_str :: "int \<Rightarrow> string" where
  "dec_str x = (if x < 0 then ''-'' else []) @ map digit_char (digits 10 (nat \<bar>x\<bar>))"

definition hex_str :: "int \<Rightarrow> string" where
  "hex_str x = map digit_char (digits 16 (nat x))"


section \<open>Runs\<close>

text \<open>
  The outcome of a piece of C code: \<open>None\<close> when it does not return, \<open>Some (Inl f)\<close> when it
  runs into undefined behaviour \<open>f\<close>, \<open>Some (Inr x)\<close> when it returns \<open>x\<close>. Code that always
  returns without undefined behaviour is a plain function instead.
\<close>

datatype fault = NullDeref | DeadBlock | OutOfBounds | UserOverrun | BadFormat

type_synonym 'a run = "(fault + 'a) option"

definition ret :: "'a \<Rightarrow> 'a run" where
  "ret x = Some (Inr x)"

definition fail :: "fault \<Rightarrow> 'a run" where
  "fail f = Some (Inl f)"

definition run_bind :: "'a run \<Rightarrow> ('a \<Rightarrow> 'b run) \<Rightarrow> 'b run" where
  "run_bind m f = Option.bind m (\<lambda>r. case r of Inl e \<Rightarrow> fail e | Inr x \<Rightarrow> f x)"

lemma run_bind_ret [run_simps]: "run_bind (ret x) f = f x"
  by (simp add: run_bind_def ret_def)

lemma run_bind_fail [run_simps]: "run_bind (fail e) f = fail e"
  by (simp add: run_bind_def fail_def)

lemma run_bind_None [run_simps]: "run_bind None f = None"
  by (simp add: run_bind_def)

lemma ret_eq [run_simps]: "ret x = ret y \<longleftrightarrow> x = y"
  by (simp add: ret_def)

lemma ret_neq [run_simps]: "ret x \<noteq> fail e" "fail e \<noteq> ret x" "ret x \<noteq> None" "None \<noteq> ret x"
    "fail e \<noteq> None" "None \<noteq> fail e"
  by (simp_all add: ret_def fail_def)

lemma fail_eq [run_simps]: "fail e = fail e' \<longleftrightarrow> e = e'"
  by (simp add: fail_def)

lemma run_bind_eq_ret [run_simps]:
  "run_bind m f = ret y \<longleftrightarrow> (\<exists>x. m = ret x \<and> f x = ret y)"
  by (cases m) (auto simp: run_bind_def ret_def fail_def split: sum.splits)

lemma run_cases [case_names diverges faults returns]:
  assumes "m = None \<Longrightarrow> P" and "\<And>f. m = fail f \<Longrightarrow> P" and "\<And>x. m = ret x \<Longrightarrow> P"
  shows P
  using assms by (cases m; simp add: ret_def fail_def) (metis sumE)

text \<open>A run that ends, in a fault or in a value of which \<open>P\<close> holds.\<close>

definition run_ends :: "('a \<Rightarrow> bool) \<Rightarrow> 'a run \<Rightarrow> bool" where
  "run_ends P m \<longleftrightarrow> m \<noteq> None \<and> (\<forall>x. m = ret x \<longrightarrow> P x)"

lemma run_ends_ret [run_simps]: "run_ends P (ret x) \<longleftrightarrow> P x"
  by (simp add: run_ends_def ret_eq ret_neq)

lemma run_ends_fail [run_simps]: "run_ends P (fail f)"
  by (simp add: run_ends_def ret_neq)

lemma run_ends_bind:
  assumes "run_ends Q m" and "\<And>x. Q x \<Longrightarrow> run_ends P (f x)"
  shows "run_ends P (run_bind m f)"
proof (cases m rule: run_cases)
  case diverges
  with assms(1) show ?thesis by (simp add: run_ends_def)
next
  case (faults e)
  then show ?thesis by (simp add: run_bind_fail run_ends_fail)
next
  case (returns x)
  then have "Q x" using assms(1) by (simp add: run_ends_ret)
  then show ?thesis using returns assms(2) by (simp add: run_bind_ret)
qed

lemma run_ends_mono: "run_ends Q m \<Longrightarrow> (\<And>x. Q x \<Longrightarrow> P x) \<Longrightarrow> run_ends P m"
  by (auto simp: run_ends_def)

lemma run_bind_mono [partial_function_mono]:
  assumes "mono_option B" and "\<And>y. mono_option (\<lambda>f. C y f)"
  shows "mono_option (\<lambda>f. run_bind (B f) (\<lambda>y. C y f))"
proof -
  have "mono_option (\<lambda>f. case r of Inl e \<Rightarrow> fail e | Inr x \<Rightarrow> C x f)" for r
    using assms(2) by (cases r) (auto intro: option.const_mono)
  then show ?thesis
    unfolding run_bind_def using assms(1) by (intro bind_mono) auto
qed

end
