(* ===== verification/Memory.thy ===== *)
theory Memory
  imports Prelude
begin

text \<open>
  Memory as the code sees it. A byte array is a list of bytes, and a store or load that leaves
  it is the fault \<open>OutOfBounds\<close>. A heap maps the ids of allocated blocks to their contents; a
  pointer carries the id of the block it points into, so that an access through a null pointer
  or into a released block is a fault of its own.
\<close>

definition mem_store :: "nat \<Rightarrow> byte list \<Rightarrow> byte list \<Rightarrow> byte list run" where
  "mem_store off bs buf =
     (if bs = [] then ret buf
      else if off + length bs \<le> length buf then ret (overlay_at off bs buf) else fail OutOfBounds)"

definition mem_load :: "nat \<Rightarrow> nat \<Rightarrow> byte list \<Rightarrow> byte list run" where
  "mem_load off n buf =
     (if n = 0 then ret []
      else if off + n \<le> length buf then ret (take n (drop off buf)) else fail OutOfBounds)"

datatype kptr = Null | Block int addr

type_synonym heap = "int \<rightharpoonup> byte list"

definition blk_store :: "kptr \<Rightarrow> nat \<Rightarrow> byte list \<Rightarrow> heap \<Rightarrow> heap run" where
  "blk_store p off bs m = (if bs = [] then ret m else
     (case p of Null \<Rightarrow> fail NullDeref
      | Block u a \<Rightarrow> (case m u of None \<Rightarrow> fail DeadBlock
          | Some b \<Rightarrow> run_bind (mem_store off bs b) (\<lambda>b'. ret (m(u \<mapsto> b')))))) "

definition blk_load :: "kptr \<Rightarrow> nat \<Rightarrow> nat \<Rightarrow> heap \<Rightarrow> byte list run" where
  "blk_load p off n m = (if n = 0 then ret [] else
     (case p of Null \<Rightarrow> fail NullDeref
      | Block u a \<Rightarrow> (case m u of None \<Rightarrow> fail DeadBlock
          | Some b \<Rightarrow> mem_load off n b)))"

text \<open>The bytes a pointer leads to, if it leads anywhere.\<close>

definition pointee :: "kptr \<Rightarrow> heap \<Rightarrow> byte list option" where
  "pointee p m = (case p of Null \<Rightarrow> None | Block u a \<Rightarrow> m u)"

lemma mem_store_ok [run_simps]:
  "off + length bs \<le> length buf \<Longrightarrow> mem_store off bs buf = ret (overlay_at off bs buf)"
  by (simp add: mem_store_def overlay_at_def)

lemma mem_store_full [simp]: "length bs = length buf \<Longrightarrow> mem_store 0 bs buf = ret bs"
  by (auto simp: mem_store_def overlay_at_def)

lemma mem_store_Nil [simp]: "mem_store off [] buf = ret buf"
  by (simp add: mem_store_def)

lemma mem_load_ok [run_simps]:
  "off + n \<le> length buf \<Longrightarrow> mem_load off n buf = ret (take n (drop off buf))"
  by (simp add: mem_load_def)

lemma mem_store_cases:
  "mem_store off bs buf = fail OutOfBounds
   \<or> (\<exists>buf'. mem_store off bs buf = ret buf' \<and> length buf' = length buf)"
  by (auto simp: mem_store_def)

text \<open>Loads and stores through a pointer to a live block are loads and stores in its bytes.\<close>

lemma blk_store_live:
  "p = Block u a \<Longrightarrow> m u = Some b \<Longrightarrow>
   blk_store p off bs m = run_bind (mem_store off bs b) (\<lambda>b'. ret (m(u \<mapsto> b')))"
  by (auto simp: blk_store_def run_simps fun_upd_idem)

lemma blk_load_live:
  "p = Block u a \<Longrightarrow> m u = Some b \<Longrightarrow> blk_load p off n m = mem_load off n b"
  by (auto simp: blk_load_def mem_load_def)

lemma blk_store_whole:
  "p = Block u a \<Longrightarrow> m u = Some b \<Longrightarrow> length bs = length b \<Longrightarrow>
   blk_store p 0 bs m = ret (m(u \<mapsto> bs))"
  by (simp add: blk_store_live run_simps)

lemma blk_load_whole:
  "p = Block u a \<Longrightarrow> m u = Some b \<Longrightarrow> n = length b \<Longrightarrow> blk_load p 0 n m = ret b"
  by (simp add: blk_load_live run_simps)

end
