(* ===== verification/Kernel_Api.thy ===== *)
theory Kernel_Api
  imports Memory
begin

text \<open>
  The kernel functions the driver calls (\<open>ksce...\<close>, \<open>tai...\<close>, \<open>module_get_offset\<close>) belong to
  the console's firmware and to taiHEN, not to this repository. They are parameters of the
  model: fields of a record, each a function of its arguments and of an abstract world that it
  may change. Nothing is assumed of them here; a property that relies on documented behaviour
  of one of them says so in a hypothesis.

  The driver's own state is the record \<open>kbase\<close> and its extensions in the component theories:
  the C globals, by name, and the world.
\<close>

record sd_global =
  dev_type_idx :: int
  gctx_part :: addr
  array_idx :: int
  membase_1000 :: addr
  uid_1000 :: int
  membase_10000 :: addr
  uid_10000 :: int

record module_seg =
  vaddr :: addr
  memsz :: addr

record module_info =
  mod_name :: string
  segments :: "module_seg list"

record sockaddr_in =
  sin_addr :: "byte list"
  sin_port :: "16 word"

definition SCE_SDIF_DEV_EMMC :: int where "SCE_SDIF_DEV_EMMC = 0"
definition SCE_SDIF_DEV_GAME_CARD :: int where "SCE_SDIF_DEV_GAME_CARD = 1"

datatype open_flags = Creat_Append | Creat_Trunc | Rdonly

datatype io_data = Text string | Memory addr addr

record 'w kapi =
  k_CreateMutex :: "string \<Rightarrow> 'w \<Rightarrow> int \<times> 'w"
  k_DeleteMutex :: "int \<Rightarrow> 'w \<Rightarrow> int \<times> 'w"
  k_LockMutex :: "int \<Rightarrow> 'w \<Rightarrow> int \<times> 'w"
  k_UnlockMutex :: "int \<Rightarrow> 'w \<Rightarrow> int \<times> 'w"
  k_IoOpen :: "string \<Rightarrow> open_flags \<Rightarrow> 'w \<Rightarrow> int \<times> 'w"
  k_IoWrite :: "int \<Rightarrow> io_data \<Rightarrow> 'w \<Rightarrow> int \<times> 'w"
  k_IoClose :: "int \<Rightarrow> 'w \<Rightarrow> int \<times> 'w"
  k_AllocMemBlock :: "string \<Rightarrow> int \<Rightarrow> 'w \<Rightarrow> int \<times> byte list \<times> 'w"
  k_GetMemBlockBase :: "int \<Rightarrow> 'w \<Rightarrow> int \<times> addr \<times> 'w"
  k_FreeMemBlock :: "int \<Rightarrow> 'w \<Rightarrow> int \<times> 'w"
  k_MemcpyKernelToUser :: "bool \<Rightarrow> byte list \<Rightarrow> 'w \<Rightarrow> int \<times> nat \<times> 'w"
  k_SdifReadSectorAsync :: "addr \<Rightarrow> int \<Rightarrow> int \<Rightarrow> 'w \<Rightarrow> int \<times> byte list \<times> 'w"
  k_MsifReadSector :: "int \<Rightarrow> int \<Rightarrow> 'w \<Rightarrow> int \<times> byte list \<times> 'w"
  k_SdifGetPartMmc :: "int \<Rightarrow> 'w \<Rightarrow> addr \<times> 'w"
  k_SdifGetPartSd :: "int \<Rightarrow> 'w \<Rightarrow> addr \<times> 'w"
  k_SdifInitPartMmc :: "int \<Rightarrow> addr \<Rightarrow> 'w \<Rightarrow> int \<times> addr \<times> 'w"
  k_SdifInitPartSd :: "int \<Rightarrow> addr \<Rightarrow> 'w \<Rightarrow> int \<times> addr \<times> 'w"
  k_SdifGetGlobal :: "int \<Rightarrow> 'w \<Rightarrow> sd_global option \<times> 'w"
  k_GetModuleList :: "int \<Rightarrow> int \<Rightarrow> int \<Rightarrow> nat \<Rightarrow> 'w \<Rightarrow> int \<times> int list \<times> 'w"
  k_GetModuleInfo :: "int \<Rightarrow> 'w \<Rightarrow> int \<times> module_info \<times> 'w"
  k_NetSocket :: "string \<Rightarrow> 'w \<Rightarrow> int \<times> 'w"
  k_NetBind :: "int \<Rightarrow> 16 word \<Rightarrow> 'w \<Rightarrow> int \<times> 'w"
  k_NetListen :: "int \<Rightarrow> int \<Rightarrow> 'w \<Rightarrow> int \<times> 'w"
  k_NetAccept :: "int \<Rightarrow> 'w \<Rightarrow> int \<times> sockaddr_in \<times> 'w"
  k_NetSend :: "int \<Rightarrow> byte list \<Rightarrow> 'w \<Rightarrow> int \<times> 'w"
  k_NetSocketClose :: "int \<Rightarrow> 'w \<Rightarrow> int \<times> 'w"
  k_NetHtons :: "16 word \<Rightarrow> 16 word"
  k_CreateThread :: "string \<Rightarrow> 'w \<Rightarrow> int \<times> 'w"
  k_StartThread :: "int \<Rightarrow> 'w \<Rightarrow> int \<times> 'w"
  k_WaitThreadEnd :: "int \<Rightarrow> 'w \<Rightarrow> int \<times> 'w"
  k_DeleteThread :: "int \<Rightarrow> 'w \<Rightarrow> int \<times> 'w"
  k_DelayThread :: "int \<Rightarrow> 'w \<Rightarrow> int \<times> 'w"
  k_taiGetModuleInfo :: "string \<Rightarrow> 'w \<Rightarrow> int \<times> int \<times> 'w"
  k_ModuleGetOffset :: "int \<Rightarrow> int \<Rightarrow> addr \<Rightarrow> 'w \<Rightarrow> int \<times> addr \<times> 'w"

text \<open>A kernel in which every call succeeds and does nothing: the sample the witnesses
  update where they need a particular answer.\<close>

definition quiet_kernel :: "'w kapi" where
  "quiet_kernel = \<lparr>
     k_CreateMutex = (\<lambda>_ w. (1, w)), k_DeleteMutex = (\<lambda>_ w. (0, w)),
     k_LockMutex = (\<lambda>_ w. (0, w)), k_UnlockMutex = (\<lambda>_ w. (0, w)),
     k_IoOpen = (\<lambda>_ _ w. (5, w)), k_IoWrite = (\<lambda>_ _ w. (0, w)), k_IoClose = (\<lambda>_ w. (0, w)),
     k_AllocMemBlock = (\<lambda>_ n w. if 0 \<le> n then (7, replicate (nat n) 0, w) else (-1, [], w)),
     k_GetMemBlockBase = (\<lambda>_ w. (0, 4096, w)), k_FreeMemBlock = (\<lambda>_ w. (0, w)),
     k_MemcpyKernelToUser = (\<lambda>mapped src w. if mapped then (0, length src, w) else (-1, 0, w)),
     k_SdifReadSectorAsync = (\<lambda>_ _ n w. (0, replicate (512 * nat n) 0, w)),
     k_MsifReadSector = (\<lambda>_ n w. (0, replicate (512 * nat n) 0, w)),
     k_SdifGetPartMmc = (\<lambda>_ w. (1, w)), k_SdifGetPartSd = (\<lambda>_ w. (1, w)),
     k_SdifInitPartMmc = (\<lambda>_ _ w. (0, 1, w)), k_SdifInitPartSd = (\<lambda>_ _ w. (0, 1, w)),
     k_SdifGetGlobal = (\<lambda>i w. (Some \<lparr>dev_type_idx = 1, gctx_part = 1, array_idx = i,
       membase_1000 = 4096, uid_1000 = 7, membase_10000 = 4096, uid_10000 = 7\<rparr>, w)),
     k_GetModuleList = (\<lambda>_ _ _ _ w. (0, [], w)),
     k_GetModuleInfo = (\<lambda>_ w. (0, \<lparr>mod_name = [],
       segments = replicate 4 \<lparr>vaddr = 0, memsz = 0\<rparr>\<rparr>, w)),
     k_NetSocket = (\<lambda>_ w. (3, w)), k_NetBind = (\<lambda>_ _ w. (0, w)),
     k_NetListen = (\<lambda>_ _ w. (0, w)),
     k_NetAccept = (\<lambda>_ w. (-1, \<lparr>sin_addr = [0, 0, 0, 0], sin_port = 0\<rparr>, w)),
     k_NetSend = (\<lambda>_ bs w. (int (length bs), w)), k_NetSocketClose = (\<lambda>_ w. (0, w)),
     k_NetHtons = id,
     k_CreateThread = (\<lambda>_ w. (9, w)), k_StartThread = (\<lambda>_ w. (0, w)),
     k_WaitThreadEnd = (\<lambda>_ w. (0, w)), k_DeleteThread = (\<lambda>_ w. (0, w)),
     k_DelayThread = (\<lambda>_ w. (0, w)),
     k_taiGetModuleInfo = (\<lambda>_ w. (0, 1, w)),
     k_ModuleGetOffset = (\<lambda>_ _ o1 w. (0, o1, w))\<rparr>"

text \<open>The part of the driver's state every component uses: the two log files of \<open>glog.c\<close> and
  \<open>sdstor_log.c\<close>, and the mutex of \<open>stacktrace.c\<close>.\<close>

record 'w kbase =
  world :: 'w
  global_log_fd :: int
  global_ref_ctx :: int
  g_globalLogMutex :: int
  sdstor_dev_fs_log_fd :: int
  sdstor_ref_ctx :: int
  g_sdstorLogMutex :: int
  g_threadInfoMutex :: int

definition kcall :: "('w \<Rightarrow> 'a \<times> 'w) \<Rightarrow> ('w, 'm) kbase_scheme \<Rightarrow> 'a \<times> ('w, 'm) kbase_scheme" where
  "kcall f s = (case f (world s) of (r, w) \<Rightarrow> (r, s\<lparr>world := w\<rparr>))"

definition kdo :: "('w \<Rightarrow> int \<times> 'w) \<Rightarrow> ('w, 'm) kbase_scheme \<Rightarrow> ('w, 'm) kbase_scheme" where
  "kdo f s = s\<lparr>world := snd (f (world s))\<rparr>"

text \<open>Calls with an output parameter return its new value beside the result code.\<close>

definition kcall2 ::
    "('w \<Rightarrow> int \<times> 'a \<times> 'w) \<Rightarrow> ('w, 'm) kbase_scheme \<Rightarrow> int \<times> 'a \<times> ('w, 'm) kbase_scheme" where
  "kcall2 f s = (case f (world s) of (r, a, w) \<Rightarrow> (r, a, s\<lparr>world := w\<rparr>))"

lemma kdo_fields [frame_simps]:
  "global_log_fd (kdo f s) = global_log_fd s"
  "global_ref_ctx (kdo f s) = global_ref_ctx s"
  "g_globalLogMutex (kdo f s) = g_globalLogMutex s"
  "sdstor_dev_fs_log_fd (kdo f s) = sdstor_dev_fs_log_fd s"
  "sdstor_ref_ctx (kdo f s) = sdstor_ref_ctx s"
  "g_sdstorLogMutex (kdo f s) = g_sdstorLogMutex s"
  "g_threadInfoMutex (kdo f s) = g_threadInfoMutex s"
  "kbase.more (kdo f s) = kbase.more s"
  by (simp_all add: kdo_def)

lemma kcall_eq: "kcall f s = (fst (f (world s)), s\<lparr>world := snd (f (world s))\<rparr>)"
  by (simp add: kcall_def split: prod.splits)

lemma kcall2_eq: "kcall2 f s = (fst (f (world s)), fst (snd (f (world s))),
    s\<lparr>world := snd (snd (f (world s)))\<rparr>)"
  by (simp add: kcall2_def split: prod.splits)

end
