(* ===== verification/Glog.thy ===== *)
theory Glog
  imports Kernel_Api
begin

text \<open>
  The two log files of the driver: \<open>driver/glog.c\<close> (\<open>ux0:dump/psvemmc_dump.bin\<close>) and
  \<open>driver/sdstor_log.c\<close> (\<open>ux0:dump/sdstor_dev_fs.txt\<close>). Each keeps a file handle that is
  opened by the first of several nested users and closed by the last one, counted in a
  reference counter. Both files have the same contract, the locale \<open>refcount_log\<close>; the
  lemmas on nested use are proved once there and interpreted for both.
\<close>

section \<open>The code\<close>

definition init_global_log :: "'w kapi \<Rightarrow> ('w, 'm) kbase_scheme \<Rightarrow> ('w, 'm) kbase_scheme" where
  "init_global_log k s =
     (let (m, s1) = kcall (k_CreateMutex k ''GlobalLogMutex'') s
      in s1\<lparr>g_globalLogMutex := m\<rparr>)"

definition deinit_global_log :: "'w kapi \<Rightarrow> ('w, 'm) kbase_scheme \<Rightarrow> ('w, 'm) kbase_scheme" where
  "deinit_global_log k s =
     (let s1 = kdo (k_DeleteMutex k (g_globalLogMutex s)) s
      in s1\<lparr>g_globalLogMutex := -1\<rparr>)"

definition FILE_GLOBAL_WRITE_LEN ::
    "'w kapi \<Rightarrow> string \<Rightarrow> ('w, 'm) kbase_scheme \<Rightarrow> ('w, 'm) kbase_scheme" where
  "FILE_GLOBAL_WRITE_LEN k msg s =
     (let s1 = kdo (k_LockMutex k (g_globalLogMutex s)) s;
          s2 = (if global_log_fd s1 \<ge> 0
                then kdo (k_IoWrite k (global_log_fd s1) (Text msg)) s1 else s1)
      in kdo (k_UnlockMutex k (g_globalLogMutex s2)) s2)"

definition open_global_log :: "'w kapi \<Rightarrow> ('w, 'm) kbase_scheme \<Rightarrow> ('w, 'm) kbase_scheme" where
  "open_global_log k s =
     (let s1 = kdo (k_LockMutex k (g_globalLogMutex s)) s;
          s2 = (if global_log_fd s1 = -1 \<and> global_ref_ctx s1 = 0
                then (let (fd, s') = kcall (k_IoOpen k ''ux0:dump/psvemmc_dump.bin'' Creat_Append) s1
                      in s'\<lparr>global_log_fd := fd\<rparr>)
                else s1);
          s3 = s2\<lparr>global_ref_ctx := global_ref_ctx s2 + 1\<rparr>
      in kdo (k_UnlockMutex k (g_globalLogMutex s3)) s3)"

definition close_global_log :: "'w kapi \<Rightarrow> ('w, 'm) kbase_scheme \<Rightarrow> ('w, 'm) kbase_scheme" where
  "close_global_log k s =
     (let s1 = kdo (k_LockMutex k (g_globalLogMutex s)) s;
          s2 = s1\<lparr>global_ref_ctx := global_ref_ctx s1 - 1\<rparr>;
          s3 = (if global_log_fd s2 \<ge> 0 \<and> global_ref_ctx s2 = 0
                then (kdo (k_IoClose k (global_log_fd s2)) s2)\<lparr>global_log_fd := -1\<rparr>
                else s2)
      in kdo (k_UnlockMutex k (g_globalLogMutex s3)) s3)"

definition init_sdstor_log :: "'w kapi \<Rightarrow> ('w, 'm) kbase_scheme \<Rightarrow> ('w, 'm) kbase_scheme" where
  "init_sdstor_log k s =
     (let (m, s1) = kcall (k_CreateMutex k ''SdstorLogMutex'') s
      in s1\<lparr>g_sdstorLogMutex := m\<rparr>)"

definition deinit_sdstor_log :: "'w kapi \<Rightarrow> ('w, 'm) kbase_scheme \<Rightarrow> ('w, 'm) kbase_scheme" where
  "deinit_sdstor_log k s =
     (let s1 = kdo (k_DeleteMutex k (g_sdstorLogMutex s)) s
      in s1\<lparr>g_sdstorLogMutex := -1\<rparr>)"

definition FILE_SDSTOR_WRITE_LEN ::
    "'w kapi \<Rightarrow> string \<Rightarrow> ('w, 'm) kbase_scheme \<Rightarrow> ('w, 'm) kbase_scheme" where
  "FILE_SDSTOR_WRITE_LEN k msg s =
     (let s1 = kdo (k_LockMutex k (g_sdstorLogMutex s)) s;
          s2 = (if sdstor_dev_fs_log_fd s1 \<ge> 0
                then kdo (k_IoWrite k (sdstor_dev_fs_log_fd s1) (Text msg)) s1 else s1)
      in kdo (k_UnlockMutex k (g_sdstorLogMutex s2)) s2)"

definition open_sdstor_dev_fs_log :: "'w kapi \<Rightarrow> ('w, 'm) kbase_scheme \<Rightarrow> ('w, 'm) kbase_scheme" where
  "open_sdstor_dev_fs_log k s =
     (let s1 = kdo (k_LockMutex k (g_sdstorLogMutex s)) s;
          s2 = (if sdstor_dev_fs_log_fd s1 = -1 \<and> sdstor_ref_ctx s1 = 0
                then (let (fd, s') = kcall (k_IoOpen k ''ux0:dump/sdstor_dev_fs.txt'' Creat_Append) s1
                      in s'\<lparr>sdstor_dev_fs_log_fd := fd\<rparr>)
                else s1);
          s3 = s2\<lparr>sdstor_ref_ctx := sdstor_ref_ctx s2 + 1\<rparr>
      in kdo (k_UnlockMutex k (g_sdstorLogMutex s3)) s3)"

definition close_sdstor_dev_fs_log :: "'w kapi \<Rightarrow> ('w, 'm) kbase_scheme \<Rightarrow> ('w, 'm) kbase_scheme" where
  "close_sdstor_dev_fs_log k s =
     (let s1 = kdo (k_LockMutex k (g_sdstorLogMutex s)) s;
          s2 = s1\<lparr>sdstor_ref_ctx := sdstor_ref_ctx s1 - 1\<rparr>;
          s3 = (if sdstor_dev_fs_log_fd s2 \<ge> 0 \<and> sdstor_ref_ctx s2 = 0
                then (kdo (k_IoClose k (sdstor_dev_fs_log_fd s2)) s2)\<lparr>sdstor_dev_fs_log_fd := -1\<rparr>
                else s2)
      in kdo (k_UnlockMutex k (g_sdstorLogMutex s3)) s3)"


text \<open>The pattern in which most of the driver writes: open the log, write one line, close it.
  The messages are given without the newline they end with.\<close>

definition newline :: string where
  "newline = [CHR 0x0A]"

definition glog_line :: "'w kapi \<Rightarrow> string \<Rightarrow> ('w, 'm) kbase_scheme \<Rightarrow> ('w, 'm) kbase_scheme" where
  "glog_line k msg s =
     close_global_log k (FILE_GLOBAL_WRITE_LEN k (msg @ newline) (open_global_log k s))"

definition slog_line :: "'w kapi \<Rightarrow> string \<Rightarrow> ('w, 'm) kbase_scheme \<Rightarrow> ('w, 'm) kbase_scheme" where
  "slog_line k msg s =
     close_sdstor_dev_fs_log k (FILE_SDSTOR_WRITE_LEN k (msg @ newline) (open_sdstor_dev_fs_log k s))"

text \<open>What \<open>%x\<close>, \<open>%08x\<close> and \<open>%s\<close> write of an \<open>int\<close>, a word and a character array.\<close>

definition hex_int :: "int \<Rightarrow> string" where
  "hex_int x = hex_str (x mod 4294967296)"

definition hex8_str :: "addr \<Rightarrow> string" where
  "hex8_str a = (let h = hex_str (uint a) in replicate (8 - length h) (CHR ''0'') @ h)"

definition c_string :: "string \<Rightarrow> string" where
  "c_string = takeWhile (\<lambda>c. c \<noteq> CHR 0x00)"


section \<open>The contract of a reference-counted log\<close>

text \<open>What a client can do with a log, and a use in which no close comes without an open of
  its own: \<open>log_depth d ops\<close> is the nesting depth after \<open>ops\<close>, started at depth \<open>d\<close>, or
  \<open>None\<close> if some close came too early.\<close>

datatype log_op = Log_open | Log_close | Log_write string

fun log_depth :: "nat \<Rightarrow> log_op list \<Rightarrow> nat option" where
  "log_depth d [] = Some d"
| "log_depth d (Log_open # ops) = log_depth (Suc d) ops"
| "log_depth d (Log_write m # ops) = log_depth d ops"
| "log_depth d (Log_close # ops) = (case d of 0 \<Rightarrow> None | Suc n \<Rightarrow> log_depth n ops)"

locale refcount_log =
  fixes fd :: "'s \<Rightarrow> int" and ref :: "'s \<Rightarrow> int"
    and opn :: "'s \<Rightarrow> 's" and cls :: "'s \<Rightarrow> 's" and wr :: "string \<Rightarrow> 's \<Rightarrow> 's"
  assumes opn_ref: "ref (opn s) = ref s + 1"
    and opn_keep: "fd s \<noteq> -1 \<or> ref s \<noteq> 0 \<Longrightarrow> fd (opn s) = fd s"
    and cls_ref: "ref (cls s) = ref s - 1"
    and cls_fd: "fd (cls s) = (if fd s \<ge> 0 \<and> ref s = 1 then -1 else fd s)"
    and wr_fd: "fd (wr m s) = fd s"
    and wr_ref: "ref (wr m s) = ref s"
begin

primrec step :: "'s \<Rightarrow> log_op \<Rightarrow> 's" where
  "step s Log_open = opn s"
| "step s Log_close = cls s"
| "step s (Log_write m) = wr m s"

definition run :: "'s \<Rightarrow> log_op list \<Rightarrow> 's" where
  "run = foldl step"

lemma run_simps: "run s [] = s" "run s (x # xs) = run (step s x) xs"
  by (simp_all add: run_def)

lemma run_ref: "log_depth d ops = Some e \<Longrightarrow> ref (run s ops) = ref s + int e - int d"
  by (induction d ops arbitrary: s rule: log_depth.induct)
    (auto simp: run_simps opn_ref cls_ref wr_ref split: nat.splits)

text \<open>Inside a session the handle stays what it is, however deeply the clients nest.\<close>

lemma run_keeps_handle:
  assumes "log_depth d ops = Some e" and "ref s > int d"
  shows "fd (run s ops) = fd s"
  using assms
proof (induction d ops arbitrary: s rule: log_depth.induct)
  case (2 d ops)
  then have "fd (run (opn s) ops) = fd (opn s)"
    by (simp add: opn_ref)
  with 2 show ?case by (simp add: run_simps opn_keep)
next
  case (3 d m ops)
  then show ?case by (simp add: run_simps wr_fd wr_ref)
next
  case (4 d ops)
  then obtain n where d: "d = Suc n" by (cases d) auto
  with 4 have "fd (run (cls s) ops) = fd (cls s)"
    by (simp add: cls_ref)
  with 4 d show ?case by (simp add: run_simps cls_fd)
qed (simp add: run_simps)

text \<open>A whole session, from the first open to the last close, leaves the log closed.\<close>

lemma session_closes:
  assumes "log_depth 0 ops = Some 0" and "ref s = 0" and "0 \<le> fd (opn s)"
  shows "fd (run s (Log_open # ops @ [Log_close])) = -1
    \<and> ref (run s (Log_open # ops @ [Log_close])) = 0"
proof -
  have r1: "ref (opn s) = 1" using assms(2) by (simp add: opn_ref)
  have f: "fd (run (opn s) ops) = fd (opn s)"
    using assms(1) r1 by (intro run_keeps_handle) auto
  have r: "ref (run (opn s) ops) = 1"
    using run_ref [OF assms(1), of "opn s"] r1 by simp
  have "run s (Log_open # ops @ [Log_close]) = cls (run (opn s) ops)"
    by (simp add: run_def)
  then show ?thesis using f r assms(3) by (simp add: cls_fd cls_ref)
qed

text \<open>A handle that is an error code other than -1 is never replaced: no later open tries
  again.\<close>

lemma failed_open_sticks: "fd s < -1 \<Longrightarrow> fd (run s ops) = fd s"
proof (induction ops arbitrary: s)
  case Nil
  then show ?case by (simp add: run_simps)
next
  case (Cons x ops)
  then have "fd (step s x) = fd s"
    by (cases x) (auto simp: opn_keep cls_fd wr_fd)
  with Cons show ?case by (simp add: run_simps)
qed

end


section \<open>Both logs keep the contract\<close>

lemmas log_defs = open_global_log_def close_global_log_def FILE_GLOBAL_WRITE_LEN_def
  open_sdstor_dev_fs_log_def close_sdstor_dev_fs_log_def FILE_SDSTOR_WRITE_LEN_def

interpretation glog: refcount_log global_log_fd global_ref_ctx
  "open_global_log k" "close_global_log k" "FILE_GLOBAL_WRITE_LEN k" for k :: "'w kapi"
  by unfold_locales (auto simp: log_defs Let_def kcall_eq kdo_def)

interpretation slog: refcount_log sdstor_dev_fs_log_fd sdstor_ref_ctx
  "open_sdstor_dev_fs_log k" "close_sdstor_dev_fs_log k" "FILE_SDSTOR_WRITE_LEN k"
  for k :: "'w kapi"
  by unfold_locales (auto simp: log_defs Let_def kcall_eq kdo_def)

text \<open>A run of log operations on each file, as the clients interleave them.\<close>

primrec glog_step :: "'w kapi \<Rightarrow> ('w, 'm) kbase_scheme \<Rightarrow> log_op \<Rightarrow> ('w, 'm) kbase_scheme" where
  "glog_step k s Log_open = open_global_log k s"
| "glog_step k s Log_close = close_global_log k s"
| "glog_step k s (Log_write m) = FILE_GLOBAL_WRITE_LEN k m s"

primrec slog_step :: "'w kapi \<Rightarrow> ('w, 'm) kbase_scheme \<Rightarrow> log_op \<Rightarrow> ('w, 'm) kbase_scheme" where
  "slog_step k s Log_open = open_sdstor_dev_fs_log k s"
| "slog_step k s Log_close = close_sdstor_dev_fs_log k s"
| "slog_step k s (Log_write m) = FILE_SDSTOR_WRITE_LEN k m s"

lemma glog_step_eq: "glog_step k = glog.step k"
proof (intro ext)
  fix s :: "('a, 'b) kbase_scheme" and x
  show "glog_step k s x = glog.step k s x" by (cases x) simp_all
qed

lemma slog_step_eq: "slog_step k = slog.step k"
proof (intro ext)
  fix s :: "('a, 'b) kbase_scheme" and x
  show "slog_step k s x = slog.step k s x" by (cases x) simp_all
qed

text \<open>A line in a log touches the world and that log's own variables, nothing else.\<close>

lemma glog_line_shape:
  obtains w fd rc where "glog_line k msg s = s\<lparr>world := w, global_log_fd := fd, global_ref_ctx := rc\<rparr>"
proof
  show "glog_line k msg s = s\<lparr>world := world (glog_line k msg s),
      global_log_fd := global_log_fd (glog_line k msg s), global_ref_ctx := global_ref_ctx (glog_line k msg s)\<rparr>"
    by (simp add: glog_line_def log_defs Let_def kcall_eq kdo_def)
qed

lemma slog_line_shape:
  obtains w fd rc where
    "slog_line k msg s = s\<lparr>world := w, sdstor_dev_fs_log_fd := fd, sdstor_ref_ctx := rc\<rparr>"
proof
  show "slog_line k msg s = s\<lparr>world := world (slog_line k msg s),
      sdstor_dev_fs_log_fd := sdstor_dev_fs_log_fd (slog_line k msg s),
      sdstor_ref_ctx := sdstor_ref_ctx (slog_line k msg s)\<rparr>"
    by (simp add: slog_line_def log_defs Let_def kcall_eq kdo_def)
qed

lemma glog_run_eq: "foldl (glog_step k) = glog.run k"
  by (simp add: glog_step_eq glog.run_def)

lemma slog_run_eq: "foldl (slog_step k) = slog.run k"
  by (simp add: slog_step_eq slog.run_def)



section \<open>Properties\<close>

text \<open>C31: Both logs count their users. From a state in which nobody has the log open, a first
  open that succeeds, any well-nested use by other clients and the matching last close leave the
  file closed and the counter at zero, whatever the clients wrote; and in between the handle
  never changes.\<close>

theorem nested_log_sessions:
  assumes ops: "log_depth 0 ops = Some 0"
  shows "(global_ref_ctx s = 0 \<and> 0 \<le> global_log_fd (open_global_log k s) \<longrightarrow>
      (let s' = foldl (glog_step k) s (Log_open # ops) in
        global_log_fd s' = global_log_fd (open_global_log k s)
        \<and> global_log_fd (close_global_log k s') = -1 \<and> global_ref_ctx (close_global_log k s') = 0))
    \<and> (sdstor_ref_ctx s = 0 \<and> 0 \<le> sdstor_dev_fs_log_fd (open_sdstor_dev_fs_log k s) \<longrightarrow>
      (let s' = foldl (slog_step k) s (Log_open # ops) in
        sdstor_dev_fs_log_fd s' = sdstor_dev_fs_log_fd (open_sdstor_dev_fs_log k s)
        \<and> sdstor_dev_fs_log_fd (close_sdstor_dev_fs_log k s') = -1
        \<and> sdstor_ref_ctx (close_sdstor_dev_fs_log k s') = 0))"
proof (intro conjI impI)
  assume a: "global_ref_ctx s = 0 \<and> 0 \<le> global_log_fd (open_global_log k s)"
  with glog.session_closes [OF ops, of s k]
    glog.run_keeps_handle [OF ops, of "open_global_log k s" k]
  show "let s' = foldl (glog_step k) s (Log_open # ops) in
        global_log_fd s' = global_log_fd (open_global_log k s)
        \<and> global_log_fd (close_global_log k s') = -1 \<and> global_ref_ctx (close_global_log k s') = 0"
    by (simp add: Let_def glog.run_def glog_step_eq glog.opn_ref)
next
  assume a: "sdstor_ref_ctx s = 0 \<and> 0 \<le> sdstor_dev_fs_log_fd (open_sdstor_dev_fs_log k s)"
  with slog.session_closes [OF ops, of s k]
    slog.run_keeps_handle [OF ops, of "open_sdstor_dev_fs_log k s" k]
  show "let s' = foldl (slog_step k) s (Log_open # ops) in
        sdstor_dev_fs_log_fd s' = sdstor_dev_fs_log_fd (open_sdstor_dev_fs_log k s)
        \<and> sdstor_dev_fs_log_fd (close_sdstor_dev_fs_log k s') = -1
        \<and> sdstor_ref_ctx (close_sdstor_dev_fs_log k s') = 0"
    by (simp add: Let_def slog.run_def slog_step_eq slog.opn_ref)
qed

definition log_boot :: "'w \<Rightarrow> 'w kbase" where
  "log_boot w = \<lparr>world = w, global_log_fd = -1, global_ref_ctx = 0, g_globalLogMutex = -1,
     sdstor_dev_fs_log_fd = -1, sdstor_ref_ctx = 0, g_sdstorLogMutex = -1, g_threadInfoMutex = -1\<rparr>"

theorem nested_log_sessions_witness:
  "global_log_fd (close_global_log quiet_kernel
     (foldl (glog_step quiet_kernel) (log_boot ()) [Log_open, Log_open, Log_write ''x'', Log_close])) = -1"
proof -
  have "log_depth 0 [Log_open, Log_write ''x'', Log_close] = Some 0" by simp
  from nested_log_sessions [OF this, of "log_boot ()" quiet_kernel]
  show ?thesis
    by (simp add: Let_def log_boot_def open_global_log_def quiet_kernel_def kcall_eq kdo_def)
qed

text \<open>The logs take only -1 for a closed file. When the first open fails with any other
  error code, the log keeps that code as its handle, no later open tries again, and every
  message of every later session is dropped.\<close>

theorem failed_log_open_sticks:
  assumes "global_log_fd (open_global_log k s) < -1"
  shows "global_log_fd (foldl (glog_step k) (open_global_log k s) ops) = global_log_fd (open_global_log k s)
    \<and> FILE_GLOBAL_WRITE_LEN k msg (foldl (glog_step k) (open_global_log k s) ops)
      = (let t = foldl (glog_step k) (open_global_log k s) ops in
         kdo (k_UnlockMutex k (g_globalLogMutex t)) (kdo (k_LockMutex k (g_globalLogMutex t)) t))"
proof -
  have "global_log_fd (foldl (glog_step k) (open_global_log k s) ops) = global_log_fd (open_global_log k s)"
    using glog.failed_open_sticks [OF assms] by (simp add: glog_run_eq)
  with assms show ?thesis
    by (simp add: FILE_GLOBAL_WRITE_LEN_def Let_def frame_simps)
qed

theorem failed_log_open_sticks_witness:
  "global_log_fd (foldl (glog_step (quiet_kernel\<lparr>k_IoOpen := \<lambda>_ _ w. (-5, w)\<rparr>))
     (open_global_log (quiet_kernel\<lparr>k_IoOpen := \<lambda>_ _ w. (-5, w)\<rparr>) (log_boot ())) [Log_close, Log_open]) = -5"
proof -
  have "global_log_fd (open_global_log (quiet_kernel\<lparr>k_IoOpen := \<lambda>_ _ w. (-5, w)\<rparr>) (log_boot ())) = -5"
    by (simp add: log_boot_def open_global_log_def quiet_kernel_def kcall_eq kdo_def Let_def)
  with failed_log_open_sticks [of "quiet_kernel\<lparr>k_IoOpen := \<lambda>_ _ w. (-5, w)\<rparr>" "log_boot ()" "[Log_close, Log_open]"]
  show ?thesis by simp
qed

end
