(* ===== verification/Emmc.thy ===== *)
theory Emmc
  imports Glog
begin

text \<open>
  \<open>driver/psvemmc.c\<close>: the system calls the driver exports to the server. The kernel-side
  cluster pool is one memory block, allocated by \<open>psvemmcInitialize\<close> and filled by the
  cluster reads; sectors and clusters come from the eMMC, the game card or the memory card.

  Memory blocks are the map \<open>kblocks\<close> from block ids to contents; a pointer into a block
  carries the id of its block. The device's answer to a read of \<open>n\<close> sectors is a result code
  and the bytes the destination range holds afterwards. A user-space destination is the bytes
  it holds, or \<open>None\<close> where nothing is mapped at the address.
\<close>

record 'w emmc = "'w kbase" +
  g_emmcCtx :: addr
  g_gcCtx :: addr
  g_emmcCtxInitialized :: int
  g_gcCtxInitialized :: int
  g_msCtxInitialized :: int
  g_bytesPerSector :: int
  g_sectorsPerCluster :: int
  g_clusterPoolInitialized :: int
  g_clusterPool :: int
  g_clusterPoolPtr :: kptr
  kblocks :: heap

definition SD_DEFAULT_SECTOR_SIZE :: int where
  "SD_DEFAULT_SECTOR_SIZE = 512"

text \<open>Copying to the caller: the kernel function is told whether anything is mapped at the
  destination, and answers with a result code and the number of bytes it has copied. Bytes
  copied past the end of the caller's buffer are the fault \<open>UserOverrun\<close>.\<close>

definition copy_to_user ::
    "'w kapi \<Rightarrow> byte list option \<Rightarrow> byte list \<Rightarrow> ('w, 'm) emmc_scheme
     \<Rightarrow> (int \<times> byte list option \<times> ('w, 'm) emmc_scheme) run" where
  "copy_to_user k dest src s =
     (let (r, n, s1) = kcall2 (k_MemcpyKernelToUser k (dest \<noteq> None) src) s
      in case dest of None \<Rightarrow> ret (r, None, s1)
         | Some d \<Rightarrow> if length (take n src) \<le> length d
                    then ret (r, Some (overlay (take n src) d), s1) else fail UserOverrun)"

definition psvemmcInitialize ::
    "'w kapi \<Rightarrow> int \<Rightarrow> int \<Rightarrow> ('w, 'm) emmc_scheme \<Rightarrow> int \<times> ('w, 'm) emmc_scheme" where
  "psvemmcInitialize k bytesPerSector sectorsPerCluster s =
     (if g_clusterPoolInitialized s \<noteq> 0 then (-1, s)
      else if bytesPerSector \<noteq> SD_DEFAULT_SECTOR_SIZE then (-2, s)
      else
        let s1 = s\<lparr>g_bytesPerSector := bytesPerSector, g_sectorsPerCluster := sectorsPerCluster\<rparr>;
            (uid, c, s2) = kcall2 (k_AllocMemBlock k ''cluster_pool_kernel''
               (wrap32 (g_bytesPerSector s1 * g_sectorsPerCluster s1))) s1;
            s3 = s2\<lparr>g_clusterPool := uid\<rparr>
        in if uid < 0 then (uid, s3)
           else
             let s4 = s3\<lparr>kblocks := (kblocks s3)(uid \<mapsto> c)\<rparr>;
                 (res_1, a, s5) = kcall2 (k_GetMemBlockBase k uid) s4
             in if res_1 < 0 then (res_1, s5)
                else (0, s5\<lparr>g_clusterPoolPtr := Block uid a, g_clusterPoolInitialized := 1\<rparr>))"

definition psvemmcDeinitialize :: "'w kapi \<Rightarrow> ('w, 'm) emmc_scheme \<Rightarrow> int \<times> ('w, 'm) emmc_scheme" where
  "psvemmcDeinitialize k s =
     (if g_clusterPoolInitialized s = 0 then (-1, s)
      else
        let (res_1, s1) = kcall (k_FreeMemBlock k (g_clusterPool s)) s
        in if res_1 < 0 then (res_1, s1)
           else (0, s1\<lparr>kblocks := (kblocks s1)(g_clusterPool s1 := None),
                       g_clusterPoolInitialized := 0\<rparr>))"


section \<open>Reading sectors\<close>

text \<open>The three sector reads are the same code over different devices: one sector into a
  buffer on the kernel stack, then a copy to the caller's memory.\<close>

definition read_sector_with ::
    "'w kapi \<Rightarrow> (int \<Rightarrow> int \<Rightarrow> 'w \<Rightarrow> int \<times> byte list \<times> 'w) \<Rightarrow> int \<Rightarrow> byte list option
     \<Rightarrow> ('w, 'm) emmc_scheme \<Rightarrow> (int \<times> byte list option \<times> ('w, 'm) emmc_scheme) run" where
  "read_sector_with k dev sector buffer s =
     (let (res_1, d, s1) = kcall2 (dev sector 1) s
      in run_bind (mem_store 0 d (replicate (nat SD_DEFAULT_SECTOR_SIZE) 0)) (\<lambda>buffer_kernel.
         if res_1 < 0 then ret (res_1, buffer, s1)
         else
           run_bind (copy_to_user k buffer buffer_kernel s1) (\<lambda>(res_2, buffer', s2).
           if res_2 < 0 then ret (res_2, buffer', s2) else ret (0, buffer', s2))))"

definition readSector ::
    "'w kapi \<Rightarrow> int \<Rightarrow> byte list option \<Rightarrow> ('w, 'm) emmc_scheme
     \<Rightarrow> (int \<times> byte list option \<times> ('w, 'm) emmc_scheme) run" where
  "readSector k sector buffer s =
     (if g_emmcCtxInitialized s = 0 then ret (-1, buffer, s)
      else read_sector_with k (k_SdifReadSectorAsync k (g_emmcCtx s)) sector buffer s)"

definition readSectorGc ::
    "'w kapi \<Rightarrow> int \<Rightarrow> byte list option \<Rightarrow> ('w, 'm) emmc_scheme
     \<Rightarrow> (int \<times> byte list option \<times> ('w, 'm) emmc_scheme) run" where
  "readSectorGc k sector buffer s =
     (if g_gcCtxInitialized s = 0 then ret (-1, buffer, s)
      else read_sector_with k (k_SdifReadSectorAsync k (g_gcCtx s)) sector buffer s)"

definition readSectorMs ::
    "'w kapi \<Rightarrow> int \<Rightarrow> byte list option \<Rightarrow> ('w, 'm) emmc_scheme
     \<Rightarrow> (int \<times> byte list option \<times> ('w, 'm) emmc_scheme) run" where
  "readSectorMs k sector buffer s =
     (if g_msCtxInitialized s = 0 then ret (-1, buffer, s)
      else read_sector_with k (k_MsifReadSector k) sector buffer s)"

text \<open>Writing is not implemented: the calls only report whether the device is set up.\<close>

definition writeSector :: "int \<Rightarrow> byte list \<Rightarrow> ('w, 'm) emmc_scheme \<Rightarrow> int" where
  "writeSector sector buffer s = (if g_emmcCtxInitialized s = 0 then -1 else -2)"

definition writeSectorGc :: "int \<Rightarrow> byte list \<Rightarrow> ('w, 'm) emmc_scheme \<Rightarrow> int" where
  "writeSectorGc sector buffer s = (if g_gcCtxInitialized s = 0 then -1 else -2)"

definition writeSectorMs :: "int \<Rightarrow> byte list \<Rightarrow> ('w, 'm) emmc_scheme \<Rightarrow> int" where
  "writeSectorMs sector buffer s = (if g_msCtxInitialized s = 0 then -1 else -2)"


section \<open>Reading clusters\<close>

text \<open>A cluster is read into the pool, through the pool pointer, and copied from there.\<close>

definition read_cluster_with ::
    "'w kapi \<Rightarrow> (int \<Rightarrow> int \<Rightarrow> 'w \<Rightarrow> int \<times> byte list \<times> 'w) \<Rightarrow> int \<Rightarrow> byte list option
     \<Rightarrow> ('w, 'm) emmc_scheme \<Rightarrow> (int \<times> byte list option \<times> ('w, 'm) emmc_scheme) run" where
  "read_cluster_with k dev cluster buffer s =
     (let (res_1, d, s1) = kcall2 (dev (wrap32 (g_sectorsPerCluster s * cluster))
                                       (g_sectorsPerCluster s)) s
      in run_bind (blk_store (g_clusterPoolPtr s1) 0 d (kblocks s1)) (\<lambda>m.
         let s2 = s1\<lparr>kblocks := m\<rparr>
         in if res_1 < 0 then ret (res_1, buffer, s2)
            else
              run_bind (blk_load (g_clusterPoolPtr s2) 0
                  (nat (wrap32 (g_bytesPerSector s2 * g_sectorsPerCluster s2))) (kblocks s2)) (\<lambda>src.
              run_bind (copy_to_user k buffer src s2) (\<lambda>(res_2, buffer', s3).
              if res_2 < 0 then ret (res_2, buffer', s3) else ret (0, buffer', s3)))))"

definition readCluster ::
    "'w kapi \<Rightarrow> int \<Rightarrow> byte list option \<Rightarrow> ('w, 'm) emmc_scheme
     \<Rightarrow> (int \<times> byte list option \<times> ('w, 'm) emmc_scheme) run" where
  "readCluster k cluster buffer s =
     (if g_emmcCtxInitialized s = 0 then ret (-1, buffer, s)
      else if g_clusterPoolInitialized s = 0 then ret (-2, buffer, s)
      else read_cluster_with k (k_SdifReadSectorAsync k (g_emmcCtx s)) cluster buffer s)"

definition readClusterGc ::
    "'w kapi \<Rightarrow> int \<Rightarrow> byte list option \<Rightarrow> ('w, 'm) emmc_scheme
     \<Rightarrow> (int \<times> byte list option \<times> ('w, 'm) emmc_scheme) run" where
  "readClusterGc k cluster buffer s =
     (if g_gcCtxInitialized s = 0 then ret (-1, buffer, s)
      else if g_clusterPoolInitialized s = 0 then ret (-2, buffer, s)
      else read_cluster_with k (k_SdifReadSectorAsync k (g_gcCtx s)) cluster buffer s)"

definition readClusterMs ::
    "'w kapi \<Rightarrow> int \<Rightarrow> byte list option \<Rightarrow> ('w, 'm) emmc_scheme
     \<Rightarrow> (int \<times> byte list option \<times> ('w, 'm) emmc_scheme) run" where
  "readClusterMs k cluster buffer s =
     (if g_msCtxInitialized s = 0 then ret (-1, buffer, s)
      else if g_clusterPoolInitialized s = 0 then ret (-2, buffer, s)
      else read_cluster_with k (k_MsifReadSector k) cluster buffer s)"

definition writeCluster :: "int \<Rightarrow> byte list \<Rightarrow> ('w, 'm) emmc_scheme \<Rightarrow> int" where
  "writeCluster cluster buffer s =
     (if g_emmcCtxInitialized s = 0 then -1
      else if g_clusterPoolInitialized s = 0 then -2 else -3)"

definition writeClusterGc :: "int \<Rightarrow> byte list \<Rightarrow> ('w, 'm) emmc_scheme \<Rightarrow> int" where
  "writeClusterGc cluster buffer s =
     (if g_gcCtxInitialized s = 0 then -1
      else if g_clusterPoolInitialized s = 0 then -2 else -3)"

definition writeClusterMs :: "int \<Rightarrow> byte list \<Rightarrow> ('w, 'm) emmc_scheme \<Rightarrow> int" where
  "writeClusterMs cluster buffer s =
     (if g_msCtxInitialized s = 0 then -1
      else if g_clusterPoolInitialized s = 0 then -2 else -3)"


section \<open>Setting the devices up\<close>

definition initialize_emmc_globals ::
    "'w kapi \<Rightarrow> ('w, 'm) emmc_scheme \<Rightarrow> int \<times> ('w, 'm) emmc_scheme" where
  "initialize_emmc_globals k s =
     (let (ctx, s1) = kcall (k_SdifGetPartMmc k SCE_SDIF_DEV_EMMC) s;
          s2 = s1\<lparr>g_emmcCtx := ctx\<rparr>
      in if g_emmcCtx s2 = 0
         then
           let (r, ctx', s3) = kcall2 (k_SdifInitPartMmc k SCE_SDIF_DEV_EMMC (g_emmcCtx s2)) s2;
               s4 = s3\<lparr>g_emmcCtx := ctx'\<rparr>
           in if r < 0 then (-1, s4\<lparr>g_emmcCtxInitialized := 0\<rparr>)
              else (0, s4\<lparr>g_emmcCtxInitialized := 1\<rparr>)
         else (0, s2\<lparr>g_emmcCtxInitialized := 1\<rparr>))"

definition initialize_gc_mmc_device ::
    "'w kapi \<Rightarrow> ('w, 'm) emmc_scheme \<Rightarrow> int \<times> ('w, 'm) emmc_scheme" where
  "initialize_gc_mmc_device k s =
     (let (ctx, s1) = kcall (k_SdifGetPartMmc k SCE_SDIF_DEV_GAME_CARD) s;
          s2 = s1\<lparr>g_gcCtx := ctx\<rparr>
      in if g_gcCtx s2 = 0
         then
           let (r, ctx', s3) = kcall2 (k_SdifInitPartMmc k SCE_SDIF_DEV_GAME_CARD (g_gcCtx s2)) s2;
               s4 = s3\<lparr>g_gcCtx := ctx'\<rparr>
           in if r < 0 then (-1, s4\<lparr>g_gcCtxInitialized := 0\<rparr>)
              else (0, s4\<lparr>g_gcCtxInitialized := 1\<rparr>)
         else (0, s2\<lparr>g_gcCtxInitialized := 1\<rparr>))"

definition initialize_gc_sd_device ::
    "'w kapi \<Rightarrow> ('w, 'm) emmc_scheme \<Rightarrow> int \<times> ('w, 'm) emmc_scheme" where
  "initialize_gc_sd_device k s =
     (let (ctx, s1) = kcall (k_SdifGetPartSd k SCE_SDIF_DEV_GAME_CARD) s;
          s2 = s1\<lparr>g_gcCtx := ctx\<rparr>
      in if g_gcCtx s2 = 0 then (-1, s2\<lparr>g_gcCtxInitialized := 0\<rparr>)
         else (0, s2\<lparr>g_gcCtxInitialized := 1\<rparr>))"

definition initialize_gc_globals ::
    "'w kapi \<Rightarrow> ('w, 'm) emmc_scheme \<Rightarrow> (int \<times> ('w, 'm) emmc_scheme) run" where
  "initialize_gc_globals k s =
     (let (gctx, s1) = kcall (k_SdifGetGlobal k SCE_SDIF_DEV_GAME_CARD) s
      in case gctx of None \<Rightarrow> fail NullDeref
         | Some g \<Rightarrow>
             if dev_type_idx g = 1 then ret (initialize_gc_mmc_device k s1)
             else if dev_type_idx g = 2 then ret (initialize_gc_sd_device k s1)
             else ret (-1, s1))"

definition initialize_ms_globals :: "('w, 'm) emmc_scheme \<Rightarrow> int \<times> ('w, 'm) emmc_scheme" where
  "initialize_ms_globals s = (0, s\<lparr>g_msCtxInitialized := 1\<rparr>)"

lemmas emmc_read_defs = readSector_def readSectorGc_def readSectorMs_def
  readCluster_def readClusterGc_def readClusterMs_def


section \<open>Documented behaviour of the kernel functions used here\<close>

text \<open>A read of \<open>n\<close> sectors fills \<open>512 * n\<close> bytes; a successful allocation has the size
  that was asked for, which is not negative; a successful copy has written the source over the
  start of the destination.\<close>

definition dev_law :: "'w kapi \<Rightarrow> bool" where
  "dev_law k \<longleftrightarrow>
     (\<forall>ctx sec n w. length (fst (snd (k_SdifReadSectorAsync k ctx sec n w))) = 512 * nat n) \<and>
     (\<forall>sec n w. length (fst (snd (k_MsifReadSector k sec n w))) = 512 * nat n)"

definition alloc_law :: "'w kapi \<Rightarrow> bool" where
  "alloc_law k \<longleftrightarrow>
     (\<forall>nm n w. 0 \<le> fst (k_AllocMemBlock k nm n w)
        \<longrightarrow> 0 \<le> n \<and> length (fst (snd (k_AllocMemBlock k nm n w))) = nat n)"

definition copy_law :: "'w kapi \<Rightarrow> bool" where
  "copy_law k \<longleftrightarrow>
     (\<forall>src w. 0 \<le> fst (k_MemcpyKernelToUser k True src w)
        \<longrightarrow> fst (snd (k_MemcpyKernelToUser k True src w)) = length src)"

section \<open>The pool invariant\<close>

text \<open>While the pool counts as initialised its pointer points to a live block of exactly
  \<open>g_bytesPerSector * g_sectorsPerCluster\<close> bytes, a product that does not wrap.\<close>

definition kpool_ok :: "('w, 'm) emmc_scheme \<Rightarrow> bool" where
  "kpool_ok s \<longleftrightarrow> g_clusterPoolInitialized s \<noteq> 0 \<longrightarrow>
     (\<exists>a b. g_clusterPoolPtr s = Block (g_clusterPool s) a
        \<and> kblocks s (g_clusterPool s) = Some b
        \<and> g_bytesPerSector s = 512 \<and> 0 \<le> g_sectorsPerCluster s
        \<and> g_sectorsPerCluster s < 4194304
        \<and> length b = 512 * nat (g_sectorsPerCluster s))"

lemma kpool_okI:
  "g_clusterPoolPtr s = Block (g_clusterPool s) a \<Longrightarrow> kblocks s (g_clusterPool s) = Some b \<Longrightarrow>
   g_bytesPerSector s = 512 \<Longrightarrow> 0 \<le> g_sectorsPerCluster s \<Longrightarrow> g_sectorsPerCluster s < 4194304 \<Longrightarrow>
   length b = 512 * nat (g_sectorsPerCluster s) \<Longrightarrow> kpool_ok s"
  by (simp add: kpool_ok_def)

lemma kpool_okE:
  assumes "kpool_ok s" and "g_clusterPoolInitialized s \<noteq> 0"
  obtains a b where "g_clusterPoolPtr s = Block (g_clusterPool s) a"
    and "kblocks s (g_clusterPool s) = Some b" and "g_bytesPerSector s = 512"
    and "0 \<le> g_sectorsPerCluster s" and "g_sectorsPerCluster s < 4194304"
    and "length b = 512 * nat (g_sectorsPerCluster s)"
  using assms by (auto simp: kpool_ok_def)

lemma kpool_uninitialised: "g_clusterPoolInitialized s = 0 \<Longrightarrow> kpool_ok s"
  by (simp add: kpool_ok_def)

lemma kpool_ok_world [simp]: "kpool_ok (s\<lparr>world := w\<rparr>) = kpool_ok s"
  by (simp add: kpool_ok_def)

lemma pool_bytes:
  "0 \<le> spc \<Longrightarrow> spc < 4194304 \<Longrightarrow> nat (wrap32 (512 * spc)) = 512 * nat spc"
  by (simp add: c_int_def nat_mult_distrib)

text \<open>What a cluster read does in a state with a sound pool: its own accesses cannot fault, and
  it returns the device's error, or the copy's, or 0.\<close>

lemma read_cluster_with_eq:
  assumes ok: "kpool_ok s" and init: "g_clusterPoolInitialized s \<noteq> 0"
    and dev: "\<And>sec n w. length (fst (snd (dev sec n w))) = 512 * nat n"
  shows "read_cluster_with k dev cluster buffer s =
    (let (r1, d, w1) = dev (wrap32 (g_sectorsPerCluster s * cluster)) (g_sectorsPerCluster s) (world s);
         s2 = s\<lparr>world := w1, kblocks := (kblocks s)(g_clusterPool s \<mapsto> d)\<rparr>
     in if r1 < 0 then ret (r1, buffer, s2)
        else run_bind (copy_to_user k buffer d s2) (\<lambda>(r2, buffer', s3).
             ret (if r2 < 0 then r2 else 0, buffer', s3)))"
proof -
  from ok init obtain a b where p: "g_clusterPoolPtr s = Block (g_clusterPool s) a"
      and b: "kblocks s (g_clusterPool s) = Some b" and bps: "g_bytesPerSector s = 512"
      and spc: "0 \<le> g_sectorsPerCluster s" "g_sectorsPerCluster s < 4194304"
      and len: "length b = 512 * nat (g_sectorsPerCluster s)"
    by (rule kpool_okE)
  obtain r1 d w1 where D:
    "dev (wrap32 (g_sectorsPerCluster s * cluster)) (g_sectorsPerCluster s) (world s) = (r1, d, w1)"
    by (metis prod_cases3)
  have ld: "length d = length b"
    using dev [of "wrap32 (g_sectorsPerCluster s * cluster)" "g_sectorsPerCluster s" "world s"] D len
    by simp
  show ?thesis
    using p b bps ld len pool_bytes [OF spc]
    by (simp add: read_cluster_with_def kcall2_eq D run_simps blk_store_whole blk_load_whole Let_def)
      (intro impI arg_cong [where f = "run_bind _"] ext, auto split: prod.splits)
qed

text \<open>The same for a sector read, which needs no pool.\<close>

lemma read_sector_with_eq:
  assumes dev: "\<And>sec n w. length (fst (snd (dev sec n w))) = 512 * nat n"
  shows "read_sector_with k dev sector buffer s =
    (let (r1, d, w1) = dev sector 1 (world s)
     in if r1 < 0 then ret (r1, buffer, s\<lparr>world := w1\<rparr>)
        else run_bind (copy_to_user k buffer d (s\<lparr>world := w1\<rparr>)) (\<lambda>(r2, buffer', s3).
             ret (if r2 < 0 then r2 else 0, buffer', s3)))"
proof -
  obtain r1 d w1 where D: "dev sector 1 (world s) = (r1, d, w1)"
    by (metis prod_cases3)
  have ld: "length d = 512" using dev [of sector 1 "world s"] D by simp
  show ?thesis
    using ld
    by (simp add: read_sector_with_def kcall2_eq D run_simps SD_DEFAULT_SECTOR_SIZE_def)
      (intro impI arg_cong [where f = "run_bind _"] ext, auto split: prod.splits)
qed

text \<open>The copy changes nothing in the driver but the world; on success the caller's buffer
  starts with the source.\<close>

lemma copy_to_user_cases:
  "copy_to_user k dest src s = fail UserOverrun
   \<or> (\<exists>r dest' w. copy_to_user k dest src s = ret (r, dest', s\<lparr>world := w\<rparr>))"
  by (cases dest) (auto simp: copy_to_user_def kcall2_eq)

lemma copy_to_user_Some:
  assumes "copy_law k" and "k_MemcpyKernelToUser k True src (world s) = (r, n, w)" and "0 \<le> r"
    and "length src \<le> length d"
  shows "copy_to_user k (Some d) src s = ret (r, Some (overlay src d), s\<lparr>world := w\<rparr>)"
proof -
  have "n = length src"
    using assms(1) [unfolded copy_law_def, rule_format, of src "world s"] assms(2,3) by simp
  then show ?thesis using assms(2,4) by (simp add: copy_to_user_def kcall2_eq)
qed

end
