(* ===== verification/Server.thy ===== *)
theory Server
  imports Emmc_Props
begin

text \<open>
  \<open>server/src/main.c\<close>: the user-mode TCP server that exposes the driver's system calls to a
  client on the network. The state adds the server's globals to the driver's record (the
  system calls of \<open>Emmc\<close> run on the same state), the user-space memory blocks, and the lines
  printed on the screen, without their newline.

  The network functions are parameters, a record over the same abstract world. A receive
  answers with its result code and the bytes it has stored at the destination. Requests and
  responses are the packed little-endian structs of the source; bytes of the request that no
  receive has stored are 0 in the model. A send or receive whose length the code computes as
  a negative number is the fault \<open>OutOfBounds\<close>: the length is converted to an unsigned type.
\<close>

record 'w uapi =
  u_NetSend :: "int \<Rightarrow> byte list \<Rightarrow> 'w \<Rightarrow> int \<times> 'w"
  u_NetRecv :: "int \<Rightarrow> int \<Rightarrow> 'w \<Rightarrow> int \<times> byte list \<times> 'w"
  u_AllocMemBlock :: "string \<Rightarrow> int \<Rightarrow> 'w \<Rightarrow> int \<times> byte list \<times> 'w"
  u_GetMemBlockBase :: "int \<Rightarrow> 'w \<Rightarrow> int \<times> addr \<times> 'w"
  u_FreeMemBlock :: "int \<Rightarrow> 'w \<Rightarrow> int \<times> 'w"
  u_NetShowNetstat :: "'w \<Rightarrow> int \<times> 'w"
  u_ERROR_ENOTINIT :: int
  u_malloc :: "int \<Rightarrow> 'w \<Rightarrow> int \<times> 'w"
  u_free :: "int \<Rightarrow> 'w \<Rightarrow> int \<times> 'w"
  u_NetInit :: "int \<Rightarrow> int \<Rightarrow> 'w \<Rightarrow> int \<times> 'w"
  u_NetTerm :: "'w \<Rightarrow> int \<times> 'w"
  u_NetCtlInit :: "'w \<Rightarrow> int \<times> 'w"
  u_NetCtlTerm :: "'w \<Rightarrow> int \<times> 'w"
  u_NetSocket :: "string \<Rightarrow> 'w \<Rightarrow> int \<times> 'w"
  u_NetBind :: "int \<Rightarrow> 16 word \<Rightarrow> 'w \<Rightarrow> int \<times> 'w"
  u_NetCtlGetIp :: "'w \<Rightarrow> int \<times> string \<times> 'w"
  u_NetListen :: "int \<Rightarrow> int \<Rightarrow> 'w \<Rightarrow> int \<times> 'w"
  u_NetAccept :: "int \<Rightarrow> 'w \<Rightarrow> int \<times> sockaddr_in \<times> 'w"
  u_NetSocketClose :: "int \<Rightarrow> 'w \<Rightarrow> int \<times> 'w"
  u_NetHtons :: "16 word \<Rightarrow> 16 word"
  u_NetNtohs :: "16 word \<Rightarrow> 16 word"
  u_InetNtop :: "byte list \<Rightarrow> string"
  u_DelayThread :: "int \<Rightarrow> 'w \<Rightarrow> int \<times> 'w"
  u_SysmoduleIsLoaded :: "'w \<Rightarrow> int \<times> 'w"
  u_SYSMODULE_LOADED :: int
  u_SysmoduleLoadModule :: "'w \<Rightarrow> int \<times> 'w"
  u_ExitProcess :: "int \<Rightarrow> 'w \<Rightarrow> int \<times> 'w"

record 'w srv = "'w emmc" +
  emmc_sock :: int
  cli_sock :: int
  net_memory :: int
  sv_bytesPerSector :: int
  sv_sectorsPerCluster :: int
  sv_clusterPoolInitialized :: int
  sv_clusterPool :: int
  sv_clusterPoolPtr :: kptr
  ublocks :: heap
  screen :: "string list"

definition say :: "string \<Rightarrow> 'w srv \<Rightarrow> 'w srv" where
  "say msg s = s\<lparr>screen := screen s @ [msg]\<rparr>"


section \<open>Setting the network up and down\<close>

definition NET_INIT_SIZE :: int where "NET_INIT_SIZE = 1*1024*1024"

definition emmc_port :: nat where "emmc_port = 1331"

definition init_net :: "'w uapi \<Rightarrow> 'w srv \<Rightarrow> int \<times> 'w srv" where
  "init_net u s0 =
    (let (st, s1) = kcall (u_NetShowNetstat u) s0;
         s = (if st = u_ERROR_ENOTINIT u
              then (let (mem, s2) = kcall (u_malloc u NET_INIT_SIZE) s1;
                        s3 = s2\<lparr>net_memory := mem\<rparr>;
                        s4 = kdo (u_NetInit u (net_memory s3) NET_INIT_SIZE) s3;
                        s5 = kdo (u_DelayThread u (100 * 1000)) s4
                    in say ''psvemmc: net initialized'' s5)
              else s1);
         (ctl, s) = kcall (u_NetCtlInit u) s
     in if ctl < 0 then (-1, say ''psvemmc: failed to initialize netctl'' s)
        else
          let s = say ''psvemmc: netctl initialized'' s;
              (sock, s) = kcall (u_NetSocket u ''emmcproxy'') s;
              s = s\<lparr>emmc_sock := sock\<rparr>
          in if emmc_sock s < 0 then (-1, say ''psvemmc: failed to create socket'' s)
             else
               let s = say ''psvemmc: server socket created'' s;
                   (bind_res, s) = kcall (u_NetBind u (emmc_sock s) (u_NetHtons u (of_nat emmc_port))) s
               in if bind_res < 0
                  then (-1, say (''psvemmc: failed to bind socket '' @ hex_str (bind_res mod 4294967296)) s)
                  else
                    let (r, ip, s) = kcall2 (u_NetCtlGetIp u) s
                    in if r < 0 then (-1, say ''psvemmc: failed to get network info'' s)
                       else
                         let s = say (''psvemmc: server socket binded '' @ ip @ '':'' @ dec_str (int emmc_port)) s;
                             (l, s) = kcall (u_NetListen u (emmc_sock s) 128) s
                         in if l < 0 then (-1, say ''psvemmc: failed to listen socket'' s)
                            else (0, say ''psvemmc: listening for connection'' s))"

definition close_client :: "'w uapi \<Rightarrow> 'w srv \<Rightarrow> 'w srv" where
  "close_client u s =
    (if cli_sock s \<noteq> 0
     then (let (r, s1) = kcall (u_NetSocketClose u (cli_sock s)) s;
               s2 = (if r < 0 then say ''psvemmc: failed to close client socket'' s1 else s1)
           in s2\<lparr>cli_sock := 0\<rparr>)
     else s)"

definition deinit_net :: "'w uapi \<Rightarrow> 'w srv \<Rightarrow> 'w srv" where
  "deinit_net u s0 =
    (let s1 = close_client u s0;
         s2 = (if emmc_sock s1 \<noteq> 0
               then (let (r, t1) = kcall (u_NetSocketClose u (emmc_sock s1)) s1;
                         t2 = (if r < 0 then say ''psvemmc: failed to close server socket'' t1 else t1)
                     in t2\<lparr>emmc_sock := 0\<rparr>)
               else s1);
         s3 = kdo (u_NetCtlTerm u) s2;
         s4 = kdo (u_NetTerm u) s3
     in if net_memory s4 \<noteq> 0 then (kdo (u_free u (net_memory s4)) s4)\<lparr>net_memory := 0\<rparr> else s4)"


section \<open>The user-side cluster pool\<close>

definition initializePool :: "'w uapi \<Rightarrow> int \<Rightarrow> int \<Rightarrow> 'w srv \<Rightarrow> int \<times> 'w srv" where
  "initializePool u bytesPerSector sectorsPerCluster s =
     (if sv_clusterPoolInitialized s \<noteq> 0 then (-1, s)
      else if bytesPerSector \<noteq> SD_DEFAULT_SECTOR_SIZE then (-2, s)
      else
        let s1 = s\<lparr>sv_bytesPerSector := bytesPerSector, sv_sectorsPerCluster := sectorsPerCluster\<rparr>;
            (uid, c, s2) = kcall2 (u_AllocMemBlock u ''cluster_pool''
               (wrap32 (sv_bytesPerSector s1 * sv_sectorsPerCluster s1))) s1;
            s3 = s2\<lparr>sv_clusterPool := uid\<rparr>
        in if uid < 0 then (uid, s3)
           else
             let s4 = s3\<lparr>ublocks := (ublocks s3)(uid \<mapsto> c)\<rparr>;
                 (res_1, a, s5) = kcall2 (u_GetMemBlockBase u uid) s4
             in if res_1 < 0 then (res_1, s5)
                else (0, s5\<lparr>sv_clusterPoolPtr := Block uid a, sv_clusterPoolInitialized := 1\<rparr>))"

definition deinitializePool :: "'w uapi \<Rightarrow> 'w srv \<Rightarrow> int \<times> 'w srv" where
  "deinitializePool u s =
     (if sv_clusterPoolInitialized s = 0 then (-1, s)
      else
        let (res_1, s1) = kcall (u_FreeMemBlock u (sv_clusterPool s)) s
        in if res_1 < 0 then (res_1, s1)
           else (0, s1\<lparr>ublocks := (ublocks s1)(sv_clusterPool s1 := None),
                       sv_clusterPoolInitialized := 0\<rparr>))"


section \<open>Sending and receiving\<close>

text \<open>The three words every response begins with: command, \<open>vita_err\<close>, \<open>proxy_err\<close>.\<close>

definition packet :: "int \<Rightarrow> int \<Rightarrow> int \<Rightarrow> byte list" where
  "packet command vita_err proxy_err = enc32 command @ enc32 vita_err @ enc32 proxy_err"

definition net_send :: "'w uapi \<Rightarrow> byte list \<Rightarrow> 'w srv \<Rightarrow> int \<times> 'w srv" where
  "net_send u bs s = kcall (u_NetSend u (cli_sock s) bs) s"

text \<open>One receive of up to \<open>n\<close> bytes to the start of a local buffer.\<close>

definition net_recv :: "'w uapi \<Rightarrow> int \<Rightarrow> byte list \<Rightarrow> 'w srv \<Rightarrow> (int \<times> byte list \<times> 'w srv) run" where
  "net_recv u n buf s =
     (let (r, bs, s1) = kcall2 (u_NetRecv u (cli_sock s) n) s
      in run_bind (mem_store 0 bs buf) (\<lambda>buf'. ret (r, buf', s1)))"

text \<open>The send loop of the read handlers: \<open>src off n\<close> reads \<open>n\<close> bytes at offset \<open>off\<close> of the
  memory that is sent.\<close>

function send_loop ::
    "'w uapi \<Rightarrow> (nat \<Rightarrow> nat \<Rightarrow> byte list run) \<Rightarrow> int \<Rightarrow> int \<Rightarrow> 'w srv \<Rightarrow> (int \<times> 'w srv) run" where
  "send_loop u src bytesToSend bytesWereSend s =
     (if bytesWereSend = bytesToSend then ret (0, s)
      else if bytesToSend < bytesWereSend then fail OutOfBounds
      else
        run_bind (src (nat bytesWereSend) (nat (bytesToSend - bytesWereSend))) (\<lambda>bs.
        case net_send u bs s of (sendLen, s1) \<Rightarrow>
          if sendLen \<le> 0 then ret (-1, say ''psvemmc: failed to send data'' s1)
          else send_loop u src bytesToSend (bytesWereSend + sendLen) s1))"
  by pat_completeness auto
termination
  by (relation "measure (\<lambda>(u, src, n, got, s). nat (n - got))") auto

text \<open>The receive loop of the write handlers: \<open>put off bs\<close> stores bytes at offset \<open>off\<close> of the
  memory \<open>acc\<close> that is received into. It answers whether all bytes came.\<close>

function recv_loop ::
    "'w uapi \<Rightarrow> (nat \<Rightarrow> byte list \<Rightarrow> 'b \<Rightarrow> 'b run) \<Rightarrow> int \<Rightarrow> int \<Rightarrow> 'b \<Rightarrow> 'w srv
     \<Rightarrow> (bool \<times> 'b \<times> 'w srv) run" where
  "recv_loop u put bytesToReceive bytesWereReceived acc s =
     (if bytesToReceive = bytesWereReceived then ret (True, acc, s)
      else if bytesToReceive < bytesWereReceived then fail OutOfBounds
      else
        case kcall2 (u_NetRecv u (cli_sock s) (bytesToReceive - bytesWereReceived)) s of (recvLen, bs, s1) \<Rightarrow>
        run_bind (put (nat bytesWereReceived) bs acc) (\<lambda>acc'.
        if recvLen \<le> 0 then ret (False, acc', s1)
        else recv_loop u put bytesToReceive (bytesWereReceived + recvLen) acc' s1))"
  by pat_completeness auto
termination
  by (relation "measure (\<lambda>(u, put, n, got, acc, s). nat (n - got))") auto

declare send_loop.simps [simp del] recv_loop.simps [simp del]


section \<open>The command handlers\<close>

definition u8_of_string :: "string \<Rightarrow> byte list" where
  "u8_of_string cs = map (\<lambda>c. word_of_int (of_char c)) cs"

definition handle_command_0 :: "'w uapi \<Rightarrow> 'w srv \<Rightarrow> int \<times> 'w srv" where
  "handle_command_0 u s =
     (let resp = packet 0 0 0 @ u8_of_string ''emmcproxy'' @ [0];
          s1 = say ''psvemmc: execute command 0'' s
      in net_send u resp s1)"

definition handle_command_1 :: "'w uapi \<Rightarrow> 'w srv \<Rightarrow> int \<times> 'w srv" where
  "handle_command_1 u s =
     (let resp = packet 1 0 0 @ u8_of_string ''emmcproxy'' @ [0];
          s1 = say ''psvemmc: execute command 1'' s
      in net_send u resp s1)"

definition handle_command_2 :: "'w kapi \<Rightarrow> 'w uapi \<Rightarrow> 'w srv \<Rightarrow> (int \<times> 'w srv) run" where
  "handle_command_2 k u s =
     (if sv_clusterPoolInitialized s \<noteq> 0
      then (let s1 = say ''psvemmc: failed to execute command 2'' s
            in ret (-2, snd (net_send u (packet 2 (-2) 0) s1)))
      else
        run_bind (net_recv u 8 (replicate 8 0) s) (\<lambda>(recvLen, req, s1).
        if recvLen \<noteq> 8
        then (let s2 = say ''psvemmc: failed to receive command 2'' s1
              in ret (-1, snd (net_send u (packet 2 (-1) 0) s2)))
        else
          let bytesPerSector = dec32 req;
              sectorsPerCluster = dec32 (drop 4 req);
              s2 = say ''psvemmc: execute command 2'' s1;
              (vita_err, s3) = initializePool u bytesPerSector sectorsPerCluster s2
          in if vita_err \<noteq> 0
             then (let s4 = say ''psvemmc: failed to initialize pool'' s3
                   in ret (net_send u (packet 2 vita_err 0) s4))
             else
               let (proxy_err, s4) = psvemmcInitialize k bytesPerSector sectorsPerCluster s3;
                   s5 = (if proxy_err \<noteq> 0 then say ''psvemmc: failed to execute command 2'' s4 else s4)
               in ret (net_send u (packet 2 vita_err proxy_err) s5)))"

definition handle_command_3 :: "'w kapi \<Rightarrow> 'w uapi \<Rightarrow> 'w srv \<Rightarrow> int \<times> 'w srv" where
  "handle_command_3 k u s =
     (if sv_clusterPoolInitialized s = 0
      then (let s1 = say ''psvemmc: failed to execute command 3'' s
            in (-2, snd (net_send u (packet 3 (-2) 0) s1)))
      else
        let s1 = say ''psvemmc: execute command 3'' s;
            (proxy_err, s2) = psvemmcDeinitialize k s1;
            s3 = (if proxy_err \<noteq> 0 then say ''psvemmc: failed to execute command 3'' s2 else s2);
            (vita_err, s4) = deinitializePool u s3;
            s5 = (if vita_err \<noteq> 0 then say ''psvemmc: failed to deinitialize pool'' s4 else s4)
        in net_send u (packet 3 vita_err proxy_err) s5)"

text \<open>The twelve device commands are four handlers, each written out for the three devices: a
  handler takes the command's number and the system call it makes.\<close>

definition fail_receive :: "int \<Rightarrow> byte list \<Rightarrow> 'w uapi \<Rightarrow> 'w srv \<Rightarrow> (int \<times> 'w srv) run" where
  "fail_receive c resp u s =
     (let s1 = say (''psvemmc: failed to receive command '' @ dec_str c) s
      in ret (-1, snd (net_send u resp s1)))"

definition say_result :: "int \<Rightarrow> int \<Rightarrow> 'w srv \<Rightarrow> 'w srv" where
  "say_result c proxy_err s =
     (if proxy_err \<noteq> 0 then say (''psvemmc: failed to execute command '' @ dec_str c) s else s)"

definition handle_read_sector ::
    "int \<Rightarrow> (int \<Rightarrow> byte list option \<Rightarrow> 'w srv \<Rightarrow> (int \<times> byte list option \<times> 'w srv) run)
     \<Rightarrow> 'w uapi \<Rightarrow> 'w srv \<Rightarrow> (int \<times> 'w srv) run" where
  "handle_read_sector c call u s =
     run_bind (net_recv u 4 (replicate 4 0) s) (\<lambda>(recvLen, req, s1).
     if recvLen \<noteq> 4 then fail_receive c (packet c (-1) 0 @ replicate 512 0) u s1
     else
       let s2 = say (''psvemmc: execute command '' @ dec_str c) s1
       in run_bind (call (dec32 req) (Some (replicate 512 0)) s2) (\<lambda>(proxy_err, data, s3).
          let s4 = say_result c proxy_err s3;
              resp = packet c 0 proxy_err @ (case data of None \<Rightarrow> [] | Some d \<Rightarrow> d)
          in send_loop u (\<lambda>off n. mem_load off n resp) (int (length resp)) 0 s4))"

text \<open>The bytes a system call has left in the pool, when its destination is mapped.\<close>

definition put_pool :: "byte list option \<Rightarrow> 'w srv \<Rightarrow> 'w srv" where
  "put_pool data s = (case data of None \<Rightarrow> s
     | Some d \<Rightarrow> (case sv_clusterPoolPtr s of Null \<Rightarrow> s
         | Block b a \<Rightarrow> s\<lparr>ublocks := (ublocks s)(b \<mapsto> d)\<rparr>))"

definition handle_read_cluster ::
    "int \<Rightarrow> (int \<Rightarrow> byte list option \<Rightarrow> 'w srv \<Rightarrow> (int \<times> byte list option \<times> 'w srv) run)
     \<Rightarrow> 'w uapi \<Rightarrow> 'w srv \<Rightarrow> (int \<times> 'w srv) run" where
  "handle_read_cluster c call u s =
     run_bind (net_recv u 4 (replicate 4 0) s) (\<lambda>(recvLen, req, s1).
     if recvLen \<noteq> 4 then fail_receive c (packet c (-1) 0) u s1
     else
       let s2 = say (''psvemmc: execute command '' @ dec_str c) s1
       in run_bind (call (dec32 req) (pointee (sv_clusterPoolPtr s2) (ublocks s2)) s2)
          (\<lambda>(proxy_err, data, s3).
          let s4 = put_pool data s3;
              s5 = say_result c proxy_err s4;
              s6 = snd (net_send u (packet c 0 proxy_err) s5)
          in send_loop u (\<lambda>off n. blk_load (sv_clusterPoolPtr s6) off n (ublocks s6))
               (wrap32 (sv_bytesPerSector s6 * sv_sectorsPerCluster s6)) 0 s6))"

definition handle_write_sector ::
    "int \<Rightarrow> (int \<Rightarrow> byte list \<Rightarrow> 'w srv \<Rightarrow> int) \<Rightarrow> 'w uapi \<Rightarrow> 'w srv \<Rightarrow> (int \<times> 'w srv) run" where
  "handle_write_sector c call u s =
     run_bind (recv_loop u mem_store 516 0 (replicate 516 0) s) (\<lambda>(complete, req, s1).
     if \<not> complete then fail_receive c (packet c (-1) 0) u s1
     else
       let s2 = say (''psvemmc: execute command '' @ dec_str c) s1;
           proxy_err = call (dec32 req) (drop 4 req) s2;
           s3 = say_result c proxy_err s2
       in ret (net_send u (packet c 0 proxy_err) s3))"

definition handle_write_cluster ::
    "int \<Rightarrow> (int \<Rightarrow> byte list \<Rightarrow> 'w srv \<Rightarrow> int) \<Rightarrow> 'w uapi \<Rightarrow> 'w srv \<Rightarrow> (int \<times> 'w srv) run" where
  "handle_write_cluster c call u s =
     run_bind (net_recv u 4 (replicate 4 0) s) (\<lambda>(recvLen, req, s1).
     if recvLen \<noteq> 4 then fail_receive c (packet c (-1) 0) u s1
     else
       run_bind (recv_loop u (\<lambda>off bs m. blk_store (sv_clusterPoolPtr s1) off bs m)
           (wrap32 (sv_bytesPerSector s1 * sv_sectorsPerCluster s1)) 0 (ublocks s1) s1)
         (\<lambda>(complete, m, s2).
         let s3 = s2\<lparr>ublocks := m\<rparr>
         in if \<not> complete then fail_receive c (packet c (-1) 0) u s3
            else
              let s4 = say (''psvemmc: execute command '' @ dec_str c) s3;
                  data = (case pointee (sv_clusterPoolPtr s4) (ublocks s4) of None \<Rightarrow> [] | Some d \<Rightarrow> d);
                  proxy_err = call (dec32 req) data s4;
                  s5 = say_result c proxy_err s4
              in ret (net_send u (packet c 0 proxy_err) s5)))"

definition handle_command_4 :: "'w kapi \<Rightarrow> 'w uapi \<Rightarrow> 'w srv \<Rightarrow> (int \<times> 'w srv) run" where
  "handle_command_4 k = handle_read_sector 4 (readSector k)"
definition handle_command_5 :: "'w kapi \<Rightarrow> 'w uapi \<Rightarrow> 'w srv \<Rightarrow> (int \<times> 'w srv) run" where
  "handle_command_5 k = handle_read_cluster 5 (readCluster k)"
definition handle_command_6 :: "'w uapi \<Rightarrow> 'w srv \<Rightarrow> (int \<times> 'w srv) run" where
  "handle_command_6 = handle_write_sector 6 writeSector"
definition handle_command_7 :: "'w uapi \<Rightarrow> 'w srv \<Rightarrow> (int \<times> 'w srv) run" where
  "handle_command_7 = handle_write_cluster 7 writeCluster"

definition handle_command_8 :: "'w kapi \<Rightarrow> 'w uapi \<Rightarrow> 'w srv \<Rightarrow> (int \<times> 'w srv) run" where
  "handle_command_8 k = handle_read_sector 8 (readSectorMs k)"
definition handle_command_9 :: "'w kapi \<Rightarrow> 'w uapi \<Rightarrow> 'w srv \<Rightarrow> (int \<times> 'w srv) run" where
  "handle_command_9 k = handle_read_cluster 9 (readClusterMs k)"
definition handle_command_10 :: "'w uapi \<Rightarrow> 'w srv \<Rightarrow> (int \<times> 'w srv) run" where
  "handle_command_10 = handle_write_sector 10 writeSectorMs"
definition handle_command_11 :: "'w uapi \<Rightarrow> 'w srv \<Rightarrow> (int \<times> 'w srv) run" where
  "handle_command_11 = handle_write_cluster 11 writeClusterMs"

definition handle_command_12 :: "'w kapi \<Rightarrow> 'w uapi \<Rightarrow> 'w srv \<Rightarrow> (int \<times> 'w srv) run" where
  "handle_command_12 k = handle_read_sector 12 (readSectorGc k)"
definition handle_command_13 :: "'w kapi \<Rightarrow> 'w uapi \<Rightarrow> 'w srv \<Rightarrow> (int \<times> 'w srv) run" where
  "handle_command_13 k = handle_read_cluster 13 (readClusterGc k)"
definition handle_command_14 :: "'w uapi \<Rightarrow> 'w srv \<Rightarrow> (int \<times> 'w srv) run" where
  "handle_command_14 = handle_write_sector 14 writeSectorGc"
definition handle_command_15 :: "'w uapi \<Rightarrow> 'w srv \<Rightarrow> (int \<times> 'w srv) run" where
  "handle_command_15 = handle_write_cluster 15 writeClusterGc"


section \<open>The server loop\<close>

text \<open>The \<open>switch\<close> of \<open>receive_commands\<close>: \<open>None\<close> is its \<open>default\<close>.\<close>

definition dispatch :: "'w kapi \<Rightarrow> 'w uapi \<Rightarrow> int \<Rightarrow> 'w srv \<Rightarrow> (int \<times> 'w srv) run option" where
  "dispatch k u command s =
     (if command = 0 then Some (ret (handle_command_0 u s))
      else if command = 1 then Some (ret (handle_command_1 u s))
      else if command = 2 then Some (handle_command_2 k u s)
      else if command = 3 then Some (ret (handle_command_3 k u s))
      else if command = 4 then Some (handle_command_4 k u s)
      else if command = 5 then Some (handle_command_5 k u s)
      else if command = 6 then Some (handle_command_6 u s)
      else if command = 7 then Some (handle_command_7 u s)
      else if command = 8 then Some (handle_command_8 k u s)
      else if command = 9 then Some (handle_command_9 k u s)
      else if command = 10 then Some (handle_command_10 u s)
      else if command = 11 then Some (handle_command_11 u s)
      else if command = 12 then Some (handle_command_12 k u s)
      else if command = 13 then Some (handle_command_13 k u s)
      else if command = 14 then Some (handle_command_14 u s)
      else if command = 15 then Some (handle_command_15 u s)
      else None)"

partial_function (option) receive_commands :: "'w kapi \<Rightarrow> 'w uapi \<Rightarrow> 'w srv \<Rightarrow> 'w srv run" where
  "receive_commands k u s =
     run_bind (net_recv u 4 (enc32 (-1)) s) (\<lambda>(recvLen, word, s1).
     if recvLen \<le> 0 then ret (say ''psvemmc: failed to receive data'' s1)
     else
       case dispatch k u (dec32 word) s1 of
         None \<Rightarrow> ret (say ''psvemmc: unknown command'' s1)
       | Some m \<Rightarrow>
           run_bind m (\<lambda>(r, s2).
           if r < 0 then ret (say (''psvemmc: failed to handle command '' @ dec_str (dec32 word)) s2)
           else receive_commands k u s2))"

partial_function (option) accept_single_connection :: "'w kapi \<Rightarrow> 'w uapi \<Rightarrow> 'w srv \<Rightarrow> 'w srv run" where
  "accept_single_connection k u s =
     (case kcall2 (u_NetAccept u (emmc_sock s)) s of (sock, client, s1) \<Rightarrow>
      if sock < 0 then ret (say ''psvemmc: failed to accept socket'' (s1\<lparr>cli_sock := sock\<rparr>))
      else
        run_bind (receive_commands k u
            (say (''psvemmc: Accepted connection from '' @ u_InetNtop u (sin_addr client) @ '':''
               @ dec_str (uint (u_NetNtohs u (sin_port client)))) (s1\<lparr>cli_sock := sock\<rparr>))) (\<lambda>s2.
        accept_single_connection k u (say ''psvemmc: closed client socket'' (close_client u s2))))"

definition server_main :: "'w kapi \<Rightarrow> 'w uapi \<Rightarrow> 'w srv \<Rightarrow> (int \<times> 'w srv) run" where
  "server_main k u s0 =
     (let s = say ''psvemmc: server started'' s0;
          (loaded, s) = kcall (u_SysmoduleIsLoaded u) s;
          (failed, s) = (if loaded \<noteq> u_SYSMODULE_LOADED u
                         then (let (r, s') = kcall (u_SysmoduleLoadModule u) s in (r < 0, s'))
                         else (False, s))
      in if failed then ret (1, say ''psvemmc: failed to load net module'' s)
         else
           let (r, s) = init_net u s
           in run_bind (if r \<ge> 0 then accept_single_connection k u s else ret s) (\<lambda>s.
              let s = say ''psvemmc: server stopped'' (deinit_net u s);
                  s = kdo (u_DelayThread u (10*1000*1000)) s
              in ret (0, kdo (u_ExitProcess u 0) s)))"

end
