(* ===== verification/Server_Net.thy ===== *)
theory Server_Net
  imports Server
begin

text \<open>
  The server's transfers over a stream socket. The network is any pair of functions for which
  two observers of the world exist: what has been sent so far, and what is still to be
  received. The send and receive loops then move exactly the bytes they should, whatever
  pieces the network cuts them into.
\<close>

section \<open>Documented behaviour of the network functions\<close>

text \<open>A send accepts a prefix of the data, as long as its result says; a receive of at most
  \<open>n > 0\<close> bytes takes its result's number of bytes from the stream, none on an error or at
  the end.\<close>

definition out_law :: "'w uapi \<Rightarrow> ('w \<Rightarrow> byte list) \<Rightarrow> bool" where
  "out_law u sent \<longleftrightarrow> (\<forall>sock bs w. case u_NetSend u sock bs w of (r, w') \<Rightarrow>
     r \<le> int (length bs) \<and> sent w' = sent w @ take (nat r) bs)"

definition in_law :: "'w uapi \<Rightarrow> ('w \<Rightarrow> byte list) \<Rightarrow> bool" where
  "in_law u inbox \<longleftrightarrow> (\<forall>sock n w. 0 < n \<longrightarrow> (case u_NetRecv u sock n w of (r, bs, w') \<Rightarrow>
     r \<le> n \<and> length bs = nat r \<and> inbox w = bs @ inbox w'))"

lemma out_lawD:
  "out_law u sent \<Longrightarrow> u_NetSend u sock bs w = (r, w') \<Longrightarrow>
   r \<le> int (length bs) \<and> sent w' = sent w @ take (nat r) bs"
  unfolding out_law_def by (metis (mono_tags, lifting) case_prod_conv)

lemma in_lawD:
  "in_law u inbox \<Longrightarrow> u_NetRecv u sock n w = (r, bs, w') \<Longrightarrow> 0 < n \<Longrightarrow>
   r \<le> n \<and> length bs = nat r \<and> inbox w = bs @ inbox w'"
  unfolding in_law_def by (metis (mono_tags, lifting) case_prod_conv)

text \<open>A network to run the witnesses on: the world is the bytes to come and the bytes sent,
  and no call moves more than eight bytes.\<close>

type_synonym pipe = "byte list \<times> byte list"

definition pipe_user :: "pipe uapi" where
  "pipe_user = \<lparr>
     u_NetSend = (\<lambda>_ bs (i, out). (int (min 8 (length bs)), (i, out @ take 8 bs))),
     u_NetRecv = (\<lambda>_ n (i, out). let m = min 8 (min (nat n) (length i))
        in (int m, take m i, (drop m i, out))),
     u_AllocMemBlock = (\<lambda>_ n w. if 0 \<le> n then (3, replicate (nat n) 0, w) else (-1, [], w)),
     u_GetMemBlockBase = (\<lambda>_ w. (0, 8192, w)), u_FreeMemBlock = (\<lambda>_ w. (0, w)),
     u_NetShowNetstat = (\<lambda>w. (0, w)), u_ERROR_ENOTINIT = -1,
     u_malloc = (\<lambda>_ w. (1, w)), u_free = (\<lambda>_ w. (0, w)), u_NetInit = (\<lambda>_ _ w. (0, w)),
     u_NetTerm = (\<lambda>w. (0, w)), u_NetCtlInit = (\<lambda>w. (0, w)), u_NetCtlTerm = (\<lambda>w. (0, w)),
     u_NetSocket = (\<lambda>_ w. (4, w)), u_NetBind = (\<lambda>_ _ w. (0, w)),
     u_NetCtlGetIp = (\<lambda>w. (0, ''10.0.0.2'', w)), u_NetListen = (\<lambda>_ _ w. (0, w)),
     u_NetAccept = (\<lambda>_ w. (if fst w = [] then -1 else 6,
        \<lparr>sin_addr = [10, 0, 0, 1], sin_port = 80\<rparr>, w)),
     u_NetSocketClose = (\<lambda>_ w. (0, w)), u_NetHtons = id, u_NetNtohs = id,
     u_InetNtop = (\<lambda>_. ''10.0.0.1''), u_DelayThread = (\<lambda>_ w. (0, w)),
     u_SysmoduleIsLoaded = (\<lambda>w. (0, w)), u_SYSMODULE_LOADED = 0,
     u_SysmoduleLoadModule = (\<lambda>w. (0, w)), u_ExitProcess = (\<lambda>_ w. (0, w))\<rparr>"

lemma pipe_laws: "out_law pipe_user snd" "in_law pipe_user fst"
  by (auto simp: out_law_def in_law_def pipe_user_def Let_def min_def split: prod.splits)

definition srv_boot :: "'w \<Rightarrow> 'w srv" where
  "srv_boot w = emmc.extend (emmc_boot w)
     (srv.fields 0 6 0 0 0 0 0 Null Map.empty [])"

lemmas boot_simps = srv_boot_def emmc_boot_def kbase.defs emmc.defs srv.defs


section \<open>The send loop\<close>

lemma say_fields [frame_simps]:
  "world (say m s) = world s" "cli_sock (say m s) = cli_sock s" "ublocks (say m s) = ublocks s"
  "sv_clusterPoolPtr (say m s) = sv_clusterPoolPtr s"
  "sv_clusterPool (say m s) = sv_clusterPool s"
  "sv_bytesPerSector (say m s) = sv_bytesPerSector s"
  "sv_sectorsPerCluster (say m s) = sv_sectorsPerCluster s"
  "sv_clusterPoolInitialized (say m s) = sv_clusterPoolInitialized s"
  "kblocks (say m s) = kblocks s"
  "g_clusterPoolInitialized (say m s) = g_clusterPoolInitialized s"
  "g_sectorsPerCluster (say m s) = g_sectorsPerCluster s"
  "g_bytesPerSector (say m s) = g_bytesPerSector s"
  "g_clusterPool (say m s) = g_clusterPool s"
  "g_clusterPoolPtr (say m s) = g_clusterPoolPtr s"
  by (simp_all add: say_def)

lemma kpool_ok_say [simp]: "kpool_ok (say m s) = kpool_ok s"
  by (simp add: kpool_ok_def frame_simps)

text \<open>Two states that differ in the world and the screen only.\<close>

definition same_srv :: "'w srv \<Rightarrow> 'w srv \<Rightarrow> bool" where
  "same_srv s s' \<longleftrightarrow> s' = s\<lparr>world := world s', screen := screen s'\<rparr>"

lemma same_srv_refl [simp]: "same_srv s s"
  by (simp add: same_srv_def)

lemma same_srv_world [simp]: "same_srv s (s\<lparr>world := w\<rparr>)"
  by (simp add: same_srv_def)

lemma same_srv_say [simp]: "same_srv s (say m s)"
  by (simp add: same_srv_def say_def)

lemma same_srv_trans: "same_srv s t \<Longrightarrow> same_srv t v \<Longrightarrow> same_srv s v"
  unfolding same_srv_def
  by (cases s rule: srv.cases_scheme; cases t rule: srv.cases_scheme; cases v rule: srv.cases_scheme) simp

lemma same_srv_fields:
  "same_srv s s' \<Longrightarrow> kpool_ok s' = kpool_ok s \<and> ublocks s' = ublocks s
     \<and> sv_clusterPoolPtr s' = sv_clusterPoolPtr s \<and> sv_clusterPool s' = sv_clusterPool s
     \<and> sv_bytesPerSector s' = sv_bytesPerSector s
     \<and> sv_sectorsPerCluster s' = sv_sectorsPerCluster s
     \<and> sv_clusterPoolInitialized s' = sv_clusterPoolInitialized s
     \<and> kblocks s' = kblocks s \<and> g_clusterPoolInitialized s' = g_clusterPoolInitialized s
     \<and> g_sectorsPerCluster s' = g_sectorsPerCluster s \<and> g_bytesPerSector s' = g_bytesPerSector s
     \<and> cli_sock s' = cli_sock s"
  unfolding same_srv_def by (cases s rule: srv.cases_scheme; cases s' rule: srv.cases_scheme) (simp add: kpool_ok_def)

text \<open>The loop over memory that holds \<open>resp\<close>, entered with \<open>got\<close> bytes already sent: it
  returns, and what it has sent is all the rest, or a part of it when the network fails.\<close>

lemma send_loop_from:
  assumes law: "out_law u sent"
    and src: "\<And>off n. off + n \<le> length resp \<Longrightarrow> src off n = ret (take n (drop off resp))"
    and "got \<le> length resp" and "sent (world s) = before @ take got resp"
  shows "\<exists>r s'. send_loop u src (int (length resp)) (int got) s = ret (r, s') \<and> same_srv s s'
    \<and> (r = 0 \<and> sent (world s') = before @ resp
       \<or> r = -1 \<and> (\<exists>n < length resp. sent (world s') = before @ take n resp))"
  using assms(3,4)
proof (induction "length resp - got" arbitrary: got s rule: less_induct)
  case less
  show ?case
  proof (cases "got = length resp")
    case True
    then show ?thesis
      using less.prems by (subst send_loop.simps) (simp add: run_simps)
  next
    case False
    with less.prems have lt: "got < length resp" by simp
    let ?bs = "drop got resp"
    obtain r w' where S: "u_NetSend u (cli_sock s) ?bs (world s) = (r, w')" by fastforce
    have o: "r \<le> int (length ?bs)" "sent w' = sent (world s) @ take (nat r) ?bs"
      using out_lawD [OF law S] by auto
    have n: "nat (int (length resp) - int got) = length resp - got" by simp
    have step: "send_loop u src (int (length resp)) (int got) s =
        (if r \<le> 0 then ret (-1, say ''psvemmc: failed to send data'' (s\<lparr>world := w'\<rparr>))
         else send_loop u src (int (length resp)) (int got + r) (s\<lparr>world := w'\<rparr>))"
      using lt S src [of got "length resp - got"]
      by (subst send_loop.simps) (simp add: run_simps net_send_def kcall_eq n)
    show ?thesis
    proof (cases "r \<le> 0")
      case True
      then show ?thesis
        using step o(2) lt less.prems
        by (auto simp: run_simps frame_simps intro!: exI [of _ got]
            intro: same_srv_trans [OF same_srv_world same_srv_say])
    next
      case False
      let ?g = "got + nat r"
      have g: "int got + r = int ?g" using False by simp
      have le: "?g \<le> length resp" using o(1) False lt by simp
      have pre: "sent (world (s\<lparr>world := w'\<rparr>)) = before @ take ?g resp"
        using o(2) less.prems(2) by (simp add: take_add)
      have "length resp - ?g < length resp - got" using lt False by simp
      from less.hyps [OF this le pre] show ?thesis
        using step False g by (metis same_srv_trans same_srv_world)
    qed
  qed
qed

section \<open>The receive loop\<close>

text \<open>Receiving into a block of the heap is receiving into its bytes.\<close>

lemma recv_loop_embed:
  assumes "\<And>off bs b. put off bs (emb b) = run_bind (mem_store off bs b) (\<lambda>b'. ret (emb b'))"
  shows "recv_loop u put n got (emb b) s
    = run_bind (recv_loop u mem_store n got b s) (\<lambda>(c, b', s'). ret (c, emb b', s'))"
proof (induction "nat (n - got)" arbitrary: got b s rule: less_induct)
  case less
  obtain r bs w where R: "u_NetRecv u (cli_sock s) (n - got) (world s) = (r, bs, w)"
    by (metis prod_cases3)
  consider "n = got" | "n < got" | "got < n" by linarith
  then show ?case
  proof cases
    case 3
    show ?thesis
    proof (cases "mem_store (nat got) bs b" rule: run_cases)
      case (returns b')
      then show ?thesis
        using 3 R less.hyps [of "got + r" b' "s\<lparr>world := w\<rparr>"]
        by (subst (1 2) recv_loop.simps) (simp add: assms kcall2_eq run_simps)
    qed (use 3 R in \<open>subst (1 2) recv_loop.simps; simp add: assms kcall2_eq run_simps\<close>)+
  qed (subst (1 2) recv_loop.simps; simp add: run_simps)+
qed

lemma recv_loop_from:
  assumes law: "in_law u inbox" and "got \<le> length buf"
  shows "\<exists>complete m buf' s'. recv_loop u mem_store (int (length buf)) (int got) buf s = ret (complete, buf', s')
    \<and> same_srv s s' \<and> got \<le> m \<and> m \<le> length buf \<and> length buf' = length buf
    \<and> (complete \<longleftrightarrow> m = length buf)
    \<and> take got buf' = take got buf \<and> drop m buf' = drop m buf
    \<and> inbox (world s) = drop got (take m buf') @ inbox (world s')"
  using assms(2)
proof (induction "length buf - got" arbitrary: got buf s rule: less_induct)
  case less
  show ?case
  proof (cases "got = length buf")
    case True
    then show ?thesis by (subst recv_loop.simps) (auto simp: run_simps)
  next
    case False
    with less.prems have lt: "got < length buf" by simp
    obtain r bs w where R: "u_NetRecv u (cli_sock s) (int (length buf) - int got) (world s) = (r, bs, w)"
      by (metis prod_cases3)
    have i: "r \<le> int (length buf) - int got" "length bs = nat r" "inbox (world s) = bs @ inbox w"
      using in_lawD [OF law R] lt by auto
    have fit: "got + length bs \<le> length buf" using i(1,2) lt by (simp add: nat_le_iff)
    let ?b = "overlay_at got bs buf" and ?s = "s\<lparr>world := w\<rparr>"
    have step: "recv_loop u mem_store (int (length buf)) (int got) buf s =
        (if r \<le> 0 then ret (False, ?b, ?s)
         else recv_loop u mem_store (int (length buf)) (int got + r) ?b ?s)"
      using lt R fit by (subst recv_loop.simps) (simp add: run_simps kcall2_eq)
    show ?thesis
    proof (cases "r \<le> 0")
      case True
      then have "bs = []" using i(2) by simp
      then show ?thesis
        using step True i(3) lt
        by (intro exI [of _ False] exI [of _ got] exI [of _ ?b] exI [of _ ?s])
          (simp add: run_simps overlay_at_def)
    next
      case False
      let ?g = "got + length bs"
      have g: "int got + r = int ?g" using False i(2) by simp
      have lb: "length ?b = length buf" using fit by simp
      have "length ?b - ?g < length buf - got" using False i(2) lt lb fit by simp
      moreover have "?g \<le> length ?b" using fit lb by simp
      ultimately have "\<exists>complete m buf' s'.
          recv_loop u mem_store (int (length ?b)) (int ?g) ?b ?s = ret (complete, buf', s')
          \<and> same_srv ?s s' \<and> ?g \<le> m \<and> m \<le> length ?b \<and> length buf' = length ?b
          \<and> (complete \<longleftrightarrow> m = length ?b) \<and> take ?g buf' = take ?g ?b \<and> drop m buf' = drop m ?b
          \<and> inbox (world ?s) = drop ?g (take m buf') @ inbox (world s')"
        by (rule less.hyps)
      note ex = this [unfolded lb]
      from ex obtain complete m buf' s' where
        L: "recv_loop u mem_store (int (length buf)) (int ?g) ?b ?s = ret (complete, buf', s')"
          "same_srv ?s s'" "?g \<le> m" "m \<le> length buf" "length buf' = length buf"
          "complete \<longleftrightarrow> m = length buf" "take ?g buf' = take ?g ?b" "drop m buf' = drop m ?b"
          "inbox (world ?s) = drop ?g (take m buf') @ inbox (world s')"
        by blast
      have tb: "take ?g ?b = take got buf @ bs" using fit by (rule take_overlay_at)
      have t1: "take got buf' = take got buf"
      proof -
        have "take got buf' = take got (take ?g buf')" by simp
        also have "\<dots> = take got (take got buf @ bs)" using L(7) tb by simp
        finally show ?thesis using lt by simp
      qed
      have d1: "drop m ?b = drop m buf"
        using L(3,4) fit by (simp add: overlay_at_def)
      have "drop got (take m buf') = drop got (take ?g buf') @ drop ?g (take m buf')"
        using L(3) by (intro drop_take_split) simp_all
      moreover have "drop got (take ?g buf') = bs" using L(7) tb lt by simp
      ultimately have ib: "inbox (world s) = drop got (take m buf') @ inbox (world s')"
        using i(3) L(9) by simp
      have ss: "same_srv s s'" by (rule same_srv_trans [OF same_srv_world L(2)])
      have rl: "recv_loop u mem_store (int (length buf)) (int got) buf s = ret (complete, buf', s')"
        using step False g L(1) by simp
      show ?thesis
        using rl ss L(3-6,8) t1 d1 ib by (intro exI [of _ complete] exI [of _ m] exI [of _ buf'] exI [of _ s']) simp
    qed
  qed
qed



section \<open>What the loops guarantee\<close>

text \<open>C10: The send loop over a buffer always returns: with 0 after having sent exactly the
  buffer's bytes, in order and once, or with -1 after having sent a proper prefix of them, when
  the network stops accepting data. It changes nothing but the world and the screen.\<close>

theorem send_loop_sends:
  assumes "out_law u sent"
  shows "\<exists>r s'. send_loop u (\<lambda>off n. mem_load off n resp) (int (length resp)) 0 s = ret (r, s')
    \<and> same_srv s s'
    \<and> (r = 0 \<and> sent (world s') = sent (world s) @ resp
       \<or> r = -1 \<and> (\<exists>n < length resp. sent (world s') = sent (world s) @ take n resp))"
  using send_loop_from [OF assms, of resp "\<lambda>off n. mem_load off n resp" 0 s "sent (world s)"]
  by (simp add: run_simps)

theorem send_loop_sends_witness:
  "\<exists>r s'. send_loop pipe_user (\<lambda>off n. mem_load off n (replicate 12 1)) 12 0 (srv_boot ([], [9]))
      = ret (r, s')
    \<and> (r = 0 \<and> snd (world s') = 9 # replicate 12 1
       \<or> r = -1 \<and> (\<exists>n < 12. snd (world s') = 9 # take n (replicate 12 1)))"
  using send_loop_sends [OF pipe_laws(1), of "replicate 12 1" "srv_boot ([], [9])"]
  by (auto simp: boot_simps)

text \<open>C15: The receive loop over a request buffer always returns, and takes from the stream
  exactly what it stores: when it reports completion the buffer is the next
  \<open>length buf\<close> bytes of the stream; when it reports failure, some shorter run of bytes was
  taken and stored at the buffer's start, and the rest of the buffer is as it was.\<close>

theorem recv_loop_receives:
  assumes "in_law u inbox"
  shows "\<exists>complete m buf' s'. recv_loop u mem_store (int (length buf)) 0 buf s = ret (complete, buf', s')
    \<and> same_srv s s' \<and> length buf' = length buf \<and> m \<le> length buf
    \<and> (complete \<longleftrightarrow> m = length buf) \<and> drop m buf' = drop m buf
    \<and> inbox (world s) = take m buf' @ inbox (world s')"
  using recv_loop_from [OF assms, of 0 buf s] by auto

theorem recv_loop_receives_witness:
  "\<exists>complete m buf' s'. recv_loop pipe_user mem_store 3 0 [0, 0, 0] (srv_boot ([5, 6, 7, 8], []))
      = ret (complete, buf', s')
    \<and> same_srv (srv_boot ([5, 6, 7, 8], [])) s' \<and> length buf' = 3 \<and> m \<le> 3 \<and> (complete \<longleftrightarrow> m = 3)
    \<and> drop m buf' = drop m [0, 0, 0] \<and> [5, 6, 7, 8] = take m buf' @ fst (world s')"
proof -
  have w: "world (srv_boot ([5, 6, 7, 8], []) :: pipe srv) = ([5, 6, 7, 8], [])"
    by (simp add: boot_simps)
  show ?thesis
    using recv_loop_receives [OF pipe_laws(2), of "[0, 0, 0]" "srv_boot ([5, 6, 7, 8], [])"]
    by (simp add: w numeral_3_eq_3)
qed

end
