(* ===== verification/Server_Safety.thy ===== *)
theory Server_Safety
  imports Server_Net
begin

text \<open>
  Memory safety of the command handlers. The handlers of the three devices differ in the
  system calls they make; what they need of these calls is the locale \<open>block_device\<close>, and the
  safety of a handler is proved once for any such device and interpreted for the eMMC, the game
  card and the memory card.
\<close>

section \<open>The server's invariant\<close>

text \<open>While the server's pool counts as initialised its pointer leads to a live user block of
  the size the code computes; and while the driver's pool does, so does the server's, with the
  same cluster size.\<close>

definition upool_ok :: "'w srv \<Rightarrow> bool" where
  "upool_ok s \<longleftrightarrow> sv_clusterPoolInitialized s \<noteq> 0 \<longrightarrow>
     (\<exists>a b. sv_clusterPoolPtr s = Block (sv_clusterPool s) a
        \<and> ublocks s (sv_clusterPool s) = Some b
        \<and> sv_bytesPerSector s = 512 \<and> 0 \<le> sv_sectorsPerCluster s
        \<and> sv_sectorsPerCluster s < 4194304
        \<and> length b = 512 * nat (sv_sectorsPerCluster s))"

definition pools_agree :: "'w srv \<Rightarrow> bool" where
  "pools_agree s \<longleftrightarrow> g_clusterPoolInitialized s \<noteq> 0 \<longrightarrow>
     sv_clusterPoolInitialized s \<noteq> 0 \<and> g_sectorsPerCluster s = sv_sectorsPerCluster s"

definition srv_ok :: "'w srv \<Rightarrow> bool" where
  "srv_ok s \<longleftrightarrow> kpool_ok s \<and> upool_ok s \<and> pools_agree s"

lemma upool_okE:
  assumes "upool_ok s" and "sv_clusterPoolInitialized s \<noteq> 0"
  obtains a b where "sv_clusterPoolPtr s = Block (sv_clusterPool s) a"
    and "ublocks s (sv_clusterPool s) = Some b" and "sv_bytesPerSector s = 512"
    and "0 \<le> sv_sectorsPerCluster s" and "sv_sectorsPerCluster s < 4194304"
    and "length b = 512 * nat (sv_sectorsPerCluster s)"
  using assms by (auto simp: upool_ok_def)

lemma srv_ok_same: "same_srv s s' \<Longrightarrow> srv_ok s' = srv_ok s"
  by (simp add: srv_ok_def upool_ok_def pools_agree_def same_srv_fields)

lemma srv_ok_kernel:
  assumes "srv_ok s" and "kpool_ok (s\<lparr>world := w, kblocks := kb\<rparr>)"
  shows "srv_ok (s\<lparr>world := w, kblocks := kb\<rparr>)"
  using assms by (simp add: srv_ok_def upool_ok_def pools_agree_def)

text \<open>What a handler must leave behind: a return, the invariant, and the pool's state.\<close>

definition handled :: "'w srv \<Rightarrow> (int \<times> 'w srv) run \<Rightarrow> bool" where
  "handled s m \<longleftrightarrow> (\<exists>r s'. m = ret (r, s') \<and> srv_ok s'
     \<and> sv_clusterPoolInitialized s' = sv_clusterPoolInitialized s)"

lemma handledI:
  "srv_ok s' \<Longrightarrow> sv_clusterPoolInitialized s' = sv_clusterPoolInitialized s \<Longrightarrow> handled s (ret (r, s'))"
  by (auto simp: handled_def)

lemma handled_same:
  "srv_ok t \<Longrightarrow> sv_clusterPoolInitialized t = sv_clusterPoolInitialized s \<Longrightarrow> same_srv t t'
   \<Longrightarrow> handled s (ret (r, t'))"
  by (rule handledI) (simp_all add: srv_ok_same same_srv_fields)

lemma handled_trans:
  "handled t m \<Longrightarrow> sv_clusterPoolInitialized t = sv_clusterPoolInitialized s \<Longrightarrow> handled s m"
  by (simp add: handled_def)

lemma net_send_same: "same_srv s (snd (net_send u bs s))"
  by (simp add: net_send_def kcall_eq)

lemma net_send_eq: "net_send u bs s = (fst (net_send u bs s), snd (net_send u bs s))"
  by simp

lemma net_recv_from:
  assumes "in_law u inbox" and "0 < n" and "length buf = nat n"
  obtains r bs w where "net_recv u n buf s = ret (r, overlay bs buf, s\<lparr>world := w\<rparr>)"
    and "u_NetRecv u (cli_sock s) n (world s) = (r, bs, w)"
    and "length bs = nat r" and "r \<le> n" and "inbox (world s) = bs @ inbox w"
proof -
  obtain r bs w where R: "u_NetRecv u (cli_sock s) n (world s) = (r, bs, w)"
    by (metis prod_cases3)
  from in_lawD [OF assms(1) R assms(2)]
  have l: "r \<le> n" "length bs = nat r" "inbox (world s) = bs @ inbox w" by auto
  then have "mem_store 0 bs buf = ret (overlay bs buf)"
    using assms(3) by (simp add: mem_store_ok overlay_at_0)
  with R have "net_recv u n buf s = ret (r, overlay bs buf, s\<lparr>world := w\<rparr>)"
    by (simp add: net_recv_def kcall2_eq run_simps)
  with R l show thesis by (intro that)
qed

lemma fail_receive_handled:
  "srv_ok t \<Longrightarrow> sv_clusterPoolInitialized t = sv_clusterPoolInitialized s \<Longrightarrow>
   handled s (fail_receive c resp u t)"
  unfolding fail_receive_def Let_def
  by (rule handled_same [OF _ _ same_srv_trans [OF same_srv_say net_send_same]]) simp_all

lemma say_result_same: "same_srv s (say_result c e s)"
  by (simp add: say_result_def)

lemma send_loop_handled:
  assumes "out_law u sent" and "srv_ok t"
    and "sv_clusterPoolInitialized t = sv_clusterPoolInitialized s"
    and "\<And>off n. off + n \<le> length resp \<Longrightarrow> src off n = ret (take n (drop off resp))"
  shows "handled s (send_loop u src (int (length resp)) 0 t)"
proof -
  obtain r s' where "send_loop u src (int (length resp)) 0 t = ret (r, s')" "same_srv t s'"
    using send_loop_from [OF assms(1), of resp src 0 t "sent (world t)"] assms(4) by auto
  with assms(2,3) show ?thesis by (simp add: handled_same)
qed

lemma put_pool_live:
  assumes "sv_clusterPoolPtr s = Block (sv_clusterPool s) a"
  shows "put_pool (Some d) s = s\<lparr>ublocks := (ublocks s)(sv_clusterPool s \<mapsto> d)\<rparr>"
  using assms by (simp add: put_pool_def)

lemma srv_ok_put_pool:
  assumes "srv_ok s" and "sv_clusterPoolInitialized s \<noteq> 0"
    and "length d = 512 * nat (sv_sectorsPerCluster s)"
  shows "srv_ok (s\<lparr>ublocks := (ublocks s)(sv_clusterPool s \<mapsto> d)\<rparr>)"
  using assms by (auto simp: srv_ok_def upool_ok_def kpool_ok_def pools_agree_def)


section \<open>A device the handlers can serve\<close>

locale block_device =
  fixes k :: "'w kapi"
    and rs :: "int \<Rightarrow> byte list option \<Rightarrow> 'w srv \<Rightarrow> (int \<times> byte list option \<times> 'w srv) run"
    and rc :: "int \<Rightarrow> byte list option \<Rightarrow> 'w srv \<Rightarrow> (int \<times> byte list option \<times> 'w srv) run"
  assumes rs_returns: "dev_law k \<Longrightarrow> kpool_ok s \<Longrightarrow> 512 \<le> length b \<Longrightarrow>
      \<exists>r b' w. rs n (Some b) s = ret (r, Some b', s\<lparr>world := w\<rparr>) \<and> length b' = length b"
    and rc_returns: "dev_law k \<Longrightarrow> kpool_ok s \<Longrightarrow>
      (g_clusterPoolInitialized s \<noteq> 0 \<Longrightarrow> 512 * nat (g_sectorsPerCluster s) \<le> length b) \<Longrightarrow>
      \<exists>r b' w kb. rc n (Some b) s = ret (r, Some b', s\<lparr>world := w, kblocks := kb\<rparr>)
        \<and> length b' = length b \<and> kpool_ok (s\<lparr>world := w, kblocks := kb\<rparr>)"
begin

lemma read_sector_served:
  assumes "dev_law k" and out: "out_law u sent" and ok: "srv_ok t"
  shows "handled t (run_bind (rs n (Some (replicate 512 0)) t) (\<lambda>(proxy_err, data, s3).
          let s4 = say_result c proxy_err s3;
              resp = packet c 0 proxy_err @ (case data of None \<Rightarrow> [] | Some d \<Rightarrow> d)
          in send_loop u (\<lambda>off n. mem_load off n resp) (int (length resp)) 0 s4))"
proof -
  have "kpool_ok t" using ok by (simp add: srv_ok_def)
  from rs_returns [OF assms(1) this, of "replicate 512 0" n]
  obtain p d w where D: "rs n (Some (replicate 512 0)) t = ret (p, Some d, t\<lparr>world := w\<rparr>)" by auto
  define t4 where "t4 = say_result c p (t\<lparr>world := w\<rparr>)"
  have ss: "same_srv t t4"
    unfolding t4_def by (blast intro: same_srv_trans same_srv_world say_result_same)
  have "srv_ok t4" "sv_clusterPoolInitialized t4 = sv_clusterPoolInitialized t"
    using ok by (simp_all add: srv_ok_same [OF ss] same_srv_fields [OF ss])
  from send_loop_handled [OF out this, of "packet c 0 p @ d" "\<lambda>off n. mem_load off n (packet c 0 p @ d)"]
  show ?thesis
    unfolding D run_bind_ret prod.case Let_def option.case t4_def [symmetric] by (simp add: mem_load_ok)
qed

lemma read_sector_handled:
  assumes "dev_law k" and "out_law u sent" and "in_law u inbox" and ok: "srv_ok s"
  shows "handled s (handle_read_sector c rs u s)"
proof -
  obtain r bs w where R: "net_recv u 4 (replicate 4 0) s = ret (r, overlay bs (replicate 4 0), s\<lparr>world := w\<rparr>)"
    by (rule net_recv_from [OF assms(3), of 4 "replicate 4 0" s]) simp_all
  define s1 where "s1 = s\<lparr>world := w\<rparr>"
  have ok1: "srv_ok s1" "sv_clusterPoolInitialized s1 = sv_clusterPoolInitialized s"
    using ok by (simp_all add: s1_def srv_ok_same [OF same_srv_world])
  show ?thesis
  proof (cases "r = 4")
    case False
    then show ?thesis
      using R ok1 by (simp add: handle_read_sector_def run_simps fail_receive_handled flip: s1_def)
  next
    case True
    define t where "t = say (''psvemmc: execute command '' @ dec_str c) s1"
    have t: "srv_ok t" "sv_clusterPoolInitialized t = sv_clusterPoolInitialized s"
      using ok1 by (simp_all add: t_def srv_ok_same [OF same_srv_say] frame_simps)
    show ?thesis
      unfolding handle_read_sector_def R run_bind_ret prod.case s1_def [symmetric] True
      using handled_trans [OF read_sector_served [OF assms(1,2) t(1)] t(2), of "dec32 (overlay bs (replicate 4 0))" c]
      by (simp add: Let_def t_def)
  qed
qed

lemma read_cluster_served:
  assumes "dev_law k" and out: "out_law u sent" and ok: "srv_ok t"
    and init: "sv_clusterPoolInitialized t \<noteq> 0"
  shows "handled t (run_bind (rc n (pointee (sv_clusterPoolPtr t) (ublocks t)) t) (\<lambda>(proxy_err, data, s3).
          let s4 = put_pool data s3;
              s5 = say_result c proxy_err s4;
              s6 = snd (net_send u (packet c 0 proxy_err) s5)
          in send_loop u (\<lambda>off n. blk_load (sv_clusterPoolPtr s6) off n (ublocks s6))
               (wrap32 (sv_bytesPerSector s6 * sv_sectorsPerCluster s6)) 0 s6))"
proof -
  from ok init obtain a b where P: "sv_clusterPoolPtr t = Block (sv_clusterPool t) a"
      "ublocks t (sv_clusterPool t) = Some b" "sv_bytesPerSector t = 512"
      "0 \<le> sv_sectorsPerCluster t" "sv_sectorsPerCluster t < 4194304"
      "length b = 512 * nat (sv_sectorsPerCluster t)"
    unfolding srv_ok_def by (blast elim: upool_okE)
  have pt: "pointee (sv_clusterPoolPtr t) (ublocks t) = Some b"
    using P(1,2) by (simp add: pointee_def)
  have "kpool_ok t" and "g_clusterPoolInitialized t \<noteq> 0 \<Longrightarrow> 512 * nat (g_sectorsPerCluster t) \<le> length b"
    using ok P(6) by (auto simp: srv_ok_def pools_agree_def)
  from rc_returns [OF assms(1) this, of n]
  obtain p d w kb where D: "rc n (Some b) t = ret (p, Some d, t\<lparr>world := w, kblocks := kb\<rparr>)"
      and ld: "length d = length b" and kp: "kpool_ok (t\<lparr>world := w, kblocks := kb\<rparr>)"
    by auto
  define t3 where "t3 = t\<lparr>world := w, kblocks := kb\<rparr>"
  have ok3: "srv_ok t3" unfolding t3_def by (rule srv_ok_kernel [OF ok kp])
  have t3: "sv_clusterPoolPtr t3 = Block (sv_clusterPool t3) a" "sv_bytesPerSector t3 = 512"
      "sv_sectorsPerCluster t3 = sv_sectorsPerCluster t"
      "sv_clusterPoolInitialized t3 = sv_clusterPoolInitialized t"
    using P(1,3) by (simp_all add: t3_def)
  define t4 where "t4 = t3\<lparr>ublocks := (ublocks t3)(sv_clusterPool t3 \<mapsto> d)\<rparr>"
  have ok4: "srv_ok t4"
    unfolding t4_def using init ld P(6) t3 by (intro srv_ok_put_pool [OF ok3]) simp_all
  have t4: "put_pool (Some d) t3 = t4" using t3(1) by (simp add: t4_def put_pool_live)
  define t6 where "t6 = snd (net_send u (packet c 0 p) (say_result c p t4))"
  have ss: "same_srv t4 t6"
    unfolding t6_def by (blast intro: same_srv_trans say_result_same net_send_same)
  have ok6: "srv_ok t6" using ok4 by (simp add: srv_ok_same [OF ss])
  have t6: "sv_clusterPoolPtr t6 = Block (sv_clusterPool t3) a" "ublocks t6 (sv_clusterPool t3) = Some d"
      "sv_bytesPerSector t6 = 512" "sv_sectorsPerCluster t6 = sv_sectorsPerCluster t"
      "sv_clusterPoolInitialized t6 = sv_clusterPoolInitialized t"
    using t3 by (simp_all add: same_srv_fields [OF ss] t4_def)
  have sz: "wrap32 (sv_bytesPerSector t6 * sv_sectorsPerCluster t6) = int (length d)"
    using P(3-6) ld by (simp add: t6 c_int_def)
  have src: "blk_load (sv_clusterPoolPtr t6) off n (ublocks t6) = ret (take n (drop off d))"
    if "off + n \<le> length d" for off n
    using that t6(1,2) by (simp add: blk_load_live run_simps)
  have "handled t (send_loop u (\<lambda>off n. blk_load (sv_clusterPoolPtr t6) off n (ublocks t6)) (int (length d)) 0 t6)"
    by (rule send_loop_handled [OF out ok6 t6(5)]) (rule src)
  then show ?thesis
    unfolding pt D run_bind_ret prod.case Let_def t3_def [symmetric] t4 t6_def [symmetric] sz .
qed

lemma read_cluster_handled:
  assumes "dev_law k" and "out_law u sent" and "in_law u inbox" and ok: "srv_ok s"
    and init: "sv_clusterPoolInitialized s \<noteq> 0"
  shows "handled s (handle_read_cluster c rc u s)"
proof -
  obtain r bs w where R: "net_recv u 4 (replicate 4 0) s = ret (r, overlay bs (replicate 4 0), s\<lparr>world := w\<rparr>)"
    by (rule net_recv_from [OF assms(3), of 4 "replicate 4 0" s]) simp_all
  define s1 where "s1 = s\<lparr>world := w\<rparr>"
  have ok1: "srv_ok s1" "sv_clusterPoolInitialized s1 = sv_clusterPoolInitialized s"
    using ok by (simp_all add: s1_def srv_ok_same [OF same_srv_world])
  show ?thesis
  proof (cases "r = 4")
    case False
    then show ?thesis
      using R ok1 by (simp add: handle_read_cluster_def run_simps fail_receive_handled flip: s1_def)
  next
    case True
    define t where "t = say (''psvemmc: execute command '' @ dec_str c) s1"
    have t: "srv_ok t" "sv_clusterPoolInitialized t = sv_clusterPoolInitialized s"
      using ok1 by (simp_all add: t_def srv_ok_same [OF same_srv_say] frame_simps)
    have "handle_read_cluster c rc u s
      = run_bind (rc (dec32 (overlay bs (replicate 4 0))) (pointee (sv_clusterPoolPtr t) (ublocks t)) t)
        (\<lambda>(proxy_err, data, s3).
          let s4 = put_pool data s3;
              s5 = say_result c proxy_err s4;
              s6 = snd (net_send u (packet c 0 proxy_err) s5)
          in send_loop u (\<lambda>off n. blk_load (sv_clusterPoolPtr s6) off n (ublocks s6))
               (wrap32 (sv_bytesPerSector s6 * sv_sectorsPerCluster s6)) 0 s6)"
      unfolding handle_read_cluster_def R run_bind_ret prod.case s1_def [symmetric] True t_def Let_def by simp
    then show ?thesis
      using handled_trans [OF read_cluster_served [OF assms(1,2) t(1)] t(2)] init t(2) by simp
  qed
qed

end

lemma copy_to_user_fits:
  "length src \<le> length d \<Longrightarrow>
   \<exists>r d' w. copy_to_user k (Some d) src s = ret (r, Some d', s\<lparr>world := w\<rparr>) \<and> length d' = length d"
proof -
  assume le: "length src \<le> length d"
  obtain r n w where C: "k_MemcpyKernelToUser k True src (world s) = (r, n, w)" by (metis prod_cases3)
  have t: "length (take n src) \<le> length d" using le by simp
  then have "copy_to_user k (Some d) src s = ret (r, Some (overlay (take n src) d), s\<lparr>world := w\<rparr>)"
    by (simp add: copy_to_user_def kcall2_eq C)
  moreover have "length (overlay (take n src) d) = length d" using t by (rule length_overlay)
  ultimately show ?thesis by blast
qed

lemma read_sector_with_returns:
  assumes dev: "\<And>sec n w. length (fst (snd (dev sec n w))) = 512 * nat n" and b: "512 \<le> length b"
  shows "\<exists>r b' w. read_sector_with k dev n (Some b) s = ret (r, Some b', s\<lparr>world := w\<rparr>)
    \<and> length b' = length b"
proof -
  obtain r1 d w1 where D: "dev n 1 (world s) = (r1, d, w1)" by (metis prod_cases3)
  have "length d \<le> length b" using dev [of n 1 "world s"] D b by simp
  from copy_to_user_fits [OF this, of k "s\<lparr>world := w1\<rparr>"]
  obtain r d' w where C: "copy_to_user k (Some b) d (s\<lparr>world := w1\<rparr>) = ret (r, Some d', s\<lparr>world := w\<rparr>)"
      "length d' = length b"
    by auto
  show ?thesis
  proof (cases "r1 < 0")
    case True
    then have "read_sector_with k dev n (Some b) s = ret (r1, Some b, s\<lparr>world := w1\<rparr>)"
      by (simp add: read_sector_with_eq [OF dev] D)
    then show ?thesis by blast
  next
    case False
    then have "read_sector_with k dev n (Some b) s = ret (if r < 0 then r else 0, Some d', s\<lparr>world := w\<rparr>)"
      using C by (simp add: read_sector_with_eq [OF dev] D run_simps)
    then show ?thesis using C(2) by blast
  qed
qed

lemma read_cluster_with_returns:
  assumes dev: "\<And>sec n w. length (fst (snd (dev sec n w))) = 512 * nat n"
    and ok: "kpool_ok s" and init: "g_clusterPoolInitialized s \<noteq> 0"
    and b: "512 * nat (g_sectorsPerCluster s) \<le> length b"
  shows "\<exists>r b' w kb. read_cluster_with k dev n (Some b) s = ret (r, Some b', s\<lparr>world := w, kblocks := kb\<rparr>)
    \<and> length b' = length b \<and> kpool_ok (s\<lparr>world := w, kblocks := kb\<rparr>)"
proof -
  obtain r1 d w1 where D:
    "dev (wrap32 (g_sectorsPerCluster s * n)) (g_sectorsPerCluster s) (world s) = (r1, d, w1)"
    by (metis prod_cases3)
  have ld: "length d = 512 * nat (g_sectorsPerCluster s)"
    using dev [of "wrap32 (g_sectorsPerCluster s * n)" "g_sectorsPerCluster s" "world s"] D by simp
  let ?kb = "(kblocks s)(g_clusterPool s \<mapsto> d)"
  have kp: "kpool_ok (s\<lparr>world := w, kblocks := ?kb\<rparr>)" for w
    using ok ld init by (auto simp: kpool_ok_def)
  have "length d \<le> length b" using ld b by simp
  from copy_to_user_fits [OF this, of k "s\<lparr>world := w1, kblocks := ?kb\<rparr>"]
  obtain r d' w where C0: "copy_to_user k (Some b) d (s\<lparr>world := w1, kblocks := ?kb\<rparr>)
      = ret (r, Some d', s\<lparr>world := w1, kblocks := ?kb\<rparr>\<lparr>world := w\<rparr>)" "length d' = length b"
    by blast
  have "s\<lparr>world := w1, kblocks := ?kb\<rparr>\<lparr>world := w\<rparr> = s\<lparr>world := w, kblocks := ?kb\<rparr>" by simp
  note C = C0 [unfolded this]
  show ?thesis
  proof (cases "r1 < 0")
    case True
    then have "read_cluster_with k dev n (Some b) s = ret (r1, Some b, s\<lparr>world := w1, kblocks := ?kb\<rparr>)"
      by (simp add: read_cluster_with_eq [OF ok init dev] D)
    then show ?thesis using kp by blast
  next
    case False
    then have "read_cluster_with k dev n (Some b) s
        = ret (if r < 0 then r else 0, Some d', s\<lparr>world := w, kblocks := ?kb\<rparr>)"
      using C by (simp add: read_cluster_with_eq [OF ok init dev] D run_simps)
    then show ?thesis using kp C(2) by blast
  qed
qed

lemma read_cluster_call_returns:
  assumes "dev_law k" and ok: "kpool_ok s"
    and b: "g_clusterPoolInitialized s \<noteq> 0 \<Longrightarrow> 512 * nat (g_sectorsPerCluster s) \<le> length b"
  shows "\<exists>r b' w kb. read_cluster_call k dv n (Some b) s = ret (r, Some b', s\<lparr>world := w, kblocks := kb\<rparr>)
    \<and> length b' = length b \<and> kpool_ok (s\<lparr>world := w, kblocks := kb\<rparr>)"
proof (cases "device_ready dv s \<and> g_clusterPoolInitialized s \<noteq> 0")
  case True
  then show ?thesis
    using read_cluster_with_returns [of "device_read k dv s", OF device_read_length [OF assms(1)] ok _ b] 
    by (simp add: read_cluster_call_ready)
next
  case False
  then have "read_cluster_call k dv n (Some b) s = ret (if device_ready dv s then -2 else -1, Some b, s)"
    by (cases dv) (auto simp: emmc_read_defs)
  then have "read_cluster_call k dv n (Some b) s
      = ret (if device_ready dv s then -2 else -1, Some b, s\<lparr>world := world s, kblocks := kblocks s\<rparr>)"
    by simp
  moreover have "kpool_ok (s\<lparr>world := world s, kblocks := kblocks s\<rparr>)" using ok by simp
  ultimately show ?thesis by blast
qed

lemma read_sector_call_returns:
  assumes "dev_law k" and "512 \<le> length b"
  shows "\<exists>r b' w. read_sector_call k dv n (Some b) s = ret (r, Some b', s\<lparr>world := w\<rparr>) \<and> length b' = length b"
proof (cases "device_ready dv s")
  case True
  then show ?thesis
    using read_sector_with_returns [of "device_read k dv s", OF device_read_length [OF assms(1)] assms(2)]
    by (simp add: read_sector_call_ready)
next
  case False
  then have "read_sector_call k dv n (Some b) s = ret (-1, Some b, s\<lparr>world := world s\<rparr>)"
    by (cases dv) (auto simp: emmc_read_defs)
  then show ?thesis by blast
qed

interpretation emmc_dev: block_device k "readSector k" "readCluster k" for k :: "'w kapi"
proof unfold_locales
  fix s :: "'w srv" and b :: "byte list" and n :: int
  assume "dev_law k" and "512 \<le> length b"
  then show "\<exists>r b' w. readSector k n (Some b) s = ret (r, Some b', s\<lparr>world := w\<rparr>) \<and> length b' = length b"
    using read_sector_call_returns [of k b Dev_emmc n s] by simp
next
  fix s :: "'w srv" and b :: "byte list" and n :: int
  assume "dev_law k" and "kpool_ok s"
    and "g_clusterPoolInitialized s \<noteq> 0 \<Longrightarrow> 512 * nat (g_sectorsPerCluster s) \<le> length b"
  then show "\<exists>r b' w kb. readCluster k n (Some b) s = ret (r, Some b', s\<lparr>world := w, kblocks := kb\<rparr>)
      \<and> length b' = length b \<and> kpool_ok (s\<lparr>world := w, kblocks := kb\<rparr>)"
    by (rule read_cluster_call_returns [where dv = Dev_emmc, unfolded read_cluster_call.simps])
qed

interpretation gc_dev: block_device k "readSectorGc k" "readClusterGc k" for k :: "'w kapi"
proof unfold_locales
  fix s :: "'w srv" and b :: "byte list" and n :: int
  assume "dev_law k" and "512 \<le> length b"
  then show "\<exists>r b' w. readSectorGc k n (Some b) s = ret (r, Some b', s\<lparr>world := w\<rparr>) \<and> length b' = length b"
    using read_sector_call_returns [of k b Dev_gc n s] by simp
next
  fix s :: "'w srv" and b :: "byte list" and n :: int
  assume "dev_law k" and "kpool_ok s"
    and "g_clusterPoolInitialized s \<noteq> 0 \<Longrightarrow> 512 * nat (g_sectorsPerCluster s) \<le> length b"
  then show "\<exists>r b' w kb. readClusterGc k n (Some b) s = ret (r, Some b', s\<lparr>world := w, kblocks := kb\<rparr>)
      \<and> length b' = length b \<and> kpool_ok (s\<lparr>world := w, kblocks := kb\<rparr>)"
    by (rule read_cluster_call_returns [where dv = Dev_gc, unfolded read_cluster_call.simps])
qed

interpretation ms_dev: block_device k "readSectorMs k" "readClusterMs k" for k :: "'w kapi"
proof unfold_locales
  fix s :: "'w srv" and b :: "byte list" and n :: int
  assume "dev_law k" and "512 \<le> length b"
  then show "\<exists>r b' w. readSectorMs k n (Some b) s = ret (r, Some b', s\<lparr>world := w\<rparr>) \<and> length b' = length b"
    using read_sector_call_returns [of k b Dev_ms n s] by simp
next
  fix s :: "'w srv" and b :: "byte list" and n :: int
  assume "dev_law k" and "kpool_ok s"
    and "g_clusterPoolInitialized s \<noteq> 0 \<Longrightarrow> 512 * nat (g_sectorsPerCluster s) \<le> length b"
  then show "\<exists>r b' w kb. readClusterMs k n (Some b) s = ret (r, Some b', s\<lparr>world := w, kblocks := kb\<rparr>)
      \<and> length b' = length b \<and> kpool_ok (s\<lparr>world := w, kblocks := kb\<rparr>)"
    by (rule read_cluster_call_returns [where dv = Dev_ms, unfolded read_cluster_call.simps])
qed


section \<open>Handlers that write\<close>

lemma handle_write_sector_handled:
  assumes "in_law u inbox" and ok: "srv_ok s"
  shows "handled s (handle_write_sector c call u s)"
proof -
  obtain complete buf' s' where
    R: "recv_loop u mem_store 516 0 (replicate 516 0) s = ret (complete, buf', s')" and ss: "same_srv s s'"
    using recv_loop_from [OF assms(1), of 0 "replicate 516 0" s] by auto
  have ok': "srv_ok s'" using ok by (simp add: srv_ok_same [OF ss])
  let ?s2 = "say (''psvemmc: execute command '' @ dec_str c) s'"
  let ?e = "call (dec32 buf') (drop 4 buf') ?s2"
  have ss2: "same_srv s' (snd (net_send u (packet c 0 ?e) (say_result c ?e ?s2)))"
    by (blast intro: same_srv_trans same_srv_say say_result_same net_send_same)
  have "handled s (ret (net_send u (packet c 0 ?e) (say_result c ?e ?s2)))"
    by (subst net_send_eq) (rule handled_same [OF ok' _ ss2], simp add: same_srv_fields [OF ss])
  then show ?thesis
    using R ok' fail_receive_handled [OF ok', of s c "packet c (-1) 0" u]
    by (simp add: handle_write_sector_def run_simps Let_def same_srv_fields [OF ss])
qed

lemma write_cluster_received:
  assumes "in_law u inbox" and ok: "srv_ok t" and init: "sv_clusterPoolInitialized t \<noteq> 0"
  obtains complete m s' where
    "recv_loop u (\<lambda>off bs m. blk_store (sv_clusterPoolPtr t) off bs m)
       (wrap32 (sv_bytesPerSector t * sv_sectorsPerCluster t)) 0 (ublocks t) t = ret (complete, m, s')"
    and "srv_ok (s'\<lparr>ublocks := m\<rparr>)"
    and "sv_clusterPoolInitialized (s'\<lparr>ublocks := m\<rparr>) = sv_clusterPoolInitialized t"
proof -
  from ok init obtain a b where P: "sv_clusterPoolPtr t = Block (sv_clusterPool t) a"
      "ublocks t (sv_clusterPool t) = Some b" "sv_bytesPerSector t = 512"
      "0 \<le> sv_sectorsPerCluster t" "sv_sectorsPerCluster t < 4194304"
      "length b = 512 * nat (sv_sectorsPerCluster t)"
    unfolding srv_ok_def by (blast elim: upool_okE)
  let ?emb = "\<lambda>b. (ublocks t)(sv_clusterPool t \<mapsto> b)"
  let ?put = "\<lambda>off bs m. blk_store (sv_clusterPoolPtr t) off bs m"
  have sz: "wrap32 (sv_bytesPerSector t * sv_sectorsPerCluster t) = int (length b)"
    using P(3-6) by (simp add: c_int_def)
  have put: "?put off bs (?emb b') = run_bind (mem_store off bs b') (\<lambda>b''. ret (?emb b''))" for off bs b'
    using P(1) by (simp add: blk_store_live)
  have e: "ublocks t = ?emb b" using P(2) by (simp add: fun_upd_idem)
  obtain complete b' s' where
    L: "recv_loop u mem_store (int (length b)) 0 b t = ret (complete, b', s')"
    and ss: "same_srv t s'" and lb: "length b' = length b"
    using recv_loop_from [OF assms(1), of 0 b t] by auto
  have L2: "recv_loop u ?put (int (length b)) 0 (ublocks t) t = ret (complete, ?emb b', s')"
    using recv_loop_embed [where put = ?put and emb = ?emb, OF put, of u "int (length b)" 0 b t] L e
    by (simp add: run_simps)
  have "?emb b' = (ublocks s')(sv_clusterPool s' \<mapsto> b')"
    by (simp add: same_srv_fields [OF ss])
  then have "srv_ok (s'\<lparr>ublocks := ?emb b'\<rparr>)"
    using ok init P(6) lb srv_ok_put_pool [of s' b']
    by (simp add: srv_ok_same [OF ss] same_srv_fields [OF ss])
  then show thesis
    by (intro that [OF L2 [folded sz]]) (simp_all add: same_srv_fields [OF ss])
qed

lemma handle_write_cluster_handled:
  assumes "in_law u inbox" and ok: "srv_ok s" and init: "sv_clusterPoolInitialized s \<noteq> 0"
  shows "handled s (handle_write_cluster c call u s)"
proof -
  obtain r bs w where R: "net_recv u 4 (replicate 4 0) s = ret (r, overlay bs (replicate 4 0), s\<lparr>world := w\<rparr>)"
    by (rule net_recv_from [OF assms(1), of 4 "replicate 4 0" s]) simp_all
  define s1 where "s1 = s\<lparr>world := w\<rparr>"
  have ok1: "srv_ok s1" "sv_clusterPoolInitialized s1 = sv_clusterPoolInitialized s"
    using ok by (simp_all add: s1_def srv_ok_same [OF same_srv_world])
  show ?thesis
  proof (cases "r = 4")
    case False
    then show ?thesis
      using R ok1 by (simp add: handle_write_cluster_def run_simps fail_receive_handled flip: s1_def)
  next
    case True
    obtain complete m s' where L: "recv_loop u (\<lambda>off bs m. blk_store (sv_clusterPoolPtr s1) off bs m)
       (wrap32 (sv_bytesPerSector s1 * sv_sectorsPerCluster s1)) 0 (ublocks s1) s1 = ret (complete, m, s')"
      and ok3: "srv_ok (s'\<lparr>ublocks := m\<rparr>)"
      and i3: "sv_clusterPoolInitialized (s'\<lparr>ublocks := m\<rparr>) = sv_clusterPoolInitialized s1"
      by (rule write_cluster_received [OF assms(1) ok1(1)]) (use init ok1(2) in auto)
    define s3 where "s3 = s'\<lparr>ublocks := m\<rparr>"
    note s3 = ok3 [folded s3_def] i3 [folded s3_def, unfolded ok1(2)]
    define s4 where "s4 = say (''psvemmc: execute command '' @ dec_str c) s3"
    have "same_srv s3 (snd (net_send u bs (say_result c e s4)))" for bs e
      unfolding s4_def by (blast intro: same_srv_trans same_srv_say say_result_same net_send_same)
    then have ans: "handled s (ret (net_send u bs (say_result c e s4)))" for bs e
      by (subst net_send_eq) (rule handled_same [OF s3])
    show ?thesis
      unfolding handle_write_cluster_def R run_bind_ret prod.case s1_def [symmetric] True L Let_def
        s3_def [symmetric] s4_def [symmetric]
      using ans fail_receive_handled [OF s3] by simp
  qed
qed

end
