(* ===== verification/Server_Props.thy ===== *)
theory Server_Props
  imports Server_Safety
begin

text \<open>
  What the server's handlers guarantee, and where they do not: memory safety of every command
  under the documented behaviour of the kernel and the network, what a client receives for a
  request, and the commands that access the pool when there is none.
\<close>

definition ualloc_law :: "'w uapi \<Rightarrow> bool" where
  "ualloc_law u \<longleftrightarrow>
     (\<forall>nm n w. 0 \<le> fst (u_AllocMemBlock u nm n w)
        \<longrightarrow> 0 \<le> n \<and> length (fst (snd (u_AllocMemBlock u nm n w))) = nat n)"

definition sane_size :: "int \<Rightarrow> bool" where
  "sane_size spc \<longleftrightarrow> -4194304 \<le> spc \<and> spc < 4194304"

lemma srv_ok_say [simp]: "srv_ok (say m s) = srv_ok s"
  by (rule srv_ok_same [OF same_srv_say])

lemma srv_ok_send [simp]: "srv_ok (snd (net_send u bs s)) = srv_ok s"
  by (rule srv_ok_same [OF net_send_same])

lemma srv_ok_world [simp]: "srv_ok (s\<lparr>world := w\<rparr>) = srv_ok s"
  by (rule srv_ok_same [OF same_srv_world])

section \<open>Initialising and releasing both pools\<close>

lemma initializePool_ok:
  assumes "ualloc_law u" and "kpool_ok s" and "upool_ok s" and "sane_size spc"
    and "initializePool u bps spc s = (r, s')"
  shows "kpool_ok s' \<and> upool_ok s' \<and> g_clusterPoolInitialized s' = g_clusterPoolInitialized s
    \<and> g_sectorsPerCluster s' = g_sectorsPerCluster s
    \<and> (if r = 0 then sv_clusterPoolInitialized s = 0 \<and> sv_clusterPoolInitialized s' = 1 \<and> bps = 512
         \<and> sv_sectorsPerCluster s' = spc
       else sv_clusterPoolInitialized s' = sv_clusterPoolInitialized s
         \<and> (sv_clusterPoolInitialized s \<noteq> 0 \<longrightarrow> s' = s))"
proof -
  obtain uid c w1 where A: "u_AllocMemBlock u ''cluster_pool'' (512 * spc) (world s) = (uid, c, w1)"
    by (metis prod_cases3)
  obtain r2 a w2 where B: "u_GetMemBlockBase u uid w1 = (r2, a, w2)"
    by (metis prod_cases3)
  have w: "wrap32 (512 * spc) = 512 * spc" using assms(4) by (simp add: c_int_def sane_size_def)
  have l: "0 \<le> uid \<Longrightarrow> 0 \<le> 512 * spc \<and> length c = nat (512 * spc)"
    using assms(1) [unfolded ualloc_law_def, rule_format, of "''cluster_pool''" "512 * spc" "world s"] A
    by simp
  show ?thesis
    using assms(2-5) A B w l
    by (auto simp: initializePool_def kcall2_eq SD_DEFAULT_SECTOR_SIZE_def Let_def kpool_ok_def
        upool_ok_def nat_mult_distrib sane_size_def split: if_splits)
qed

lemma psvemmcInitialize_srv:
  fixes s :: "'w srv"
  assumes "psvemmcInitialize k bps spc s = (r, s')"
  shows "ublocks s' = ublocks s \<and> sv_clusterPoolPtr s' = sv_clusterPoolPtr s
    \<and> sv_clusterPool s' = sv_clusterPool s \<and> sv_bytesPerSector s' = sv_bytesPerSector s
    \<and> sv_sectorsPerCluster s' = sv_sectorsPerCluster s
    \<and> sv_clusterPoolInitialized s' = sv_clusterPoolInitialized s
    \<and> (if r = 0 then g_clusterPoolInitialized s = 0 \<and> g_clusterPoolInitialized s' = 1
         \<and> g_sectorsPerCluster s' = spc
       else g_clusterPoolInitialized s' = g_clusterPoolInitialized s
         \<and> (g_clusterPoolInitialized s \<noteq> 0 \<longrightarrow> s' = s))"
  using assms
  by (auto simp: psvemmcInitialize_def kcall2_eq Let_def split: if_splits)

lemma upool_ok_cong:
  "ublocks s' = ublocks s \<Longrightarrow> sv_clusterPoolPtr s' = sv_clusterPoolPtr s \<Longrightarrow>
   sv_clusterPool s' = sv_clusterPool s \<Longrightarrow> sv_bytesPerSector s' = sv_bytesPerSector s \<Longrightarrow>
   sv_sectorsPerCluster s' = sv_sectorsPerCluster s \<Longrightarrow>
   sv_clusterPoolInitialized s' = sv_clusterPoolInitialized s \<Longrightarrow> upool_ok s' = upool_ok s"
  by (simp add: upool_ok_def)

lemma psvemmcDeinitialize_srv:
  fixes s :: "'w srv"
  assumes "psvemmcDeinitialize k s = (r, s')"
  shows "ublocks s' = ublocks s \<and> sv_clusterPoolPtr s' = sv_clusterPoolPtr s
    \<and> sv_clusterPool s' = sv_clusterPool s \<and> sv_bytesPerSector s' = sv_bytesPerSector s
    \<and> sv_sectorsPerCluster s' = sv_sectorsPerCluster s
    \<and> sv_clusterPoolInitialized s' = sv_clusterPoolInitialized s
    \<and> ((\<forall>w. 0 \<le> fst (k_FreeMemBlock k (g_clusterPool s) w)) \<longrightarrow> g_clusterPoolInitialized s' = 0)"
  using assms
  by (auto simp: psvemmcDeinitialize_def kcall_eq Let_def simp flip: not_le split: if_splits)

lemma deinitializePool_ok:
  assumes "deinitializePool u s = (r, s')" and "upool_ok s" and "kpool_ok s"
  shows "upool_ok s' \<and> kpool_ok s' \<and> g_clusterPoolInitialized s' = g_clusterPoolInitialized s
    \<and> sv_sectorsPerCluster s' = sv_sectorsPerCluster s \<and> sv_clusterPoolPtr s' = sv_clusterPoolPtr s
    \<and> sv_bytesPerSector s' = sv_bytesPerSector s \<and> g_sectorsPerCluster s' = g_sectorsPerCluster s
    \<and> (if r = 0 then sv_clusterPoolInitialized s' = 0 \<and> ublocks s' (sv_clusterPool s) = None
         \<and> sv_clusterPoolInitialized s \<noteq> 0
       else sv_clusterPoolInitialized s' = sv_clusterPoolInitialized s)"
  using assms
  by (auto simp: deinitializePool_def kcall_eq Let_def upool_ok_def kpool_ok_def split: if_splits)


section \<open>Every command is safe while the pool is there\<close>

text \<open>The size an initialisation asks for is read from the stream.\<close>

definition sane_request :: "('w \<Rightarrow> byte list) \<Rightarrow> 'w srv \<Rightarrow> bool" where
  "sane_request inbox s \<longleftrightarrow> sane_size (dec32 (take 4 (drop 4 (inbox (world s)))))"

definition free_law :: "'w kapi \<Rightarrow> bool" where
  "free_law k \<longleftrightarrow> (\<forall>uid w. 0 \<le> fst (k_FreeMemBlock k uid w))"

lemma dec32_take: "dec32 (take 4 bs) = dec32 bs"
  by (simp add: dec32_def)

lemma handle_command_2_ok:
  assumes "alloc_law k" and "ualloc_law u" and "in_law u inbox" and ok: "srv_ok s"
    and sane: "sane_request inbox s"
  shows "\<exists>r s'. handle_command_2 k u s = ret (r, s') \<and> srv_ok s'"
proof (cases "sv_clusterPoolInitialized s = 0")
  case False
  then show ?thesis
    using ok by (simp add: handle_command_2_def Let_def run_simps)
next
  case True
  obtain r bs w where R: "net_recv u 8 (replicate 8 0) s = ret (r, overlay bs (replicate 8 0), s\<lparr>world := w\<rparr>)"
    and l: "length bs = nat r" and i: "inbox (world s) = bs @ inbox w"
    by (rule net_recv_from [OF assms(3), of 8 "replicate 8 0" s]) simp_all
  define s1 where "s1 = s\<lparr>world := w\<rparr>"
  have ok1: "srv_ok s1" "sv_clusterPoolInitialized s1 = 0"
    using ok True by (simp_all add: s1_def srv_ok_same [OF same_srv_world])
  have start: "handle_command_2 k u s =
      (let req = overlay bs (replicate 8 0) in if r \<noteq> 8
        then (let s2 = say ''psvemmc: failed to receive command 2'' s1
              in ret (-1, snd (net_send u (packet 2 (-1) 0) s2)))
        else
          let bytesPerSector = dec32 req;
              sectorsPerCluster = dec32 (drop 4 req);
              s2 = say ''psvemmc: execute command 2'' s1;
              (vita_err, s3) = initializePool u bytesPerSector sectorsPerCluster s2
          in if vita_err \<noteq> 0
             then (let s4 = say ''psvemmc: failed to initialize pool'' s3
                   in ret (net_send u (packet 2 vita_err 0) s4))
             else
               let (proxy_err, s4) = psvemmcInitialize k bytesPerSector sectorsPerCluster s3;
                   s5 = (if proxy_err \<noteq> 0 then say ''psvemmc: failed to execute command 2'' s4 else s4)
               in ret (net_send u (packet 2 vita_err proxy_err) s5))"
    using True by (simp add: handle_command_2_def R run_bind_ret s1_def Let_def)
  have send: "\<exists>r s'. ret (net_send u b t) = ret (r, s') \<and> srv_ok s'" if "srv_ok t" for b t
    using that srv_ok_send [of u b t] by (cases "net_send u b t") (auto simp: run_simps)
  show ?thesis
  proof (cases "r = 8")
    case False
    then show ?thesis
      using ok1 by (simp add: start Let_def run_simps)
  next
    case True
    have req: "overlay bs (replicate 8 0) = bs" using True l by simp
    define spc where "spc = dec32 (drop 4 bs)"
    have "take 4 (drop 4 (inbox (world s))) = drop 4 bs" using i l True by simp
    then have sane': "sane_size spc" using sane by (simp add: sane_request_def spc_def)
    define s2 where "s2 = say ''psvemmc: execute command 2'' s1"
    have ok2: "srv_ok s2" "sv_clusterPoolInitialized s2 = 0"
      using ok1 by (simp_all add: s2_def srv_ok_same [OF same_srv_say] frame_simps)
    obtain v s3 where I: "initializePool u (dec32 bs) spc s2 = (v, s3)" by fastforce
    obtain p s4 where K: "psvemmcInitialize k (dec32 bs) spc s3 = (p, s4)" by fastforce
    have I2: "kpool_ok s3" "upool_ok s3" "g_clusterPoolInitialized s3 = g_clusterPoolInitialized s2"
        "v = 0 \<Longrightarrow> sv_clusterPoolInitialized s3 = 1 \<and> sv_sectorsPerCluster s3 = spc"
      using initializePool_ok [OF assms(2) _ _ sane' I] ok2 by (auto simp: srv_ok_def split: if_splits)
    have g0: "g_clusterPoolInitialized s3 = 0"
      using ok2 I2(3) by (auto simp: srv_ok_def pools_agree_def)
    then have ok3: "srv_ok s3" using I2 by (simp add: srv_ok_def pools_agree_def)
    have kp4: "kpool_ok s4"
      using psvemmcInitialize_ok [OF assms(1) I2(1), of spc "dec32 bs"] sane' K by (simp add: sane_size_def)
    have up4: "upool_ok s4"
      using psvemmcInitialize_srv [OF K] I2(2) upool_ok_cong [of s4 s3] by simp
    have ag4: "v = 0 \<Longrightarrow> pools_agree s4"
      using psvemmcInitialize_srv [OF K] I2(4) g0 by (auto simp: pools_agree_def split: if_splits)
    have "v = 0 \<Longrightarrow> srv_ok s4" using kp4 up4 ag4 by (simp add: srv_ok_def)
    then have ok4: "v = 0 \<Longrightarrow> srv_ok (if p \<noteq> 0 then say m s4 else s4)" for m by simp
    have ok3': "srv_ok (say m s3)" for m using ok3 by simp
    show ?thesis
      unfolding start req Let_def spc_def [symmetric] s2_def [symmetric] I K prod.case
      using True send [OF ok3'] send [OF ok4] by auto
  qed
qed

lemma handle_command_3_ok:
  assumes "free_law k" and ok: "srv_ok s"
  shows "srv_ok (snd (handle_command_3 k u s))"
proof (cases "sv_clusterPoolInitialized s = 0")
  case True
  then show ?thesis
    using ok by (simp add: handle_command_3_def Let_def)
next
  case False
  define s1 where "s1 = say ''psvemmc: execute command 3'' s"
  have ok1: "srv_ok s1" using ok by (simp add: s1_def srv_ok_same [OF same_srv_say])
  obtain p s2 where K: "psvemmcDeinitialize k s1 = (p, s2)" by fastforce
  define s3 where "s3 = (if p \<noteq> 0 then say ''psvemmc: failed to execute command 3'' s2 else s2)"
  obtain v s4 where D: "deinitializePool u s3 = (v, s4)" by fastforce
  have k2: "kpool_ok s2" using psvemmcDeinitialize_ok [of s1 k] ok1 K by (simp add: srv_ok_def)
  have u2: "upool_ok s2"
    using psvemmcDeinitialize_srv [OF K] ok1 upool_ok_cong [of s2 s1] by (simp add: srv_ok_def)
  have g2: "g_clusterPoolInitialized s2 = 0"
    using psvemmcDeinitialize_srv [OF K] assms(1) by (simp add: free_law_def)
  have ss: "same_srv s2 s3" by (simp add: s3_def)
  have "srv_ok s4"
    using deinitializePool_ok [OF D] k2 u2 g2 same_srv_fields [OF ss] srv_ok_same [OF ss]
    by (auto simp: srv_ok_def pools_agree_def)
  then have "srv_ok (snd (net_send u b (if v \<noteq> 0 then say m s4 else s4)))" for b m
    by (simp add: srv_ok_same [OF net_send_same] srv_ok_same [OF same_srv_say])
  then show ?thesis
    using False unfolding handle_command_3_def Let_def s1_def [symmetric] K prod.case s3_def [symmetric] D
    by simp
qed

lemma handle_ping_ok:
  assumes "srv_ok s"
  shows "srv_ok (snd (handle_command_0 u s))" and "srv_ok (snd (handle_command_1 u s))"
  using assms by (simp_all add: handle_command_0_def handle_command_1_def Let_def)

definition cluster_command :: "int \<Rightarrow> bool" where
  "cluster_command c \<longleftrightarrow> c \<in> {5, 7, 9, 11, 13, 15}"

lemma handledE: "handled s m \<Longrightarrow> \<exists>r s'. m = ret (r, s') \<and> srv_ok s'"
  by (auto simp: handled_def)



lemma sample_laws: "ualloc_law pipe_user" "free_law quiet_kernel"
  by (auto simp: ualloc_law_def pipe_user_def free_law_def quiet_kernel_def)

lemma srv_boot_ok: "srv_ok (srv_boot w)"
  by (simp add: srv_ok_def kpool_ok_def upool_ok_def pools_agree_def boot_simps)

text \<open>The request a client sends to initialise pools of two sectors a cluster.\<close>

definition init_request :: "byte list" where
  "init_request = [0, 2, 0, 0, 2, 0, 0, 0]"



section \<open>What a client receives\<close>

lemma enc32_packet: "c_int c \<Longrightarrow> c_int v \<Longrightarrow> c_int p \<Longrightarrow>
   dec32 (packet c v p @ rest) = c \<and> dec32 (drop 4 (packet c v p @ rest)) = v
   \<and> dec32 (drop 8 (packet c v p @ rest)) = p"
  by (simp add: packet_def)





section \<open>Commands without a pool\<close>

text \<open>What a command 3 leaves behind when the server's block has been released: a pointer to
  a block that is no more, and the sizes of the pool that was.\<close>

lemma handle_command_3_releases:
  assumes "free_law k" and ok: "srv_ok s" and init: "sv_clusterPoolInitialized s \<noteq> 0"
    and D: "handle_command_3 k u s = (r, s1)" and gone: "sv_clusterPoolInitialized s1 = 0"
  shows "\<exists>x. sv_clusterPoolPtr s1 = Block (sv_clusterPool s) x
    \<and> ublocks s1 (sv_clusterPool s) = None \<and> sv_bytesPerSector s1 = 512
    \<and> sv_sectorsPerCluster s1 = sv_sectorsPerCluster s \<and> sv_sectorsPerCluster s < 4194304
    \<and> g_clusterPoolInitialized s1 = 0"
proof -
  define a1 where "a1 = say ''psvemmc: execute command 3'' s"
  have ok1: "srv_ok a1" and a1: "sv_clusterPoolInitialized a1 \<noteq> 0"
      "sv_clusterPool a1 = sv_clusterPool s" "sv_sectorsPerCluster a1 = sv_sectorsPerCluster s"
    using ok init by (simp_all add: a1_def frame_simps)
  obtain p a2 where K: "psvemmcDeinitialize k a1 = (p, a2)" by fastforce
  define a3 where "a3 = (if p \<noteq> 0 then say ''psvemmc: failed to execute command 3'' a2 else a2)"
  obtain v a4 where F: "deinitializePool u a3 = (v, a4)" by fastforce
  note K1 = psvemmcDeinitialize_srv [OF K]
  have u1: "upool_ok a1" using ok1 by (simp add: srv_ok_def)
  obtain x b where P: "sv_clusterPoolPtr a1 = Block (sv_clusterPool a1) x" "sv_bytesPerSector a1 = 512"
      "sv_sectorsPerCluster a1 < 4194304"
    by (rule upool_okE [OF u1 a1(1)])
  have "kpool_ok a2" using psvemmcDeinitialize_ok [of a1 k] ok1 K by (simp add: srv_ok_def)
  then have k3: "kpool_ok a3" "g_clusterPoolInitialized a3 = 0"
    using K1 assms(1) by (simp_all add: a3_def free_law_def frame_simps)
  have "upool_ok a2" using K1 u1 upool_ok_cong [of a2 a1] by simp
  then have u3: "upool_ok a3" by (simp add: upool_ok_def a3_def frame_simps)
  have A3: "sv_clusterPoolPtr a3 = sv_clusterPoolPtr a1" "sv_clusterPool a3 = sv_clusterPool a1"
      "sv_bytesPerSector a3 = sv_bytesPerSector a1" "sv_sectorsPerCluster a3 = sv_sectorsPerCluster a1"
      "sv_clusterPoolInitialized a3 = sv_clusterPoolInitialized a1"
    using K1 by (simp_all add: a3_def frame_simps)
  note F1 = deinitializePool_ok [OF F u3 k3(1)]
  define a5 where "a5 = (if v \<noteq> 0 then say ''psvemmc: failed to deinitialize pool'' a4 else a4)"
  have s1: "s1 = snd (net_send u (packet 3 v p) a5)"
    using D init unfolding handle_command_3_def Let_def a1_def [symmetric] K prod.case
      a3_def [symmetric] F a5_def [symmetric] by simp
  have ss: "same_srv a4 s1"
    unfolding s1 a5_def by (auto intro: same_srv_trans same_srv_say net_send_same)
  have "v = 0"
    using F1 gone same_srv_fields [OF ss] a1 A3(5) by (auto split: if_splits)
  then show ?thesis
    using F1 A3 a1 P k3(2) same_srv_fields [OF ss] by simp
qed

lemma send_loop_dead:
  assumes "sv_clusterPoolPtr t = Block uid x" and "ublocks t uid = None" and "0 < n"
  shows "send_loop u (\<lambda>off n. blk_load (sv_clusterPoolPtr t) off n (ublocks t)) n 0 t = fail DeadBlock"
  using assms by (subst send_loop.simps) (simp add: blk_load_def run_simps)

text \<open>C28: The pool pointer is not reset, and the cluster commands do not ask whether the pool
  is initialised. After a command 3 that released the server's pool, a read-cluster command
  whose cluster number arrives sends from the released block: it faults, whatever the system
  call answers. (Stated for the eMMC; the state is any state that satisfies the invariant, with
  a pool of at least one sector.)\<close>

theorem read_cluster_after_deinit_faults:
  assumes "free_law k" and "srv_ok s"
    and "sv_clusterPoolInitialized s \<noteq> 0" and pos: "0 < sv_sectorsPerCluster s"
    and "handle_command_3 k u s = (r, s1)" and "sv_clusterPoolInitialized s1 = 0"
    and R: "net_recv u 4 (replicate 4 0) s1 = ret (4, req, t)"
  shows "handle_command_5 k u s1 = fail DeadBlock"
proof -
  obtain x where S: "sv_clusterPoolPtr s1 = Block (sv_clusterPool s) x"
      "ublocks s1 (sv_clusterPool s) = None" "sv_bytesPerSector s1 = 512"
      "sv_sectorsPerCluster s1 = sv_sectorsPerCluster s" "sv_sectorsPerCluster s < 4194304"
      "g_clusterPoolInitialized s1 = 0"
    using handle_command_3_releases [OF assms(1-3,5,6)] by blast
  have st: "same_srv s1 t"
    using R by (auto simp: net_recv_def kcall2_eq run_simps split: prod.splits)
  define t2 where "t2 = say (''psvemmc: execute command '' @ dec_str 5) t"
  have st2: "same_srv s1 t2" unfolding t2_def by (rule same_srv_trans [OF st same_srv_say])
  have T: "sv_clusterPoolPtr t2 = Block (sv_clusterPool s) x" "ublocks t2 (sv_clusterPool s) = None"
      "g_clusterPoolInitialized t2 = 0"
    using S by (simp_all add: same_srv_fields [OF st2])
  obtain e where C: "readCluster k (dec32 req) None t2 = ret (e, None, t2)"
    using T(3) by (cases "g_emmcCtxInitialized t2 = 0") (auto simp: readCluster_def)
  define t6 where "t6 = snd (net_send u (packet 5 0 e) (say_result 5 e t2))"
  have ss6: "same_srv s1 t6"
    unfolding t6_def by (blast intro: same_srv_trans [OF st2] same_srv_trans say_result_same net_send_same)
  have T6: "sv_clusterPoolPtr t6 = Block (sv_clusterPool s) x" "ublocks t6 (sv_clusterPool s) = None"
      "wrap32 (sv_bytesPerSector t6 * sv_sectorsPerCluster t6) = 512 * sv_sectorsPerCluster s"
    using S pos by (simp_all add: same_srv_fields [OF ss6] c_int_def)
  have "pointee (sv_clusterPoolPtr t2) (ublocks t2) = None"
    using T by (simp add: pointee_def)
  then have "handle_command_5 k u s1 = send_loop u (\<lambda>off n. blk_load (sv_clusterPoolPtr t6) off n (ublocks t6))
      (wrap32 (sv_bytesPerSector t6 * sv_sectorsPerCluster t6)) 0 t6"
    using C unfolding handle_command_5_def handle_read_cluster_def R run_bind_ret prod.case
      t2_def [symmetric] Let_def
    by (simp add: run_bind_ret put_pool_def t6_def)
  also have "\<dots> = fail DeadBlock"
    unfolding T6(3) using pos by (intro send_loop_dead [OF T6(1,2)]) simp
  finally show ?thesis .
qed


definition pooled_server :: "byte list \<Rightarrow> pipe srv" where
  "pooled_server bs = (srv_boot (bs, []))\<lparr>sv_bytesPerSector := 512, sv_sectorsPerCluster := 1,
     sv_clusterPoolInitialized := 1, sv_clusterPool := 3, sv_clusterPoolPtr := Block 3 8192,
     ublocks := [3 \<mapsto> replicate 512 0]\<rparr>"

lemma pooled_server_ok: "srv_ok (pooled_server bs)"
  by (simp add: srv_ok_def kpool_ok_def upool_ok_def pools_agree_def boot_simps pooled_server_def)

theorem read_cluster_after_deinit_faults_witness:
  "handle_command_5 quiet_kernel pipe_user
     (snd (handle_command_3 quiet_kernel pipe_user (pooled_server [9, 0, 0, 0]))) = fail DeadBlock"
proof -
  let ?s = "pooled_server [9, 0, 0, 0]"
  obtain r s1 where D: "handle_command_3 quiet_kernel pipe_user ?s = (r, s1)" by fastforce
  have s1: "sv_clusterPoolInitialized s1 = 0" "fst (world s1) = [9, 0, 0, 0]"
    using D by (auto simp: handle_command_3_def pooled_server_def boot_simps say_def psvemmcDeinitialize_def
        deinitializePool_def kcall_eq quiet_kernel_def pipe_user_def net_send_def Let_def)
  have R: "net_recv pipe_user 4 (replicate 4 0) s1
      = ret (4, [9, 0, 0, 0], s1\<lparr>world := ([], snd (world s1))\<rparr>)"
    using s1(2) by (cases "world s1")
      (simp add: net_recv_def kcall2_eq pipe_user_def Let_def mem_store_def overlay_at_def
        eval_nat_numeral run_simps)
  have "handle_command_5 quiet_kernel pipe_user s1 = fail DeadBlock"
    by (rule read_cluster_after_deinit_faults [OF sample_laws(2) pooled_server_ok _ _ D s1(1) R])
      (simp_all add: pooled_server_def)
  then show ?thesis using D by simp
qed

text \<open>The invariant's clause on the two sizes is needed. When the driver still has an older,
  larger pool (its own initialisation then answers -1, which the server reports but does not
  act on), a read-cluster command makes the driver copy its whole pool over the end of the
  server's block.\<close>

theorem larger_driver_pool_overruns:
  assumes cl: "copy_law k" and dl: "dev_law k" and kp: "kpool_ok s" and up: "upool_ok s"
    and g: "g_clusterPoolInitialized s \<noteq> 0" and v: "sv_clusterPoolInitialized s \<noteq> 0"
    and larger: "sv_sectorsPerCluster s < g_sectorsPerCluster s" and rdy: "g_emmcCtxInitialized s \<noteq> 0"
    and R: "net_recv u 4 (replicate 4 0) s = ret (4, req, s\<lparr>world := w\<rparr>)"
    and D: "k_SdifReadSectorAsync k (g_emmcCtx s) (wrap32 (g_sectorsPerCluster s * dec32 req))
              (g_sectorsPerCluster s) w = (r1, d, w1)" and "0 \<le> r1"
    and C: "k_MemcpyKernelToUser k True d w1 = (r2, n, w2)" and "0 \<le> r2"
  shows "handle_command_5 k u s = fail UserOverrun"
proof -
  obtain a b where P: "sv_clusterPoolPtr s = Block (sv_clusterPool s) a"
      "ublocks s (sv_clusterPool s) = Some b" "length b = 512 * nat (sv_sectorsPerCluster s)"
      "0 \<le> sv_sectorsPerCluster s"
    by (rule upool_okE [OF up v])
  define t where "t = say (''psvemmc: execute command '' @ dec_str 5) (s\<lparr>world := w\<rparr>)"
  have t: "kpool_ok t" "g_clusterPoolInitialized t \<noteq> 0" "g_emmcCtxInitialized t \<noteq> 0"
      "g_sectorsPerCluster t = g_sectorsPerCluster s" "g_emmcCtx t = g_emmcCtx s" "world t = w"
      "pointee (sv_clusterPoolPtr t) (ublocks t) = Some b"
    using kp g rdy P by (simp_all add: t_def say_def kpool_ok_def pointee_def)
  have ld: "length d = 512 * nat (g_sectorsPerCluster s)"
    using device_laws(1) [OF dl, of "g_emmcCtx s" "wrap32 (g_sectorsPerCluster s * dec32 req)"
        "g_sectorsPerCluster s" w] D by simp
  have n: "n = length d"
    using cl [unfolded copy_law_def, rule_format, of d w1] C assms(13) by simp
  have long: "\<not> length d \<le> length b" using ld P(3,4) larger by simp
  have over: "copy_to_user k (Some b) d (t\<lparr>world := w1, kblocks := m\<rparr>) = fail UserOverrun" for m
    using C n long by (simp add: copy_to_user_def kcall2_eq)
  have "readCluster k (dec32 req) (Some b) t = fail UserOverrun"
    using t assms(11) D over
    by (simp add: readCluster_def read_cluster_with_eq [OF t(1,2) device_laws(1) [OF dl]] run_simps)
  then show ?thesis
    unfolding handle_command_5_def handle_read_cluster_def R run_bind_ret prod.case t_def [symmetric]
    by (simp add: t(7) run_simps)
qed


theorem larger_driver_pool_overruns_witness:
  "handle_command_5 quiet_kernel pipe_user ((pooled_server [0, 0, 0, 0])\<lparr>g_emmcCtxInitialized := 1,
      g_bytesPerSector := 512, g_sectorsPerCluster := 2, g_clusterPoolInitialized := 1,
      g_clusterPool := 7, g_clusterPoolPtr := Block 7 4096, kblocks := [7 \<mapsto> replicate 1024 0]\<rparr>)
   = fail UserOverrun"
proof -
  let ?s = "(pooled_server [0, 0, 0, 0])\<lparr>g_emmcCtxInitialized := 1,
      g_bytesPerSector := 512, g_sectorsPerCluster := 2, g_clusterPoolInitialized := 1,
      g_clusterPool := 7, g_clusterPoolPtr := Block 7 4096, kblocks := [7 \<mapsto> replicate 1024 0]\<rparr>"
  have ok: "kpool_ok ?s" "upool_ok ?s"
    by (simp_all add: kpool_ok_def upool_ok_def pooled_server_def boot_simps)
  have R: "net_recv pipe_user 4 (replicate 4 0) ?s = ret (4, [0, 0, 0, 0], ?s\<lparr>world := ([], [])\<rparr>)"
    by (simp add: net_recv_def kcall2_eq pipe_user_def Let_def mem_store_def overlay_at_def
        eval_nat_numeral run_simps pooled_server_def boot_simps)
  have z: "dec32 [0, 0, 0, 0] = 0" by (simp add: dec32_def wrap32_def)
  show ?thesis
    by (rule larger_driver_pool_overruns [OF quiet_laws(3,2) ok _ _ _ _ R, where ?r1.0 = 0
          and ?r2.0 = 0 and d = "replicate 1024 0" and n = 1024 and ?w1.0 = "([], [])" and ?w2.0 = "([], [])"])
      (simp_all add: quiet_kernel_def pooled_server_def boot_simps z)
qed

end
