(* ===== verification/Server_Session.thy ===== *)
theory Server_Session
  imports Server_Props
begin

text \<open>
  Whole client sessions. \<open>session\<close> is the abstract protocol: a session is a list of commands,
  each dispatched in the state the last one left, until one fails, is unknown, or the stream
  ends. \<open>receive_commands\<close> implements it, and returns on every stream that ends.
\<close>

section \<open>The protocol as a relation\<close>

inductive session :: "'w kapi \<Rightarrow> 'w uapi \<Rightarrow> 'w srv \<Rightarrow> int list \<Rightarrow> 'w srv \<Rightarrow> bool"
  for k :: "'w kapi" and u :: "'w uapi" where
  hangup: "net_recv u 4 (enc32 (-1)) s = ret (n, word, s1) \<Longrightarrow> n \<le> 0 \<Longrightarrow>
     session k u s [] (say ''psvemmc: failed to receive data'' s1)"
| unknown: "net_recv u 4 (enc32 (-1)) s = ret (n, word, s1) \<Longrightarrow> 0 < n \<Longrightarrow>
     dispatch k u (dec32 word) s1 = None \<Longrightarrow>
     session k u s [dec32 word] (say ''psvemmc: unknown command'' s1)"
| failed: "net_recv u 4 (enc32 (-1)) s = ret (n, word, s1) \<Longrightarrow> 0 < n \<Longrightarrow>
     dispatch k u (dec32 word) s1 = Some (ret (r, s2)) \<Longrightarrow> r < 0 \<Longrightarrow>
     session k u s [dec32 word]
       (say (''psvemmc: failed to handle command '' @ dec_str (dec32 word)) s2)"
| handled_ok: "net_recv u 4 (enc32 (-1)) s = ret (n, word, s1) \<Longrightarrow> 0 < n \<Longrightarrow>
     dispatch k u (dec32 word) s1 = Some (ret (r, s2)) \<Longrightarrow> 0 \<le> r \<Longrightarrow>
     session k u s2 cs s' \<Longrightarrow> session k u s (dec32 word # cs) s'"

lemma dispatch_None_iff: "dispatch k u c s = None \<longleftrightarrow> c < 0 \<or> 15 < c"
proof
  show "dispatch k u c s = None \<Longrightarrow> c < 0 \<or> 15 < c"
    by (simp add: dispatch_def split: if_splits) presburger
qed (auto simp: dispatch_def)

text \<open>One turn of the loop, with the rest of the loop as a parameter.\<close>

lemma session_turn:
  assumes turn: "run_bind (net_recv u 4 (enc32 (-1)) s) (\<lambda>(recvLen, word, s1).
      if recvLen \<le> 0 then ret (say ''psvemmc: failed to receive data'' s1)
      else case dispatch k u (dec32 word) s1 of
          None \<Rightarrow> ret (say ''psvemmc: unknown command'' s1)
        | Some m \<Rightarrow> run_bind m (\<lambda>(r, s2).
            if r < 0 then ret (say (''psvemmc: failed to handle command '' @ dec_str (dec32 word)) s2)
            else f s2)) = ret s'"
    and rest: "\<And>s2. f s2 = ret s' \<Longrightarrow> \<exists>cs. session k u s2 cs s'"
  shows "\<exists>cs. session k u s cs s'"
proof -
  obtain n word s1 where R: "net_recv u 4 (enc32 (-1)) s = ret (n, word, s1)"
    and B: "(if n \<le> 0 then ret (say ''psvemmc: failed to receive data'' s1)
      else case dispatch k u (dec32 word) s1 of
          None \<Rightarrow> ret (say ''psvemmc: unknown command'' s1)
        | Some m \<Rightarrow> run_bind m (\<lambda>(r, s2).
            if r < 0 then ret (say (''psvemmc: failed to handle command '' @ dec_str (dec32 word)) s2)
            else f s2)) = ret s'"
    using turn by (auto simp: run_bind_eq_ret)
  show ?thesis
  proof (cases "n \<le> 0")
    case True
    with R B show ?thesis by (auto simp: ret_eq intro: session.hangup)
  next
    case False
    then have n: "0 < n" by simp
    show ?thesis
    proof (cases "dispatch k u (dec32 word) s1")
      case None
      with B False session.unknown [OF R n None] show ?thesis by (auto simp: ret_eq)
    next
      case (Some m)
      with B False obtain r s2 where m: "m = ret (r, s2)"
        and E: "(if r < 0 then ret (say (''psvemmc: failed to handle command '' @ dec_str (dec32 word)) s2)
            else f s2) = ret s'"
        by (auto simp: run_bind_eq_ret)
      show ?thesis
      proof (cases "r < 0")
        case True
        with E session.failed [OF R n Some [unfolded m] True] show ?thesis by (auto simp: ret_eq)
      next
        case nn: False
        with E rest obtain cs where "session k u s2 cs s'" by auto
        then have "session k u s (dec32 word # cs) s'"
          using session.handled_ok [OF R n Some [unfolded m]] nn by simp
        then show ?thesis by blast
      qed
    qed
  qed
qed

lemma receive_commands_session:
  assumes "receive_commands k u s = ret s'"
  shows "\<exists>cs. session k u s cs s'"
proof -
  define P where "P k u s y \<longleftrightarrow> (\<forall>s'. y = Inr s' \<longrightarrow> (\<exists>cs. session k u s cs s'))"
    for k u and s :: "'a srv" and y :: "fault + 'a srv"
  have "P k u s (Inr s')"
  proof (rule receive_commands.raw_induct [where P = P])
    show "receive_commands k u s = Some (Inr s')" using assms by (simp add: ret_def)
  next
    fix f k u s y
    assume IH: "\<And>k u s y. f k u s = Some y \<Longrightarrow> P k u s y"
      and turn: "run_bind (net_recv u 4 (enc32 (-1)) s) (\<lambda>(recvLen, word, s1).
      if recvLen \<le> 0 then ret (say ''psvemmc: failed to receive data'' s1)
      else case dispatch k u (dec32 word) s1 of
          None \<Rightarrow> ret (say ''psvemmc: unknown command'' s1)
        | Some m \<Rightarrow> run_bind m (\<lambda>(r, s2).
            if r < 0 then ret (say (''psvemmc: failed to handle command '' @ dec_str (dec32 word)) s2)
            else f k u s2)) = Some y"
    show "P k u s y"
      unfolding P_def
    proof (intro allI impI)
      fix s'
      assume y: "y = Inr s'"
      show "\<exists>cs. session k u s cs s'"
        by (rule session_turn [OF turn [unfolded y, folded ret_def]])
          (use IH in \<open>auto simp: ret_def P_def\<close>)
    qed
  qed
  then show ?thesis by (simp add: P_def)
qed

lemma session_receive_commands:
  "session k u s cs s' \<Longrightarrow> receive_commands k u s = ret s'"
  by (induction rule: session.induct) (subst receive_commands.simps; simp add: run_simps)+


text \<open>In a session every command but the last is one of the sixteen known ones, and the
  last one is known too or ends the session.\<close>

theorem session_commands_known:
  "session k u s cs s' \<Longrightarrow> \<forall>c \<in> set (butlast cs). 0 \<le> c \<and> c \<le> 15"
proof (induction rule: session.induct)
  case (handled_ok s n word s1 r s2 cs s')
  have "0 \<le> dec32 word \<and> dec32 word \<le> 15"
    using handled_ok(3) dispatch_None_iff [of k u "dec32 word" s1] by auto
  with handled_ok show ?case by auto
qed auto


lemma pipe_word:
  assumes "length bs = 4"
  shows "net_recv pipe_user 4 (enc32 (-1)) (srv_boot (bs @ rest, out)) = ret (4, bs, srv_boot (rest, out))"
  using assms
  by (simp add: net_recv_def kcall2_eq pipe_user_def Let_def boot_simps run_simps overlay_at_0)

lemma ping_then_unknown:
  "\<exists>s'. session quiet_kernel pipe_user (srv_boot ([0, 0, 0, 0, 77, 0, 0, 0], [])) [0, 77] s'"
proof -
  let ?s = "srv_boot ([0, 0, 0, 0] @ [77, 0, 0, 0], []) :: pipe srv"
  let ?t = "srv_boot ([77, 0, 0, 0], []) :: pipe srv"
  have R: "net_recv pipe_user 4 (enc32 (-1)) ?s = ret (4, [0, 0, 0, 0], ?t)"
    by (rule pipe_word) simp
  have c: "dec32 [0, 0, 0, 0] = 0" "dec32 [77, 0, 0, 0] = 77" by (simp_all add: dec32_def wrap32_def)
  obtain r s2 where H: "handle_command_0 pipe_user ?t = (r, s2)" by fastforce
  have s2: "0 \<le> r" "fst (world s2) = [77, 0, 0, 0]"
    using H by (auto simp: handle_command_0_def net_send_def kcall_eq pipe_user_def say_def boot_simps Let_def)
  have "net_recv pipe_user 4 (enc32 (-1)) s2 = ret (4, [77, 0, 0, 0], s2\<lparr>world := ([], snd (world s2))\<rparr>)"
    using s2(2) by (cases "world s2") (simp add: net_recv_def kcall2_eq pipe_user_def Let_def run_simps overlay_at_0)
  then have "session quiet_kernel pipe_user s2 [dec32 [77, 0, 0, 0]]
      (say ''psvemmc: unknown command'' (s2\<lparr>world := ([], snd (world s2))\<rparr>))"
    by (rule session.unknown) (simp_all add: c dispatch_None_iff)
  then have "session quiet_kernel pipe_user ?s (dec32 [0, 0, 0, 0] # [dec32 [77, 0, 0, 0]])
      (say ''psvemmc: unknown command'' (s2\<lparr>world := ([], snd (world s2))\<rparr>))"
    by (intro session.handled_ok [OF R, where r = r and ?s2.0 = s2])
      (simp_all add: c dispatch_def H s2)
  then show ?thesis unfolding c by auto
qed

theorem session_commands_known_witness:
  "\<exists>c s'. session quiet_kernel pipe_user (srv_boot ([0, 0, 0, 0, 77, 0, 0, 0], [])) [c, 77] s'
     \<and> 0 \<le> c \<and> c \<le> 15"
proof -
  obtain s' where S: "session quiet_kernel pipe_user (srv_boot ([0, 0, 0, 0, 77, 0, 0, 0], [])) [0, 77] s'"
    using ping_then_unknown by blast
  from session_commands_known [OF S] S show ?thesis by auto
qed

text \<open>A command word that arrives in pieces is not reassembled. When the first receive of a
  command brings one to three bytes, the word keeps the 0xff of its initial value in its top
  byte, so it is negative: no command is dispatched and the session ends as for an unknown
  command.\<close>

theorem short_command_word_ends_session:
  assumes "in_law u inbox"
    and R: "u_NetRecv u (cli_sock s) 4 (world s) = (n, bs, w)" and n: "0 < n" "n < 4"
  shows "receive_commands k u s = ret (say ''psvemmc: unknown command'' (s\<lparr>world := w\<rparr>))"
proof -
  have l: "length bs = nat n" using in_lawD [OF assms(1) R] by simp
  define word where "word = overlay bs (enc32 (-1))"
  have lw: "length word = 4" using l n by (simp add: word_def)
  have "enc32 (-1) = [-1, -1, -1, -1]" by (simp add: enc32_def numeral_eq_Suc)
  then have "word ! 3 = -1"
    using l n by (cases "nat n" rule: nat.exhaust)
      (auto simp: word_def overlay_def nth_append less_Suc_eq eval_nat_numeral nat_less_iff)
  then obtain a b c where w: "word = [a, b, c, -1]"
    using lw by (auto simp: length_Suc_conv eval_nat_numeral)
  have "uint (-1 :: byte) = 255" by (simp add: unsigned_minus_1_eq_mask mask_eq_exp_minus_1)
  then have v: "le_val word = uint a + 256 * uint b + 65536 * uint c + 4278190080"
    by (simp add: w)
  have "0 \<le> uint a" "uint a < 256" "0 \<le> uint b" "uint b < 256" "0 \<le> uint c" "uint c < 256"
    using uint_lt2p [of a] uint_lt2p [of b] uint_lt2p [of c] by simp_all
  then have "2147483648 \<le> le_val word" "le_val word < 4294967296" unfolding v by linarith+
  then have "dec32 word < 0"
    using lw by (simp add: dec32_def wrap32_high)
  then have "dispatch k u (dec32 word) (s\<lparr>world := w\<rparr>) = None"
    by (simp add: dispatch_None_iff)
  moreover have "net_recv u 4 (enc32 (-1)) s = ret (n, word, s\<lparr>world := w\<rparr>)"
    using R l n by (simp add: net_recv_def kcall2_eq run_simps word_def overlay_at_0)
  ultimately show ?thesis
    using n by (subst receive_commands.simps) (simp add: run_simps)
qed


theorem short_command_word_ends_session_witness:
  "receive_commands quiet_kernel pipe_user (srv_boot ([4, 0], []))
    = ret (say ''psvemmc: unknown command'' (srv_boot ([], [])))"
  using short_command_word_ends_session [OF pipe_laws(2), of "srv_boot ([4, 0], [])" 2 "[4, 0]" "([], [])"
      quiet_kernel]
  by (simp add: pipe_user_def Let_def boot_simps)


section \<open>A session ends with its stream\<close>

text \<open>A measure \<open>p\<close> of what is still to be received: no call the handlers make increases it,
  and a receive that brings bytes decreases it.\<close>

definition drains :: "'w kapi \<Rightarrow> 'w uapi \<Rightarrow> ('w \<Rightarrow> nat) \<Rightarrow> bool" where
  "drains k u p \<longleftrightarrow>
     (\<forall>nm n w. p (snd (snd (k_AllocMemBlock k nm n w))) \<le> p w)
     \<and> (\<forall>uid w. p (snd (snd (k_GetMemBlockBase k uid w))) \<le> p w)
     \<and> (\<forall>uid w. p (snd (k_FreeMemBlock k uid w)) \<le> p w)
     \<and> (\<forall>d bs w. p (snd (snd (k_MemcpyKernelToUser k d bs w))) \<le> p w)
     \<and> (\<forall>ctx sec n w. p (snd (snd (k_SdifReadSectorAsync k ctx sec n w))) \<le> p w)
     \<and> (\<forall>sec n w. p (snd (snd (k_MsifReadSector k sec n w))) \<le> p w)
     \<and> (\<forall>nm n w. p (snd (snd (u_AllocMemBlock u nm n w))) \<le> p w)
     \<and> (\<forall>uid w. p (snd (snd (u_GetMemBlockBase u uid w))) \<le> p w)
     \<and> (\<forall>uid w. p (snd (u_FreeMemBlock u uid w)) \<le> p w)
     \<and> (\<forall>sock bs w. p (snd (u_NetSend u sock bs w)) \<le> p w)
     \<and> (\<forall>sock n w. p (snd (snd (u_NetRecv u sock n w))) \<le> p w)
     \<and> (\<forall>sock n w. 0 < fst (u_NetRecv u sock n w) \<longrightarrow> p (snd (snd (u_NetRecv u sock n w))) < p w)"

lemma drains_calls:
  assumes "drains k u p"
  shows "p (snd (snd (k_AllocMemBlock k nm n w))) \<le> p w"
    and "p (snd (snd (k_GetMemBlockBase k uid w))) \<le> p w"
    and "p (snd (k_FreeMemBlock k uid w)) \<le> p w"
    and "p (snd (snd (k_MemcpyKernelToUser k d bs w))) \<le> p w"
    and "p (snd (snd (k_SdifReadSectorAsync k ctx sec n w))) \<le> p w"
    and "p (snd (snd (k_MsifReadSector k sec n w))) \<le> p w"
    and "p (snd (snd (u_AllocMemBlock u nm n w))) \<le> p w"
    and "p (snd (snd (u_GetMemBlockBase u uid w))) \<le> p w"
    and "p (snd (u_FreeMemBlock u uid w)) \<le> p w"
    and "p (snd (u_NetSend u sock bs w)) \<le> p w"
    and "p (snd (snd (u_NetRecv u sock n w))) \<le> p w"
    and "0 < fst (u_NetRecv u sock n w) \<Longrightarrow> p (snd (snd (u_NetRecv u sock n w))) < p w"
  using assms by (simp_all add: drains_def)

text \<open>A run from \<open>s\<close> that ends, without having added to the stream.\<close>

abbreviation spends :: "('w \<Rightarrow> nat) \<Rightarrow> 'w srv \<Rightarrow> (int \<times> 'w srv) run \<Rightarrow> bool" where
  "spends p s m \<equiv> run_ends (\<lambda>(r, s'). p (world s') \<le> p (world s)) m"

abbreviation spends3 :: "('w \<Rightarrow> nat) \<Rightarrow> 'w srv \<Rightarrow> ('a \<times> 'b \<times> 'w srv) run \<Rightarrow> bool" where
  "spends3 p s m \<equiv> run_ends (\<lambda>(r, b, s'). p (world s') \<le> p (world s)) m"

lemma spends_trans: "spends p t m \<Longrightarrow> p (world t) \<le> p (world s) \<Longrightarrow> spends p s m"
  by (auto elim!: run_ends_mono)

lemma net_send_spends:
  assumes "drains k u p"
  shows "p (world (snd (net_send u bs s))) \<le> p (world s)"
  by (simp add: net_send_def kcall_eq drains_calls [OF assms])

lemma mem_store_ends: "run_ends (\<lambda>b. True) (mem_store off bs buf)"
  by (simp add: mem_store_def run_simps)

lemma mem_load_ends: "run_ends (\<lambda>b. True) (mem_load off n buf)"
  by (simp add: mem_load_def run_simps)

lemma blk_load_ends: "run_ends (\<lambda>b. True) (blk_load q off n m)"
  by (auto simp: blk_load_def run_simps mem_load_ends split: kptr.splits option.splits)

lemma blk_store_ends: "run_ends (\<lambda>b. True) (blk_store q off bs m)"
  by (auto simp: blk_store_def run_simps mem_store_def split: kptr.splits option.splits)

lemma net_recv_spends:
  assumes "drains k u p"
  shows "run_ends (\<lambda>(r, b, s'). p (world s') \<le> p (world s) \<and> (0 < r \<longrightarrow> p (world s') < p (world s)))
    (net_recv u n buf s)"
  unfolding net_recv_def kcall2_eq Let_def prod.case
  by (rule run_ends_bind [OF mem_store_ends]) (auto simp: run_simps drains_calls [OF assms])

lemma send_loop_spends:
  assumes d: "drains k u p" and src: "\<And>off n. run_ends (\<lambda>b. True) (src off n)"
  shows "spends p s (send_loop u src n got s)"
proof (induction "nat (n - got)" arbitrary: got s rule: less_induct)
  case less
  show ?case
  proof (cases "got < n")
    case True
    show ?thesis
      unfolding send_loop.simps [of u src n got s]
      using True
    proof (simp, intro run_ends_bind [OF src])
      fix bs
      obtain r t where N: "net_send u bs s = (r, t)" by fastforce
      have t: "p (world t) \<le> p (world s)" using net_send_spends [OF d, of bs s] N by simp
      show "spends p s (case net_send u bs s of (sendLen, s1) \<Rightarrow>
          if sendLen \<le> 0 then ret (-1, say ''psvemmc: failed to send data'' s1)
          else send_loop u src n (got + sendLen) s1)"
        using N t True less.hyps [of "got + r" t]
        by (auto simp: run_simps frame_simps intro: spends_trans)
    qed
  next
    case False
    then show ?thesis by (subst send_loop.simps) (simp add: run_simps)
  qed
qed

lemma recv_loop_spends:
  assumes d: "drains k u p" and put: "\<And>off bs a. run_ends (\<lambda>b. True) (put off bs a)"
  shows "spends3 p s (recv_loop u put n got acc s)"
proof (induction "nat (n - got)" arbitrary: got acc s rule: less_induct)
  case less
  show ?case
  proof (cases "got < n")
    case True
    obtain r bs w where N: "u_NetRecv u (cli_sock s) (n - got) (world s) = (r, bs, w)"
      by (metis prod_cases3)
    have t: "p w \<le> p (world s)"
      using drains_calls(11) [OF d, of "cli_sock s" "n - got" "world s"] N by simp
    have "spends3 p s (run_bind (put (nat got) bs acc) (\<lambda>acc'.
        if r \<le> 0 then ret (False, acc', s\<lparr>world := w\<rparr>)
        else recv_loop u put n (got + r) acc' (s\<lparr>world := w\<rparr>)))"
    proof (rule run_ends_bind [OF put])
      fix acc'
      show "spends3 p s (if r \<le> 0 then ret (False, acc', s\<lparr>world := w\<rparr>)
          else recv_loop u put n (got + r) acc' (s\<lparr>world := w\<rparr>))"
        using t True less.hyps [of "got + r" "s\<lparr>world := w\<rparr>" acc']
        by (auto simp: run_simps elim!: run_ends_mono)
    qed
    then show ?thesis
      using True N by (subst recv_loop.simps) (simp add: kcall2_eq)
  next
    case False
    then show ?thesis by (subst recv_loop.simps) (simp add: run_simps)
  qed
qed


lemma fail_receive_spends: "drains k u p \<Longrightarrow> spends p s (fail_receive c resp u s)"
  using net_send_spends [of k u p resp "say (''psvemmc: failed to receive command '' @ dec_str c) s"]
  by (simp add: fail_receive_def Let_def run_simps frame_simps)

lemma reply_spends:
  assumes "drains k u p" and "p (world t) \<le> p (world s)"
  shows "spends p s (ret (net_send u bs t))"
  using net_send_spends [OF assms(1), of bs t] assms(2)
  by (cases "net_send u bs t") (simp add: run_simps)

lemma say_result_world [simp]: "world (say_result c e s) = world s"
  by (simp add: say_result_def frame_simps)

lemma put_pool_world [simp]: "world (put_pool d s) = world s"
  by (auto simp: put_pool_def split: option.splits kptr.splits)

lemma handle_read_sector_spends:
  fixes p :: "'w \<Rightarrow> nat"
  assumes d: "drains k u p" and call: "\<And>n b t. spends3 p t (call n b t)"
  shows "spends p s (handle_read_sector c call u s)"
  unfolding handle_read_sector_def Let_def
proof (rule run_ends_bind [OF net_recv_spends [OF d]], clarify)
  fix r req and t :: "'w srv"
  assume t: "p (world t) \<le> p (world s)"
  let ?t = "say (''psvemmc: execute command '' @ dec_str c) t"
  have "spends p s (run_bind (call (dec32 req) (Some (replicate 512 0)) ?t)
      (\<lambda>(e, data, s3). let resp = packet c 0 e @ (case data of None \<Rightarrow> [] | Some d \<Rightarrow> d)
        in send_loop u (\<lambda>off n. mem_load off n resp) (int (length resp)) 0 (say_result c e s3)))"
  proof (rule run_ends_bind [OF call], clarify)
    fix e data and t3 :: "'w srv"
    assume "p (world t3) \<le> p (world ?t)"
    then have "p (world (say_result c e t3)) \<le> p (world s)" using t by (simp add: frame_simps)
    then show "spends p s (let resp = packet c 0 e @ (case data of None \<Rightarrow> [] | Some d \<Rightarrow> d)
        in send_loop u (\<lambda>off n. mem_load off n resp) (int (length resp)) 0 (say_result c e t3))"
      unfolding Let_def by (rule spends_trans [OF send_loop_spends [OF d mem_load_ends]])
  qed
  then show "spends p s (if r \<noteq> 4 then fail_receive c (packet c (-1) 0 @ replicate 512 0) u t
      else run_bind (call (dec32 req) (Some (replicate 512 0)) ?t)
      (\<lambda>(e, data, s3). send_loop u
        (\<lambda>off n. mem_load off n (packet c 0 e @ (case data of None \<Rightarrow> [] | Some d \<Rightarrow> d)))
        (int (length (packet c 0 e @ (case data of None \<Rightarrow> [] | Some d \<Rightarrow> d)))) 0 (say_result c e s3)))"
    using t spends_trans [OF fail_receive_spends [OF d]] by (simp add: Let_def)
qed

lemma handle_read_cluster_spends:
  fixes p :: "'w \<Rightarrow> nat"
  assumes d: "drains k u p" and call: "\<And>n b t. spends3 p t (call n b t)"
  shows "spends p s (handle_read_cluster c call u s)"
  unfolding handle_read_cluster_def Let_def
proof (rule run_ends_bind [OF net_recv_spends [OF d]], clarify)
  fix r req and t :: "'w srv"
  assume t: "p (world t) \<le> p (world s)"
  let ?t = "say (''psvemmc: execute command '' @ dec_str c) t"
  let ?go = "\<lambda>(e, data, s3). let s6 = snd (net_send u (packet c 0 e) (say_result c e (put_pool data s3)))
      in send_loop u (\<lambda>off n. blk_load (sv_clusterPoolPtr s6) off n (ublocks s6))
         (wrap32 (sv_bytesPerSector s6 * sv_sectorsPerCluster s6)) 0 s6"
  have "spends p s (run_bind (call (dec32 req) (pointee (sv_clusterPoolPtr ?t) (ublocks ?t)) ?t) ?go)"
  proof (rule run_ends_bind [OF call], clarify)
    fix e data and t3 :: "'w srv"
    assume t3: "p (world t3) \<le> p (world ?t)"
    define t6 where "t6 = snd (net_send u (packet c 0 e) (say_result c e (put_pool data t3)))"
    have "p (world t6) \<le> p (world s)"
      using t t3 net_send_spends [OF d, of "packet c 0 e" "say_result c e (put_pool data t3)"]
      by (simp add: t6_def frame_simps)
    then show "spends p s (let s6 = snd (net_send u (packet c 0 e) (say_result c e (put_pool data t3)))
      in send_loop u (\<lambda>off n. blk_load (sv_clusterPoolPtr s6) off n (ublocks s6))
         (wrap32 (sv_bytesPerSector s6 * sv_sectorsPerCluster s6)) 0 s6)"
      unfolding Let_def t6_def [symmetric] by (rule spends_trans [OF send_loop_spends [OF d blk_load_ends]])
  qed
  then show "spends p s (if r \<noteq> 4 then fail_receive c (packet c (-1) 0) u t
      else run_bind (call (dec32 req) (pointee (sv_clusterPoolPtr ?t) (ublocks ?t)) ?t)
       (\<lambda>(e, data, s3). send_loop u
          (\<lambda>off n. blk_load (sv_clusterPoolPtr (snd (net_send u (packet c 0 e) (say_result c e (put_pool data s3)))))
             off n (ublocks (snd (net_send u (packet c 0 e) (say_result c e (put_pool data s3))))))
          (wrap32 (sv_bytesPerSector (snd (net_send u (packet c 0 e) (say_result c e (put_pool data s3)))) *
             sv_sectorsPerCluster (snd (net_send u (packet c 0 e) (say_result c e (put_pool data s3)))))) 0
          (snd (net_send u (packet c 0 e) (say_result c e (put_pool data s3))))))"
    using t spends_trans [OF fail_receive_spends [OF d]] by (simp add: Let_def)
qed

lemma handle_write_sector_spends:
  fixes p :: "'w \<Rightarrow> nat"
  assumes d: "drains k u p"
  shows "spends p s (handle_write_sector c call u s)"
  unfolding handle_write_sector_def Let_def
proof (rule run_ends_bind [OF recv_loop_spends [OF d mem_store_ends]], clarify)
  fix complete req and t :: "'w srv"
  assume "p (world t) \<le> p (world s)"
  then show "spends p s (if \<not> complete then fail_receive c (packet c (-1) 0) u t
      else ret (net_send u (packet c 0 (call (dec32 req) (drop 4 req) (say (''psvemmc: execute command '' @ dec_str c) t)))
        (say_result c (call (dec32 req) (drop 4 req) (say (''psvemmc: execute command '' @ dec_str c) t))
          (say (''psvemmc: execute command '' @ dec_str c) t))))"
    using spends_trans [OF fail_receive_spends [OF d]] reply_spends [OF d] by (simp add: frame_simps)
qed

lemma handle_write_cluster_spends:
  fixes p :: "'w \<Rightarrow> nat"
  assumes d: "drains k u p"
  shows "spends p s (handle_write_cluster c call u s)"
  unfolding handle_write_cluster_def
proof (rule run_ends_bind [OF net_recv_spends [OF d]], clarify)
  fix r req and t :: "'w srv"
  assume t: "p (world t) \<le> p (world s)"
  let ?rest = "\<lambda>(complete, m, s2).
         let s3 = s2\<lparr>ublocks := m\<rparr>
         in if \<not> complete then fail_receive c (packet c (-1) 0) u s3
            else
              let s4 = say (''psvemmc: execute command '' @ dec_str c) s3;
                  data = (case pointee (sv_clusterPoolPtr s4) (ublocks s4) of None \<Rightarrow> [] | Some d \<Rightarrow> d);
                  proxy_err = call (dec32 req) data s4;
                  s5 = say_result c proxy_err s4
              in ret (net_send u (packet c 0 proxy_err) s5)"
  have "spends p t (run_bind (recv_loop u (\<lambda>off bs m. blk_store (sv_clusterPoolPtr t) off bs m)
           (wrap32 (sv_bytesPerSector t * sv_sectorsPerCluster t)) 0 (ublocks t) t) ?rest)"
  proof (rule run_ends_bind [OF recv_loop_spends [OF d blk_store_ends]])
    fix x :: "bool \<times> heap \<times> 'w srv"
    assume "case x of (complete, m, t2) \<Rightarrow> p (world t2) \<le> p (world t)"
    then show "spends p t (?rest x)"
      using spends_trans [OF fail_receive_spends [OF d]] reply_spends [OF d]
      by (cases x) (simp add: Let_def frame_simps)
  qed
  then show "spends p s (if r \<noteq> 4 then fail_receive c (packet c (-1) 0) u t
     else run_bind (recv_loop u (\<lambda>off bs m. blk_store (sv_clusterPoolPtr t) off bs m)
           (wrap32 (sv_bytesPerSector t * sv_sectorsPerCluster t)) 0 (ublocks t) t) ?rest)"
    using t spends_trans [OF fail_receive_spends [OF d]] spends_trans [OF _ t] by simp
qed


lemma handle_command_2_spends:
  assumes d: "drains k u p"
  shows "spends p s (handle_command_2 k u s)"
proof -
  note D = drains_calls [OF d]
  have I: "p (world (snd (initializePool u a b t))) \<le> p (world t)" for a b t
    using D(7) [of "''cluster_pool''" "wrap32 (512 * b)" "world t"]
    by (auto simp: initializePool_def kcall2_eq Let_def SD_DEFAULT_SECTOR_SIZE_def intro: order_trans [OF D(8)])
  have K: "p (world (snd (psvemmcInitialize k a b t))) \<le> p (world t)" for a b and t :: "'a srv"
    using D(1) [of "''cluster_pool_kernel''" "wrap32 (512 * b)" "world t"]
    by (auto simp: psvemmcInitialize_def kcall2_eq Let_def SD_DEFAULT_SECTOR_SIZE_def intro: order_trans [OF D(2)])
  note N = net_send_spends [OF d]
  show ?thesis
  proof (cases "sv_clusterPoolInitialized s = 0")
    case False
    then show ?thesis
      using N [of "packet 2 (-2) 0" "say ''psvemmc: failed to execute command 2'' s"]
      by (simp add: handle_command_2_def Let_def run_simps frame_simps)
  next
    case True
    show ?thesis
      unfolding handle_command_2_def
      using True
    proof (simp, intro run_ends_bind [OF net_recv_spends [OF d]])
      fix x :: "int \<times> byte list \<times> 'a srv"
      assume "case x of (r, b, s') \<Rightarrow> p (world s') \<le> p (world s) \<and> (0 < r \<longrightarrow> p (world s') < p (world s))"
      then obtain r req t where x: "x = (r, req, t)" and t: "p (world t) \<le> p (world s)" by (cases x) auto
      let ?t2 = "say ''psvemmc: execute command 2'' t"
      obtain v t3 where V: "initializePool u (dec32 req) (dec32 (drop 4 req)) ?t2 = (v, t3)" by fastforce
      obtain q t4 where Q: "psvemmcInitialize k (dec32 req) (dec32 (drop 4 req)) t3 = (q, t4)" by fastforce
      have t3: "p (world t3) \<le> p (world s)" using I [of "dec32 req" "dec32 (drop 4 req)" ?t2] V t by (simp add: frame_simps)
      have t4: "p (world t4) \<le> p (world s)" using K [of "dec32 req" "dec32 (drop 4 req)" t3] Q t3 by simp
      show "spends p s (case x of (recvLen, req, s1) \<Rightarrow>
        if recvLen \<noteq> 8
        then (let s2 = say ''psvemmc: failed to receive command 2'' s1
              in ret (-1, snd (net_send u (packet 2 (-1) 0) s2)))
        else
          let bytesPerSector = dec32 req;
              sectorsPerCluster = dec32 (drop 4 req);
              s2 = say ''psvemmc: execute command 2'' s1;
              (vita_err, s3) = initializePool u bytesPerSector sectorsPerCluster s2
          in if vita_err \<noteq> 0
             then (let s4 = say ''psvemmc: failed to initialize pool'' s3
                   in ret (net_send u (packet 2 vita_err 0) s4))
             else
               let (proxy_err, s4) = psvemmcInitialize k bytesPerSector sectorsPerCluster s3;
                   s5 = (if proxy_err \<noteq> 0 then say ''psvemmc: failed to execute command 2'' s4 else s4)
               in ret (net_send u (packet 2 vita_err proxy_err) s5))"
        using t t3 t4 N [of "packet 2 (-1) 0" "say ''psvemmc: failed to receive command 2'' t"]
        by (simp add: x V Q Let_def run_simps frame_simps reply_spends [OF d, unfolded run_ends_ret])
    qed
  qed
qed

lemma handle_command_3_spends:
  assumes d: "drains k u p"
  shows "p (world (snd (handle_command_3 k u s))) \<le> p (world s)"
proof -
  note D = drains_calls [OF d]
  have K: "p (world (snd (psvemmcDeinitialize k t))) \<le> p (world t)" for t :: "'a srv"
    by (auto simp: psvemmcDeinitialize_def kcall_eq Let_def D(3))
  have F: "p (world (snd (deinitializePool u t))) \<le> p (world t)" for t
    by (auto simp: deinitializePool_def kcall_eq Let_def D(9))
  let ?t = "say ''psvemmc: execute command 3'' s"
  obtain q t2 where Q: "psvemmcDeinitialize k ?t = (q, t2)" by fastforce
  define t3 where "t3 = (if q \<noteq> 0 then say ''psvemmc: failed to execute command 3'' t2 else t2)"
  obtain v t4 where V: "deinitializePool u t3 = (v, t4)" by fastforce
  define t5 where "t5 = (if v \<noteq> 0 then say ''psvemmc: failed to deinitialize pool'' t4 else t4)"
  have "p (world t5) \<le> p (world s)"
  proof -
    have "world t3 = world t2" "world t5 = world t4" by (simp_all add: t3_def t5_def frame_simps)
    moreover have "p (world t4) \<le> p (world t3)" "p (world t2) \<le> p (world s)"
      using K [of ?t] F [of t3] Q V by (simp_all add: frame_simps)
    ultimately show ?thesis by simp
  qed
  then have "p (world (snd (net_send u b t5))) \<le> p (world s)" for b
    using net_send_spends [OF d, of b t5] by simp
  moreover have "p (world (snd (net_send u b (say m s)))) \<le> p (world s)" for b m
    using net_send_spends [OF d, of b "say m s"] by (simp add: frame_simps)
  ultimately show ?thesis
    unfolding handle_command_3_def Let_def Q prod.case t3_def [symmetric] V t5_def [symmetric] by simp
qed

lemma copy_to_user_spends:
  "drains k u p \<Longrightarrow> spends3 p s (copy_to_user k b d s)"
  by (auto simp: copy_to_user_def kcall2_eq Let_def run_simps drains_calls split: option.splits)

lemma read_sector_call_spends:
  assumes d: "drains k u p"
  shows "spends3 p s (read_sector_call k dv n b s)"
proof -
  have *: "spends3 p s (read_sector_with k dev n b s)"
    if "\<And>sec n w. p (snd (snd (dev sec n w))) \<le> p w" for dev
  proof -
    obtain r x w where D: "dev n 1 (world s) = (r, x, w)" by (metis prod_cases3)
    have w: "p w \<le> p (world s)" using that [of n 1 "world s"] D by simp
    have "spends3 p s (run_bind (copy_to_user k b y (s\<lparr>world := w\<rparr>)) (\<lambda>(res_2, buffer', s2).
           if res_2 < 0 then ret (res_2, buffer', s2) else ret (0, buffer', s2)))" for y
      by (rule run_ends_bind [OF copy_to_user_spends [OF d]]) (use w in \<open>auto simp: run_simps\<close>)
    then show ?thesis
      unfolding read_sector_with_def kcall2_eq D Let_def prod.case fst_conv snd_conv
      by (intro run_ends_bind [OF mem_store_ends]) (use w in \<open>simp add: run_simps\<close>)
  qed
  show ?thesis
    using *[of "k_SdifReadSectorAsync k c" for c] *[of "k_MsifReadSector k"] drains_calls(5,6) [OF d]
    by (cases dv) (auto simp: emmc_read_defs run_simps)
qed

lemma read_cluster_call_spends:
  assumes d: "drains k u p"
  shows "spends3 p s (read_cluster_call k dv n b s)"
proof -
  have *: "spends3 p s (read_cluster_with k dev n b s)"
    if "\<And>sec n w. p (snd (snd (dev sec n w))) \<le> p w" for dev
  proof -
    obtain r x w where D: "dev (wrap32 (g_sectorsPerCluster s * n)) (g_sectorsPerCluster s) (world s) = (r, x, w)"
      by (metis prod_cases3)
    have w: "p w \<le> p (world s)"
      using that [of "wrap32 (g_sectorsPerCluster s * n)" "g_sectorsPerCluster s" "world s"] D by simp
    have c: "spends3 p s (run_bind (copy_to_user k b y t) (\<lambda>(res_2, buffer', s2).
           if res_2 < 0 then ret (res_2, buffer', s2) else ret (0, buffer', s2)))"
      if "p (world t) \<le> p (world s)" for y t
      by (rule run_ends_bind [OF copy_to_user_spends [OF d]]) (use that in \<open>auto simp: run_simps\<close>)
    show ?thesis
      unfolding read_cluster_with_def kcall2_eq D Let_def prod.case fst_conv snd_conv
      by (intro run_ends_bind [OF blk_store_ends])
        (use w in \<open>auto simp: run_simps intro!: run_ends_bind [OF blk_load_ends] c\<close>)
  qed
  show ?thesis
    using *[of "k_SdifReadSectorAsync k c" for c] *[of "k_MsifReadSector k"] drains_calls(5,6) [OF d]
    by (cases dv) (auto simp: emmc_read_defs run_simps)
qed


lemma dispatch_spends:
  assumes d: "drains k u p" and known: "dispatch k u c s = Some m"
  shows "spends p s m"
proof -
  note S = read_sector_call_spends [OF d, where dv = Dev_emmc, simplified]
    read_sector_call_spends [OF d, where dv = Dev_ms, simplified]
    read_sector_call_spends [OF d, where dv = Dev_gc, simplified]
  note C = read_cluster_call_spends [OF d, where dv = Dev_emmc, simplified]
    read_cluster_call_spends [OF d, where dv = Dev_ms, simplified]
    read_cluster_call_spends [OF d, where dv = Dev_gc, simplified]
  note defs = handle_command_4_def handle_command_5_def handle_command_6_def handle_command_7_def
    handle_command_8_def handle_command_9_def handle_command_10_def handle_command_11_def
    handle_command_12_def handle_command_13_def handle_command_14_def handle_command_15_def
  have plain: "spends p s (ret x)" if "p (world (snd x)) \<le> p (world s)" for x :: "int \<times> 'a srv"
    using that by (cases x) (simp add: run_simps)
  have P: "p (world (snd (handle_command_0 u s))) \<le> p (world s)"
      "p (world (snd (handle_command_1 u s))) \<le> p (world s)"
    using net_send_spends [OF d, of "packet 0 0 0 @ u8_of_string ''emmcproxy'' @ [0]"
        "say ''psvemmc: execute command 0'' s"]
      net_send_spends [OF d, of "packet 1 0 0 @ u8_of_string ''emmcproxy'' @ [0]"
        "say ''psvemmc: execute command 1'' s"]
    by (simp_all add: handle_command_0_def handle_command_1_def Let_def frame_simps)
  have D: "dispatch k u c s = Some m \<longrightarrow> spends p s m"
    unfolding dispatch_def defs
    using handle_read_sector_spends [of k u p "readSector k", OF d S(1)]
      handle_read_sector_spends [of k u p "readSectorMs k", OF d S(2)]
      handle_read_sector_spends [of k u p "readSectorGc k", OF d S(3)]
      handle_read_cluster_spends [of k u p "readCluster k", OF d C(1)]
      handle_read_cluster_spends [of k u p "readClusterMs k", OF d C(2)]
      handle_read_cluster_spends [of k u p "readClusterGc k", OF d C(3)]
      handle_write_sector_spends [OF d] handle_write_cluster_spends [OF d]
      handle_command_2_spends [OF d] plain [OF P(1)] plain [OF P(2)]
      plain [OF handle_command_3_spends [OF d]]
    by (auto simp del: run_ends_ret split: if_splits)
  with known show ?thesis by simp
qed

text \<open>The rest of a turn, in which a command word has been received and \<open>f\<close> goes on.\<close>

lemma turn_ends:
  fixes r :: int
  assumes d: "drains k u p" and "0 < r \<longrightarrow> p (world s1) < n"
    and f: "\<And>s2. p (world s2) < n \<Longrightarrow> f s2 \<noteq> None"
  shows "run_ends (\<lambda>_. True) (if r \<le> 0 then ret (say ''psvemmc: failed to receive data'' s1)
     else case dispatch k u (dec32 word) s1 of
         None \<Rightarrow> ret (say ''psvemmc: unknown command'' s1)
       | Some m \<Rightarrow> run_bind m (\<lambda>(r, s2).
           if r < 0 then ret (say (''psvemmc: failed to handle command '' @ dec_str (dec32 word)) s2)
           else f s2))"
proof (cases "r \<le> 0 \<or> dispatch k u (dec32 word) s1 = None")
  case True
  then show ?thesis by (auto simp: run_ends_ret)
next
  case False
  then have r: "0 < r" by simp
  from False obtain m where m: "dispatch k u (dec32 word) s1 = Some m"
    by (cases "dispatch k u (dec32 word) s1") simp_all
  have "run_ends (\<lambda>_. True) (run_bind m (\<lambda>(r, s2).
           if r < 0 then ret (say (''psvemmc: failed to handle command '' @ dec_str (dec32 word)) s2)
           else f s2))"
  proof (rule run_ends_bind [OF dispatch_spends [OF d m]], clarify)
    fix e and s2 :: "'a srv"
    assume "p (world s2) \<le> p (world s1)"
    then have "f s2 \<noteq> None" using f [of s2] assms(2) r by simp
    then show "run_ends (\<lambda>_. True) (if e < 0
        then ret (say (''psvemmc: failed to handle command '' @ dec_str (dec32 word)) s2) else f s2)"
      by (simp add: run_ends_ret) (simp add: run_ends_def)
  qed
  then show ?thesis using r m by simp
qed

text \<open>C25: Every session ends. As long as no call adds to what is still to be received, and a
  receive that brings bytes takes them from it, \<open>receive_commands\<close> does not run forever,
  whatever the client sends: it returns, or faults (which the other properties exclude).\<close>

theorem receive_commands_ends:
  assumes d: "drains k u p"
  shows "receive_commands k u s \<noteq> None"
proof (induction "p (world s)" arbitrary: s rule: less_induct)
  case less
  have "run_ends (\<lambda>_. True) (run_bind (net_recv u 4 (enc32 (-1)) s) (\<lambda>(recvLen, word, s1).
     if recvLen \<le> 0 then ret (say ''psvemmc: failed to receive data'' s1)
     else
       case dispatch k u (dec32 word) s1 of
         None \<Rightarrow> ret (say ''psvemmc: unknown command'' s1)
       | Some m \<Rightarrow>
           run_bind m (\<lambda>(r, s2).
           if r < 0 then ret (say (''psvemmc: failed to handle command '' @ dec_str (dec32 word)) s2)
           else receive_commands k u s2)))"
    by (rule run_ends_bind [OF net_recv_spends [OF d]], clarify)
      (rule turn_ends [OF d _ less, where n = "p (world s)"], simp_all)
  then show ?case
    by (subst receive_commands.simps) (simp add: run_ends_def)
qed

theorem receive_commands_ends_witness:
  "receive_commands quiet_kernel pipe_user (srv_boot ([0, 0, 0, 0, 77, 0, 0, 0], [])) \<noteq> None"
proof -
  have "drains quiet_kernel pipe_user (\<lambda>w. length (fst w))"
    by (auto simp: drains_def quiet_kernel_def pipe_user_def Let_def split: prod.splits)
  then show ?thesis by (rule receive_commands_ends)
qed

end
