(* ===== verification/Qsort.thy ===== *)
theory Qsort
  imports Prelude "HOL-Library.Multiset"
begin

text \<open>
  \<open>driver/qsort.c\<close> (\<open>error_logger/qsort.c\<close> is the same file): Bentley and McIlroy's quicksort,
  which the module table is sorted with. The array \<open>a\<close> of \<open>n\<close> elements of \<open>es\<close> bytes is the list
  of its elements, a pointer into it the index of an element, and \<open>swap\<close> exchanges two elements.
  The pointers \<open>pc\<close> and \<open>pd\<close>, which walk down, are kept as the index one past the element they
  point to: \<open>ec = pc + 1\<close>, \<open>ed = pd + 1\<close>. The recursive call on the left part and the \<open>goto\<close> that
  continues with the right part are recursive calls on the two parts.

  The sorting routine is generic in its comparison: what it needs of it is the locale
  \<open>comparator\<close>, inside which it is proved to sort.
\<close>

section \<open>The code\<close>

definition swp :: "nat \<Rightarrow> nat \<Rightarrow> 'a list \<Rightarrow> 'a list" where
  "swp i j xs = xs[i := xs ! j, j := xs ! i]"

text \<open>\<open>vecswap\<close>: exchange \<open>r\<close> elements from \<open>i\<close> on with those from \<open>j\<close> on.\<close>

fun vecswap :: "nat \<Rightarrow> nat \<Rightarrow> nat \<Rightarrow> 'a list \<Rightarrow> 'a list" where
  "vecswap i j 0 xs = xs"
| "vecswap i j (Suc r) xs = vecswap (Suc i) (Suc j) r (swp i j xs)"

definition med3 :: "('a \<Rightarrow> 'a \<Rightarrow> int) \<Rightarrow> 'a list \<Rightarrow> nat \<Rightarrow> nat \<Rightarrow> nat \<Rightarrow> nat" where
  "med3 cmp xs a b c =
     (if cmp (xs ! a) (xs ! b) < 0
      then (if cmp (xs ! b) (xs ! c) < 0 then b else if cmp (xs ! a) (xs ! c) < 0 then c else a)
      else (if cmp (xs ! b) (xs ! c) > 0 then b else if cmp (xs ! a) (xs ! c) < 0 then a else c))"

text \<open>The insertion sort for short arrays, and for arrays found to be nearly sorted.\<close>

fun sink :: "('a \<Rightarrow> 'a \<Rightarrow> int) \<Rightarrow> nat \<Rightarrow> 'a list \<Rightarrow> 'a list" where
  "sink cmp 0 xs = xs"
| "sink cmp (Suc l) xs = (if cmp (xs ! l) (xs ! Suc l) > 0 then sink cmp l (swp (Suc l) l xs) else xs)"

definition insertion :: "('a \<Rightarrow> 'a \<Rightarrow> int) \<Rightarrow> 'a list \<Rightarrow> 'a list" where
  "insertion cmp xs = fold (sink cmp) [1..<length xs] xs"

definition pivot :: "('a \<Rightarrow> 'a \<Rightarrow> int) \<Rightarrow> 'a list \<Rightarrow> nat" where
  "pivot cmp xs =
     (let n = length xs; pm = n div 2
      in if n > 7
         then (let pl = 0; pn = n - 1;
                   (pl, pm, pn) = (if n > 40
                     then (let d = n div 8
                           in (med3 cmp xs pl (pl + d) (pl + 2 * d), med3 cmp xs (pm - d) pm (pm + d),
                               med3 cmp xs (pn - 2 * d) (pn - d) pn))
                     else (pl, pm, pn))
               in med3 cmp xs pl pm pn)
         else pm)"

text \<open>The two scans of the partition loop, and the loop. The last component is \<open>swap_cnt\<close>.\<close>

function scan_up ::
    "('a \<Rightarrow> 'a \<Rightarrow> int) \<Rightarrow> 'a list \<Rightarrow> nat \<Rightarrow> nat \<Rightarrow> nat \<Rightarrow> bool \<Rightarrow> 'a list \<times> nat \<times> nat \<times> bool" where
  "scan_up cmp xs pa pb ec cnt =
     (if pb < ec \<and> cmp (xs ! pb) (xs ! 0) \<le> 0
      then (if cmp (xs ! pb) (xs ! 0) = 0
            then scan_up cmp (swp pa pb xs) (Suc pa) (Suc pb) ec True
            else scan_up cmp xs pa (Suc pb) ec cnt)
      else (xs, pa, pb, cnt))"
  by pat_completeness auto
termination
  by (relation "measure (\<lambda>(cmp, xs, pa, pb, ec, cnt). ec - pb)") auto

function scan_down ::
    "('a \<Rightarrow> 'a \<Rightarrow> int) \<Rightarrow> 'a list \<Rightarrow> nat \<Rightarrow> nat \<Rightarrow> nat \<Rightarrow> bool \<Rightarrow> 'a list \<times> nat \<times> nat \<times> bool" where
  "scan_down cmp xs pb ec ed cnt =
     (if pb < ec \<and> cmp (xs ! (ec - 1)) (xs ! 0) \<ge> 0
      then (if cmp (xs ! (ec - 1)) (xs ! 0) = 0
            then scan_down cmp (swp (ec - 1) (ed - 1) xs) pb (ec - 1) (ed - 1) True
            else scan_down cmp xs pb (ec - 1) ed cnt)
      else (xs, ec, ed, cnt))"
  by pat_completeness auto
termination
  by (relation "measure (\<lambda>(cmp, xs, pb, ec, ed, cnt). ec)") auto

declare scan_up.simps [simp del] scan_down.simps [simp del]

lemma scan_up_ge: "scan_up cmp xs pa pb ec cnt = (xs', pa', pb', cnt') \<Longrightarrow> pb \<le> pb'"
proof (induction cmp xs pa pb ec cnt rule: scan_up.induct)
  case (1 cmp xs pa pb ec cnt)
  show ?case
    using 1 by (auto simp: scan_up.simps [of cmp xs pa pb ec cnt] dest!: Suc_leD split: if_splits)
qed

lemma scan_down_le: "scan_down cmp xs pb ec ed cnt = (xs', ec', ed', cnt') \<Longrightarrow> ec' \<le> ec"
proof (induction cmp xs pb ec ed cnt rule: scan_down.induct)
  case (1 cmp xs pb ec ed cnt)
  show ?case
    using 1 by (auto simp: scan_down.simps [of cmp xs pb ec ed cnt] split: if_splits)
qed

function partition_loop ::
    "('a \<Rightarrow> 'a \<Rightarrow> int) \<Rightarrow> 'a list \<Rightarrow> nat \<Rightarrow> nat \<Rightarrow> nat \<Rightarrow> nat \<Rightarrow> bool
     \<Rightarrow> 'a list \<times> nat \<times> nat \<times> nat \<times> nat \<times> bool" where
  "partition_loop cmp xs pa pb ec ed cnt =
     (let (xs1, pa1, pb1, cnt1) = scan_up cmp xs pa pb ec cnt;
          (xs2, ec1, ed1, cnt2) = scan_down cmp xs1 pb1 ec ed cnt1
      in if pb1 \<ge> ec1 then (xs2, pa1, pb1, ec1, ed1, cnt2)
         else partition_loop cmp (swp pb1 (ec1 - 1) xs2) pa1 (Suc pb1) (ec1 - 1) ed1 True)"
  by pat_completeness auto
termination
proof (relation "measure (\<lambda>(cmp, xs, pa, pb, ec, ed, cnt). ec - pb)", goal_cases)
  case (2 cmp xs pa pb ec ed cnt x xs1 y pa1 z pb1 cnt1 x' xs2 y' ec1 z' ed1 cnt2)
  then have "pb \<le> pb1" "ec1 \<le> ec"
    using scan_up_ge [of cmp xs pa pb ec cnt xs1 pa1 pb1 cnt1]
      scan_down_le [of cmp xs1 pb1 ec ed cnt1 xs2 ec1 ed1 cnt2] by simp_all
  with 2 show ?case by simp
qed simp

declare partition_loop.simps [simp del]

text \<open>Everything before the two recursive calls: the array with the smaller elements first and
  the larger ones last, and the sizes of these two parts; or the array sorted by insertion when
  the partition has moved nothing.\<close>

definition qsort_split :: "('a \<Rightarrow> 'a \<Rightarrow> int) \<Rightarrow> 'a list \<Rightarrow> 'a list + 'a list \<times> nat \<times> nat" where
  "qsort_split cmp xs =
     (let n = length xs;
          xs0 = swp 0 (pivot cmp xs) xs;
          (xs1, pa, pb, ec, ed, swap_cnt) = partition_loop cmp xs0 1 1 n n False
      in if \<not> swap_cnt then Inl (insertion cmp xs1)
         else
           let r = (if pa < pb - pa then pa else pb - pa);
               xs2 = vecswap 0 (pb - r) r xs1;
               r' = (if ed - ec < n - ed then ed - ec else n - ed);
               xs3 = vecswap pb (n - r') r' xs2
           in Inr (xs3, pb - pa, ed - ec))"


section \<open>Permutations\<close>

lemma length_swp [simp]: "length (swp i j xs) = length xs"
  by (simp add: swp_def)

lemma mset_swp [simp]: "i < length xs \<Longrightarrow> j < length xs \<Longrightarrow> mset (swp i j xs) = mset xs"
  by (simp add: swp_def mset_swap)

lemma nth_swp:
  "i < length xs \<Longrightarrow> j < length xs \<Longrightarrow> k < length xs \<Longrightarrow>
   swp i j xs ! k = (if k = i then xs ! j else if k = j then xs ! i else xs ! k)"
  by (auto simp: swp_def nth_list_update)

lemma length_vecswap [simp]: "length (vecswap i j r xs) = length xs"
  by (induction i j r xs rule: vecswap.induct) auto

lemma vecswap_blocks:
  "length U = r \<Longrightarrow> length V = r \<Longrightarrow>
   vecswap (length X) (length X + r + length Y) r (X @ U @ Y @ V @ Z) = X @ V @ Y @ U @ Z"
proof (induction r arbitrary: X U Y V)
  case 0
  then show ?case by simp
next
  case (Suc r)
  then obtain a U' b V' where UV: "U = a # U'" "V = b # V'" "length U' = r" "length V' = r"
    by (metis length_Suc_conv)
  have s: "swp (length X) (length X + Suc r + length Y) (X @ a # U' @ Y @ b # V' @ Z)
      = (X @ [b]) @ U' @ (Y @ [a]) @ V' @ Z"
    using UV(3) by (simp add: swp_def nth_append list_update_append)
  show ?case
    using Suc.IH [OF UV(3,4), of "X @ [b]" "Y @ [a]"] s UV(1,2) by simp
qed

lemma mset_drop_take: "mset (drop k B @ take k B) = mset B"
proof -
  have "mset (drop k B @ take k B) = mset (take k B @ drop k B)"
    unfolding mset_append by (rule add.commute)
  then show ?thesis by (simp only: append_take_drop_id)
qed

text \<open>The exchange that moves a block to the other end: \<open>A @ B\<close> becomes \<open>B' @ A'\<close>.\<close>

lemma vecswap_flip:
  assumes "r = (if length A < length B then length A else length B)"
  obtains A' B' where "vecswap (length X) (length X + length A + length B - r) r (X @ A @ B @ Z) = X @ B' @ A' @ Z"
    and "mset A' = mset A" and "mset B' = mset B" and "length A' = length A" and "length B' = length B"
proof (cases "length A < length B")
  case True
  let ?k = "length B - length A"
  have e1: "vecswap (length X) (length X + length A + ?k) (length A)
      (X @ A @ take ?k B @ drop ?k B @ Z) = X @ drop ?k B @ take ?k B @ A @ Z"
    using True vecswap_blocks [of A "length A" "drop ?k B" X "take ?k B" Z] by simp
  have e2: "take ?k B @ drop ?k B @ Z = B @ Z"
    by (simp only: append_assoc [symmetric] append_take_drop_id)
  have r: "r = length A" and e3: "length X + length A + length B - length A = length X + length A + ?k"
    using assms True by simp_all
  have "vecswap (length X) (length X + length A + length B - r) r (X @ A @ B @ Z)
      = X @ (drop ?k B @ take ?k B) @ A @ Z"
    unfolding r e3 using e1 [unfolded e2] by (simp only: append_assoc)
  then show thesis
    by (rule that [OF _ refl mset_drop_take refl]) simp
next
  case False
  let ?k = "length B"
  have e1: "vecswap (length X) (length X + ?k + (length A - ?k)) ?k
      (X @ take ?k A @ drop ?k A @ B @ Z) = X @ B @ drop ?k A @ take ?k A @ Z"
    using False vecswap_blocks [of "take ?k A" ?k B X "drop ?k A" Z] by simp
  have e2: "take ?k A @ drop ?k A @ B @ Z = A @ B @ Z"
    by (simp only: append_assoc [symmetric] append_take_drop_id)
  have r: "r = ?k" and e3: "length X + length A + length B - ?k = length X + ?k + (length A - ?k)"
    using assms False by simp_all
  have "vecswap (length X) (length X + length A + length B - r) r (X @ A @ B @ Z)
      = X @ B @ (drop ?k A @ take ?k A) @ Z"
    unfolding r e3 using e1 [unfolded e2] by (simp only: append_assoc)
  then show thesis
    by (rule that [OF _ mset_drop_take refl _ refl]) simp
qed

lemma mset_sink: "l < length xs \<Longrightarrow> mset (sink cmp l xs) = mset xs"
  by (induction cmp l xs rule: sink.induct) auto

lemma length_sink [simp]: "length (sink cmp l xs) = length xs"
  by (induction cmp l xs rule: sink.induct) auto

lemma mset_fold_sink:
  "\<forall>l \<in> set ls. l < length xs \<Longrightarrow> mset (fold (sink cmp) ls xs) = mset xs"
  by (induction ls arbitrary: xs) (auto simp: mset_sink)

lemma mset_insertion: "mset (insertion cmp xs) = mset xs"
  by (simp add: insertion_def mset_fold_sink)

lemma length_insertion [simp]: "length (insertion cmp xs) = length xs"
  by (metis mset_insertion size_mset)

lemma med3_in: "med3 cmp xs a b c \<in> {a, b, c}"
  by (simp add: med3_def)

lemma med3_less: "a < n \<Longrightarrow> b < n \<Longrightarrow> c < n \<Longrightarrow> med3 cmp xs a b c < n"
  using med3_in [of cmp xs a b c] by auto

lemma pivot_less:
  assumes "0 < length xs"
  shows "pivot cmp xs < length xs"
proof -
  have "length xs div 2 + length xs div 8 < length xs" "2 * (length xs div 8) < length xs"
    using assms by linarith+
  then show ?thesis
    using assms by (auto simp: pivot_def Let_def intro!: med3_less)
qed



section \<open>The comparison\<close>

text \<open>What the routine needs of \<open>cmp\<close>: a three-way comparison whose signs agree under exchange
  and are transitive.\<close>

locale comparator =
  fixes cmp :: "'a \<Rightarrow> 'a \<Rightarrow> int"
  assumes cmp_swap: "cmp x y < 0 \<longleftrightarrow> cmp y x > 0"
    and cmp_trans: "cmp x y \<le> 0 \<Longrightarrow> cmp y z \<le> 0 \<Longrightarrow> cmp x z \<le> 0"
begin

definition le :: "'a \<Rightarrow> 'a \<Rightarrow> bool" where
  "le x y \<longleftrightarrow> cmp x y \<le> 0"

lemma cmp_refl: "cmp x x = 0"
  using cmp_swap [of x x] by linarith

lemma le_refl: "le x x"
  by (simp add: le_def cmp_refl)

lemma le_trans: "le x y \<Longrightarrow> le y z \<Longrightarrow> le x z"
  unfolding le_def by (rule cmp_trans)

lemma le_total: "\<not> le x y \<Longrightarrow> le y x"
  using cmp_swap [of y x] by (auto simp: le_def)

text \<open>Sinking an element into a sorted prefix.\<close>

lemma sink_step:
  "sorted_wrt le A \<Longrightarrow> \<exists>P Q. A = P @ Q \<and> sink cmp (length A) (A @ x # B) = P @ x # Q @ B
     \<and> (\<forall>p \<in> set P. le p x) \<and> (\<forall>q \<in> set Q. le x q)"
proof (induction A arbitrary: B rule: rev_induct)
  case Nil
  then show ?case by simp
next
  case (snoc y A)
  have sA: "sorted_wrt le A" and yA: "\<forall>a \<in> set A. le a y"
    using snoc.prems by (auto simp: sorted_wrt_append)
  show ?case
  proof (cases "cmp y x > 0")
    case True
    have "sink cmp (length (A @ [y])) ((A @ [y]) @ x # B) = sink cmp (length A) (A @ x # y # B)"
      using True by (simp add: swp_def nth_append list_update_append)
    moreover obtain P Q where PQ: "A = P @ Q" "sink cmp (length A) (A @ x # y # B) = P @ x # Q @ y # B"
        "\<forall>p \<in> set P. le p x" "\<forall>q \<in> set Q. le x q"
      using snoc.IH [OF sA, of "y # B"] by auto
    moreover have "le x y" using True cmp_swap [of x y] by (simp add: le_def)
    ultimately show ?thesis
      by (intro exI [of _ P] exI [of _ "Q @ [y]"]) auto
  next
    case False
    then have yx: "le y x" by (simp add: le_def)
    have "sink cmp (length (A @ [y])) ((A @ [y]) @ x # B) = (A @ [y]) @ x # B"
      using False by (simp add: nth_append)
    moreover have "\<forall>p \<in> set (A @ [y]). le p x" using yA yx le_trans by auto
    ultimately show ?thesis by (intro exI [of _ "A @ [y]"] exI [of _ "[]"]) simp
  qed
qed

lemma insertion_prefix:
  assumes "i < length xs" and "sorted_wrt le (take i xs)"
  shows "sorted_wrt le (take (Suc i) (sink cmp i xs)) \<and> drop (Suc i) (sink cmp i xs) = drop (Suc i) xs"
proof -
  have xs: "xs = take i xs @ xs ! i # drop (Suc i) xs" using assms(1) by (rule id_take_nth_drop)
  have li: "length (take i xs) = i" using assms(1) by simp
  obtain P Q where PQ: "take i xs = P @ Q" "sink cmp i xs = P @ xs ! i # Q @ drop (Suc i) xs"
      "\<forall>p \<in> set P. le p (xs ! i)" "\<forall>q \<in> set Q. le (xs ! i) q"
    using sink_step [OF assms(2), of "xs ! i" "drop (Suc i) xs"] xs li by auto
  have l: "length P + length Q = i" using PQ(1) li by (metis length_append)
  have "take (Suc i) (sink cmp i xs) = P @ xs ! i # Q" "drop (Suc i) (sink cmp i xs) = drop (Suc i) xs"
    unfolding PQ(2) using l by (simp_all add: take_Cons' drop_Cons')
  moreover have "sorted_wrt le (P @ xs ! i # Q)"
    using assms(2) PQ(3,4) unfolding PQ(1) by (auto simp: sorted_wrt_append intro: le_trans)
  ultimately show ?thesis by simp
qed

lemma insertion_sorts: "sorted_wrt le (insertion cmp xs)"
proof -
  have "sorted_wrt le (take (Suc i) (fold (sink cmp) [1..<Suc i] xs))
      \<and> length (fold (sink cmp) [1..<Suc i] xs) = length xs" if "i < length xs" for i
    using that
  proof (induction i)
    case 0
    then show ?case by (cases xs) simp_all
  next
    case (Suc i)
    then have IH: "sorted_wrt le (take (Suc i) (fold (sink cmp) [1..<Suc i] xs))"
      "length (fold (sink cmp) [1..<Suc i] xs) = length xs" by simp_all
    have f: "fold (sink cmp) [1..<Suc (Suc i)] xs = sink cmp (Suc i) (fold (sink cmp) [1..<Suc i] xs)"
      by simp
    show ?case
      unfolding f using insertion_prefix [OF _ IH(1)] IH(2) Suc.prems by simp
  qed
  from this [of "length xs - 1"] show ?thesis
    by (cases "xs = []") (auto simp: insertion_def)
qed

end



section \<open>The routine ends\<close>

text \<open>Bounds that hold of the pointers whatever the comparison answers.\<close>

lemma scan_up_bounds:
  "scan_up cmp xs pa pb ec cnt = (xs', pa', pb', cnt') \<Longrightarrow> 1 \<le> pa \<Longrightarrow> pa \<le> pb \<Longrightarrow> pb \<le> length xs \<Longrightarrow>
   ec \<le> length xs \<Longrightarrow> length xs' = length xs \<and> 1 \<le> pa' \<and> pa' \<le> pb' \<and> pb' \<le> length xs"
proof (induction cmp xs pa pb ec cnt rule: scan_up.induct)
  case (1 cmp xs pa pb ec cnt)
  show ?case
    using 1 by (auto simp: scan_up.simps [of cmp xs pa pb ec cnt] split: if_splits)
qed

lemma scan_down_bounds:
  "scan_down cmp xs pb ec ed cnt = (xs', ec', ed', cnt') \<Longrightarrow> 1 \<le> pb \<Longrightarrow> 1 \<le> ec \<Longrightarrow> ec \<le> ed \<Longrightarrow>
   ed \<le> length xs \<Longrightarrow> length xs' = length xs \<and> 1 \<le> ec' \<and> ec' \<le> ed' \<and> ed' \<le> length xs"
proof (induction cmp xs pb ec ed cnt rule: scan_down.induct)
  case (1 cmp xs pb ec ed cnt)
  show ?case
    using 1 by (auto simp: scan_down.simps [of cmp xs pb ec ed cnt] split: if_splits)
qed

lemma partition_bounds:
  "partition_loop cmp xs pa pb ec ed cnt = (xs', pa', pb', ec', ed', cnt') \<Longrightarrow> 1 \<le> pa \<Longrightarrow> pa \<le> pb \<Longrightarrow>
   pb \<le> length xs \<Longrightarrow> 1 \<le> ec \<Longrightarrow> ec \<le> ed \<Longrightarrow> ed \<le> length xs \<Longrightarrow>
   length xs' = length xs \<and> 1 \<le> pa' \<and> pa' \<le> pb' \<and> pb' \<le> length xs \<and> 1 \<le> ec' \<and> ec' \<le> ed' \<and> ed' \<le> length xs"
proof (induction cmp xs pa pb ec ed cnt rule: partition_loop.induct)
  case (1 cmp xs pa pb ec ed cnt)
  obtain xs1 pa1 pb1 cnt1 where U: "scan_up cmp xs pa pb ec cnt = (xs1, pa1, pb1, cnt1)" by (metis prod_cases4)
  obtain xs2 ec1 ed1 cnt2 where D: "scan_down cmp xs1 pb1 ec ed cnt1 = (xs2, ec1, ed1, cnt2)" by (metis prod_cases4)
  have b: "length xs1 = length xs" "1 \<le> pa1" "pa1 \<le> pb1" "pb1 \<le> length xs"
    using scan_up_bounds [OF U] 1(3-) by auto
  have c: "length xs2 = length xs" "1 \<le> ec1" "ec1 \<le> ed1" "ed1 \<le> length xs"
    using scan_down_bounds [OF D] 1(3-) b by auto
  show ?case
  proof (cases "pb1 \<ge> ec1")
    case True
    then show ?thesis
      using 1(2) b c by (simp add: partition_loop.simps [of cmp xs pa pb ec ed cnt] U D)
  next
    case False
    then have "partition_loop cmp (swp pb1 (ec1 - 1) xs2) pa1 (Suc pb1) (ec1 - 1) ed1 True
        = (xs', pa', pb', ec', ed', cnt')"
      using 1(2) by (simp add: partition_loop.simps [of cmp xs pa pb ec ed cnt] U D)
    from 1(1) [OF U [symmetric] refl refl refl D [symmetric] refl refl refl False this]
    show ?thesis using False b c by simp
  qed
qed

lemma qsort_split_bounds:
  assumes "qsort_split cmp xs = Inr (ys, l, r)" and "0 < length xs"
  shows "length ys = length xs \<and> l < length xs \<and> r < length xs"
proof -
  obtain xs1 pa pb ec ed cnt where P: "partition_loop cmp (swp 0 (pivot cmp xs) xs) 1 1 (length xs) (length xs) False
      = (xs1, pa, pb, ec, ed, cnt)"
    by (metis prod_cases6)
  have "length xs1 = length xs \<and> 1 \<le> pa \<and> pa \<le> pb \<and> pb \<le> length xs \<and> 1 \<le> ec \<and> ec \<le> ed \<and> ed \<le> length xs"
    using partition_bounds [OF P] assms(2) by (simp add: Suc_le_eq)
  then show ?thesis
    using assms(1) P by (auto simp: qsort_split_def Let_def split: if_splits)
qed

function qsort_imp :: "('a \<Rightarrow> 'a \<Rightarrow> int) \<Rightarrow> 'a list \<Rightarrow> 'a list" where
  "qsort_imp cmp xs =
     (if length xs < 7 then insertion cmp xs
      else case qsort_split cmp xs of
        Inl ys \<Rightarrow> ys
      | Inr (ys, l, r) \<Rightarrow>
          (if l > 1 then qsort_imp cmp (take l ys) else take l ys)
          @ take (length ys - l - r) (drop l ys)
          @ (if r > 1 then qsort_imp cmp (drop (length ys - r) ys) else drop (length ys - r) ys))"
  by pat_completeness auto
termination
proof (relation "measure (\<lambda>(cmp, xs). length xs)", goal_cases)
  case (2 cmp xs x ys y l r)
  then have "length ys = length xs \<and> l < length xs \<and> r < length xs"
    by (intro qsort_split_bounds [of cmp xs ys l r]) auto
  then show ?case by simp
next
  case (3 cmp xs x ys y l r)
  then have "length ys = length xs \<and> l < length xs \<and> r < length xs"
    by (intro qsort_split_bounds [of cmp xs ys l r]) auto
  then show ?case by simp
qed simp

declare qsort_imp.simps [simp del]


section \<open>The partition\<close>

context comparator
begin

text \<open>The regions of the array, from its ends inwards: equal to the pivot, smaller, not looked
  at yet, larger, equal.\<close>

definition part_inv :: "'a \<Rightarrow> 'a list \<Rightarrow> nat \<Rightarrow> nat \<Rightarrow> nat \<Rightarrow> nat \<Rightarrow> bool" where
  "part_inv v xs pa pb ec ed \<longleftrightarrow> 1 \<le> pa \<and> pa \<le> pb \<and> pb \<le> ec \<and> ec \<le> ed \<and> ed \<le> length xs \<and> xs ! 0 = v
     \<and> (\<forall>i < pa. cmp (xs ! i) v = 0) \<and> (\<forall>i. pa \<le> i \<and> i < pb \<longrightarrow> cmp (xs ! i) v < 0)
     \<and> (\<forall>i. ec \<le> i \<and> i < ed \<longrightarrow> cmp (xs ! i) v > 0)
     \<and> (\<forall>i. ed \<le> i \<and> i < length xs \<longrightarrow> cmp (xs ! i) v = 0)"

lemma up_equal:
  assumes "part_inv v xs pa pb ec ed" and "pb < ec" and "cmp (xs ! pb) v = 0"
  shows "part_inv v (swp pa pb xs) (Suc pa) (Suc pb) ec ed"
proof -
  have l: "0 < length xs" "pa < length xs" "pb < length xs" "0 < pa" "0 < pb"
    using assms(1,2) unfolding part_inv_def by linarith+
  show ?thesis
    using assms l unfolding part_inv_def by (auto simp: nth_swp less_Suc_eq)
qed

lemma up_smaller:
  "part_inv v xs pa pb ec ed \<Longrightarrow> pb < ec \<Longrightarrow> cmp (xs ! pb) v < 0 \<Longrightarrow> part_inv v xs pa (Suc pb) ec ed"
  unfolding part_inv_def by (auto simp: less_Suc_eq)

lemma down_equal:
  assumes I: "part_inv v xs pa pb (Suc c) (Suc d)" and b: "pb < Suc c" and e: "cmp (xs ! c) v = 0"
  shows "part_inv v (swp c d xs) pa pb c d"
proof -
  let ?ys = "swp c d xs"
  have l: "c \<le> d" "d < length xs" "0 < c" "pb \<le> c" "1 \<le> pa" "pa \<le> pb" "xs ! 0 = v"
    using I b unfolding part_inv_def by linarith+
  have nth: "?ys ! i = (if i = c then xs ! d else if i = d then xs ! c else xs ! i)" if "i < length xs" for i
    using l that by (simp add: nth_swp)
  have low: "?ys ! i = xs ! i" if "i < pb" for i
    using nth [of i] l that by simp
  have "\<forall>i < pa. cmp (?ys ! i) v = 0" "\<forall>i. pa \<le> i \<and> i < pb \<longrightarrow> cmp (?ys ! i) v < 0"
    using I l(6) low unfolding part_inv_def by simp_all
  moreover have "cmp (?ys ! i) v > 0" if "c \<le> i" "i < d" for i
  proof -
    have "?ys ! i = (if i = c then xs ! d else xs ! i)" using nth [of i] that l by simp
    then show ?thesis using I that l(1) unfolding part_inv_def by simp
  qed
  moreover have "cmp (?ys ! i) v = 0" if "d \<le> i" "i < length xs" for i
  proof (cases "i = d")
    case True
    then show ?thesis using nth [of i] that e by simp
  next
    case False
    then have "?ys ! i = xs ! i" using nth [of i] that l by simp
    then show ?thesis using I False that unfolding part_inv_def by simp
  qed
  ultimately show ?thesis
    using l low [of 0] unfolding part_inv_def by simp
qed

lemma down_larger:
  assumes I: "part_inv v xs pa pb (Suc c) ed" and "pb < Suc c" and "cmp (xs ! c) v > 0"
  shows "part_inv v xs pa pb c ed"
proof -
  have "cmp (xs ! i) v > 0" if "c \<le> i" "i < ed" for i
    using I assms(3) that unfolding part_inv_def by (cases "i = c") simp_all
  then show ?thesis using I assms(2) unfolding part_inv_def by simp
qed

lemma part_inv_bounds:
  assumes "part_inv v xs pa pb ec ed" and "pb < ec"
  shows "pa < length xs" and "pb < length xs" and "ec - 1 < length xs" and "ed - 1 < length xs"
    and "xs ! 0 = v"
  using assms unfolding part_inv_def by linarith+

lemma scan_up_inv:
  "scan_up cmp xs pa pb ec cnt = (xs', pa', pb', cnt') \<Longrightarrow> part_inv v xs pa pb ec ed \<Longrightarrow>
   part_inv v xs' pa' pb' ec ed \<and> mset xs' = mset xs \<and> (pb' < ec \<longrightarrow> cmp (xs' ! pb') v > 0)"
proof (induction "ec - pb" arbitrary: xs pa pb cnt rule: less_induct)
  case less
  note I = less.prems(2)
  show ?case
  proof (cases "pb < ec \<and> cmp (xs ! pb) v \<le> 0")
    case False
    then show ?thesis
      using less.prems part_inv_bounds(5) [OF I] by (auto simp: scan_up.simps [of cmp xs] split: if_splits)
  next
    case True
    then have lt: "pb < ec" by simp
    note b = part_inv_bounds [OF I lt]
    have dec: "ec - Suc pb < ec - pb" using lt by simp
    show ?thesis
    proof (cases "cmp (xs ! pb) v = 0")
      case eq: True
      have "scan_up cmp (swp pa pb xs) (Suc pa) (Suc pb) ec True = (xs', pa', pb', cnt')"
        using less.prems(1) True eq b(5) by (simp add: scan_up.simps [of cmp xs])
      from less.hyps [OF dec this up_equal [OF I lt eq]] show ?thesis using b by simp
    next
      case False
      then have "cmp (xs ! pb) v < 0" using True by simp
      note J = up_smaller [OF I lt this]
      have "scan_up cmp xs pa (Suc pb) ec cnt = (xs', pa', pb', cnt')"
        using less.prems(1) True False b(5) by (simp add: scan_up.simps [of cmp xs])
      from less.hyps [OF dec this J] show ?thesis .
    qed
  qed
qed

lemma scan_down_inv:
  "scan_down cmp xs pb ec ed cnt = (xs', ec', ed', cnt') \<Longrightarrow> part_inv v xs pa pb ec ed \<Longrightarrow>
   (pb < ec \<longrightarrow> cmp (xs ! pb) v > 0) \<Longrightarrow>
   part_inv v xs' pa pb ec' ed' \<and> mset xs' = mset xs
   \<and> (pb < ec' \<longrightarrow> cmp (xs' ! pb) v > 0 \<and> cmp (xs' ! (ec' - 1)) v < 0)"
proof (induction ec arbitrary: xs ed cnt)
  case 0
  then show ?case by (auto simp: scan_down.simps [of cmp xs])
next
  case (Suc c)
  note I = Suc.prems(2)
  show ?case
  proof (cases "pb < Suc c \<and> cmp (xs ! c) v \<ge> 0")
    case False
    have "pb < Suc c \<Longrightarrow> xs ! 0 = v" using part_inv_bounds(5) [OF I] .
    with False show ?thesis
      using Suc.prems by (auto simp: scan_down.simps [of cmp xs] split: if_splits)
  next
    case True
    then have lt: "pb < Suc c" by simp
    note b = part_inv_bounds [OF I lt]
    show ?thesis
    proof (cases "cmp (xs ! c) v = 0")
      case eq: True
      obtain d where d: "ed = Suc d" using I unfolding part_inv_def by (cases ed) auto
      have "scan_down cmp (swp c d xs) pb c d True = (xs', ec', ed', cnt')"
        using Suc.prems(1) True eq b(5) by (simp add: scan_down.simps [of cmp xs] d)
      moreover have "part_inv v (swp c d xs) pa pb c d" using down_equal [OF I [unfolded d] lt eq] .
      moreover have "pb < c \<longrightarrow> cmp (swp c d xs ! pb) v > 0"
      proof
        assume "pb < c"
        moreover have "c \<le> d" using I unfolding part_inv_def d by simp
        ultimately have "swp c d xs ! pb = xs ! pb" using b d by (simp add: nth_swp)
        then show "cmp (swp c d xs ! pb) v > 0" using Suc.prems(3) lt by simp
      qed
      ultimately show ?thesis using Suc.IH [of "swp c d xs" d True] b d by simp
    next
      case False
      then have "cmp (xs ! c) v > 0" using True by simp
      note J = down_larger [OF I lt this]
      have "scan_down cmp xs pb c ed cnt = (xs', ec', ed', cnt')"
        using Suc.prems(1) True False b(5) by (simp add: scan_down.simps [of cmp xs])
      from Suc.IH [OF this J] show ?thesis using Suc.prems(3) lt by simp
    qed
  qed
qed

lemma up_down_swap:
  assumes I: "part_inv v xs pa pb ec ed" and lt: "pb < ec"
    and g: "cmp (xs ! pb) v > 0" and s: "cmp (xs ! (ec - 1)) v < 0"
  shows "part_inv v (swp pb (ec - 1) xs) pa (Suc pb) (ec - 1) ed"
proof -
  obtain c where c: "ec = Suc c" using lt by (cases ec) auto
  have l: "0 < pb" "pb \<le> c" "c < length xs" "pa \<le> pb" "ec \<le> ed" "ed \<le> length xs" "1 \<le> pa" "xs ! 0 = v"
    using I lt unfolding part_inv_def c by linarith+
  have ne: "pb \<noteq> c" using g s by (auto simp: c)
  let ?ys = "swp pb c xs"
  have nth: "?ys ! i = (if i = pb then xs ! c else if i = c then xs ! pb else xs ! i)" if "i < length xs" for i
    using l that by (simp add: nth_swp)
  have "cmp (?ys ! i) v = 0" if "i < pa" for i
    using nth [of i] I that l unfolding part_inv_def by simp
  moreover have "cmp (?ys ! i) v < 0" if "pa \<le> i" "i < Suc pb" for i
    using nth [of i] I that l s unfolding part_inv_def by (cases "i = pb") (simp_all add: c)
  moreover have "cmp (?ys ! i) v > 0" if "c \<le> i" "i < ed" for i
    using nth [of i] I that l g ne unfolding part_inv_def by (cases "i = c") (simp_all add: c)
  moreover have "cmp (?ys ! i) v = 0" if "ed \<le> i" "i < length xs" for i
    using nth [of i] I that l unfolding part_inv_def by (simp add: c)
  moreover have "?ys ! 0 = v" using nth [of 0] l by (cases "xs = []") simp_all
  ultimately show ?thesis
    using l ne unfolding part_inv_def c by simp
qed

lemma partition_inv:
  "partition_loop cmp xs pa pb ec ed cnt = (xs', pa', pb', ec', ed', cnt') \<Longrightarrow> part_inv v xs pa pb ec ed \<Longrightarrow>
   part_inv v xs' pa' pb' ec' ed' \<and> mset xs' = mset xs \<and> pb' = ec'"
proof (induction "ec - pb" arbitrary: xs pa pb ec ed cnt rule: less_induct)
  case less
  obtain xs1 pa1 pb1 cnt1 where U: "scan_up cmp xs pa pb ec cnt = (xs1, pa1, pb1, cnt1)" by (metis prod_cases4)
  obtain xs2 ec1 ed1 cnt2 where D: "scan_down cmp xs1 pb1 ec ed cnt1 = (xs2, ec1, ed1, cnt2)" by (metis prod_cases4)
  have u: "part_inv v xs1 pa1 pb1 ec ed" "mset xs1 = mset xs" "pb1 < ec \<longrightarrow> cmp (xs1 ! pb1) v > 0"
    using scan_up_inv [OF U less.prems(2)] by auto
  have d: "part_inv v xs2 pa1 pb1 ec1 ed1" "mset xs2 = mset xs1"
      "pb1 < ec1 \<longrightarrow> cmp (xs2 ! pb1) v > 0 \<and> cmp (xs2 ! (ec1 - 1)) v < 0"
    using scan_down_inv [OF D u(1,3)] by auto
  show ?case
  proof (cases "pb1 \<ge> ec1")
    case True
    moreover have "pb1 \<le> ec1" using d(1) unfolding part_inv_def by simp
    ultimately have e: "pb1 = ec1" by simp
    have "(xs', pa', pb', ec', ed', cnt') = (xs2, pa1, pb1, ec1, ed1, cnt2)"
      using less.prems(1) True by (simp add: partition_loop.simps [of cmp xs pa pb ec ed cnt] U D)
    then show ?thesis using d(1,2) u(2) e by simp
  next
    case False
    then have lt: "pb1 < ec1" by simp
    have "partition_loop cmp (swp pb1 (ec1 - 1) xs2) pa1 (Suc pb1) (ec1 - 1) ed1 True
        = (xs', pa', pb', ec', ed', cnt')"
      using less.prems(1) False by (simp add: partition_loop.simps [of cmp xs pa pb ec ed cnt] U D)
    moreover have "part_inv v (swp pb1 (ec1 - 1) xs2) pa1 (Suc pb1) (ec1 - 1) ed1"
      using up_down_swap [OF d(1) lt] d(3) lt by simp
    moreover have "ec1 - 1 - Suc pb1 < ec - pb"
      using scan_up_ge [OF U] scan_down_le [OF D] lt by simp
    moreover have "mset (swp pb1 (ec1 - 1) xs2) = mset xs2"
      using part_inv_bounds [OF d(1) lt] by simp
    ultimately show ?thesis
      using less.hyps u(2) d(2) by metis
  qed
qed

text \<open>The two exchanges after the loop: smaller, equal, larger.\<close>

lemma qsort_split_ordered:
  assumes "qsort_split cmp xs = Inr (ys, l, r)" and ne: "0 < length xs"
  obtains L E R v where "ys = L @ E @ R" and "length L = l" and "length R = r"
    and "mset ys = mset xs" and "\<forall>x \<in> set L. cmp x v < 0" and "\<forall>x \<in> set E. cmp x v = 0"
    and "\<forall>x \<in> set R. cmp x v > 0"
proof -
  let ?n = "length xs"
  define xs0 where "xs0 = swp 0 (pivot cmp xs) xs"
  define v where "v = xs0 ! 0"
  have m0: "mset xs0 = mset xs" "length xs0 = ?n"
    using pivot_less [OF ne, of cmp] ne by (simp_all add: xs0_def)
  have I0: "part_inv v xs0 1 1 ?n ?n"
    using ne m0(2) by (auto simp: part_inv_def v_def cmp_refl Suc_le_eq)
  obtain xs1 pa pb ec ed cnt where P: "partition_loop cmp xs0 1 1 ?n ?n False = (xs1, pa, pb, ec, ed, cnt)"
    by (metis prod_cases6)
  from partition_inv [OF P I0] have I: "part_inv v xs1 pa pb pb ed" and m1: "mset xs1 = mset xs" and pe: "pb = ec"
    using m0(1) by auto
  have l1: "length xs1 = ?n" using m1 by (metis size_mset)
  have b: "1 \<le> pa" "pa \<le> pb" "pb \<le> ed" "ed \<le> ?n" using I l1 unfolding part_inv_def by auto
  define E1 where "E1 = take pa xs1"
  define L1 where "L1 = take (pb - pa) (drop pa xs1)"
  define R1 where "R1 = take (ed - pb) (drop pb xs1)"
  define E2 where "E2 = drop ed xs1"
  have xs1: "xs1 = E1 @ L1 @ R1 @ E2"
  proof -
    have "E2 = drop (ed - pb) (drop pb xs1)" "drop pb xs1 = drop (pb - pa) (drop pa xs1)"
      using b(2,3) by (simp_all add: E2_def)
    then have "R1 @ E2 = drop pb xs1" "L1 @ drop pb xs1 = drop pa xs1"
      by (simp_all only: R1_def L1_def append_take_drop_id)
    then show ?thesis by (simp add: E1_def)
  qed
  have len: "length E1 = pa" "length L1 = pb - pa" "length R1 = ed - pb" "length E2 = ?n - ed"
    using b l1 by (simp_all add: E1_def L1_def R1_def E2_def)
  have ord: "\<forall>x \<in> set E1. cmp x v = 0" "\<forall>x \<in> set L1. cmp x v < 0"
      "\<forall>x \<in> set R1. cmp x v > 0" "\<forall>x \<in> set E2. cmp x v = 0"
    using I l1 unfolding part_inv_def E1_def L1_def R1_def E2_def
    by (auto simp: in_set_conv_nth)
  define r1 where "r1 = (if pa < pb - pa then pa else pb - pa)"
  define r2 where "r2 = (if ed - pb < ?n - ed then ed - pb else ?n - ed)"
  have r1: "r1 = (if length E1 < length L1 then length E1 else length L1)"
    and r2: "r2 = (if length R1 < length E2 then length R1 else length E2)"
    by (simp_all only: r1_def r2_def len)
  obtain E' L where F1: "vecswap (length ([] :: 'a list)) (length ([] :: 'a list) + length E1 + length L1 - r1) r1 ([] @ E1 @ L1 @ R1 @ E2)
        = [] @ L @ E' @ R1 @ E2"
      "mset E' = mset E1" "mset L = mset L1" "length E' = length E1" "length L = length L1"
    by (rule vecswap_flip [OF r1, of "[]" "R1 @ E2"]) (rule that)
  have f1: "vecswap 0 (pb - r1) r1 xs1 = (L @ E') @ R1 @ E2"
    using F1(1) b(1,2) by (simp add: len xs1)
  have l1: "length (L @ E') = pb" using F1(4,5) len b by simp
  obtain R E'' where F2: "vecswap (length (L @ E')) (length (L @ E') + length R1 + length E2 - r2) r2 ((L @ E') @ R1 @ E2 @ [])
        = (L @ E') @ E'' @ R @ []"
      "mset R = mset R1" "mset E'' = mset E2" "length R = length R1" "length E'' = length E2"
    by (rule vecswap_flip [OF r2, of "L @ E'" "[]"]) (rule that)
  have f2: "vecswap pb (?n - r2) r2 ((L @ E') @ R1 @ E2) = (L @ E') @ E'' @ R"
    using F2(1) b unfolding l1 by (simp add: len)
  have "qsort_split cmp xs = Inr (vecswap pb (?n - r2) r2 (vecswap 0 (pb - r1) r1 xs1), pb - pa, ed - pb)"
    using assms(1) P
    by (auto simp: qsort_split_def Let_def r1_def r2_def pe simp flip: xs0_def split: if_splits)
  then have ys: "ys = L @ (E' @ E'') @ R \<and> l = pb - pa \<and> r = ed - pb"
    using assms(1) f1 f2 by simp
  show thesis
  proof (rule that [of L "E' @ E''" R v])
    show "mset ys = mset xs" using ys F1(2,3) F2(2,3) m1 by (simp add: xs1 ac_simps)
    show "\<forall>x \<in> set L. cmp x v < 0" using ord(2) F1(3) by (metis set_mset_mset)
    show "\<forall>x \<in> set R. cmp x v > 0" using ord(3) F2(2) by (metis set_mset_mset)
    show "\<forall>x \<in> set (E' @ E''). cmp x v = 0"
      using ord(1,4) mset_eq_setD [OF F1(2)] mset_eq_setD [OF F2(3)] by auto
  qed (use ys len F1(5) F2(4) in simp_all)
qed

lemma qsort_split_nearly_sorted:
  assumes "qsort_split cmp xs = Inl ys" and ne: "0 < length xs"
  shows "mset ys = mset xs \<and> sorted_wrt le ys"
proof -
  let ?n = "length xs"
  define xs0 where "xs0 = swp 0 (pivot cmp xs) xs"
  have m0: "mset xs0 = mset xs" "length xs0 = ?n"
    using pivot_less [OF ne, of cmp] ne by (simp_all add: xs0_def)
  have I0: "part_inv (xs0 ! 0) xs0 1 1 ?n ?n"
    using ne m0(2) by (auto simp: part_inv_def cmp_refl Suc_le_eq)
  obtain xs1 pa pb ec ed cnt where P: "partition_loop cmp xs0 1 1 ?n ?n False = (xs1, pa, pb, ec, ed, cnt)"
    by (metis prod_cases6)
  from partition_inv [OF P I0] have "mset xs1 = mset xs" using m0(1) by simp
  moreover have "ys = insertion cmp xs1"
    using assms(1) P by (auto simp: qsort_split_def Let_def xs0_def [symmetric] split: if_splits)
  ultimately show ?thesis by (simp add: mset_insertion insertion_sorts)
qed

text \<open>The routine sorts: its result is a permutation of the array, in order.\<close>

lemma qsort_sorts: "mset (qsort_imp cmp xs) = mset xs \<and> sorted_wrt le (qsort_imp cmp xs)"
proof (induction "length xs" arbitrary: xs rule: less_induct)
  case less
  show ?case
  proof (cases "length xs < 7")
    case True
    then show ?thesis by (simp add: qsort_imp.simps [of cmp xs] mset_insertion insertion_sorts)
  next
    case False
    then have ne: "0 < length xs" by auto
    show ?thesis
    proof (cases "qsort_split cmp xs")
      case (Inl ys)
      then show ?thesis
        using qsort_split_nearly_sorted [OF Inl ne] False by (simp add: qsort_imp.simps [of cmp xs])
    next
      case (Inr p)
      then obtain ys l r where S: "qsort_split cmp xs = Inr (ys, l, r)" by (cases p) auto
      obtain L E R v where D: "ys = L @ E @ R" "length L = l" "length R = r" "mset ys = mset xs"
          "\<forall>x \<in> set L. cmp x v < 0" "\<forall>x \<in> set E. cmp x v = 0" "\<forall>x \<in> set R. cmp x v > 0"
        by (rule qsort_split_ordered [OF S ne])
      have b: "length L < length xs" "length R < length xs"
        using qsort_split_bounds [OF S ne] D(2,3) by auto
      define L' where "L' = (if l > 1 then qsort_imp cmp L else L)"
      define R' where "R' = (if r > 1 then qsort_imp cmp R else R)"
      have short: "sorted_wrt le zs" if "\<not> length zs > 1" for zs
        using that by (cases zs) auto
      have L': "mset L' = mset L" "sorted_wrt le L'"
        using less.hyps [OF b(1)] short [of L] D(2) by (simp_all add: L'_def)
      have R': "mset R' = mset R" "sorted_wrt le R'"
        using less.hyps [OF b(2)] short [of R] D(3) by (simp_all add: R'_def)
      have q: "qsort_imp cmp xs = L' @ E @ R'"
        using False D(1-3) by (simp add: qsort_imp.simps [of cmp xs] S L'_def R'_def)
      have m: "mset (L' @ E @ R') = mset xs" using L'(1) R'(1) D(1,4) by simp
      have vs: "\<forall>x \<in> set L'. le x v" "\<forall>x \<in> set E. le x v \<and> le v x" "\<forall>x \<in> set R'. le v x"
        using D(5-7) mset_eq_setD [OF L'(1)] mset_eq_setD [OF R'(1)] cmp_swap
        by (auto simp: le_def) (metis less_le_not_le linorder_not_le order_less_imp_le)+
      have "sorted_wrt le E"
        unfolding sorted_wrt_iff_nth_less using vs(2) le_trans by (meson nth_mem order_less_trans)
      then have "sorted_wrt le (L' @ E @ R')"
        using L'(2) R'(2) vs by (auto simp: sorted_wrt_append intro: le_trans)
      with q m show ?thesis by simp
    qed
  qed
qed

end

end
