(* ===== verification/Mtable.thy ===== *)
theory Mtable
  imports Glog Qsort
begin

text \<open>
  \<open>driver/mtable.c\<close>: the table of the memory segments of all loaded modules, built once, sorted
  by start address, and searched to attribute an address to a module. A table is the module
  list, the segment list and the flag that says it has been built; the code keeps one for the
  kernel and one for user modules and passes pointers to the three. An index outside the
  segment list or the module list is the fault \<open>OutOfBounds\<close>.
\<close>

record segment_info =
  moduleName :: string
  seg :: int
  range_start :: addr
  range_end :: addr

record module_table =
  modlist :: "int list"
  segList :: "segment_info list"
  moduleConstructured :: int

definition MOD_LIST_SIZE :: nat where "MOD_LIST_SIZE = 128"
definition SEG_LIST_SIZE :: nat where "SEG_LIST_SIZE = MOD_LIST_SIZE * 4"

text \<open>An entry as \<open>memset(..., -1, ...)\<close> leaves it, which is also how the last item is marked.\<close>

definition blank_segment :: segment_info where
  "blank_segment = \<lparr>moduleName = replicate 30 (CHR 0xFF), seg = -1, range_start = -1, range_end = -1\<rparr>"

text \<open>28 bytes of the module's name in a cleared buffer of 30.\<close>

definition copy_name :: "string \<Rightarrow> string" where
  "copy_name nm = take 28 (nm @ replicate 28 (CHR 0x00)) @ replicate 2 (CHR 0x00)"

text \<open>The loop over the segments of one module, from number \<open>n\<close> on.\<close>

fun add_segments ::
    "string \<Rightarrow> nat \<Rightarrow> module_seg list \<Rightarrow> nat \<Rightarrow> segment_info list \<Rightarrow> (nat \<times> segment_info list) run" where
  "add_segments nm n [] idx segs = ret (idx, segs)"
| "add_segments nm n (g # gs) idx segs =
     (if vaddr g = 0 then add_segments nm (Suc n) gs idx segs
      else if idx < length segs
      then add_segments nm (Suc n) gs (Suc idx)
             (segs[idx := \<lparr>moduleName = copy_name nm, seg = int n, range_start = vaddr g,
                           range_end = vaddr g + memsz g\<rparr>])
      else fail OutOfBounds)"

text \<open>The loop over the modules.\<close>

fun add_modules ::
    "'w kapi \<Rightarrow> int list \<Rightarrow> nat \<Rightarrow> segment_info list \<Rightarrow> ('w, 'm) kbase_scheme
     \<Rightarrow> (int \<times> nat \<times> segment_info list \<times> ('w, 'm) kbase_scheme) run" where
  "add_modules k [] idx segs s = ret (0, idx, segs, s)"
| "add_modules k (m # ms) idx segs s =
     (let (r, minfo, s1) = kcall2 (k_GetModuleInfo k m) s
      in if r < 0 then ret (r, idx, segs, s1)
         else run_bind (add_segments (mod_name minfo) 0 (take 4 (segments minfo)) idx segs) (\<lambda>(idx', segs').
              add_modules k ms idx' segs' s1))"

definition construct_module_range_table ::
    "'w kapi \<Rightarrow> int \<Rightarrow> int \<Rightarrow> int \<Rightarrow> module_table \<Rightarrow> ('w, 'm) kbase_scheme
     \<Rightarrow> (int \<times> module_table \<times> ('w, 'm) kbase_scheme) run" where
  "construct_module_range_table k pid flags1 flags2 T s =
     (if moduleConstructured T > 0 then ret (0, T, s)
      else
        let s1 = glog_line k ''constructing module range table'' s;
            T1 = T\<lparr>moduleConstructured := 1, modlist := replicate (length (modlist T)) 0,
                   segList := replicate (length (segList T)) blank_segment\<rparr>;
            (r, mods, s2) = kcall2 (k_GetModuleList k pid flags1 flags2 (length (modlist T1))) s1
        in if r < 0 then ret (r, T1, s2)
           else if length mods > length (modlist T1) then fail OutOfBounds
           else
             let T2 = T1\<lparr>modlist := mods @ drop (length mods) (modlist T1)\<rparr>;
                 s3 = glog_line k (''number of modules: '' @ dec_str (int (length mods))) s2
             in run_bind (add_modules k mods 0 (segList T2) s3) (\<lambda>(r, idx, segs, s4).
                if r < 0 then ret (r, T2\<lparr>segList := segs\<rparr>, s4)
                else if idx < length segs
                then ret (0, T2\<lparr>segList := segs[idx := (segs ! idx)\<lparr>range_start := -1, range_end := -1\<rparr>]\<rparr>, s4)
                else fail OutOfBounds))"

definition compare_segments :: "segment_info \<Rightarrow> segment_info \<Rightarrow> int" where
  "compare_segments x y =
     (if range_start x < range_start y then -1
      else if range_start x > range_start y then 1 else 0)"

definition sort_segment_table :: "module_table \<Rightarrow> int \<times> module_table" where
  "sort_segment_table T =
     (if moduleConstructured T = 0 then (-1, T)
      else (0, T\<lparr>segList := qsort_imp compare_segments (segList T)\<rparr>))"

fun search_segments :: "int \<Rightarrow> segment_info list \<Rightarrow> addr \<Rightarrow> int" where
  "search_segments n [] item = -1"
| "search_segments n (x # xs) item =
     (if item \<ge> range_start x \<and> item < range_end x then n else search_segments (n + 1) xs item)"

definition find_in_segments :: "module_table \<Rightarrow> addr \<Rightarrow> int" where
  "find_in_segments T item = (if moduleConstructured T = 0 then -1 else search_segments 0 (segList T) item)"

definition segment_line :: "segment_info \<Rightarrow> string" where
  "segment_line x = c_string (moduleName x) @ '' '' @ dec_str (seg x) @ '' '' @ hex8_str (range_start x)
     @ '' '' @ hex8_str (range_end x)"

fun print_segments ::
    "'w kapi \<Rightarrow> segment_info list \<Rightarrow> ('w, 'm) kbase_scheme \<Rightarrow> ('w, 'm) kbase_scheme" where
  "print_segments k [] s = s"
| "print_segments k (x # xs) s =
     (if range_start x = -1 \<or> range_end x = -1 then s
      else print_segments k xs (glog_line k (segment_line x) s))"

definition print_segment_table ::
    "'w kapi \<Rightarrow> module_table \<Rightarrow> ('w, 'm) kbase_scheme \<Rightarrow> int \<times> ('w, 'm) kbase_scheme" where
  "print_segment_table k T s =
     (if moduleConstructured T = 0 then (-1, s) else (0, print_segments k (segList T) s))"


section \<open>Sorting\<close>

interpretation seg_order: comparator compare_segments
  by unfold_locales (auto simp: compare_segments_def split: if_splits)

lemma seg_le: "seg_order.le x y \<longleftrightarrow> range_start x \<le> range_start y"
  by (auto simp: seg_order.le_def compare_segments_def)

lemma table_sorted:
  "if moduleConstructured T = 0 then sort_segment_table T = (-1, T)
   else \<exists>T'. sort_segment_table T = (0, T') \<and> mset (segList T') = mset (segList T)
     \<and> sorted (map range_start (segList T')) \<and> moduleConstructured T' = moduleConstructured T
     \<and> modlist T' = modlist T"
proof -
  have "(\<lambda>x y. range_start x \<le> range_start y) = seg_order.le"
    by (intro ext) (simp add: seg_le)
  then have "sorted (map range_start (qsort_imp compare_segments (segList T)))"
    using seg_order.qsort_sorts [of "segList T"] by (simp add: sorted_map)
  then show ?thesis
    using seg_order.qsort_sorts [of "segList T"] by (simp add: sort_segment_table_def)
qed


text \<open>C7: Sorting the table keeps its entries, every one as often as before, and puts them in
  ascending order of their start addresses; on a table that has not been built it does nothing
  and answers -1.\<close>

theorem sort_segment_table_sorts:
  "if moduleConstructured T = 0 then sort_segment_table T = (-1, T)
   else \<exists>T'. sort_segment_table T = (0, T') \<and> mset (segList T') = mset (segList T)
     \<and> sorted (map range_start (segList T')) \<and> moduleConstructured T' = moduleConstructured T
     \<and> modlist T' = modlist T"
  by (rule table_sorted)


section \<open>Searching\<close>

definition inside :: "addr \<Rightarrow> segment_info \<Rightarrow> bool" where
  "inside item x \<longleftrightarrow> item \<ge> range_start x \<and> item < range_end x"

lemma blank_never_inside: "\<not> inside item blank_segment"
  by (auto simp: inside_def blank_segment_def not_less)

lemma search_segments_cases:
  "(search_segments n xs item = -1 \<and> (\<forall>x \<in> set xs. \<not> inside item x))
   \<or> (\<exists>i < length xs. search_segments n xs item = n + int i \<and> inside item (xs ! i)
        \<and> (\<forall>j < i. \<not> inside item (xs ! j)))"
proof (induction n xs item rule: search_segments.induct)
  case (1 n item)
  then show ?case by simp
next
  case (2 n x xs item)
  show ?case
  proof (cases "inside item x")
    case True
    then show ?thesis by (intro disjI2 exI [of _ 0]) (simp add: inside_def)
  next
    case False
    then have out: "\<not> (item \<ge> range_start x \<and> item < range_end x)" by (simp add: inside_def)
    from 2 [OF out] consider "search_segments (n + 1) xs item = -1" "\<forall>x \<in> set xs. \<not> inside item x"
      | i where "i < length xs" "search_segments (n + 1) xs item = n + 1 + int i" "inside item (xs ! i)"
          "\<forall>j < i. \<not> inside item (xs ! j)"
      by auto
    then show ?thesis
    proof cases
      case 1
      with False out show ?thesis by auto
    next
      case 2
      with False out show ?thesis
        by (intro disjI2 exI [of _ "Suc i"]) (auto simp: less_Suc_eq_0_disj)
    qed
  qed
qed

text \<open>The search answers with the index of the first entry whose half-open range contains
  the address, and with -1 exactly when there is none or the table has not been built.\<close>

theorem find_in_segments_first:
  "(find_in_segments T item = -1
      \<and> (moduleConstructured T = 0 \<or> (\<forall>x \<in> set (segList T). \<not> inside item x)))
   \<or> (moduleConstructured T \<noteq> 0 \<and> (\<exists>i < length (segList T). find_in_segments T item = int i
      \<and> inside item (segList T ! i) \<and> (\<forall>j < i. \<not> inside item (segList T ! j))))"
  using search_segments_cases [of 0 "segList T" item] by (auto simp: find_in_segments_def)

theorem find_in_segments_first_witness:
  "find_in_segments \<lparr>modlist = [], segList = [\<lparr>moduleName = [], seg = 0, range_start = 4, range_end = 8\<rparr>],
     moduleConstructured = 1\<rparr> 5 \<noteq> -1"
  using find_in_segments_first [of "\<lparr>modlist = [], segList = [\<lparr>moduleName = [], seg = 0,
     range_start = 4, range_end = 8\<rparr>], moduleConstructured = 1\<rparr>" 5]
  by (auto simp: inside_def)


section \<open>Building\<close>

text \<open>What the table should list: the segments of the modules in the order of the module list,
  leaving out those that are not there.\<close>

definition row :: "string \<Rightarrow> nat \<Rightarrow> module_seg \<Rightarrow> segment_info" where
  "row nm n g = \<lparr>moduleName = copy_name nm, seg = int n, range_start = vaddr g, range_end = vaddr g + memsz g\<rparr>"

fun rows :: "string \<Rightarrow> nat \<Rightarrow> module_seg list \<Rightarrow> segment_info list" where
  "rows nm n [] = []"
| "rows nm n (g # gs) = (if vaddr g = 0 then [] else [row nm n g]) @ rows nm (Suc n) gs"

definition all_rows :: "(int \<Rightarrow> module_info) \<Rightarrow> int list \<Rightarrow> segment_info list" where
  "all_rows info mods = concat (map (\<lambda>m. rows (mod_name (info m)) 0 (take 4 (segments (info m)))) mods)"

lemma add_segments_rows:
  "add_segments nm n gs (length A) (A @ replicate N blank_segment)
   = (if length (rows nm n gs) \<le> N
      then ret (length A + length (rows nm n gs), A @ rows nm n gs @ replicate (N - length (rows nm n gs)) blank_segment)
      else fail OutOfBounds)"
proof (induction gs arbitrary: n A N)
  case Nil
  then show ?case by simp
next
  case (Cons g gs)
  show ?case
  proof (cases "vaddr g = 0")
    case True
    then show ?thesis using Cons.IH [of "Suc n" A N] by simp
  next
    case False
    show ?thesis
    proof (cases N)
      case 0
      then show ?thesis using False by simp
    next
      case (Suc M)
      have "(A @ replicate N blank_segment)[length A := row nm n g] = (A @ [row nm n g]) @ replicate M blank_segment"
        using Suc by (simp add: list_update_append)
      then show ?thesis
        using False Suc Cons.IH [of "Suc n" "A @ [row nm n g]" M] by (simp add: row_def)
    qed
  qed
qed

lemma add_modules_rows:
  assumes "\<forall>m \<in> set mods. \<forall>w. k_GetModuleInfo k m w = (0, info m, w)"
  shows "add_modules k mods (length A) (A @ replicate N blank_segment) s
   = (if length (all_rows info mods) \<le> N
      then ret (0, length A + length (all_rows info mods),
             A @ all_rows info mods @ replicate (N - length (all_rows info mods)) blank_segment, s)
      else fail OutOfBounds)"
  using assms
proof (induction mods arbitrary: A N)
  case Nil
  then show ?case by (simp add: all_rows_def)
next
  case (Cons m mods)
  let ?R = "rows (mod_name (info m)) 0 (take 4 (segments (info m)))"
  have info: "k_GetModuleInfo k m (world s) = (0, info m, world s)" using Cons.prems by simp
  have all: "all_rows info (m # mods) = ?R @ all_rows info mods" by (simp add: all_rows_def)
  show ?case
  proof (cases "length ?R \<le> N")
    case True
    then show ?thesis
      using Cons.IH [of "A @ ?R" "N - length ?R"] Cons.prems info
      by (auto simp: add_segments_rows kcall2_eq run_simps all)
  next
    case False
    then show ?thesis
      using info by (simp add: add_segments_rows kcall2_eq run_simps all)
  qed
qed

lemma construct_rows:
  assumes new: "moduleConstructured T \<le> 0"
    and list: "\<And>w. \<exists>w'. k_GetModuleList k pid f1 f2 (length (modlist T)) w = (0, mods, w')"
    and fits: "length mods \<le> length (modlist T)"
    and info: "\<forall>m \<in> set mods. \<forall>w. k_GetModuleInfo k m w = (0, info m, w)"
  shows "if length (all_rows info mods) < length (segList T)
    then \<exists>s'. construct_module_range_table k pid f1 f2 T s
        = ret (0, \<lparr>modlist = mods @ replicate (length (modlist T) - length mods) 0,
             segList = all_rows info mods @ replicate (length (segList T) - length (all_rows info mods)) blank_segment,
             moduleConstructured = 1\<rparr>, s')
    else construct_module_range_table k pid f1 f2 T s = fail OutOfBounds"
proof -
  let ?L = "all_rows info mods" and ?N = "length (segList T)"
  define s1 where "s1 = glog_line k ''constructing module range table'' s"
  obtain w' where GL: "k_GetModuleList k pid f1 f2 (length (modlist T)) (world s1) = (0, mods, w')"
    using list by blast
  define s3 where "s3 = glog_line k (''number of modules: '' @ dec_str (int (length mods))) (s1\<lparr>world := w'\<rparr>)"
  have A: "add_modules k mods 0 (replicate ?N blank_segment) s3
      = (if length ?L \<le> ?N then ret (0, length ?L, ?L @ replicate (?N - length ?L) blank_segment, s3)
         else fail OutOfBounds)"
    using add_modules_rows [OF info, of "[]" ?N s3] by simp
  have mark: "(?L @ replicate (?N - length ?L) blank_segment)[length ?L :=
        ((?L @ replicate (?N - length ?L) blank_segment) ! length ?L)\<lparr>range_start := -1, range_end := -1\<rparr>]
      = ?L @ replicate (?N - length ?L) blank_segment" if "length ?L < ?N"
    using that by (cases "?N - length ?L") (simp_all add: nth_append list_update_append blank_segment_def)
  show ?thesis
  proof (cases "length ?L < ?N")
    case True
    have "construct_module_range_table k pid f1 f2 T s
      = ret (0, \<lparr>modlist = mods @ replicate (length (modlist T) - length mods) 0,
             segList = ?L @ replicate (?N - length ?L) blank_segment, moduleConstructured = 1\<rparr>, s3)"
      using new fits GL A [unfolded s3_def] True mark [OF True]
      by (cases T) (simp add: construct_module_range_table_def Let_def kcall2_eq run_bind_ret s3_def
          flip: s1_def)
    then show ?thesis using True by auto
  next
    case False
    then have "construct_module_range_table k pid f1 f2 T s = fail OutOfBounds"
      using new fits GL A [unfolded s3_def]
      by (cases T) (auto simp: construct_module_range_table_def Let_def kcall2_eq run_bind_ret run_bind_fail
          simp flip: s1_def)
    then show ?thesis using False by simp
  qed
qed

text \<open>C30: Building the table. When the kernel delivers the module list and every module's
  information, the table lists exactly the existing segments of all modules, in order, followed
  by blank entries, and the function returns 0: but only if at least one entry is left for the
  end mark. With as many segments as entries (512 in the driver) or more, it writes past the
  end of the list.\<close>

theorem construct_lists_segments:
  assumes new: "moduleConstructured T \<le> 0"
    and list: "\<And>w. \<exists>w'. k_GetModuleList k pid f1 f2 (length (modlist T)) w = (0, mods, w')"
    and fits: "length mods \<le> length (modlist T)"
    and info: "\<forall>m \<in> set mods. \<forall>w. k_GetModuleInfo k m w = (0, info m, w)"
  shows "if length (all_rows info mods) < length (segList T)
    then \<exists>s'. construct_module_range_table k pid f1 f2 T s
        = ret (0, \<lparr>modlist = mods @ replicate (length (modlist T) - length mods) 0,
             segList = all_rows info mods @ replicate (length (segList T) - length (all_rows info mods)) blank_segment,
             moduleConstructured = 1\<rparr>, s')
    else construct_module_range_table k pid f1 f2 T s = fail OutOfBounds"
  by (rule construct_rows [OF assms])


definition one_module_kernel :: "unit kapi" where
  "one_module_kernel = quiet_kernel\<lparr>k_GetModuleList := \<lambda>_ _ _ _ w. (0, [77], w),
     k_GetModuleInfo := \<lambda>_ w. (0, \<lparr>mod_name = ''SceIofilemgr'',
       segments = [\<lparr>vaddr = 4096, memsz = 256\<rparr>, \<lparr>vaddr = 0, memsz = 0\<rparr>]\<rparr>, w)\<rparr>"

definition fresh_table :: "nat \<Rightarrow> nat \<Rightarrow> module_table" where
  "fresh_table m n = \<lparr>modlist = replicate m 0, segList = replicate n blank_segment, moduleConstructured = 0\<rparr>"

definition iofile_info :: module_info where
  "iofile_info = \<lparr>mod_name = ''SceIofilemgr'',
       segments = [\<lparr>vaddr = 4096, memsz = 256\<rparr>, \<lparr>vaddr = 0, memsz = 0\<rparr>]\<rparr>"

lemma one_module_calls:
  "all_rows (\<lambda>_. iofile_info) [77] = [row ''SceIofilemgr'' 0 \<lparr>vaddr = 4096, memsz = 256\<rparr>]"
  "\<exists>w'. k_GetModuleList one_module_kernel 0 0 0 (length (modlist (fresh_table 128 n))) w = (0, [77], w')"
  "\<forall>m \<in> set [77]. \<forall>w. k_GetModuleInfo one_module_kernel m w = (0, iofile_info, w)"
  by (simp_all add: all_rows_def iofile_info_def one_module_kernel_def)

lemma one_module_table:
  "\<exists>s'. construct_module_range_table one_module_kernel 0 0 0 (fresh_table 128 512) (log_boot ())
      = ret (0, \<lparr>modlist = 77 # replicate 127 0,
           segList = row ''SceIofilemgr'' 0 \<lparr>vaddr = 4096, memsz = 256\<rparr> # replicate 511 blank_segment,
           moduleConstructured = 1\<rparr>, s')"
  using construct_rows [OF _ one_module_calls(2) _ one_module_calls(3), of 512 "log_boot ()"]
  by (simp add: one_module_calls(1) fresh_table_def)

theorem construct_lists_segments_witness:
  "\<exists>s'. construct_module_range_table one_module_kernel 0 0 0 (fresh_table 128 512) (log_boot ())
      = ret (0, \<lparr>modlist = 77 # replicate 127 0,
           segList = row ''SceIofilemgr'' 0 \<lparr>vaddr = 4096, memsz = 256\<rparr> # replicate 511 blank_segment,
           moduleConstructured = 1\<rparr>, s')
   \<and> construct_module_range_table one_module_kernel 0 0 0 (fresh_table 128 1) (log_boot ()) = fail OutOfBounds"
  using construct_lists_segments [OF _ one_module_calls(2) _ one_module_calls(3), of 512 "log_boot ()"]
    construct_lists_segments [OF _ one_module_calls(2) _ one_module_calls(3), of 1 "log_boot ()"]
  by (simp add: one_module_calls(1) fresh_table_def)

text \<open>C6: Address lookup. In a table built and sorted from segments no two of which overlap or
  wrap around, the search finds, for an address inside a segment, exactly the entry of that
  segment, and answers -1 for an address in none of them.\<close>

theorem lookup_attributes_address:
  assumes built: "construct_module_range_table k pid f1 f2 T s = ret (0, T1, s1)"
    and rows: "segList T1 = L @ replicate N blank_segment" "moduleConstructured T1 = 1"
    and disjoint: "\<And>x y a. x \<in> set L \<Longrightarrow> y \<in> set L \<Longrightarrow> inside a x \<Longrightarrow> inside a y \<Longrightarrow> x = y"
  shows "\<exists>T2. sort_segment_table T1 = (0, T2)
    \<and> (if \<exists>x \<in> set L. inside a x
       then \<exists>i < length (segList T2). find_in_segments T2 a = int i \<and> segList T2 ! i \<in> set L
         \<and> inside a (segList T2 ! i) \<and> (\<forall>x \<in> set L. inside a x \<longrightarrow> segList T2 ! i = x)
       else find_in_segments T2 a = -1)"
proof -
  from table_sorted [of T1] rows(2) obtain T2 where
    T2: "sort_segment_table T1 = (0, T2)" "mset (segList T2) = mset (segList T1)" "moduleConstructured T2 = 1"
    by auto
  have set2: "set (segList T2) \<subseteq> set L \<union> {blank_segment}" "set L \<subseteq> set (segList T2)"
    using mset_eq_setD [OF T2(2)] rows(1) by auto
  have blank: "\<not> inside a blank_segment"
    by (simp add: blank_never_inside)
  consider "find_in_segments T2 a = -1" "\<forall>x \<in> set (segList T2). \<not> inside a x"
    | i where "i < length (segList T2)" "find_in_segments T2 a = int i" "inside a (segList T2 ! i)"
    using search_segments_cases [of 0 "segList T2" a] T2(3) by (auto simp: find_in_segments_def)
  then show ?thesis
  proof cases
    case 1
    then show ?thesis using T2(1) set2(2) by auto
  next
    case 2
    then have "segList T2 ! i \<in> set L"
      using set2(1) blank nth_mem [of i "segList T2"] by fastforce
    then show ?thesis using T2(1) 2 disjoint by metis
  qed
qed

theorem lookup_attributes_address_witness:
  "\<exists>T1 T2 i. sort_segment_table T1 = (0, T2) \<and> find_in_segments T2 4100 = int i
     \<and> moduleName (segList T2 ! i) = copy_name ''SceIofilemgr''"
proof -
  let ?r = "row ''SceIofilemgr'' 0 \<lparr>vaddr = 4096, memsz = 256\<rparr>"
  obtain s' where b: "construct_module_range_table one_module_kernel 0 0 0 (fresh_table 128 512) (log_boot ())
      = ret (0, \<lparr>modlist = 77 # replicate 127 0, segList = ?r # replicate 511 blank_segment,
           moduleConstructured = 1\<rparr>, s')"
    using one_module_table by blast
  have i: "inside 4100 ?r" by (simp add: inside_def row_def)
  from lookup_attributes_address [OF b, of "[?r]" 511 4100] i
  obtain T2 j where "sort_segment_table \<lparr>modlist = 77 # replicate 127 0, segList = ?r # replicate 511 blank_segment,
           moduleConstructured = 1\<rparr> = (0, T2)" "find_in_segments T2 4100 = int j" "segList T2 ! j = ?r"
    by auto
  then show ?thesis by (metis row_def segment_info.select_convs(1))
qed

text \<open>The flag is set before the table is built. When the kernel refuses the module list,
  the error is returned once; every later call returns 0 without trying again, and every
  search in the table of blank entries answers -1.\<close>

theorem failed_construct_sticks:
  fixes k :: "'w kapi" and s :: "('w, 'm) kbase_scheme"
  assumes "moduleConstructured T \<le> 0"
    and fails: "\<And>w. \<exists>r w' mods. k_GetModuleList k pid f1 f2 (length (modlist T)) w = (r, mods, w') \<and> r < 0"
  shows "\<exists>r T1 s1. construct_module_range_table k pid f1 f2 T s = ret (r, T1, s1) \<and> r < 0
    \<and> (\<forall>s2 :: ('w, 'm) kbase_scheme. construct_module_range_table k pid f1 f2 T1 s2 = ret (0, T1, s2))
    \<and> (\<forall>a. find_in_segments T1 a = -1)"
proof -
  define s1 where "s1 = glog_line k ''constructing module range table'' s"
  obtain r w' mods where GL: "k_GetModuleList k pid f1 f2 (length (modlist T)) (world s1) = (r, mods, w')" "r < 0"
    using fails by blast
  let ?T = "\<lparr>modlist = replicate (length (modlist T)) 0,
     segList = replicate (length (segList T)) blank_segment, moduleConstructured = 1\<rparr>"
  have c: "construct_module_range_table k pid f1 f2 T s = ret (r, ?T, s1\<lparr>world := w'\<rparr>)"
    using assms(1) GL by (cases T) (simp add: construct_module_range_table_def Let_def kcall2_eq flip: s1_def)
  have "find_in_segments ?T a = -1" for a
    using search_segments_cases [of 0 "segList ?T" a]
    by (auto simp: find_in_segments_def blank_never_inside)
  moreover have "construct_module_range_table k pid f1 f2 ?T s2 = ret (0, ?T, s2)" for s2 :: "('w, 'm) kbase_scheme"
    by (simp add: construct_module_range_table_def)
  ultimately show ?thesis using c GL(2) by blast
qed

theorem failed_construct_sticks_witness:
  "\<exists>r T1 s1. construct_module_range_table (quiet_kernel\<lparr>k_GetModuleList := \<lambda>_ _ _ _ w. (-7, [], w)\<rparr>) 0 0 0
      (fresh_table 4 4) (log_boot ()) = ret (r, T1, s1) \<and> r < 0"
proof -
  have "\<exists>r w' mods. k_GetModuleList (quiet_kernel\<lparr>k_GetModuleList := \<lambda>_ _ _ _ w. (-7, [], w)\<rparr>) 0 0 0
      (length (modlist (fresh_table 4 4))) w = (r, mods, w') \<and> r < 0" for w :: unit
    by simp
  from failed_construct_sticks [OF _ this] show ?thesis by (force simp: fresh_table_def)
qed

end
