(* ===== verification/Stacktrace.thy ===== *)
theory Stacktrace
  imports Mtable
begin

text \<open>
  \<open>driver/stacktrace.c\<close> and \<open>driver/thread_test.c\<close>: which thread is running, and which of the
  words on its stack point into which module. The processor's thread registers, the memory the
  code reads and the kernel function it calls by address are parameters, the record \<open>cpu\<close>; the
  module table is the one of \<open>mtable.c\<close> for kernel modules.
\<close>

record thread_info =
  ti_size :: int
  processId :: int
  ti_name :: string
  stack :: addr
  stackSize :: int

record 'w cpu =
  c_TPIDRPRW :: "'w \<Rightarrow> int"
  c_TPIDRURO :: "'w \<Rightarrow> int"
  c_load :: "addr \<Rightarrow> 'w \<Rightarrow> int"
  c_GetThreadInfo :: "addr \<Rightarrow> int \<Rightarrow> thread_info \<Rightarrow> 'w \<Rightarrow> int \<times> thread_info \<times> 'w"
  c_sizeof_ThreadInfo :: int


section \<open>The current thread\<close>

definition get_currentThreadId :: "'w cpu \<Rightarrow> ('w, 'm) kbase_scheme \<Rightarrow> int" where
  "get_currentThreadId c s =
     (let TPIDRPRW = c_TPIDRPRW c (world s)
      in if TPIDRPRW > 0 then c_load c (word_of_int TPIDRPRW + 8) (world s) else -1)"

definition init_threadInfoMutex :: "'w kapi \<Rightarrow> ('w, 'm) kbase_scheme \<Rightarrow> ('w, 'm) kbase_scheme" where
  "init_threadInfoMutex k s =
     (let (m, s1) = kcall (k_CreateMutex k ''ThreadInfoMutex'') s in s1\<lparr>g_threadInfoMutex := m\<rparr>)"

definition deinit_threadInfoMutex :: "'w kapi \<Rightarrow> ('w, 'm) kbase_scheme \<Rightarrow> ('w, 'm) kbase_scheme" where
  "deinit_threadInfoMutex k s =
     (kdo (k_DeleteMutex k (g_threadInfoMutex s)) s)\<lparr>g_threadInfoMutex := -1\<rparr>"

definition blank_info :: "'w cpu \<Rightarrow> thread_info" where
  "blank_info c = \<lparr>ti_size = c_sizeof_ThreadInfo c, processId = 0, ti_name = [], stack = 0, stackSize = 0\<rparr>"

definition get_current_thread_info ::
    "'w kapi \<Rightarrow> 'w cpu \<Rightarrow> ('w, 'm) kbase_scheme \<Rightarrow> int \<times> thread_info \<times> ('w, 'm) kbase_scheme" where
  "get_current_thread_info k c s =
     (let s1 = kdo (k_LockMutex k (g_threadInfoMutex s)) s;
          thid = get_currentThreadId c s1;
          t_info = blank_info c;
          (r, modid, s2) = kcall2 (k_taiGetModuleInfo k ''SceKernelThreadMgr'') s1;
          (ofstRes, fptr, s3) =
            (if r \<ge> 0 then kcall2 (k_ModuleGetOffset k modid 0 0x5965) s2 else (-1, 0, s2))
      in if r \<ge> 0 \<and> ofstRes = 0
         then
           let (gtiRes, t_info', s4) = kcall2 (c_GetThreadInfo c fptr thid t_info) s3
           in (gtiRes, t_info', kdo (k_UnlockMutex k (g_threadInfoMutex s4)) s4)
         else (-1, t_info, kdo (k_UnlockMutex k (g_threadInfoMutex s3)) s3))"

text \<open>\<open>print_current_thread_info_global\<close> and its copy for the other log print the same text.\<close>

definition thread_text :: "string \<Rightarrow> thread_info \<Rightarrow> string" where
  "thread_text tag t = tag @ '' process: '' @ hex8_str (word_of_int (processId t)) @ '' thread: ''
     @ c_string (ti_name t) @ newline @ ''stack: '' @ hex8_str (stack t) @ '' stackSize: ''
     @ hex8_str (word_of_int (stackSize t))"

definition print_current_thread_info_global ::
    "'w kapi \<Rightarrow> 'w cpu \<Rightarrow> ('w, 'm) kbase_scheme \<Rightarrow> int \<times> ('w, 'm) kbase_scheme" where
  "print_current_thread_info_global k c s =
     (let (r, t_info, s1) = get_current_thread_info k c s
      in (0, glog_line k (thread_text ''(global)'' t_info) s1))"

definition print_current_thread_info_sd ::
    "'w kapi \<Rightarrow> 'w cpu \<Rightarrow> ('w, 'm) kbase_scheme \<Rightarrow> int \<times> ('w, 'm) kbase_scheme" where
  "print_current_thread_info_sd k c s =
     (let (r, t_info, s1) = get_current_thread_info k c s
      in (0, slog_line k (thread_text ''(sd)'' t_info) s1))"


section \<open>The words of the stack\<close>

definition stack_text :: "string \<Rightarrow> addr \<Rightarrow> addr \<Rightarrow> segment_info \<Rightarrow> string" where
  "stack_text tag stackPtr curValue x = tag @ '' '' @ hex8_str stackPtr @ '': '' @ hex8_str curValue @ '' ''
     @ c_string (moduleName x) @ '' '' @ dec_str (seg x) @ '' '' @ hex8_str (range_start x) @ '' ''
     @ hex8_str (curValue - range_start x)"

text \<open>The loop of both functions: \<open>n\<close> passes are left, \<open>line\<close> writes a line to the function's
  own log. The stack is read from \<open>stackPtr\<close> upwards.\<close>

fun stack_loop ::
    "'w cpu \<Rightarrow> (string \<Rightarrow> ('w, 'm) kbase_scheme \<Rightarrow> ('w, 'm) kbase_scheme) \<Rightarrow> string \<Rightarrow> module_table \<Rightarrow> string
     \<Rightarrow> int \<Rightarrow> int \<Rightarrow> nat \<Rightarrow> addr \<Rightarrow> ('w, 'm) kbase_scheme \<Rightarrow> ('w, 'm) kbase_scheme" where
  "stack_loop c line tag T moduleNameSearch segIndexSearch verbose 0 stackPtr s = s"
| "stack_loop c line tag T moduleNameSearch segIndexSearch verbose (Suc n) stackPtr s =
     (let curValue = word_of_int (c_load c stackPtr (world s));
          segidx = find_in_segments T curValue;
          s1 = (if segidx \<ge> 0
                then
                  (let x = segList T ! nat segidx
                   in if verbose = 1 then line (stack_text tag stackPtr curValue x) s
                      else if seg x = segIndexSearch
                      then (if moduleNameSearch = c_string (moduleName x)
                            then line (stack_text tag stackPtr curValue x) s else s)
                      else s)
                else s)
      in stack_loop c line tag T moduleNameSearch segIndexSearch verbose n (stackPtr + 4) s1)"

text \<open>\<open>sizeof\<close> is unsigned, so that the sum is taken modulo \<open>2^32\<close> and then stored in an
  \<open>int\<close>. \<open>mark0\<close> is the address of the first local variable, where the trace starts.\<close>

definition trace_size :: "'w cpu \<Rightarrow> int \<Rightarrow> int" where
  "trace_size c words = wrap32 (words + c_sizeof_ThreadInfo c div 4)"

definition stacktrace_from_here_global ::
    "'w kapi \<Rightarrow> 'w cpu \<Rightarrow> module_table \<Rightarrow> addr \<Rightarrow> string \<Rightarrow> int \<Rightarrow> int \<Rightarrow> int
     \<Rightarrow> ('w, 'm) kbase_scheme \<Rightarrow> int \<times> ('w, 'm) kbase_scheme" where
  "stacktrace_from_here_global k c T mark0 moduleNameSearch segIndexSearch words verbose s =
     (let (r, t_info, s1) = get_current_thread_info k c s
      in (0, stack_loop c (glog_line k) ''(global)'' T moduleNameSearch segIndexSearch verbose
               (nat (trace_size c words)) mark0 s1))"

definition stacktrace_from_here_sd ::
    "'w kapi \<Rightarrow> 'w cpu \<Rightarrow> module_table \<Rightarrow> addr \<Rightarrow> string \<Rightarrow> int \<Rightarrow> int \<Rightarrow> int
     \<Rightarrow> ('w, 'm) kbase_scheme \<Rightarrow> int \<times> ('w, 'm) kbase_scheme" where
  "stacktrace_from_here_sd k c T mark0 moduleNameSearch segIndexSearch words verbose s =
     (let (r, t_info, s1) = get_current_thread_info k c s
      in (0, stack_loop c (slog_line k) ''(sd)'' T moduleNameSearch segIndexSearch verbose
               (nat (trace_size c words)) mark0 s1))"


section \<open>The thread test\<close>

definition print_TPIDRURO :: "'w kapi \<Rightarrow> 'w cpu \<Rightarrow> ('w, 'm) kbase_scheme \<Rightarrow> int \<times> ('w, 'm) kbase_scheme" where
  "print_TPIDRURO k c s = (0, glog_line k (''TPIDRURO '' @ hex_int (c_TPIDRURO c (world s))) s)"

definition TestThread :: "'w kapi \<Rightarrow> 'w cpu \<Rightarrow> ('w, 'm) kbase_scheme \<Rightarrow> int \<times> ('w, 'm) kbase_scheme" where
  "TestThread k c s =
     (let (r, s1) = print_current_thread_info_global k c (glog_line k ''message from thread'' s)
      in (0, s1))"

definition print_thread_info :: "'w kapi \<Rightarrow> ('w, 'm) kbase_scheme \<Rightarrow> int \<times> ('w, 'm) kbase_scheme" where
  "print_thread_info k s =
     (let (newThid, s1) = kcall (k_CreateThread k ''TestThread'') s
      in if newThid < 0 then (-1, glog_line k ''failed to create thread'' s1)
         else
           let s2 = glog_line k (''created thread '' @ hex_int newThid) s1;
               s3 = kdo (k_StartThread k newThid) s2;
               s4 = kdo (k_WaitThreadEnd k newThid) s3;
               (delret, s5) = kcall (k_DeleteThread k newThid) s4;
               s6 = (if delret < 0 then glog_line k ''failed to delete thread'' s5 else s5)
           in (0, glog_line k ''deleted thread'' s6))"


section \<open>What a trace writes\<close>

text \<open>The reference: the lines for the \<open>n\<close> words from \<open>p\<close> on, in order.\<close>

definition entry_of :: "module_table \<Rightarrow> addr \<Rightarrow> segment_info option" where
  "entry_of T v = (if moduleConstructured T = 0 then None else find (inside v) (segList T))"

definition wanted :: "string \<Rightarrow> int \<Rightarrow> int \<Rightarrow> segment_info \<Rightarrow> bool" where
  "wanted nm i verbose x \<longleftrightarrow> verbose = 1 \<or> seg x = i \<and> nm = c_string (moduleName x)"

definition trace_lines ::
    "string \<Rightarrow> module_table \<Rightarrow> string \<Rightarrow> int \<Rightarrow> int \<Rightarrow> (addr \<Rightarrow> addr) \<Rightarrow> addr \<Rightarrow> nat \<Rightarrow> string list" where
  "trace_lines tag T nm i verbose mem p n =
     concat (map (\<lambda>j. let q = p + 4 * of_nat j in
       case entry_of T (mem q) of
         None \<Rightarrow> []
       | Some x \<Rightarrow> if wanted nm i verbose x then [stack_text tag q (mem q) x] else []) [0..<n])"

lemma entry_search:
  "entry_of T v = (if find_in_segments T v \<ge> 0 then Some (segList T ! nat (find_in_segments T v)) else None)"
  using search_segments_cases [of 0 "segList T" v]
  by (auto simp: entry_of_def find_in_segments_def find_None_iff find_Some_iff)

lemma stack_loop_lines:
  fixes s :: "('w, 'm) kbase_scheme"
  assumes "\<And>j w. j < n \<Longrightarrow> word_of_int (c_load c (p + 4 * of_nat j) w) = mem (p + 4 * of_nat j)"
  shows "stack_loop c line tag T nm i verbose n p s = fold line (trace_lines tag T nm i verbose mem p n) s"
  using assms
proof (induction n arbitrary: p s)
  case 0
  then show ?case by (simp add: trace_lines_def)
next
  case (Suc n)
  let ?L = "\<lambda>q. case entry_of T (mem q) of None \<Rightarrow> []
     | Some x \<Rightarrow> if wanted nm i verbose x then [stack_text tag q (mem q) x] else []"
  have split: "trace_lines tag T nm i verbose mem p (Suc n)
      = ?L p @ trace_lines tag T nm i verbose mem (p + 4) n"
  proof -
    have "[0..<Suc n] = 0 # map Suc [0..<n]" by (simp add: map_Suc_upt upt_conv_Cons del: upt_Suc)
    then show ?thesis by (simp add: trace_lines_def comp_def algebra_simps del: upt_Suc)
  qed
  have here: "word_of_int (c_load c p w) = mem p" for w using Suc.prems [of 0] by simp
  have "word_of_int (c_load c (p + 4 + 4 * of_nat j) w) = mem (p + 4 + 4 * of_nat j)" if "j < n" for j w
    using Suc.prems [of "Suc j" w] that by (simp add: algebra_simps)
  from Suc.IH [OF this] show ?case
    unfolding split by (auto simp: here entry_search wanted_def Let_def)
qed

text \<open>C34: A stack trace writes exactly one line for every word of the traced part of the stack
  that points into a segment of the module table, in the order of the stack, and attributed to
  the entry the table search finds; with \<open>verbose\<close> different from 1 only those that belong to
  the segment and module asked for. Both copies of the function do so, each to its own log, and
  nothing is written when the table has not been built.\<close>

theorem stack_trace_lists:
  assumes "\<And>j w. j < nat (trace_size c words) \<Longrightarrow>
      word_of_int (c_load c (mark0 + 4 * of_nat j) w) = mem (mark0 + 4 * of_nat j)"
  shows "stacktrace_from_here_global k c T mark0 nm i words verbose s
      = (0, fold (glog_line k) (trace_lines ''(global)'' T nm i verbose mem mark0 (nat (trace_size c words)))
              (snd (snd (get_current_thread_info k c s))))
    \<and> stacktrace_from_here_sd k c T mark0 nm i words verbose s
      = (0, fold (slog_line k) (trace_lines ''(sd)'' T nm i verbose mem mark0 (nat (trace_size c words)))
              (snd (snd (get_current_thread_info k c s))))
    \<and> (moduleConstructured T = 0 \<longrightarrow> trace_lines tag T nm i verbose mem mark0 n = [])"
proof -
  have "moduleConstructured T = 0 \<Longrightarrow> trace_lines tag T nm i verbose mem mark0 n = []"
    by (simp add: trace_lines_def entry_of_def)
  then show ?thesis
    by (simp add: stacktrace_from_here_global_def stacktrace_from_here_sd_def split_beta Let_def
        stack_loop_lines [OF assms])
qed

definition quiet_cpu :: "'w cpu" where
  "quiet_cpu = \<lparr>c_TPIDRPRW = \<lambda>_. 0, c_TPIDRURO = \<lambda>_. 0, c_load = \<lambda>q _. if q = 8 then 4100 else 0,
     c_GetThreadInfo = \<lambda>_ _ t w. (0, t, w), c_sizeof_ThreadInfo = 4\<rparr>"

definition one_entry :: segment_info where
  "one_entry = \<lparr>moduleName = ''M'', seg = 0, range_start = 4096, range_end = 4352\<rparr>"

definition one_entry_table :: module_table where
  "one_entry_table = \<lparr>modlist = [], segList = [one_entry], moduleConstructured = 1\<rparr>"

theorem stack_trace_lists_witness:
  "stacktrace_from_here_sd quiet_kernel quiet_cpu one_entry_table 4 ''M'' 0 1 0 (log_boot ())
   = (0, slog_line quiet_kernel (stack_text ''(sd)'' 8 4100 one_entry)
           (snd (snd (get_current_thread_info quiet_kernel quiet_cpu (log_boot ())))))"
proof -
  have "word_of_int (c_load quiet_cpu (4 + 4 * of_nat j) w) = (\<lambda>q :: addr. if q = 8 then 4100 else 0) (4 + 4 * of_nat j)"
    for j and w :: unit
    by (simp add: quiet_cpu_def)
  note L = stack_trace_lists [where c = quiet_cpu and ?mark0.0 = 4, OF this]
  have n: "nat (trace_size quiet_cpu 1) = 2" by (simp add: trace_size_def quiet_cpu_def c_int_def)
  have t: "trace_lines ''(sd)'' one_entry_table ''M'' 0 0 (\<lambda>q. if q = 8 then 4100 else 0) 4 2
      = [stack_text ''(sd)'' 8 4100 one_entry]"
    by (simp add: trace_lines_def entry_of_def inside_def wanted_def one_entry_table_def one_entry_def
        c_string_def upt_rec)
  show ?thesis
    using L [where words = 1 and k = quiet_kernel and T = one_entry_table and nm = "''M''" and i = 0
        and verbose = 0 and s = "log_boot ()"]
    unfolding n t by simp
qed


section \<open>The mutex of the thread information\<close>

text \<open>\<open>held\<close> counts how often the mutexes are held; only the lock and unlock calls change it.\<close>

definition held_law :: "'w kapi \<Rightarrow> 'w cpu \<Rightarrow> ('w \<Rightarrow> int) \<Rightarrow> bool" where
  "held_law k c held \<longleftrightarrow>
     (\<forall>m w. held (snd (k_LockMutex k m w)) = held w + 1 \<and> held (snd (k_UnlockMutex k m w)) = held w - 1)
   \<and> (\<forall>nm w. held (snd (snd (k_taiGetModuleInfo k nm w))) = held w)
   \<and> (\<forall>m i o1 w. held (snd (snd (k_ModuleGetOffset k m i o1 w))) = held w)
   \<and> (\<forall>f t b w. held (snd (snd (c_GetThreadInfo c f t b w))) = held w)"

text \<open>Asking for the current thread takes the mutex and gives it back on every path: when
  the thread manager cannot be found, when the offset of the function cannot be, and when the
  call was made. On the first two the answer is -1 and the information is blank but for its
  size.\<close>

theorem thread_info_mutex_released:
  assumes "held_law k c held"
  shows "case get_current_thread_info k c s of (r, t, s') \<Rightarrow>
    held (world s') = held (world s)
    \<and> (let s1 = kdo (k_LockMutex k (g_threadInfoMutex s)) s;
           (a, modid, s2) = kcall2 (k_taiGetModuleInfo k ''SceKernelThreadMgr'') s1;
           (b, f, s3) = kcall2 (k_ModuleGetOffset k modid 0 0x5965) s2
       in a < 0 \<or> b \<noteq> 0 \<longrightarrow> r = -1 \<and> t = blank_info c)"
  using assms
  by (auto simp: get_current_thread_info_def held_law_def kcall2_eq kdo_def Let_def split: if_splits)

theorem thread_info_mutex_released_witness:
  "world (snd (snd (get_current_thread_info (quiet_kernel\<lparr>k_LockMutex := \<lambda>_ w. (0, w + 1),
     k_UnlockMutex := \<lambda>_ w. (0, w - 1)\<rparr>) quiet_cpu (log_boot 3)))) = (3 :: int)"
proof -
  have "held_law (quiet_kernel\<lparr>k_LockMutex := \<lambda>_ w. (0, w + 1), k_UnlockMutex := \<lambda>_ w. (0, w - 1)\<rparr>)
      quiet_cpu (\<lambda>w :: int. w)"
    by (simp add: held_law_def quiet_kernel_def quiet_cpu_def)
  from thread_info_mutex_released [OF this, of "log_boot 3"] show ?thesis
    by (auto simp: log_boot_def split: prod.splits)
qed

end
