(* ===== verification/Dump.thy ===== *)
theory Dump
  imports Stacktrace
begin

text \<open>
  \<open>driver/dump.c\<close>: writes memory of the firmware to files and prints the firmware's tables. The
  firmware's structures are read through the record \<open>firmware\<close>, one function for each type,
  from an address; the firmware functions the code calls by address are fields of it too.
  Reading through a null pointer is the fault \<open>NullDeref\<close>.
\<close>

record vfs_add_data =
  add_name :: string
  next_element :: addr

record vfs_device_info =
  di_partition :: addr
  di_device :: addr
  di_unk_8 :: addr

record vfs_node =
  dev_info :: addr
  prev_node :: addr
  vn_unk_54 :: addr

record vfs_node_info =
  vi_name :: string
  vi_node :: addr

record partition_entry =
  partitionEntryPtr :: addr
  numericName :: string

record mount_data =
  sdstor_mbr_ctx_index :: byte
  md_unk1 :: byte
  md_partitionCode :: byte
  md_unk3 :: byte

record 'w firmware =
  f_add_data :: "addr \<Rightarrow> 'w \<Rightarrow> vfs_add_data"
  f_device_info :: "addr \<Rightarrow> 'w \<Rightarrow> vfs_device_info"
  f_vfs_node :: "addr \<Rightarrow> 'w \<Rightarrow> vfs_node"
  f_node_info :: "addr \<Rightarrow> 'w \<Rightarrow> vfs_node_info"
  f_partition :: "addr \<Rightarrow> 'w \<Rightarrow> partition_entry"
  f_partitionCode :: "addr \<Rightarrow> 'w \<Rightarrow> byte"
  f_get_mount :: "addr \<Rightarrow> string \<Rightarrow> 'w \<Rightarrow> int \<times> mount_data \<times> 'w"
  f_pread :: "addr \<Rightarrow> int \<Rightarrow> byte list \<Rightarrow> int \<Rightarrow> int \<Rightarrow> int \<Rightarrow> int \<Rightarrow> 'w \<Rightarrow> int \<times> byte list \<times> 'w"

definition hex_ptr :: "addr \<Rightarrow> string" where
  "hex_ptr a = hex_str (uint a)"


section \<open>The memory blocks of the SD contexts\<close>

definition dump_memblock_1000 ::
    "'w kapi \<Rightarrow> int \<Rightarrow> addr \<Rightarrow> ('w, 'm) kbase_scheme \<Rightarrow> int \<times> ('w, 'm) kbase_scheme" where
  "dump_memblock_1000 k uid membase s =
     (let (file, s1) = kcall (k_IoOpen k ''ux0:dump/psvemmc_memblock_1000.bin'' Creat_Append) s
      in (0, if file \<ge> 0
             then kdo (k_IoClose k file) (kdo (k_IoWrite k file (Memory membase 0x1000)) s1)
             else s1))"

definition dump_memblock_10000 ::
    "'w kapi \<Rightarrow> int \<Rightarrow> addr \<Rightarrow> ('w, 'm) kbase_scheme \<Rightarrow> int \<times> ('w, 'm) kbase_scheme" where
  "dump_memblock_10000 k uid membase s =
     (let (file, s1) = kcall (k_IoOpen k ''ux0:dump/psvemmc_memblock_10000.bin'' Creat_Append) s
      in (0, if file \<ge> 0
             then kdo (k_IoClose k file) (kdo (k_IoWrite k file (Memory membase 0x10000)) s1)
             else s1))"

text \<open>The two validation functions differ in the size, which is in the messages, and in the dump
  they make.\<close>

definition validate_dump ::
    "'w kapi \<Rightarrow> string \<Rightarrow> (int \<Rightarrow> addr \<Rightarrow> ('w, 'm) kbase_scheme \<Rightarrow> int \<times> ('w, 'm) kbase_scheme)
     \<Rightarrow> int \<Rightarrow> int \<Rightarrow> addr \<Rightarrow> ('w, 'm) kbase_scheme \<Rightarrow> int \<times> ('w, 'm) kbase_scheme" where
  "validate_dump k sz dump index uid membase s =
     (let dev = ''device:'' @ hex_int index
      in if membase > 0
         then
           let (res_1, membaseCheck, s1) = kcall2 (k_GetMemBlockBase k uid) s
           in if res_1 = 0
              then if membase = membaseCheck
                   then (0, snd (dump uid membase (glog_line k (dev @ '' membase '' @ sz @ '' OK'') s1)))
                   else (-1, glog_line k (dev @ '' membase '' @ sz @ '' does not match'') s1)
              else (-1, glog_line k (dev @ '' failed to get membase '' @ sz @ '', error:'' @ hex_int res_1) s1)
         else (-1, glog_line k (dev @ '' membase '' @ sz @ '' is empty'') s))"

definition validate_dump_memblock_1000 ::
    "'w kapi \<Rightarrow> int \<Rightarrow> int \<Rightarrow> addr \<Rightarrow> ('w, 'm) kbase_scheme \<Rightarrow> int \<times> ('w, 'm) kbase_scheme" where
  "validate_dump_memblock_1000 k = validate_dump k ''1000'' (dump_memblock_1000 k)"

definition validate_dump_memblock_10000 ::
    "'w kapi \<Rightarrow> int \<Rightarrow> int \<Rightarrow> addr \<Rightarrow> ('w, 'm) kbase_scheme \<Rightarrow> int \<times> ('w, 'm) kbase_scheme" where
  "validate_dump_memblock_10000 k = validate_dump k ''10000'' (dump_memblock_10000 k)"

text \<open>The three contexts are fetched first; then their fields are read, which faults when one of
  the pointers is null.\<close>

definition sd_globals ::
    "'w kapi \<Rightarrow> ('w, 'm) kbase_scheme \<Rightarrow> (sd_global \<times> sd_global \<times> sd_global \<times> ('w, 'm) kbase_scheme) run" where
  "sd_globals k s =
     (let (gc0, s) = kcall (k_SdifGetGlobal k 0) s;
          (gc1, s) = kcall (k_SdifGetGlobal k 1) s;
          (gc2, s) = kcall (k_SdifGetGlobal k 2) s
      in case (gc0, gc1, gc2) of
           (Some g0, Some g1, Some g2) \<Rightarrow> ret (g0, g1, g2, s)
         | _ \<Rightarrow> fail NullDeref)"

definition dump_device_context_mem_blocks_1000 ::
    "'w kapi \<Rightarrow> ('w, 'm) kbase_scheme \<Rightarrow> (int \<times> ('w, 'm) kbase_scheme) run" where
  "dump_device_context_mem_blocks_1000 k s =
     run_bind (sd_globals k s) (\<lambda>(g0, g1, g2, s).
     let s = snd (validate_dump_memblock_1000 k (array_idx g0) (uid_1000 g0) (membase_1000 g0) s);
         s = snd (validate_dump_memblock_1000 k (array_idx g1) (uid_1000 g1) (membase_1000 g1) s);
         s = snd (validate_dump_memblock_1000 k (array_idx g2) (uid_1000 g2) (membase_1000 g2) s)
     in ret (0, s))"

definition dump_device_context_mem_blocks_10000 ::
    "'w kapi \<Rightarrow> ('w, 'm) kbase_scheme \<Rightarrow> (int \<times> ('w, 'm) kbase_scheme) run" where
  "dump_device_context_mem_blocks_10000 k s =
     run_bind (sd_globals k s) (\<lambda>(g0, g1, g2, s).
     let s = snd (validate_dump_memblock_10000 k (array_idx g0) (uid_10000 g0) (membase_10000 g0) s);
         s = snd (validate_dump_memblock_10000 k (array_idx g1) (uid_10000 g1) (membase_10000 g1) s);
         s = snd (validate_dump_memblock_10000 k (array_idx g2) (uid_10000 g2) (membase_10000 g2) s)
     in ret (0, s))"


section \<open>Segments of modules\<close>

text \<open>A string used as a \<open>printf\<close> format without arguments: \<open>%%\<close> is a percent sign, and any
  other \<open>%\<close> asks for an argument that is not there.\<close>

fun as_format :: "string \<Rightarrow> string option" where
  "as_format [] = Some []"
| "as_format (c # cs) =
     (if c \<noteq> CHR ''%'' then map_option ((#) c) (as_format cs)
      else case cs of
        [] \<Rightarrow> None
      | d # ds \<Rightarrow> if d = CHR ''%'' then map_option ((#) d) (as_format ds) else None)"

definition dumpSegment ::
    "'w kapi \<Rightarrow> module_info \<Rightarrow> nat \<Rightarrow> ('w, 'm) kbase_scheme \<Rightarrow> (int \<times> ('w, 'm) kbase_scheme) run" where
  "dumpSegment k minfo index s =
     (if index \<ge> length (segments minfo) then fail OutOfBounds
      else
        let g = segments minfo ! index
        in if vaddr g \<le> 0 then ret (-1, glog_line k ''segment is empty'' s)
           else
             let s1 = glog_line k (dec_str (int index) @ '' '' @ hex_ptr (vaddr g) @ '' '' @ hex_ptr (memsz g)) s
             in case as_format (c_string (mod_name minfo)) of
                  None \<Rightarrow> fail BadFormat
                | Some txt \<Rightarrow>
                    let moduleNameCopy = take 29 txt;
                        filename = take 99 (''ux0:dump/0x'' @ hex8_str (vaddr g) @ ''_'' @ moduleNameCopy @ ''_''
                                     @ dec_str (int index) @ ''.bin'');
                        s2 = glog_line k filename s1;
                        (fout, s3) = kcall (k_IoOpen k filename Creat_Trunc) s2
                    in if fout < 0 then ret (-1, s3)
                       else
                         let s4 = (if memsz g > 0 then kdo (k_IoWrite k fout (Memory (vaddr g) (memsz g))) s3 else s3)
                         in ret (0, kdo (k_IoClose k fout) s4))"

text \<open>The four functions that dump a data segment, with the module's name and its short form.\<close>

definition dump_module_data ::
    "'w kapi \<Rightarrow> string \<Rightarrow> string \<Rightarrow> ('w, 'm) kbase_scheme \<Rightarrow> (int \<times> ('w, 'm) kbase_scheme) run" where
  "dump_module_data k nm short s =
     (let (r, modid, s1) = kcall2 (k_taiGetModuleInfo k nm) s
      in if r \<ge> 0
         then
           let (q, minfo, s2) = kcall2 (k_GetModuleInfo k modid) s1
           in if q \<ge> 0
              then run_bind (dumpSegment k minfo 1 (glog_line k (''ready to dump '' @ short @ '' data seg'') s2))
                     (\<lambda>(_, s3). ret (0, s3))
              else ret (0, glog_line k (''can not dump '' @ short @ '' data seg'') s2)
         else ret (0, s1))"

definition dump_iofilemgr_data :: "'w kapi \<Rightarrow> ('w, 'm) kbase_scheme \<Rightarrow> (int \<times> ('w, 'm) kbase_scheme) run" where
  "dump_iofilemgr_data k = dump_module_data k ''SceIofilemgr'' ''iofilemgr''"

definition dump_sdstor_data :: "'w kapi \<Rightarrow> ('w, 'm) kbase_scheme \<Rightarrow> (int \<times> ('w, 'm) kbase_scheme) run" where
  "dump_sdstor_data k = dump_module_data k ''SceSdstor'' ''sdstor''"

definition dump_sdif_data :: "'w kapi \<Rightarrow> ('w, 'm) kbase_scheme \<Rightarrow> (int \<times> ('w, 'm) kbase_scheme) run" where
  "dump_sdif_data k = dump_module_data k ''SceSdif'' ''sdif''"

definition dump_exfatfs_data :: "'w kapi \<Rightarrow> ('w, 'm) kbase_scheme \<Rightarrow> (int \<times> ('w, 'm) kbase_scheme) run" where
  "dump_exfatfs_data k = dump_module_data k ''SceExfatfs'' ''exfatfs''"

definition print_ctx :: "'w kapi \<Rightarrow> int \<Rightarrow> ('w, 'm) kbase_scheme \<Rightarrow> (int \<times> ('w, 'm) kbase_scheme) run" where
  "print_ctx k sd_index s =
     (case kcall (k_SdifGetGlobal k sd_index) s of
        (None, s1) \<Rightarrow> fail NullDeref
      | (Some gctx, s1) \<Rightarrow>
          ret (0, glog_line k (''type:'' @ hex_int (dev_type_idx gctx) @ '' ctx:'' @ hex_ptr (gctx_part gctx)) s1))"

definition initialize_gc_sd :: "'w kapi \<Rightarrow> ('w, 'm) kbase_scheme \<Rightarrow> (int \<times> ('w, 'm) kbase_scheme) run" where
  "initialize_gc_sd k s =
     (let (ctx, s1) = kcall (k_SdifGetPartSd k SCE_SDIF_DEV_GAME_CARD) s;
          s2 = (if ctx = 0
                then (let (res, ctx', s') = kcall2 (k_SdifInitPartSd k SCE_SDIF_DEV_GAME_CARD ctx) s1
                      in glog_line k (''res:'' @ hex_int res @ '' '') s')
                else s1)
      in run_bind (print_ctx k SCE_SDIF_DEV_GAME_CARD s2) (\<lambda>(_, s3). ret (0, s3)))"

definition hex2_str :: "byte \<Rightarrow> string" where
  "hex2_str b = (let h = hex_str (uint b) in replicate (2 - length h) (CHR ''0'') @ h)"

definition print_bytes ::
    "'w kapi \<Rightarrow> byte list \<Rightarrow> nat \<Rightarrow> ('w, 'm) kbase_scheme \<Rightarrow> (int \<times> ('w, 'm) kbase_scheme) run" where
  "print_bytes k bytes n s =
     (if n > length bytes then fail OutOfBounds
      else
        let s1 = open_global_log k s;
            s2 = fold (\<lambda>b. FILE_GLOBAL_WRITE_LEN k (hex2_str b @ '' '')) (take n bytes) s1
        in ret (0, close_global_log k (FILE_GLOBAL_WRITE_LEN k newline s2)))"


section \<open>The firmware's lists\<close>

text \<open>The address of something at an offset of a module's segment, or -1.\<close>

definition module_address ::
    "'w kapi \<Rightarrow> string \<Rightarrow> int \<Rightarrow> addr \<Rightarrow> ('w, 'm) kbase_scheme \<Rightarrow> addr \<times> ('w, 'm) kbase_scheme" where
  "module_address k nm sg off s =
     (let (r, modid, s1) = kcall2 (k_taiGetModuleInfo k nm) s
      in if r \<ge> 0
         then let (ofstRes, a, s2) = kcall2 (k_ModuleGetOffset k modid sg off) s1
              in if ofstRes = 0 then (a, s2) else (-1, s2)
         else (-1, s1))"

definition get_sdstor_dev_fs_info_base :: "'w kapi \<Rightarrow> ('w, 'm) kbase_scheme \<Rightarrow> addr \<times> ('w, 'm) kbase_scheme" where
  "get_sdstor_dev_fs_info_base k = module_address k ''SceSdstor'' 1 0x16FC"

definition get_sdstor_dummy_ttyp_dev_fs_info_base ::
    "'w kapi \<Rightarrow> ('w, 'm) kbase_scheme \<Rightarrow> addr \<times> ('w, 'm) kbase_scheme" where
  "get_sdstor_dummy_ttyp_dev_fs_info_base k = module_address k ''SceIofilemgr'' 1 0x221C"

definition get_vfs_node_info_base :: "'w kapi \<Rightarrow> ('w, 'm) kbase_scheme \<Rightarrow> addr \<times> ('w, 'm) kbase_scheme" where
  "get_vfs_node_info_base k = module_address k ''SceIofilemgr'' 1 0x01A8"

definition get_sdstor_mbr_ctx_base :: "'w kapi \<Rightarrow> ('w, 'm) kbase_scheme \<Rightarrow> addr \<times> ('w, 'm) kbase_scheme" where
  "get_sdstor_mbr_ctx_base k = module_address k ''SceSdstor'' 1 0xA40"

text \<open>The loop of \<open>dump_vfs_data\<close> follows the list to its end, if it has one.\<close>

partial_function (option) walk_add_data ::
    "'w kapi \<Rightarrow> 'w firmware \<Rightarrow> addr \<Rightarrow> ('w, 'm) kbase_scheme \<Rightarrow> ('w, 'm) kbase_scheme run" where
  "walk_add_data k f p s =
     (if p = 0 then ret s
      else
        let s1 = glog_line k (''name: '' @ c_string (add_name (f_add_data f p (world s)))) s
        in walk_add_data k f (next_element (f_add_data f p (world s1))) s1)"

definition dump_vfs_data ::
    "'w kapi \<Rightarrow> 'w firmware \<Rightarrow> ('w, 'm) kbase_scheme \<Rightarrow> (int \<times> ('w, 'm) kbase_scheme) run" where
  "dump_vfs_data k f s =
     (let (p, s1) = get_sdstor_dummy_ttyp_dev_fs_info_base k (glog_line k ''dumping vfs data...'' s)
      in if p = -1 then ret (-1, s1)
         else run_bind (walk_add_data k f p s1) (\<lambda>s2. ret (0, s2)))"

definition dump_vfs_node ::
    "'w kapi \<Rightarrow> 'w firmware \<Rightarrow> module_table \<Rightarrow> addr \<Rightarrow> ('w, 'm) kbase_scheme \<Rightarrow> int \<times> ('w, 'm) kbase_scheme" where
  "dump_vfs_node k f T node s =
     (if node = 0 then (0, glog_line k ''node is not set'' s)
      else
        let d = dev_info (f_vfs_node f node (world s))
        in if d = 0 then (0, glog_line k ''dev info is not set'' s)
           else
             let s1 = (if prev_node (f_vfs_node f node (world s)) \<noteq> 0 then glog_line k ''prev node is set'' s else s);
                 s2 = open_global_log k s1;
                 di = f_device_info f d (world s2);
                 segidx = find_in_segments T (di_partition di);
                 txt = hex_ptr (di_partition di) @ '' '' @ hex_ptr (di_device di) @ '' '' @ hex_ptr (di_unk_8 di);
                 s3 = FILE_GLOBAL_WRITE_LEN k
                        ((if segidx \<ge> 0 then ''ready: '' @ c_string (moduleName (segList T ! nat segidx)) @ '' '' @ txt
                          else ''ready: '' @ txt) @ newline) s2
             in (0, close_global_log k s3))"

text \<open>The 96 entries of the node table, \<open>0x38\<close> bytes each; \<open>n\<close> are left.\<close>

fun walk_node_info ::
    "'w kapi \<Rightarrow> 'w firmware \<Rightarrow> module_table \<Rightarrow> nat \<Rightarrow> addr \<Rightarrow> ('w, 'm) kbase_scheme \<Rightarrow> ('w, 'm) kbase_scheme" where
  "walk_node_info k f T 0 p s = s"
| "walk_node_info k f T (Suc n) p s =
     (let nm = c_string (vi_name (f_node_info f p (world s)));
          s1 = (if length nm > 0
                then let s' = glog_line k (''name: '' @ nm) s
                     in snd (dump_vfs_node k f T (vi_node (f_node_info f p (world s'))) s')
                else s)
      in walk_node_info k f T n (p + 0x38) s1)"

definition dump_vfs_node_info ::
    "'w kapi \<Rightarrow> 'w firmware \<Rightarrow> module_table \<Rightarrow> ('w, 'm) kbase_scheme \<Rightarrow> int \<times> ('w, 'm) kbase_scheme" where
  "dump_vfs_node_info k f T s =
     (let (p, s1) = get_vfs_node_info_base k (glog_line k ''dumping vfs node info...'' s)
      in if p = -1 then (-1, s1) else (0, walk_node_info k f T 96 p s1))"


section \<open>Partitions\<close>

text \<open>The array of 17 partition entries of \<open>0x1C\<close> bytes at offset \<open>0x58\<close> of a device; \<open>i\<close> is
  the loop's index. The answer is the entry's address or 0.\<close>

definition partition_at :: "addr \<Rightarrow> nat \<Rightarrow> addr" where
  "partition_at dev i = dev + 0x58 + 0x1C * of_nat i"

function find_partition_from :: "'w firmware \<Rightarrow> addr \<Rightarrow> byte \<Rightarrow> 'w \<Rightarrow> nat \<Rightarrow> addr" where
  "find_partition_from f dev partitionCode w i =
     (if i \<ge> 17 then 0
      else
        let praw = partitionEntryPtr (f_partition f (partition_at dev i) w)
        in if praw = 0 then find_partition_from f dev partitionCode w (Suc i)
           else if f_partitionCode f praw w = partitionCode then partition_at dev i
           else find_partition_from f dev partitionCode w (Suc i))"
  by pat_completeness auto
termination
  by (relation "measure (\<lambda>(_, _, _, _, i). 17 - i)") auto

declare find_partition_from.simps [simp del]

definition find_partition_entry_by_code :: "'w firmware \<Rightarrow> addr \<Rightarrow> byte \<Rightarrow> 'w \<Rightarrow> addr" where
  "find_partition_entry_by_code f dev partitionCode w = find_partition_from f dev partitionCode w 0"

definition call_proc_get_mount_data_C15B80 ::
    "'w kapi \<Rightarrow> 'w firmware \<Rightarrow> string \<Rightarrow> ('w, 'm) kbase_scheme \<Rightarrow> int \<times> ('w, 'm) kbase_scheme" where
  "call_proc_get_mount_data_C15B80 k f blockDeviceName s =
     (let s0 = glog_line k ''call_proc_get_mount_data_C15B80...'' s;
          (r, modid, s1) = kcall2 (k_taiGetModuleInfo k ''SceSdstor'') s0
      in if r < 0 then (0, s1)
         else
           let (ofstRes, proc, s2) = kcall2 (k_ModuleGetOffset k modid 0 0x1B81) s1
           in if ofstRes \<noteq> 0 then (0, s2)
              else
                let (res, md, s3) = kcall2 (f_get_mount f proc blockDeviceName) s2;
                    hex = (\<lambda>b :: byte. hex_str (uint b));
                    s4 = glog_line k (''block: '' @ blockDeviceName @ '' mount '' @ hex (sdstor_mbr_ctx_index md) @ '' ''
                           @ hex (md_unk1 md) @ '' '' @ hex (md_partitionCode md) @ '' '' @ hex (md_unk3 md)
                           @ '' res: '' @ hex_int res) s3;
                    (devBase, s5) = get_sdstor_mbr_ctx_base k s4
                in if sdstor_mbr_ctx_index md \<noteq> 0xFF
                   then
                     let curDevice = devBase + 0x238 * ucast (sdstor_mbr_ctx_index md);
                         pentry = find_partition_entry_by_code f curDevice (md_partitionCode md) (world s5)
                     in (0, if pentry \<noteq> 0
                            then glog_line k (''numeric: '' @ c_string (numericName (f_partition f pentry (world s5)))) s5
                            else s5)
                   else (0, s5))"

definition call_sceIoPreadForDriver ::
    "'w kapi \<Rightarrow> 'w firmware \<Rightarrow> int \<Rightarrow> byte list \<Rightarrow> int \<Rightarrow> int \<Rightarrow> int \<Rightarrow> int \<Rightarrow> ('w, 'm) kbase_scheme
     \<Rightarrow> int \<times> byte list \<times> ('w, 'm) kbase_scheme" where
  "call_sceIoPreadForDriver k f fd buffer n ignored offsetLo offsetHi s =
     (let (r, modid, s1) = kcall2 (k_taiGetModuleInfo k ''SceIofilemgr'') s
      in if r \<ge> 0
         then
           let (ofstRes, proc, s2) = kcall2 (k_ModuleGetOffset k modid 0 (0xBE12ED - 0xBE0000)) s1
           in if ofstRes = 0 then kcall2 (f_pread f proc fd buffer n ignored offsetLo offsetHi) s2
              else (-1, buffer, s2)
         else (-1, buffer, s1))"

definition test_sceIoPreadForDriver ::
    "'w kapi \<Rightarrow> 'w firmware \<Rightarrow> ('w, 'm) kbase_scheme \<Rightarrow> (int \<times> ('w, 'm) kbase_scheme) run" where
  "test_sceIoPreadForDriver k f s =
     (let (fd, s1) = kcall (k_IoOpen k ''ux0:tai/psvKmDump.skprx'' Rdonly) s
      in if fd \<ge> 0
         then
           let s2 = glog_line k ''Opened sceIoPread test file'' s1;
               (res, buffer, s3) = call_sceIoPreadForDriver k f fd (replicate 0x100 0) 0x15 0 5 0 s2
           in run_bind (if res < 0 then ret (0, glog_line k ''Failed to do sceIoPread file'' s3)
                        else print_bytes k buffer 0x20 s3) (\<lambda>(_, s4).
              ret (0, kdo (k_IoClose k fd) s4))
         else ret (0, glog_line k ''Failed to open sceIoPread test file'' s1))"

text \<open>\<open>dump_block_devices\<close> of \<open>psvemmc.c\<close>.\<close>

definition block_devices :: "string list" where
  "block_devices =
     [''ext-pp-act-a'', ''ext-lp-act-entire'', ''int-lp-act-os'', ''int-lp-ign-vsh'', ''int-lp-ign-vshdata'',
      ''int-lp-ign-vtrm'', ''int-lp-ign-user'', ''int-lp-ign-updater'', ''xmc-lp-ign-userext'',
      ''int-lp-ign-userext'', ''gcd-lp-ign-gamero'', ''gcd-lp-ign-gamerw'', ''int-lp-ign-sysdata'',
      ''int-lp-ign-pidata'', ''uma-pp-act-a'', ''uma-lp-act-entire'', ''gcd-lp-act-mediaid'',
      ''int-lp-act-entire'', ''mcd-lp-act-mediaid'', ''mcd-lp-act-entire'', ''int-lp-ina-os'',
      ''int-lp-ign-os'', ''int-lp-ign-idstor'', ''int-lp-ign-sloader'']"

definition dump_block_devices ::
    "'w kapi \<Rightarrow> 'w firmware \<Rightarrow> ('w, 'm) kbase_scheme \<Rightarrow> int \<times> ('w, 'm) kbase_scheme" where
  "dump_block_devices k f s =
     (0, fold (\<lambda>nm s. snd (call_proc_get_mount_data_C15B80 k f nm s)) block_devices s)"


section \<open>Following a list\<close>

text \<open>The list that starts at \<open>p\<close> in a memory \<open>m\<close> has the names \<open>ns\<close> and ends.\<close>

fun chain :: "(addr \<Rightarrow> vfs_add_data) \<Rightarrow> addr \<Rightarrow> string list \<Rightarrow> bool" where
  "chain m p [] \<longleftrightarrow> p = 0"
| "chain m p (n # ns) \<longleftrightarrow> p \<noteq> 0 \<and> n = c_string (add_name (m p)) \<and> chain m (next_element (m p)) ns"

lemma walk_chain:
  assumes "\<And>q w. f_add_data f q w = m q"
  shows "chain m p ns \<Longrightarrow> walk_add_data k f p s = ret (fold (\<lambda>n. glog_line k (''name: '' @ n)) ns s)"
proof (induction ns arbitrary: p s)
  case Nil
  then show ?case by (subst walk_add_data.simps) simp
next
  case (Cons n ns)
  then show ?case by (subst walk_add_data.simps) (simp add: assms)
qed

lemma walk_ends:
  assumes "walk_add_data k f p s = Some y" and "\<And>q w. f_add_data f q w = m q"
  shows "\<exists>ns. chain m p ns"
proof -
  define P where "P k' f' q t z \<longleftrightarrow> ((\<forall>a w. f_add_data f' a w = m a) \<longrightarrow> (\<exists>ns. chain m q ns))"
    for k' :: "'a kapi" and f' :: "'a firmware" and q and t :: "('a, 'b) kbase_scheme" and z :: "fault + ('a, 'b) kbase_scheme"
  have "P k f p s y"
  proof (rule walk_add_data.raw_induct [where P = P, OF _ assms(1)])
    fix walk and k' :: "'a kapi" and f' :: "'a firmware" and q and t :: "('a, 'b) kbase_scheme"
      and z :: "fault + ('a, 'b) kbase_scheme"
    assume IH: "\<And>k' f' q t z. walk k' f' q t = Some z \<Longrightarrow> P k' f' q t z"
      and body: "(if q = 0 then ret t
        else let s1 = glog_line k' (''name: '' @ c_string (add_name (f_add_data f' q (world t)))) t
             in walk k' f' (next_element (f_add_data f' q (world s1))) s1) = Some z"
    show "P k' f' q t z"
    proof (cases "q = 0")
      case True
      then have "chain m q []" by simp
      then show ?thesis unfolding P_def by blast
    next
      case False
      with body IH have "P k' f' (next_element (f_add_data f' q
          (world (glog_line k' (''name: '' @ c_string (add_name (f_add_data f' q (world t)))) t))))
          (glog_line k' (''name: '' @ c_string (add_name (f_add_data f' q (world t)))) t) z"
        by (simp add: Let_def)
      then show ?thesis
        unfolding P_def
      proof (intro impI)
        assume st: "\<forall>a w. f_add_data f' a w = m a"
          and "(\<forall>a w. f_add_data f' a w = m a) \<longrightarrow> (\<exists>ns. chain m (next_element (f_add_data f' q
          (world (glog_line k' (''name: '' @ c_string (add_name (f_add_data f' q (world t)))) t)))) ns)"
        then obtain ns where "chain m (next_element (m q)) ns" by auto
        with False have "chain m q (c_string (add_name (m q)) # ns)" by simp
        then show "\<exists>ns. chain m q ns" by blast
      qed
    qed
  qed
  then show ?thesis using assms(2) by (simp add: P_def)
qed

text \<open>C35: The dump of the file system list prints the name of every element, in the order of the
  list, when the list ends, and returns 0; a list that does not end, because a \<open>next_element\<close>
  points back into it, keeps \<open>dump_vfs_data\<close> running for ever.\<close>

theorem vfs_list_dumped:
  assumes "\<And>q w. f_add_data f q w = m q"
    and "get_sdstor_dummy_ttyp_dev_fs_info_base k (glog_line k ''dumping vfs data...'' s) = (p, s1)"
    and "p \<noteq> -1"
  shows "if \<exists>ns. chain m p ns
    then \<exists>ns. chain m p ns
      \<and> dump_vfs_data k f s = ret (0, fold (\<lambda>n. glog_line k (''name: '' @ n)) ns s1)
    else dump_vfs_data k f s = None"
proof (cases "\<exists>ns. chain m p ns")
  case True
  then obtain ns where "chain m p ns" by blast
  then have "dump_vfs_data k f s = ret (0, fold (\<lambda>n. glog_line k (''name: '' @ n)) ns s1)"
    using assms(2,3) by (simp add: dump_vfs_data_def walk_chain [where m = m, OF assms(1)] run_bind_ret)
  with \<open>chain m p ns\<close> show ?thesis by auto
next
  case False
  then have "walk_add_data k f p s1 = None"
    using walk_ends [of k f p s1, OF _ assms(1)] by (cases "walk_add_data k f p s1") blast+
  then show ?thesis using False assms(2,3) by (simp add: dump_vfs_data_def run_bind_None)
qed

definition list_firmware :: "(addr \<Rightarrow> vfs_add_data) \<Rightarrow> 'w firmware" where
  "list_firmware m = \<lparr>f_add_data = \<lambda>p _. m p,
     f_device_info = \<lambda>_ _. \<lparr>di_partition = 0, di_device = 0, di_unk_8 = 0\<rparr>,
     f_vfs_node = \<lambda>_ _. \<lparr>dev_info = 0, prev_node = 0, vn_unk_54 = 0\<rparr>,
     f_node_info = \<lambda>_ _. \<lparr>vi_name = [], vi_node = 0\<rparr>,
     f_partition = \<lambda>_ _. \<lparr>partitionEntryPtr = 0, numericName = []\<rparr>,
     f_partitionCode = \<lambda>_ _. 0,
     f_get_mount = \<lambda>_ _ w. (0, \<lparr>sdstor_mbr_ctx_index = 0xFF, md_unk1 = 0, md_partitionCode = 0, md_unk3 = 0\<rparr>, w),
     f_pread = \<lambda>_ _ bs _ _ _ _ w. (0, bs, w)\<rparr>"

theorem vfs_list_dumped_witness:
  "dump_vfs_data quiet_kernel (list_firmware (\<lambda>p. \<lparr>add_name = ''x'', next_element = 0x221C\<rparr>)) (log_boot ()) = None"
proof -
  let ?m = "\<lambda>p :: addr. \<lparr>add_name = ''x'', next_element = 0x221C :: addr\<rparr>"
  have no: "\<not> chain ?m p ns" if "p \<noteq> 0" for p ns
    using that by (induction ns arbitrary: p) auto
  obtain s1 where g: "get_sdstor_dummy_ttyp_dev_fs_info_base quiet_kernel
      (glog_line quiet_kernel ''dumping vfs data...'' (log_boot ())) = (0x221C, s1)"
    by (simp add: get_sdstor_dummy_ttyp_dev_fs_info_base_def module_address_def kcall2_eq quiet_kernel_def)
  have st: "f_add_data (list_firmware ?m) q w = ?m q" for q and w :: unit
    by (simp add: list_firmware_def)
  from vfs_list_dumped [of "list_firmware ?m" ?m, OF st g] no [of "0x221C"] show ?thesis
    by simp
qed


section \<open>Looking up a partition\<close>

definition has_code :: "'w firmware \<Rightarrow> addr \<Rightarrow> byte \<Rightarrow> 'w \<Rightarrow> nat \<Rightarrow> bool" where
  "has_code f dev c w i \<longleftrightarrow> (let praw = partitionEntryPtr (f_partition f (partition_at dev i) w)
     in praw \<noteq> 0 \<and> f_partitionCode f praw w = c)"

lemma find_partition_from_eq:
  "i \<le> 17 \<Longrightarrow> find_partition_from f dev c w i
     = (case find (has_code f dev c w) [i..<17] of None \<Rightarrow> 0 | Some j \<Rightarrow> partition_at dev j)"
proof (induction "17 - i" arbitrary: i)
  case 0
  then show ?case by (subst find_partition_from.simps) simp
next
  case (Suc n)
  then have lt: "i < 17" by simp
  then have "[i..<17] = i # [Suc i..<17]" by (rule upt_conv_Cons)
  moreover have "find_partition_from f dev c w (Suc i)
      = (case find (has_code f dev c w) [Suc i..<17] of None \<Rightarrow> 0 | Some j \<Rightarrow> partition_at dev j)"
    using Suc by (intro Suc(1)) auto
  ultimately show ?case
    using lt by (subst find_partition_from.simps) (simp add: has_code_def Let_def)
qed

text \<open>The partition search is the search of a list: it answers with the first of the 17
  entries that is linked to an entry of the master boot record with the wanted code, skipping
  the unused ones, and with 0 when there is none.\<close>

theorem partition_search_is_find:
  "find_partition_entry_by_code f dev c w
   = (case find (\<lambda>i. partitionEntryPtr (f_partition f (partition_at dev i) w) \<noteq> 0
         \<and> f_partitionCode f (partitionEntryPtr (f_partition f (partition_at dev i) w)) w = c) [0..<17] of
        None \<Rightarrow> 0 | Some i \<Rightarrow> partition_at dev i)"
  using find_partition_from_eq [of 0 f dev c w]
  by (simp add: find_partition_entry_by_code_def has_code_def [abs_def] Let_def)

end
