(* ===== verification/Log_Frame.thy ===== *)
theory Log_Frame
  imports Dump
begin

text \<open>
  What logging leaves alone: both log files are used in matching pairs of opening and closing, so
  that after a line, or after one of the functions of \<open>dump.c\<close> that only print, the counters are
  what they were and the variables of every other component are untouched.
\<close>

section \<open>What the logging leaves alone\<close>

text \<open>Both logs are used in matching pairs, and nothing but the world and the logs' own variables
  changes.\<close>

definition log_same :: "('w, 'm) kbase_scheme \<Rightarrow> ('w, 'm) kbase_scheme \<Rightarrow> bool" where
  "log_same s s' \<longleftrightarrow> sdstor_ref_ctx s' = sdstor_ref_ctx s \<and> global_ref_ctx s' = global_ref_ctx s
     \<and> kbase.more s' = kbase.more s"

lemma log_same_refl: "log_same s s"
  by (simp add: log_same_def)

lemma log_same_trans [trans]: "log_same s t \<Longrightarrow> log_same t u \<Longrightarrow> log_same s u"
  by (simp add: log_same_def)

lemma same_world: "log_same s (s\<lparr>world := w\<rparr>)"
  by (simp add: log_same_def)

lemma same_glog: "log_same s (glog_line k m s)"
  by (simp add: log_same_def glog_line_def log_defs Let_def kcall_eq kdo_def)

lemma same_slog: "log_same s (slog_line k m s)"
  by (simp add: log_same_def slog_line_def log_defs Let_def kcall_eq kdo_def)

lemma same_kdo: "log_same s (kdo g s)"
  by (simp add: kdo_def same_world)

lemmas same_steps = log_same_refl same_world same_glog same_slog same_kdo

lemma same_kcall: "kcall g s = (r, s') \<Longrightarrow> log_same s s'"
  by (auto simp: kcall_eq same_world)

lemma same_kcall2: "kcall2 g s = (r, a, s') \<Longrightarrow> log_same s s'"
  by (auto simp: kcall2_eq same_world)

text \<open>A line after something that leaves the state the same.\<close>

lemma same_then:
  "log_same s t \<Longrightarrow> log_same s (glog_line k m t)"
  "log_same s t \<Longrightarrow> log_same s (slog_line k m t)"
  "log_same s t \<Longrightarrow> log_same s (kdo g t)"
  "log_same s t \<Longrightarrow> log_same s (t\<lparr>world := w\<rparr>)"
  using same_steps log_same_trans by metis+

text \<open>The steps of a longer session with the log.\<close>

lemma glog_counts:
  "kbase.more (open_global_log k s) = kbase.more s"
  "sdstor_ref_ctx (open_global_log k s) = sdstor_ref_ctx s"
  "global_ref_ctx (open_global_log k s) = global_ref_ctx s + 1"
  "kbase.more (FILE_GLOBAL_WRITE_LEN k m s) = kbase.more s"
  "sdstor_ref_ctx (FILE_GLOBAL_WRITE_LEN k m s) = sdstor_ref_ctx s"
  "global_ref_ctx (FILE_GLOBAL_WRITE_LEN k m s) = global_ref_ctx s"
  "kbase.more (close_global_log k s) = kbase.more s"
  "sdstor_ref_ctx (close_global_log k s) = sdstor_ref_ctx s"
  "global_ref_ctx (close_global_log k s) = global_ref_ctx s - 1"
  by (simp_all add: log_defs Let_def kdo_def kcall_eq)

text \<open>Through the branches and intermediate states of a function.\<close>

lemma same_if: "log_same s t \<Longrightarrow> log_same s u \<Longrightarrow> log_same s (if b then t else u)"
  by simp

lemma same_snd_if: "log_same s (snd x) \<Longrightarrow> log_same s (snd y) \<Longrightarrow> log_same s (snd (if b then x else y))"
  by simp

lemma same_snd_pair: "log_same s t \<Longrightarrow> log_same s (snd (r :: int, t))"
  by simp

lemma same_let_state:
  "log_same s a \<Longrightarrow> (\<And>t. log_same s t \<Longrightarrow> log_same s (snd (h t))) \<Longrightarrow> log_same s (snd (let t = a in h t))"
  by simp

lemma same_let_addr: "(\<And>x. log_same s (snd (h x))) \<Longrightarrow> log_same s (snd (let x = (a :: addr) in h x))"
  by simp

lemma same_module_address: "log_same s (snd (module_address k nm sg off s))"
  by (simp add: module_address_def kcall2_eq Let_def log_same_def)

lemma same_dumpSegment: "dumpSegment k minfo n s = ret (r, s') \<Longrightarrow> log_same s s'"
  by (auto simp: dumpSegment_def Let_def run_simps kcall_eq intro!: same_then log_same_refl
      split: if_splits option.splits)

lemma same_dump_module_data: "dump_module_data k nm sh s = ret (r, s') \<Longrightarrow> log_same s s'"
  by (auto simp: dump_module_data_def Let_def run_simps kcall2_eq intro!: same_then log_same_refl
      dest!: same_dumpSegment elim!: log_same_trans [rotated] split: if_splits)

end
