(* ===== verification/Hooks_Vfs.thy ===== *)
theory Hooks_Vfs
  imports Log_Frame
begin

text \<open>
  \<open>driver/hooks_vfs_ops.c\<close> and \<open>driver/hooks_vfs_funcs.c\<close>: the functions that stand in for the
  file system operations of SceSdstor. Each calls the original, logs the call, and returns the
  original's result. Logging writes a file, which may call the same operation again: a flag
  for each hook says that it is logging, and a call that finds it set is refused. The original
  functions and the argument structures are the record \<open>vfs_env\<close>; an argument that cannot be
  read because a pointer on the way is null is \<open>None\<close>.
\<close>

record func13_args =
  a13_blockDeviceName :: string
  a13_numericName :: string

record node_func1_args =
  a1_node :: addr
  a1_blockDevice :: string
  a1_unixMount :: string

record node_func4_args =
  a4_node :: addr
  a4_new_node :: addr
  a4_blockDeviceName :: string
  a4_arg3 :: addr

record node_func7_args =
  a7_node :: addr
  a7_arg1 :: addr
  a7_arg2 :: addr
  a7_arg3 :: addr
  a7_arg_0 :: addr

record node_func9_args =
  a9_node0 :: addr
  a9_node1 :: addr
  a9_blockDeviceName :: string
  a9_arg3 :: addr

record 'w vfs_env =
  e_continue :: "nat \<Rightarrow> addr \<Rightarrow> 'w \<Rightarrow> int \<times> 'w"
  e_func12 :: "addr \<Rightarrow> 'w \<Rightarrow> string option"
  e_func13 :: "addr \<Rightarrow> 'w \<Rightarrow> func13_args option"
  e_node_func1 :: "addr \<Rightarrow> 'w \<Rightarrow> node_func1_args option"
  e_node_func4 :: "addr \<Rightarrow> 'w \<Rightarrow> node_func4_args option"
  e_node_func7 :: "addr \<Rightarrow> 'w \<Rightarrow> node_func7_args option"
  e_node_func9 :: "addr \<Rightarrow> 'w \<Rightarrow> node_func9_args option"

text \<open>\<open>entered i\<close> is the flag of the hook number \<open>i\<close> in the table \<open>sdstor_dev_fs_functions\<close>.\<close>

record 'w vfs = "'w kbase" +
  entered :: "nat \<Rightarrow> int"
  vfs_node_func5_num :: int
  vfs_node_func6_num :: int

definition deref :: "('w \<Rightarrow> 'a option) \<Rightarrow> ('w, 'm) kbase_scheme \<Rightarrow> 'a run" where
  "deref g s = (case g (world s) of None \<Rightarrow> fail NullDeref | Some a \<Rightarrow> ret a)"


section \<open>Printing a node\<close>

definition get_sd_stor_device_base :: "'w kapi \<Rightarrow> ('w, 'm) kbase_scheme \<Rightarrow> addr \<times> ('w, 'm) kbase_scheme" where
  "get_sd_stor_device_base k = module_address k ''SceSdstor'' 1 0x1558"

text \<open>An \<open>sd_stor_device\<close> has \<open>0x54\<close> bytes.\<close>

definition get_sd_stor_dev_index_by_address ::
    "'w kapi \<Rightarrow> addr \<Rightarrow> ('w, 'm) kbase_scheme \<Rightarrow> int \<times> ('w, 'm) kbase_scheme" where
  "get_sd_stor_dev_index_by_address k dev s =
     (let (base, s1) = get_sd_stor_device_base k s
      in (if dev = base then 0 else if dev = base + 0x54 then 1 else if dev = base + 2 * 0x54 then 2
          else if dev = base + 3 * 0x54 then 3 else if dev = base + 4 * 0x54 then 4 else -1, s1))"

definition print_sd_stor_dev_name_by_address ::
    "'w kapi \<Rightarrow> addr \<Rightarrow> ('w, 'm) kbase_scheme \<Rightarrow> int \<times> ('w, 'm) kbase_scheme" where
  "print_sd_stor_dev_name_by_address k dev s =
     (let (index, s1) = get_sd_stor_dev_index_by_address k dev s
      in (0, slog_line k (''device: '' @
               (if index = 0 then ''emmc'' else if index = 1 then ''game card''
                else if index = 2 then ''memory card'' else if index = 3 then ''unknown''
                else if index = 4 then ''unknown'' else ''invalid'')) s1))"

text \<open>A line whose text is made while the log is open.\<close>

definition slog_made ::
    "'w kapi \<Rightarrow> (('w, 'm) kbase_scheme \<Rightarrow> string) \<Rightarrow> ('w, 'm) kbase_scheme \<Rightarrow> ('w, 'm) kbase_scheme" where
  "slog_made k g s =
     (let s' = open_sdstor_dev_fs_log k s
      in close_sdstor_dev_fs_log k (FILE_SDSTOR_WRITE_LEN k (g s' @ newline) s'))"

definition print_vfs_node ::
    "'w kapi \<Rightarrow> 'w firmware \<Rightarrow> addr \<Rightarrow> ('w, 'm) kbase_scheme \<Rightarrow> int \<times> ('w, 'm) kbase_scheme" where
  "print_vfs_node k f node s =
     (if node = 0 then (0, slog_line k ''node is not set'' s)
      else
        let prev = prev_node (f_vfs_node f node (world s));
            s1 = (if prev = 0 then slog_line k ''prev_node is not set'' s
                  else slog_made k (\<lambda>t. ''nodes: '' @ hex_ptr node @ '' ''
                         @ hex_ptr (vn_unk_54 (f_vfs_node f prev (world t)))) s);
            d = dev_info (f_vfs_node f node (world s1))
        in if d = 0 then (0, slog_line k ''dev info is not set'' s1)
           else
             let s2 = slog_made k (\<lambda>t. let di = f_device_info f d (world t)
                        in ''dev info: '' @ hex_ptr (di_partition di) @ '' '' @ hex_ptr (di_device di)
                           @ '' '' @ hex_ptr (di_unk_8 di)) s1;
                 pt = di_partition (f_device_info f d (world s2));
                 s3 = (if pt \<noteq> 0
                       then slog_made k (\<lambda>t. ''partition: '' @ c_string (numericName (f_partition f pt (world t)))) s2
                       else slog_line k ''partition: not set'' s2);
                 s4 = (if pt \<noteq> 0 \<and> partitionEntryPtr (f_partition f pt (world s3)) = 0
                       then slog_line k ''partition raw: not set'' s3 else s3);
                 prev' = prev_node (f_vfs_node f node (world s4));
                 s5 = (if prev' \<noteq> 0 then slog_line k (''prev node is initialized: '' @ hex_ptr prev') s4 else s4);
                 dv = di_device (f_device_info f d (world s5))
             in (0, if dv \<noteq> 0 then snd (print_sd_stor_dev_name_by_address k dv s5)
                    else slog_line k ''device: not set'' s5))"


section \<open>The hooks of the operations\<close>

text \<open>The lines a hook writes between opening and closing the log: each is made from the
  original's result and the state at the time it is written.\<close>

fun write_lines ::
    "'w kapi \<Rightarrow> (('w, 'm) vfs_scheme \<Rightarrow> string run) list \<Rightarrow> ('w, 'm) vfs_scheme \<Rightarrow> ('w, 'm) vfs_scheme run" where
  "write_lines k [] s = ret s"
| "write_lines k (l # ls) s =
     run_bind (l s) (\<lambda>msg. write_lines k ls (FILE_SDSTOR_WRITE_LEN k (msg @ newline) s))"

text \<open>The pattern of the guarded hooks: the flag, the original, the log with the flag set, what
  else is printed, an empty line, and what follows it.\<close>

definition guarded_hook ::
    "'w kapi \<Rightarrow> 'w vfs_env \<Rightarrow> nat \<Rightarrow> addr \<Rightarrow> (int \<Rightarrow> (('w, 'm) vfs_scheme \<Rightarrow> string run) list)
     \<Rightarrow> (('w, 'm) vfs_scheme \<Rightarrow> ('w, 'm) vfs_scheme run) \<Rightarrow> (('w, 'm) vfs_scheme \<Rightarrow> ('w, 'm) vfs_scheme run)
     \<Rightarrow> ('w, 'm) vfs_scheme \<Rightarrow> (int \<times> ('w, 'm) vfs_scheme) run" where
  "guarded_hook k e i ctx lines prints after s =
     (if entered s i = 1 then ret (-1, s)
      else
        let (res, s1) = kcall (e_continue e i ctx) s;
            s2 = s1\<lparr>entered := (entered s1)(i := 1)\<rparr>
        in run_bind (write_lines k (lines res) (open_sdstor_dev_fs_log k s2)) (\<lambda>s3.
           let s4 = close_sdstor_dev_fs_log k s3;
               s5 = s4\<lparr>entered := (entered s4)(i := 0)\<rparr>
           in run_bind (prints s5) (\<lambda>s6.
              run_bind (after (slog_line k [] s6)) (\<lambda>s7. ret (res, s7)))))"

text \<open>The hooks that log only their name and argument.\<close>

definition simple_hook ::
    "'w kapi \<Rightarrow> 'w vfs_env \<Rightarrow> nat \<Rightarrow> string \<Rightarrow> addr \<Rightarrow> ('w, 'm) vfs_scheme \<Rightarrow> (int \<times> ('w, 'm) vfs_scheme) run" where
  "simple_hook k e i nm ctx = guarded_hook k e i ctx (\<lambda>res. [\<lambda>s. ret (nm @ '': '' @ hex_ptr ctx)]) ret ret"

definition vfs_func1 :: "'w kapi \<Rightarrow> 'w vfs_env \<Rightarrow> addr \<Rightarrow> ('w, 'm) vfs_scheme \<Rightarrow> (int \<times> ('w, 'm) vfs_scheme) run" where
  "vfs_func1 k e = simple_hook k e 0 ''vfs_func1''"

definition vfs_func3 :: "'w kapi \<Rightarrow> 'w vfs_env \<Rightarrow> addr \<Rightarrow> ('w, 'm) vfs_scheme \<Rightarrow> (int \<times> ('w, 'm) vfs_scheme) run" where
  "vfs_func3 k e = simple_hook k e 1 ''vfs_func3''"

definition vfs_func12 :: "'w kapi \<Rightarrow> 'w vfs_env \<Rightarrow> addr \<Rightarrow> ('w, 'm) vfs_scheme \<Rightarrow> (int \<times> ('w, 'm) vfs_scheme) run" where
  "vfs_func12 k e ctx = guarded_hook k e 2 ctx
     (\<lambda>res. [\<lambda>s. run_bind (deref (e_func12 e ctx) s) (\<lambda>dev.
        ret (''vfs_func12: '' @ hex_ptr ctx @ '' '' @ c_string dev))]) ret ret"

definition vfs_func13 :: "'w kapi \<Rightarrow> 'w vfs_env \<Rightarrow> addr \<Rightarrow> ('w, 'm) vfs_scheme \<Rightarrow> (int \<times> ('w, 'm) vfs_scheme) run" where
  "vfs_func13 k e ctx = guarded_hook k e 3 ctx
     (\<lambda>res. [\<lambda>s. ret (''vfs_func13: '' @ hex_ptr ctx),
             \<lambda>s. run_bind (deref (e_func13 e ctx) s) (\<lambda>a.
               ret (''dev: '' @ c_string (a13_blockDeviceName a) @ '' num: '' @ c_string (a13_numericName a)
                    @ '' res: '' @ hex_int res))]) ret ret"

definition vfs_node_func1 ::
    "'w kapi \<Rightarrow> 'w firmware \<Rightarrow> 'w vfs_env \<Rightarrow> addr \<Rightarrow> ('w, 'm) vfs_scheme \<Rightarrow> (int \<times> ('w, 'm) vfs_scheme) run" where
  "vfs_node_func1 k f e ctx = guarded_hook k e 4 ctx
     (\<lambda>res. [\<lambda>s. ret (''vfs_node_func1: '' @ hex_ptr ctx),
             \<lambda>s. run_bind (deref (e_node_func1 e ctx) s) (\<lambda>a.
               ret (''dev: '' @ c_string (a1_blockDevice a) @ '' mount: '' @ c_string (a1_unixMount a)
                    @ '' res: '' @ hex_int res))])
     (\<lambda>s. run_bind (deref (e_node_func1 e ctx) s) (\<lambda>a. ret (snd (print_vfs_node k f (a1_node a) s))))
     (\<lambda>s. run_bind (dump_iofilemgr_data k s) (\<lambda>(_, s).
          run_bind (dump_sdstor_data k s) (\<lambda>(_, s).
          run_bind (dump_sdif_data k s) (\<lambda>(_, s).
          run_bind (dump_exfatfs_data k s) (\<lambda>(_, s). ret s)))))"

definition vfs_node_func3 :: "'w kapi \<Rightarrow> 'w vfs_env \<Rightarrow> addr \<Rightarrow> ('w, 'm) vfs_scheme \<Rightarrow> (int \<times> ('w, 'm) vfs_scheme) run" where
  "vfs_node_func3 k e = simple_hook k e 5 ''vfs_node_func3''"

definition vfs_node_func4 ::
    "'w kapi \<Rightarrow> 'w firmware \<Rightarrow> 'w vfs_env \<Rightarrow> addr \<Rightarrow> ('w, 'm) vfs_scheme \<Rightarrow> (int \<times> ('w, 'm) vfs_scheme) run" where
  "vfs_node_func4 k f e ctx = guarded_hook k e 6 ctx
     (\<lambda>res. [\<lambda>s. ret (''vfs_node_func4: '' @ hex_ptr ctx),
             \<lambda>s. run_bind (deref (e_node_func4 e ctx) s) (\<lambda>a.
               ret (''node: '' @ hex_ptr (a4_node a) @ '' dev: '' @ c_string (a4_blockDeviceName a)
                    @ '' arg1: '' @ hex_ptr (a4_new_node a) @ '' arg3: '' @ hex_ptr (a4_arg3 a)
                    @ '' res: '' @ hex_int res))])
     (\<lambda>s. run_bind (deref (e_node_func4 e ctx) s) (\<lambda>a.
          let s1 = slog_line k ''----'' (snd (print_vfs_node k f (a4_node a) s))
          in run_bind (deref (e_node_func4 e ctx) s1) (\<lambda>a'. ret (snd (print_vfs_node k f (a4_new_node a') s1))))) ret"

text \<open>The hooks of read and write only count: writing a file in them does not work.\<close>

definition vfs_node_func5 :: "'w vfs_env \<Rightarrow> addr \<Rightarrow> ('w, 'm) vfs_scheme \<Rightarrow> (int \<times> ('w, 'm) vfs_scheme) run" where
  "vfs_node_func5 e ctx s =
     (let (res, s1) = kcall (e_continue e 7 ctx) s
      in ret (res, s1\<lparr>vfs_node_func5_num := wrap32 (vfs_node_func5_num s1 + 1)\<rparr>))"

definition vfs_node_func6 :: "'w vfs_env \<Rightarrow> addr \<Rightarrow> ('w, 'm) vfs_scheme \<Rightarrow> (int \<times> ('w, 'm) vfs_scheme) run" where
  "vfs_node_func6 e ctx s =
     (let (res, s1) = kcall (e_continue e 8 ctx) s
      in ret (res, s1\<lparr>vfs_node_func6_num := wrap32 (vfs_node_func6_num s1 + 1)\<rparr>))"

definition vfs_node_func7 ::
    "'w kapi \<Rightarrow> 'w firmware \<Rightarrow> 'w vfs_env \<Rightarrow> addr \<Rightarrow> ('w, 'm) vfs_scheme \<Rightarrow> (int \<times> ('w, 'm) vfs_scheme) run" where
  "vfs_node_func7 k f e ctx = guarded_hook k e 9 ctx
     (\<lambda>res. [\<lambda>s. ret (''vfs_node_func7: '' @ hex_ptr ctx),
             \<lambda>s. run_bind (deref (e_node_func7 e ctx) s) (\<lambda>a.
               ret (''node: '' @ hex8_str (a7_node a) @ '' arg1: '' @ hex8_str (a7_arg1 a)
                    @ '' arg2: '' @ hex8_str (a7_arg2 a) @ '' arg3: '' @ hex8_str (a7_arg3 a)
                    @ '' arg_0: '' @ hex8_str (a7_arg_0 a) @ '' res:'' @ hex8_str (word_of_int res)))])
     (\<lambda>s. run_bind (deref (e_node_func7 e ctx) s) (\<lambda>a. ret (snd (print_vfs_node k f (a7_node a) s)))) ret"

definition vfs_node_func9 ::
    "'w kapi \<Rightarrow> 'w firmware \<Rightarrow> 'w vfs_env \<Rightarrow> addr \<Rightarrow> ('w, 'm) vfs_scheme \<Rightarrow> (int \<times> ('w, 'm) vfs_scheme) run" where
  "vfs_node_func9 k f e ctx = guarded_hook k e 10 ctx
     (\<lambda>res. [\<lambda>s. ret (''vfs_node_func9: '' @ hex_ptr ctx),
             \<lambda>s. run_bind (deref (e_node_func9 e ctx) s) (\<lambda>a.
               ret (''node0: '' @ hex8_str (a9_node0 a) @ '' node1: '' @ hex8_str (a9_node1 a)
                    @ '' dev: '' @ c_string (a9_blockDeviceName a) @ '' arg3: '' @ hex8_str (a9_arg3 a)
                    @ '' res:'' @ hex8_str (word_of_int res))),
             \<lambda>s. ret (''vfs_node_func5_num '' @ hex_int (vfs_node_func5_num s)
                    @ '' vfs_node_func6_num: '' @ hex_int (vfs_node_func6_num s))])
     (\<lambda>s. run_bind (deref (e_node_func9 e ctx) s) (\<lambda>a.
          let s1 = slog_line k ''----'' (snd (print_vfs_node k f (a9_node0 a) s))
          in run_bind (deref (e_node_func9 e ctx) s1) (\<lambda>a'. ret (snd (print_vfs_node k f (a9_node1 a') s1))))) ret"

definition vfs_node_func19 :: "'w kapi \<Rightarrow> 'w vfs_env \<Rightarrow> addr \<Rightarrow> ('w, 'm) vfs_scheme \<Rightarrow> (int \<times> ('w, 'm) vfs_scheme) run" where
  "vfs_node_func19 k e = simple_hook k e 11 ''vfs_node_func19''"

definition vfs_node_func20 :: "'w kapi \<Rightarrow> 'w vfs_env \<Rightarrow> addr \<Rightarrow> ('w, 'm) vfs_scheme \<Rightarrow> (int \<times> ('w, 'm) vfs_scheme) run" where
  "vfs_node_func20 k e = simple_hook k e 12 ''vfs_node_func20''"

definition sdstor_dev_fs_functions ::
    "'w kapi \<Rightarrow> 'w firmware \<Rightarrow> 'w vfs_env \<Rightarrow> (addr \<Rightarrow> ('w, 'm) vfs_scheme \<Rightarrow> (int \<times> ('w, 'm) vfs_scheme) run) list" where
  "sdstor_dev_fs_functions k f e =
     [vfs_func1 k e, vfs_func3 k e, vfs_func12 k e, vfs_func13 k e, vfs_node_func1 k f e, vfs_node_func3 k e,
      vfs_node_func4 k f e, vfs_node_func5 e, vfs_node_func6 e, vfs_node_func7 k f e, vfs_node_func9 k f e,
      vfs_node_func19 k e, vfs_node_func20 k e]"


section \<open>The hooks of the file system manager\<close>

text \<open>The five hooks of \<open>hooks_vfs_funcs.c\<close> call the original with their arguments \<open>a\<close> and pass
  its result on.\<close>

definition sceVfsMount_hook :: "('a \<Rightarrow> 'w \<Rightarrow> int \<times> 'w) \<Rightarrow> 'a \<Rightarrow> ('w, 'm) kbase_scheme \<Rightarrow> int \<times> ('w, 'm) kbase_scheme" where
  "sceVfsMount_hook orig a s = (let (res, s1) = kcall (orig a) s in (res, s1))"

definition sceVfsAddVfs_hook :: "('a \<Rightarrow> 'w \<Rightarrow> int \<times> 'w) \<Rightarrow> 'a \<Rightarrow> ('w, 'm) kbase_scheme \<Rightarrow> int \<times> ('w, 'm) kbase_scheme" where
  "sceVfsAddVfs_hook orig a s = (let (res, s1) = kcall (orig a) s in (res, s1))"

definition sceVfsUnmount_hook :: "('a \<Rightarrow> 'w \<Rightarrow> int \<times> 'w) \<Rightarrow> 'a \<Rightarrow> ('w, 'm) kbase_scheme \<Rightarrow> int \<times> ('w, 'm) kbase_scheme" where
  "sceVfsUnmount_hook orig a s = (let (res, s1) = kcall (orig a) s in (res, s1))"

definition sceVfsDeleteVfs_hook :: "('a \<Rightarrow> 'w \<Rightarrow> int \<times> 'w) \<Rightarrow> 'a \<Rightarrow> ('w, 'm) kbase_scheme \<Rightarrow> int \<times> ('w, 'm) kbase_scheme" where
  "sceVfsDeleteVfs_hook orig a s = (let (res, s1) = kcall (orig a) s in (res, s1))"

definition sceVfsGetNewNode_hook :: "('a \<Rightarrow> 'w \<Rightarrow> int \<times> 'w) \<Rightarrow> 'a \<Rightarrow> ('w, 'm) kbase_scheme \<Rightarrow> int \<times> ('w, 'm) kbase_scheme" where
  "sceVfsGetNewNode_hook orig a s = (let (res, s1) = kcall (orig a) s in (res, s1))"


section \<open>What printing leaves alone\<close>

lemma same_made: "log_same s (slog_made k g s)"
  by (simp add: log_same_def slog_made_def log_defs Let_def kcall_eq kdo_def)

lemma same_then_made: "log_same s t \<Longrightarrow> log_same s (slog_made k g t)"
  by (rule log_same_trans [OF _ same_made])

lemma same_dev_name: "log_same s (snd (print_sd_stor_dev_name_by_address k dev s))"
  using same_module_address [of s k "''SceSdstor''" 1 "0x1558"]
  by (simp add: print_sd_stor_dev_name_by_address_def get_sd_stor_dev_index_by_address_def
      get_sd_stor_device_base_def split_beta same_then Let_def)

lemma same_then_dev_name: "log_same s t \<Longrightarrow> log_same s (snd (print_sd_stor_dev_name_by_address k dv t))"
  by (rule log_same_trans [OF _ same_dev_name])

lemma same_print_vfs_node: "log_same s (snd (print_vfs_node k f node s))"
  unfolding print_vfs_node_def
  apply (rule same_snd_if, rule same_snd_pair, rule same_then, rule log_same_refl)
  apply (rule same_let_addr, rule same_let_state, rule same_if, rule same_then, rule log_same_refl,
      rule same_then_made, rule log_same_refl)
  apply (rule same_let_addr, rule same_snd_if, rule same_snd_pair, rule same_then, assumption)
  apply (rule same_let_state, rule same_then_made, assumption)
  apply (rule same_let_addr, rule same_let_state, rule same_if, rule same_then_made, assumption,
      rule same_then, assumption)
  apply (rule same_let_state, rule same_if, rule same_then, assumption, assumption)
  apply (rule same_let_addr, rule same_let_state, rule same_if, rule same_then, assumption, assumption)
  apply (rule same_let_addr, rule same_snd_pair, rule same_if, rule same_then_dev_name, assumption,
      rule same_then, assumption)
  done


section \<open>One call of a hook\<close>

lemma log_same_vfs:
  fixes s s' :: "('w, 'm) vfs_scheme"
  assumes "log_same s s'"
  shows "entered s' = entered s" and "sdstor_ref_ctx s' = sdstor_ref_ctx s"
    and "global_ref_ctx s' = global_ref_ctx s"
  using assms by (cases s, cases s', simp add: log_same_def)+

lemma same_write_lines: "write_lines k ls s = ret s' \<Longrightarrow> log_same s s'"
proof (induction ls arbitrary: s)
  case (Cons l ls)
  then obtain m where "log_same (FILE_SDSTOR_WRITE_LEN k (m @ newline) s) s'"
    by (auto simp: run_simps)
  then show ?case by (simp add: log_same_def log_defs Let_def kdo_def)
qed (simp add: run_simps log_same_refl)

lemma guarded_hook_call:
  assumes "guarded_hook k e i ctx lines prints after s = ret (res, s')" and "entered s i \<noteq> 1"
    and "\<And>t t'. prints t = ret t' \<Longrightarrow> log_same t t'" and "\<And>t t'. after t = ret t' \<Longrightarrow> log_same t t'"
  shows "res = fst (e_continue e i ctx (world s)) \<and> entered s' = (entered s)(i := 0)
    \<and> sdstor_ref_ctx s' = sdstor_ref_ctx s \<and> global_ref_ctx s' = global_ref_ctx s"
proof -
  define s2 where "s2 = s\<lparr>world := snd (e_continue e i ctx (world s)), entered := (entered s)(i := 1)\<rparr>"
  from assms(1,2) obtain s3 s6 where
    w: "write_lines k (lines (fst (e_continue e i ctx (world s)))) (open_sdstor_dev_fs_log k s2) = ret s3"
    and m: "prints ((close_sdstor_dev_fs_log k s3)\<lparr>entered := (entered (close_sdstor_dev_fs_log k s3))(i := 0)\<rparr>) = ret s6"
    and a: "after (slog_line k [] s6) = ret s'" and r: "res = fst (e_continue e i ctx (world s))"
    by (auto simp: guarded_hook_def kcall_eq run_simps Let_def s2_def)
  define s4 where "s4 = close_sdstor_dev_fs_log k s3"
  have "kbase.more s4 = kbase.more s2 \<and> sdstor_ref_ctx s4 = sdstor_ref_ctx s2 \<and> global_ref_ctx s4 = global_ref_ctx s2"
    using same_write_lines [OF w] by (simp add: s4_def log_same_def log_defs Let_def kcall_eq kdo_def)
  then have "log_same s2 s4" by (simp add: log_same_def)
  note c = log_same_vfs [OF this]
  have "log_same (s4\<lparr>entered := (entered s4)(i := 0)\<rparr>) s'"
    using assms(3) [OF m] same_slog [of s6 k "[]"] assms(4) [OF a] unfolding s4_def
    by (blast intro: log_same_trans)
  note d = log_same_vfs [OF this]
  show ?thesis using c d r by (simp add: s2_def)
qed

lemma simple_hook_returns: "\<exists>r s'. simple_hook k e i nm ctx s = ret (r, s')"
  by (simp add: simple_hook_def guarded_hook_def kcall_eq run_simps Let_def)

lemma deref_same:
  assumes "run_bind (deref g t) h = ret t'" and "\<And>a. h a = ret t' \<Longrightarrow> log_same t t'"
  shows "log_same t t'"
  using assms by (auto simp: run_simps)

lemma same_print_print:
  "log_same t (snd (print_vfs_node k f b (slog_line k m (snd (print_vfs_node k f a t)))))"
  using same_print_vfs_node same_slog log_same_trans by metis

lemma same_dumps:
  assumes "run_bind (dump_iofilemgr_data k t) (\<lambda>(_, s). run_bind (dump_sdstor_data k s) (\<lambda>(_, s).
    run_bind (dump_sdif_data k s) (\<lambda>(_, s). run_bind (dump_exfatfs_data k s) (\<lambda>(_, s). ret s)))) = ret t'"
  shows "log_same t t'"
  using assms
  by (auto simp: run_simps dump_iofilemgr_data_def dump_sdstor_data_def dump_sdif_data_def dump_exfatfs_data_def
      dest!: same_dump_module_data elim!: log_same_trans)

lemmas hook_defs = vfs_func1_def vfs_func3_def vfs_func12_def vfs_func13_def vfs_node_func1_def
  vfs_node_func3_def vfs_node_func4_def vfs_node_func7_def vfs_node_func9_def vfs_node_func19_def
  vfs_node_func20_def simple_hook_def

text \<open>All guarded hooks of the table are instances of the pattern, with parts that leave the state
  alone.\<close>

lemma table_guarded:
  fixes k :: "'w kapi"
  assumes "i < 13" and "i \<noteq> 7" and "i \<noteq> 8"
  obtains lines and prints :: "('w, 'm) vfs_scheme \<Rightarrow> ('w, 'm) vfs_scheme run" and after where
    "(sdstor_dev_fs_functions k f e ! i) ctx = guarded_hook k e i ctx lines prints after"
    "\<And>t t'. prints t = ret t' \<Longrightarrow> log_same t t'" "\<And>t t'. after t = ret t' \<Longrightarrow> log_same t t'"
proof -
  have refl: "log_same t t'" if "ret t = ret t'" for t t' :: "('w, 'm) vfs_scheme"
    using that by (simp add: run_simps log_same_refl)
  have "i \<in> {0, 1, 2, 3, 4, 5, 6, 9, 10, 11, 12}"
    using assms by (simp add: less_Suc_eq numeral_eq_Suc)
  then consider "i \<in> {0, 1, 2, 3, 5, 11, 12}" | "i = 4" | "i = 6" | "i = 9" | "i = 10"
    by auto
  then show thesis
  proof cases
    case 1
    then show ?thesis
      by (auto simp: sdstor_dev_fs_functions_def hook_defs intro!: that elim!: refl)
  next
    case 2
    show ?thesis
      by (rule that, simp add: 2 sdstor_dev_fs_functions_def hook_defs, erule deref_same,
          simp add: run_simps, use same_print_vfs_node in blast, erule same_dumps)
  next
    case 3
    show ?thesis
      by (rule that, simp add: 3 sdstor_dev_fs_functions_def hook_defs, erule deref_same,
          auto simp: run_simps Let_def same_print_print log_same_refl)
  next
    case 4
    show ?thesis
      by (rule that, simp add: 4 sdstor_dev_fs_functions_def hook_defs, erule deref_same,
          auto simp: run_simps Let_def same_print_vfs_node log_same_refl)
  next
    case 5
    show ?thesis
      by (rule that, simp add: 5 sdstor_dev_fs_functions_def hook_defs, erule deref_same,
          auto simp: run_simps Let_def same_print_print log_same_refl)
  qed
qed


definition vfs_boot :: "'w \<Rightarrow> 'w vfs" where
  "vfs_boot w = kbase.extend (log_boot w) (vfs.fields (\<lambda>_. 0) 0 0)"

definition quiet_env :: "'w vfs_env" where
  "quiet_env = \<lparr>e_continue = \<lambda>_ _ w. (0, w), e_func12 = \<lambda>_ _. None, e_func13 = \<lambda>_ _. None,
     e_node_func1 = \<lambda>_ _. None, e_node_func4 = \<lambda>_ _. None, e_node_func7 = \<lambda>_ _. None,
     e_node_func9 = \<lambda>_ _. None\<rparr>"



section \<open>The guard and threads\<close>

text \<open>A hook runs in the thread that calls the file system. Where its flag is concerned a call has
  three moments: it is let in, it sets the flag before it logs, it clears it afterwards.\<close>

datatype phase = Out | In_original | In_log

record guard =
  flag :: int
  phase_of :: "nat \<Rightarrow> phase"

inductive guard_step :: "nat \<Rightarrow> guard \<Rightarrow> guard \<Rightarrow> bool" for t where
  enter: "phase_of g t = Out \<Longrightarrow> flag g \<noteq> 1 \<Longrightarrow> guard_step t g (g\<lparr>phase_of := (phase_of g)(t := In_original)\<rparr>)"
| set_flag: "phase_of g t = In_original \<Longrightarrow> guard_step t g (g\<lparr>flag := 1, phase_of := (phase_of g)(t := In_log)\<rparr>)"
| clear_flag: "phase_of g t = In_log \<Longrightarrow> guard_step t g (g\<lparr>flag := 0, phase_of := (phase_of g)(t := Out)\<rparr>)"

definition guard_boot :: guard where
  "guard_boot = \<lparr>flag = 0, phase_of = \<lambda>_. Out\<rparr>"

definition any_step :: "guard \<Rightarrow> guard \<Rightarrow> bool" where
  "any_step g g' \<longleftrightarrow> (\<exists>t. guard_step t g g')"

inductive_cases guard_stepE: "guard_step t g g'"

lemma flag_owner:
  assumes "any_step\<^sup>*\<^sup>* guard_boot g"
  shows "flag g \<in> {0, 1} \<and> (flag g = 1 \<longrightarrow> (\<exists>t. phase_of g t = In_log))"
  using assms
proof (induction rule: rtranclp_induct)
  case base
  then show ?case by (simp add: guard_boot_def)
next
  case (step g g')
  then obtain t where "guard_step t g g'" by (auto simp: any_step_def)
  then show ?case
  proof cases
    case enter
    with step.IH show ?thesis by (auto simp: enter)
  qed auto
qed

lemma one_thread_flag:
  assumes "(guard_step t)\<^sup>*\<^sup>* guard_boot g"
  shows "flag g = (if phase_of g t = In_log then 1 else 0)"
  using assms
  by (induction rule: rtranclp_induct) (auto simp: guard_boot_def elim!: guard_stepE)

definition two :: "int \<Rightarrow> phase \<Rightarrow> phase \<Rightarrow> guard" where
  "two fl a b = \<lparr>flag = fl, phase_of = \<lambda>t. if t = 0 then a else if t = 1 then b else Out\<rparr>"

lemma one_thread_logs: "(guard_step 0)\<^sup>*\<^sup>* guard_boot (two 1 In_log Out)"
proof -
  have "guard_step 0 guard_boot (two 0 In_original Out)"
    unfolding guard_boot_def two_def
    by (rule back_subst [of "guard_step 0 _", OF guard_step.enter]) auto
  moreover have "guard_step 0 (two 0 In_original Out) (two 1 In_log Out)"
    unfolding two_def
    by (rule back_subst [of "guard_step 0 _", OF guard_step.set_flag]) auto
  ultimately show ?thesis by (meson rtranclp.rtrancl_refl rtranclp.rtrancl_into_rtrancl)
qed

lemma race: "any_step\<^sup>*\<^sup>* guard_boot (two 0 In_log Out)"
proof -
  have enter0: "any_step guard_boot (two 0 In_original Out)"
    unfolding any_step_def guard_boot_def two_def
    by (rule exI [of _ 0], rule back_subst [of "guard_step 0 _", OF guard_step.enter]) auto
  have enter1: "any_step (two 0 In_original Out) (two 0 In_original In_original)"
    unfolding any_step_def two_def
    by (rule exI [of _ 1], rule back_subst [of "guard_step 1 _", OF guard_step.enter]) auto
  have set0: "any_step (two 0 In_original In_original) (two 1 In_log In_original)"
    unfolding any_step_def two_def
    by (rule exI [of _ 0], rule back_subst [of "guard_step 0 _", OF guard_step.set_flag]) auto
  have set1: "any_step (two 1 In_log In_original) (two 1 In_log In_log)"
    unfolding any_step_def two_def
    by (rule exI [of _ 1], rule back_subst [of "guard_step 1 _", OF guard_step.set_flag]) auto
  have clear1: "any_step (two 1 In_log In_log) (two 0 In_log Out)"
    unfolding any_step_def two_def
    by (rule exI [of _ 1], rule back_subst [of "guard_step 1 _", OF guard_step.clear_flag]) auto
  from enter0 enter1 set0 set1 clear1 show ?thesis
    by (meson rtranclp.rtrancl_refl rtranclp.rtrancl_into_rtrancl)
qed



end
