(* ===== verification/Hook_Table.thy ===== *)
theory Hook_Table
  imports Glog
begin

text \<open>
  The tables of \<open>driver/debug.c\<close>: which functions the driver hooks and which instructions it
  overwrites (\<open>initialize_all_hooks\<close>, by module), which lines it then logs, and what
  \<open>deinitialize_all_hooks\<close> gives back. A \<open>hook_var\<close> stands for the group of C variables of one
  hook: \<open>Iofilemgr 0xBF3474\<close> for \<open>iofilemgr_BF3474_hook\<close>, with its \<open>_id\<close>, its \<open>_ref\<close> and the
  function itself. The preprocessor switches are those of \<open>driver/defines.h\<close>.
\<close>

definition ENABLE_SD_PATCHES :: bool where "ENABLE_SD_PATCHES = True"
definition ENABLE_LOW_SPEED_PATCH :: bool where "ENABLE_LOW_SPEED_PATCH = False"

datatype (plugins only: code size) hook_var =
    Pfs_mgr int
  | Iofilemgr int
  | Pfs_check_patch nat
  | Pfs_facade int
  | Pfs_crypto_patch nat
  | Appmgr int
  | App_mgr int
  | Gen_init nat
  | Sdstor_dev_fs nat
  | Gen_init_patch nat
  | Mbr_init_zero_patch nat
  | Patch nat
  | Hs_dis_patch nat
  | Iofilemgr_exp int
  | Pfs_test_patch nat
  | SceAppMgrGameDataMountForDriver
  | SceAppMgrGameDataVfsMountForDriver
  | Proc_read_sealedkey_23D6EA0
  | Sbl_acmgr_0b6e6cd7
  | Proc_generate_random_path_23D4FBC
  | Proc_get_clearsign_stat_23D9A4C
  | Gc_22fd5d23
  | Gc
  | Load_mbr
  | Mnt_pnt_chk
  | Mbr_table_init
  | Gen_read
  | Sd_read
  | Init_partition_table
  | Create_device_handle
  | Init_mmc
  | Init_sd
  | Cmd55_41
  | Send_command
  | Bus_size_patch
  | Sysroot_zero
  | Iofilemgr_sceVfsMount
  | Iofilemgr_sceVfsGetNewNode
  | SceErrorHistoryPostError
  | SceErrorHistoryUpdateSequenceInfo
  | SceErrorGetExternalString_kernel
  | SceErrorHistoryGetError
  | VshSblAuthMgrVerifySpsfo
  | SceVfsMount
  | SceVfsAddVfs
  | SceVfsUnmount
  | SceVfsDeleteVfs
  | SceVfsGetNewNode
  | KsceKernelCreateThread
  | SceKernelCreateThreadForUser
  | SceIoOpenForDriver
  | KsceKernelWaitSema
  | KsceKernelSignalSema
  | Debug_printf_callback_invoke
  | SceFiosKernelOverlayRemoveForProcessForDriver

text \<open>A call to taiHEN: hook a function at an offset of a segment, an exported function of a
  library, a module's import of a function, or overwrite bytes at an offset.\<close>

datatype tai_op =
    Offset hook_var nat int
  | Export hook_var string int int
  | Import hook_var string int int
  | Inject hook_var nat int "byte list"

datatype hook_release = Rel_hook hook_var | Rel_inject hook_var


section \<open>What is installed\<close>

definition SceAppMgrForDriver_NID :: int where "SceAppMgrForDriver_NID = 0xDCE180F8"
definition SceError_NID :: int where "SceError_NID = 0x5CD2CAD1"
definition SceIofilemgrForDriver_NID :: int where "SceIofilemgrForDriver_NID = 0x40FD29C7"
definition ScePfsFacadeForKernel_NID :: int where "ScePfsFacadeForKernel_NID = 0xC26DC7BD"
definition ScePfsMgrForKernel_NID :: int where "ScePfsMgrForKernel_NID = 0xA067B56F"
definition SceSblACMgrForDriver_NID :: int where "SceSblACMgrForDriver_NID = 0x9AD8E213"
definition SceSblGcAuthMgrDrmBBForDriver_NID :: int where "SceSblGcAuthMgrDrmBBForDriver_NID = 0x1926B182"
definition SceSblGcAuthMgrGcAuthForDriver_NID :: int where "SceSblGcAuthMgrGcAuthForDriver_NID = 0xC6627F5E"
definition SceSdifForDriver_NID :: int where "SceSdifForDriver_NID = 0x96D306FA"
definition SceSysrootForDriver_NID :: int where "SceSysrootForDriver_NID = 0x2ED7F97A"
definition SceVshBridge_NID :: int where "SceVshBridge_NID = 0x35C5ACD4"

definition busWidth :: "byte list" where "busWidth = [0x02]"
definition iterations :: "byte list" where "iterations = [20]"
definition lowSpeed_check :: "byte list" where "lowSpeed_check = [0xF0, 0xFF, 0xFF, 0x00]"
definition lowSpeed_set :: "byte list" where "lowSpeed_set = [0xF0, 0xFF, 0xFF, 0x80]"
definition pfs_219DE44_check_patch :: "byte list" where "pfs_219DE44_check_patch = [0x01, 0x20, 0x00, 0xBF]"
definition zeroCallOnePatch :: "byte list" where "zeroCallOnePatch = [0x01, 0x20, 0x00, 0xBF]"
definition zeroCallZeroPatch :: "byte list" where "zeroCallZeroPatch = [0x00, 0x20, 0x00, 0xBF]"

definition sdstor_dev_fs_function_offsets :: "int list" where
  "sdstor_dev_fs_function_offsets =
     [0x3014, 0x303C, 0x35D0, 0x3550, 0x3464, 0x3458, 0x32E0, 0x3230, 0x317C, 0x30C4, 0x3290, 0x31DC, 0x3070]"

definition pfsmgr_hooks :: "tai_op list" where
  "pfsmgr_hooks =
     [Export (Pfs_mgr 0x2d48aea2) ''ScePfsMgr'' ScePfsMgrForKernel_NID 0x2d48aea2,
      Offset (Pfs_mgr 0x2190AEC) 0 0xAEC,
      Import (Iofilemgr 0xfeee44a9) ''ScePfsMgr'' SceIofilemgrForDriver_NID 0xfeee44a9,
      Import (Iofilemgr 0xd220539d) ''ScePfsMgr'' SceIofilemgrForDriver_NID 0xd220539d,
      Offset (Pfs_mgr 0x219105C) 0 (0x219105C - 0x2190000),
      Offset (Pfs_mgr 0x2193624) 0 (0x2193624 - 0x2190000),
      Offset (Pfs_mgr 0x2198928) 0 (0x2198928 - 0x2190000)]
     @ (if ENABLE_SD_PATCHES then
      [Inject (Pfs_check_patch 1) 0 (0x21A28FC - 0x2190000) pfs_219DE44_check_patch,
      Inject (Pfs_check_patch 2) 0 (0x21A295C - 0x2190000) pfs_219DE44_check_patch]
      else [])
     @ [Offset (Pfs_mgr 0x2193B44) 0 (0x2193B44 - 0x2190000)]
     @ (if ENABLE_SD_PATCHES then
      [Inject (Pfs_check_patch 3) 0 (0x21A3FF4 - 0x2190000) pfs_219DE44_check_patch,
      Inject (Pfs_check_patch 4) 0 (0x21A4016 - 0x2190000) pfs_219DE44_check_patch]
      else [])
     @ [Offset (Pfs_mgr 0x219112C) 0 (0x219112C - 0x2190000),
      Offset (Pfs_mgr 0x2192190) 0 (0x2192190 - 0x2190000)]
     @ (if ENABLE_SD_PATCHES then
      [Inject (Pfs_check_patch 5) 0 (0x2196190 - 0x2190000) pfs_219DE44_check_patch]
      else [])
     @ [Import (Iofilemgr 0x0b54f9e0) ''ScePfsMgr'' SceIofilemgrForDriver_NID 0x0b54f9e0,
      Offset (Pfs_facade 0x219C9E8) 0 (0x219C9E8 - 0x2190000),
      Offset (Pfs_facade 0x21A179C) 0 (0x21A179C - 0x2190000),
      Offset (Pfs_facade 0x21A19A8) 0 (0x21A19A8 - 0x2190000),
      Offset (Pfs_facade 0x219BB70) 0 (0x219BB70 - 0x2190000),
      Offset (Pfs_facade 0x219BDD4) 0 (0x219BDD4 - 0x2190000),
      Offset (Pfs_facade 0x219BD88) 0 (0x219BD88 - 0x2190000),
      Import (Pfs_facade 0xc1dd4317) ''ScePfsMgr'' SceIofilemgrForDriver_NID 0xc1dd4317,
      Offset (Pfs_facade 0x219BEA0) 0 (0x219BEA0 - 0x2190000),
      Import (Pfs_facade 0x15c17487) ''ScePfsMgr'' SceIofilemgrForDriver_NID 0x15c17487]
     @ (if ENABLE_SD_PATCHES then
      [Inject (Pfs_crypto_patch 4) 0 (0x219C1F0 - 0x2190000) pfs_219DE44_check_patch]
      else [])"

definition appmgr_hooks :: "tai_op list" where
  "appmgr_hooks =
     [Offset (Appmgr 0x23D642C) 0 0x1642C,
      Export SceAppMgrGameDataMountForDriver ''SceAppMgr'' SceAppMgrForDriver_NID 0xCE356B2D,
      Offset (Appmgr 0x23D9B50) 0 0x19B50,
      Import SceAppMgrGameDataVfsMountForDriver ''SceAppMgr'' SceIofilemgrForDriver_NID 0xd070bc48,
      Offset Proc_read_sealedkey_23D6EA0 0 0x16EA0,
      Import Sbl_acmgr_0b6e6cd7 ''SceAppMgr'' SceSblACMgrForDriver_NID 0x0b6e6cd7,
      Offset Proc_generate_random_path_23D4FBC 0 0x14FBC,
      Offset Proc_get_clearsign_stat_23D9A4C 0 0x19A4C,
      Import (Pfs_mgr 0xa772209c) ''SceAppMgr'' ScePfsMgrForKernel_NID 0xa772209c,
      Offset (App_mgr 0x23D5028) 0 (0x23D5028 - 0x23C0000),
      Offset (App_mgr 0x23EF934) 0 (0x23EF934 - 0x23C0000),
      Import (App_mgr 0x75c96d25) ''SceAppMgr'' SceIofilemgrForDriver_NID 0x75c96d25,
      Import (App_mgr 0x75192972) ''SceAppMgr'' SceIofilemgrForDriver_NID 0x75192972,
      Import (App_mgr 0xe17efc03) ''SceAppMgr'' SceIofilemgrForDriver_NID 0xe17efc03]"

definition gc_auth_hooks :: "tai_op list" where
  "gc_auth_hooks =
     [Import Gc_22fd5d23 ''SceNpDrm'' SceSblGcAuthMgrDrmBBForDriver_NID 0x22fd5d23]"

definition sdstor_hooks :: "tai_op list" where
  "sdstor_hooks =
     [Import Gc ''SceSdstor'' SceSblGcAuthMgrGcAuthForDriver_NID 0x68781760,
      Offset (Gen_init 0) 0 0x1E50,
      Offset (Gen_init 1) 0 0x22D0,
      Offset (Gen_init 2) 0 0x2708,
      Offset Load_mbr 0 0xF2C,
      Offset Mnt_pnt_chk 0 0x1B80,
      Offset Mbr_table_init 0 0x142C]
     @ map (\<lambda>f. Offset (Sdstor_dev_fs f) 0 (sdstor_dev_fs_function_offsets ! f)) [0..<13]
     @ [Offset Gen_read 0 0x2AF4]
     @ (if ENABLE_SD_PATCHES then
      [Import Sd_read ''SceSdstor'' SceSdifForDriver_NID 0xb9593652]
      else [])
     @ [Offset Init_partition_table 0 0x36C,
      Offset Create_device_handle 0 0x80]
     @ (if ENABLE_SD_PATCHES then
      [Inject (Gen_init_patch 2) 0 0x2498 zeroCallOnePatch,
      Inject (Mbr_init_zero_patch 1) 0 0x10B0 zeroCallZeroPatch,
      Inject (Mbr_init_zero_patch 2) 0 0x10C0 zeroCallZeroPatch,
      Inject (Gen_init_patch 1) 0 0x2022 zeroCallOnePatch]
      else [])"

definition sdif_hooks :: "tai_op list" where
  "sdif_hooks =
     [Export Init_mmc ''SceSdif'' SceSdifForDriver_NID 0x22c82e79,
      Export Init_sd ''SceSdif'' SceSdifForDriver_NID 0xc1271539,
      Inject (Patch 0) 0 0x349A iterations,
      Inject (Patch 1) 0 0x34B8 iterations,
      Inject (Patch 2) 0 0x359A iterations,
      Offset Cmd55_41 0 0x35E8,
      Offset Send_command 0 0x17E8]
     @ (if ENABLE_LOW_SPEED_PATCH then
      [Inject (Hs_dis_patch 1) 0 0x6B34 lowSpeed_check,
      Inject (Hs_dis_patch 2) 0 0x6B54 lowSpeed_set]
      else [])
     @ (if ENABLE_SD_PATCHES then
      [Inject Bus_size_patch 0 0x6826 busWidth]
      else [])"

definition sysmem_hooks :: "tai_op list" where
  "sysmem_hooks =
     [Import Sysroot_zero ''SceSdstor'' SceSysrootForDriver_NID 0xf804f761]"

definition iofilemgr_hooks_1 :: "tai_op list" where
  "iofilemgr_hooks_1 =
     [Offset (Iofilemgr 0xBF3474) 0 0x13474,
      Export Iofilemgr_sceVfsMount ''SceIofilemgr'' SceIofilemgrForDriver_NID 0xb62de9a6,
      Export Iofilemgr_sceVfsGetNewNode ''SceIofilemgr'' SceIofilemgrForDriver_NID 0xd60b5c63,
      Offset (Iofilemgr 0xBE5B30) 0 0x5B30,
      Offset (Iofilemgr 0xBF18CC) 0 (0x00BF18CC - 0x00BE0000),
      Offset (Iofilemgr 0xBEDEB0) 0 0xDEB0,
      Offset (Iofilemgr 0xBE6788) 0 0x6788,
      Offset (Iofilemgr 0xBE59BC) 0 0x59BC,
      Offset (Iofilemgr 0xBEBB84) 0 (0xBEBB84 - 0x00BE0000),
      Offset (Iofilemgr 0xBEC7C0) 0 (0xBEC7C0 - 0x00BE0000),
      Offset (Iofilemgr 0xBE61C4) 0 (0xBE61C4 - 0x00BE0000)]"

definition iofilemgr_hooks_2 :: "tai_op list" where
  "iofilemgr_hooks_2 =
     [Offset (Iofilemgr 0xBE8444) 0 (0xBE8444 - 0x00BE0000),
      Offset (Iofilemgr 0xBE5CC4) 0 (0xBE5CC4 - 0x00BE0000),
      Export (Iofilemgr 0xa5a6a55c) ''SceIofilemgr'' SceIofilemgrForDriver_NID 0xa5a6a55c,
      Offset (Iofilemgr 0xBEA704) 0 (0xBEA704 - 0x00BE0000),
      Offset (Iofilemgr 0xBE7AEC) 0 (0xBE7AEC - 0x00BE0000),
      Offset (Iofilemgr 0xBF57F8) 0 (0xBF57F8 - 0x00BE0000),
      Offset (Iofilemgr 0xBF66E4) 0 (0xBF66E4 - 0x00BE0000),
      Offset (Iofilemgr 0xBF6B6C) 0 (0xBF6B6C - 0x00BE0000),
      Offset (Iofilemgr 0xBF651C) 0 (0xBF651C - 0x00BE0000),
      Offset (Iofilemgr 0xBF89EC) 0 (0xBF89EC - 0x00BE0000),
      Offset (Iofilemgr 0xBF8BD4) 0 (0xBF8BD4 - 0x00BE0000),
      Offset (Iofilemgr 0xBF7C00) 0 (0xBF7C00 - 0x00BE0000),
      Offset (Iofilemgr 0xBF8BB0) 0 (0xBF8BB0 - 0x00BE0000),
      Offset (Iofilemgr 0xBF7288) 0 (0xBF7288 - 0x00BE0000),
      Offset (Iofilemgr 0xBFB5F0) 0 (0xBFB5F0 - 0x00BE0000),
      Offset (Iofilemgr 0xBF88C4) 0 (0xBF88C4 - 0x00BE0000),
      Offset (Iofilemgr 0xBFB794) 0 (0xBFB794 - 0x00BE0000),
      Offset (Iofilemgr 0xBF7268) 0 (0xBF7268 - 0x00BE0000),
      Offset (Iofilemgr 0xBF83A0) 0 (0xBF83A0 - 0x00BE0000),
      Offset (Iofilemgr 0xBFB628) 0 (0xBFB628 - 0x00BE0000),
      Offset (Iofilemgr 0xBF7228) 0 (0xBF7228 - 0x00BE0000),
      Offset (Iofilemgr 0xBF83F8) 0 (0xBF83F8 - 0x00BE0000),
      Offset (Iofilemgr 0xBFB748) 0 (0xBFB748 - 0x00BE0000),
      Offset (Iofilemgr 0xBE7F4C) 0 (0xBE7F4C - 0x00BE0000),
      Offset (Iofilemgr 0xBFB2A8) 0 (0xBFB2A8 - 0x00BE0000),
      Import (Pfs_facade 0x4238d2d2) ''SceIofilemgr'' ScePfsFacadeForKernel_NID 0x4238d2d2]"

definition err_hooks :: "tai_op list" where
  "err_hooks =
     [Export SceErrorHistoryPostError ''SceError'' SceError_NID 0x70F9D872,
      Export SceErrorHistoryUpdateSequenceInfo ''SceError'' SceError_NID 0x6FBE4BDC,
      Export SceErrorGetExternalString_kernel ''SceError'' SceError_NID 0x85747003,
      Export SceErrorHistoryGetError ''SceError'' SceError_NID 0xF16DF981]"

definition thread_hooks :: "tai_op list" where
  "thread_hooks =
     []"

definition vsh_hooks :: "tai_op list" where
  "vsh_hooks =
     [Export VshSblAuthMgrVerifySpsfo ''SceVshBridge'' SceVshBridge_NID 0xBA7BDD18]"

definition hook_modules :: "(string \<times> tai_op list) list" where
  "hook_modules =
     [(''ScePfsMgr'', pfsmgr_hooks),
      (''SceAppMgr'', appmgr_hooks),
      (''SceSblGcAuthMgr'', gc_auth_hooks),
      (''SceSdstor'', sdstor_hooks),
      (''SceSdif'', sdif_hooks),
      (''SceSysmem'', sysmem_hooks),
      (''SceIofilemgr'', (iofilemgr_hooks_1 @ iofilemgr_hooks_2)),
      (''SceError'', err_hooks),
      (''SceKernelThreadMgr'', thread_hooks),
      (''SceVshBridge'', vsh_hooks)]"


section \<open>What is reported\<close>

text \<open>A line of the report: the variable it looks at, the text when its id is not negative, and
  the text that comes before the id when it is. The second form is the one the macros
  \<open>PRINT_HOOK\<close> and \<open>PRINT_INJECT\<close> paste together.\<close>

definition plain :: "hook_var \<Rightarrow> string \<Rightarrow> hook_var \<times> string \<times> string" where
  "plain v nm = (v, ''set '' @ nm, ''failed to set '' @ nm @ '': '')"

definition macro :: "hook_var \<Rightarrow> string \<Rightarrow> hook_var \<times> string \<times> string" where
  "macro v nm = (v, ''set_'' @ nm @ ''__'', ''failed_to_set_'' @ nm @ ''_:__'')"

definition report_1 :: "(hook_var \<times> string \<times> string) list" where
  "report_1 =
     [plain Gc ''gc init hook'',
      plain Init_mmc ''mmc init hook'',
      plain Init_sd ''sd init hook'',
      plain Cmd55_41 ''cmd55_41_hook_id hook'',
      plain (Gen_init 0) ''gen init 1 hook'',
      plain (Gen_init 1) ''gen init 2 hook'',
      plain (Gen_init 2) ''gen init 3 hook'',
      plain Sysroot_zero ''sysroot zero hook'',
      plain Load_mbr ''load mbr hook'',
      plain Mnt_pnt_chk ''mnt ptr chk hook'',
      plain Mbr_table_init ''mbr table init hook'']"

definition report_2 :: "(hook_var \<times> string \<times> string) list" where
  "report_2 =
     map (\<lambda>f. plain (Sdstor_dev_fs f) (''sdstor_dev_fs function '' @ dec_str (int f + 1) @ '' hook'')) [0..<13]"

definition report_3 :: "(hook_var \<times> string \<times> string) list" where
  "report_3 =
     [plain SceVfsMount ''sceVfsMount hook'',
      plain SceVfsAddVfs ''sceVfsAddVfs hook'',
      plain SceVfsUnmount ''sceVfsUnmount hook'',
      plain SceVfsDeleteVfs ''sceVfsDeleteVfs hook'',
      plain SceVfsGetNewNode ''sceVfsGetNewNode hook'',
      plain (Gen_init_patch 2) ''gen_init_2_patch hook'',
      plain (Gen_init_patch 1) ''gen_init_1_patch hook'',
      plain Gen_read ''gen_read hook'',
      plain Sd_read ''sd_read hook'',
      plain (Hs_dis_patch 1) ''hs_dis_patch1'',
      plain (Hs_dis_patch 2) ''hs_dis_patch2'',
      plain Bus_size_patch ''bus_size_patch'',
      plain (Mbr_init_zero_patch 1) ''mbr_init_zero_patch1'',
      plain (Mbr_init_zero_patch 2) ''mbr_init_zero_patch2'',
      plain Init_partition_table ''init_partition_table_hook'']"

definition report_4 :: "(hook_var \<times> string \<times> string) list" where
  "report_4 =
     [plain Create_device_handle ''create_device_handle_hook'',
      plain Send_command ''send_command_hook'',
      plain SceErrorHistoryPostError ''sceErrorHistoryPostError_hook'',
      plain SceErrorHistoryUpdateSequenceInfo ''sceErrorHistoryUpdateSequenceInfo_hook'',
      plain SceErrorGetExternalString_kernel ''sceErrorGetExternalString_kernel_hook'',
      plain SceErrorHistoryGetError ''sceErrorHistoryGetError_hook'',
      plain KsceKernelCreateThread ''ksceKernelCreateThread_hook'',
      plain SceKernelCreateThreadForUser ''sceKernelCreateThreadForUser_hook'',
      plain SceIoOpenForDriver ''sceIoOpenForDriver_hook'',
      plain KsceKernelWaitSema ''ksceKernelWaitSema_hook'',
      plain KsceKernelSignalSema ''ksceKernelSignalSema_hook'',
      plain VshSblAuthMgrVerifySpsfo ''vshSblAuthMgrVerifySpsfo_hook'',
      plain Debug_printf_callback_invoke ''debug_printf_callback_invoke_hook'',
      plain Gc_22fd5d23 ''gc_22fd5d23_hook'',
      plain (Appmgr 0x23D642C) ''appmgr_23D642C_hook'']"

definition report_5 :: "(hook_var \<times> string \<times> string) list" where
  "report_5 =
     [plain SceAppMgrGameDataMountForDriver ''sceAppMgrGameDataMountForDriver_hook'',
      plain (Appmgr 0x23D9B50) ''appmgr_23D9B50_hook'',
      plain SceAppMgrGameDataVfsMountForDriver ''sceAppMgrGameDataVfsMountForDriver_hook'',
      plain SceFiosKernelOverlayRemoveForProcessForDriver ''sceFiosKernelOverlayRemoveForProcessForDriver_hook'',
      plain Proc_read_sealedkey_23D6EA0 ''proc_read_sealedkey_23D6EA0_hook'',
      plain Sbl_acmgr_0b6e6cd7 ''sbl_acmgr_0b6e6cd7_hook'',
      plain Proc_generate_random_path_23D4FBC ''proc_generate_random_path_23D4FBC_hook'',
      plain Proc_get_clearsign_stat_23D9A4C ''proc_get_clearsign_stat_23D9A4C_hook'',
      plain (Pfs_mgr 0xa772209c) ''pfs_mgr_a772209c_hook'',
      plain (Pfs_mgr 0x2d48aea2) ''pfs_mgr_2d48aea2_hook'',
      plain (Pfs_mgr 0x2190AEC) ''pfs_mgr_2190AEC_hook'',
      plain (Iofilemgr 0xfeee44a9) ''iofilemgr_feee44a9_hook'',
      plain (Iofilemgr 0xd220539d) ''iofilemgr_d220539d_hook'',
      plain (Iofilemgr 0xBF3848) ''iofilemgr_BF3848_hook'',
      plain (Iofilemgr 0xBF3474) ''iofilemgr_BF3474_hook'']"

definition report_6 :: "(hook_var \<times> string \<times> string) list" where
  "report_6 =
     [plain Iofilemgr_sceVfsMount ''iofilemgr_sceVfsMount_hook'',
      plain Iofilemgr_sceVfsGetNewNode ''iofilemgr_sceVfsGetNewNode_hook'',
      plain (Iofilemgr 0xBF1AF0) ''iofilemgr_BF1AF0_hook'',
      plain (Iofilemgr 0xBE5B30) ''iofilemgr_BE5B30_hook'',
      plain (Iofilemgr 0xBF18CC) ''iofilemgr_BF18CC_hook'',
      plain (Iofilemgr 0xBEDEB0) ''iofilemgr_BEDEB0_hook'',
      plain (Iofilemgr 0xBE62E8) ''iofilemgr_BE62E8_hook'',
      plain (Iofilemgr 0xBE5F10) ''iofilemgr_BE5F10_hook'',
      plain (Iofilemgr 0xBE6788) ''iofilemgr_BE6788_hook'',
      plain (Iofilemgr 0xBEE3C8) ''iofilemgr_BEE3C8_hook'',
      plain (Iofilemgr 0xBEBAC0) ''iofilemgr_BEBAC0_hook'',
      plain (Iofilemgr 0xBE61C4) ''iofilemgr_BE61C4_hook'',
      plain (Iofilemgr 0xBE59BC) ''iofilemgr_BE59BC_hook'',
      plain (Iofilemgr 0xBEE364) ''iofilemgr_BEE364_hook'']"

definition report_7 :: "(hook_var \<times> string \<times> string) list" where
  "report_7 =
     [plain (Iofilemgr 0xBEE2D4) ''iofilemgr_BEE2D4_hook'',
      plain (Iofilemgr 0xBEE2C4) ''iofilemgr_BEE2C4_hook'',
      plain (Iofilemgr 0xBEDF5C) ''iofilemgr_BEDF5C_hook'',
      plain (Iofilemgr 0xBECE80) ''iofilemgr_BECE80_hook'',
      plain (Iofilemgr 0xBEC808) ''iofilemgr_BEC808_hook'',
      plain (Iofilemgr 0xBEC620) ''iofilemgr_BEC620_hook'',
      plain (Iofilemgr 0xBEC578) ''iofilemgr_BEC578_hook'',
      plain (Iofilemgr 0xBEC56C) ''iofilemgr_BEC56C_hook'',
      plain (Iofilemgr 0xBEC530) ''iofilemgr_BEC530_hook'',
      plain (Iofilemgr 0xBEC010) ''iofilemgr_BEC010_hook'',
      plain (Iofilemgr 0xBE5A38) ''iofilemgr_BE5A38_hook'',
      plain (Iofilemgr 0xBE5814) ''iofilemgr_BE5814_hook'',
      plain (Iofilemgr 0xBEBB84) ''iofilemgr_BEBB84_hook'',
      plain (Iofilemgr 0xBEC7C0) ''iofilemgr_BEC7C0_hook'',
      plain (Iofilemgr 0xBECE0C) ''iofilemgr_BECE0C_hook'']"

definition report_8 :: "(hook_var \<times> string \<times> string) list" where
  "report_8 =
     [plain (Iofilemgr_exp 0xaa45010b) ''iofilemgr_exp_aa45010b_hook'',
      plain (Iofilemgr_exp 0x21d57633) ''iofilemgr_exp_21d57633_hook'',
      plain (Iofilemgr_exp 0xdc2d8bce) ''iofilemgr_exp_dc2d8bce_hook'',
      plain (Iofilemgr_exp 0x6b3ca9f7) ''iofilemgr_exp_6b3ca9f7_hook'',
      plain (Pfs_mgr 0x219105C) ''pfs_mgr_219105C_hook'',
      plain (Pfs_mgr 0x2193624) ''pfs_mgr_2193624_hook'',
      plain (Pfs_mgr 0x2198928) ''pfs_mgr_2198928_hook'',
      plain (Pfs_mgr 0x2199064) ''pfs_mgr_2199064_hook'',
      plain (Pfs_mgr 0x219DE44) ''pfs_mgr_219DE44_hook'',
      plain (Pfs_mgr 0x219DE7C) ''pfs_mgr_219DE7C_hook'',
      plain (Pfs_mgr 0x2199144) ''pfs_mgr_2199144_hook'',
      plain (Pfs_check_patch 1) ''pfs_219DE44_check_patch1'',
      plain (Pfs_check_patch 2) ''pfs_219DE44_check_patch2'',
      plain (App_mgr 0x23D5028) ''app_mgr_23D5028_hook'',
      plain (App_mgr 0x23EF934) ''app_mgr_23EF934_hook'']"

definition report_9 :: "(hook_var \<times> string \<times> string) list" where
  "report_9 =
     [plain (App_mgr 0x75c96d25) ''app_mgr_75c96d25_hook'',
      plain (Iofilemgr 0xBE8444) ''iofilemgr_BE8444_hook'',
      plain (Iofilemgr 0x50a63acf) ''iofilemgr_50a63acf_hook'',
      plain (Iofilemgr 0xBE584C) ''iofilemgr_BE584C_hook'',
      plain (Iofilemgr 0xBE5CC4) ''iofilemgr_BE5CC4_hook'',
      plain (Iofilemgr 0xf7dac0f5) ''iofilemgr_f7dac0f5_hook'',
      plain (Iofilemgr 0xa5a6a55c) ''iofilemgr_a5a6a55c_hook'',
      plain (Pfs_mgr 0x21910F4) ''pfs_mgr_21910F4_hook'',
      plain (Pfs_mgr 0x2193B44) ''pfs_mgr_2193B44_hook'',
      plain (Pfs_check_patch 3) ''pfs_219DE44_check_patch3'',
      plain (Pfs_check_patch 4) ''pfs_219DE44_check_patch4'',
      plain (App_mgr 0x75192972) ''app_mgr_75192972_hook'',
      plain (Iofilemgr 0xBEA704) ''iofilemgr_BEA704_hook'',
      plain (Iofilemgr 0x9e347c7d) ''iofilemgr_9e347c7d_hook'',
      plain (Iofilemgr 0x76b79bec) ''iofilemgr_76b79bec_hook'']"

definition report_10 :: "(hook_var \<times> string \<times> string) list" where
  "report_10 =
     [plain (Pfs_mgr 0x219112C) ''pfs_mgr_219112C_hook'',
      plain (Pfs_mgr 0x2192190) ''pfs_mgr_2192190_hook'',
      plain (Pfs_check_patch 5) ''pfs_219DE44_check_patch5'',
      plain (Pfs_check_patch 6) ''pfs_219DE44_check_patch6'',
      plain (Pfs_check_patch 7) ''pfs_219DE44_check_patch7'',
      plain (App_mgr 0xe17efc03) ''app_mgr_e17efc03_hook'',
      plain (Pfs_test_patch 1) ''pfs_80140f02_test_patch1'',
      plain (Pfs_test_patch 2) ''pfs_80140f02_test_patch2'',
      plain (Pfs_mgr 0x219BF20) ''pfs_mgr_219BF20_hook'',
      plain (Iofilemgr 0xBE7AEC) ''iofilemgr_BE7AEC_hook'',
      plain (Iofilemgr 0xBF57F8) ''iofilemgr_BF57F8_hook'',
      plain (Iofilemgr 0xBF66E4) ''iofilemgr_BF66E4_hook'',
      plain (Iofilemgr 0xBF6B6C) ''iofilemgr_BF6B6C_hook'',
      plain (Iofilemgr 0xBF69B4) ''iofilemgr_BF69B4_hook'',
      plain (Iofilemgr 0xBF651C) ''iofilemgr_BF651C_hook'']"

definition report_11 :: "(hook_var \<times> string \<times> string) list" where
  "report_11 =
     [plain (Iofilemgr 0xBF89EC) ''iofilemgr_BF89EC_hook'',
      plain (Iofilemgr 0xBF8BD4) ''iofilemgr_BF8BD4_hook'',
      plain (Iofilemgr 0xBF7C00) ''iofilemgr_BF7C00_hook'',
      plain (Iofilemgr 0xBF8BB0) ''iofilemgr_BF8BB0_hook'',
      plain (Iofilemgr 0xBF7288) ''iofilemgr_BF7288_hook'',
      plain (Iofilemgr 0xBFB5F0) ''iofilemgr_BFB5F0_hook'',
      plain (Iofilemgr 0xBF88C4) ''iofilemgr_BF88C4_hook'',
      plain (Iofilemgr 0xBFB794) ''iofilemgr_BFB794_hook'',
      plain (Iofilemgr 0xBF7268) ''iofilemgr_BF7268_hook'',
      plain (Iofilemgr 0xBF83A0) ''iofilemgr_BF83A0_hook'',
      plain (Iofilemgr 0xBFB628) ''iofilemgr_BFB628_hook'',
      plain (Iofilemgr 0xBF7228) ''iofilemgr_BF7228_hook'',
      plain (Iofilemgr 0xBF83F8) ''iofilemgr_BF83F8_hook'',
      plain (Iofilemgr 0xBFB748) ''iofilemgr_BFB748_hook'',
      plain (Iofilemgr 0xBE7F4C) ''iofilemgr_BE7F4C_hook'']"

definition report_12 :: "(hook_var \<times> string \<times> string) list" where
  "report_12 =
     [plain (Iofilemgr 0xBFB2A8) ''iofilemgr_BFB2A8_hook'',
      plain (Pfs_facade 0x4238d2d2) ''pfs_facade_4238d2d2_hook'',
      macro (Iofilemgr 0x0b54f9e0) ''iofilemgr_0b54f9e0_hook'',
      macro (Pfs_facade 0x219C9E8) ''pfs_facade_219C9E8_hook'',
      macro (Pfs_facade 0x21A179C) ''pfs_facade_21A179C_hook'',
      macro (Pfs_facade 0x21A19A8) ''pfs_facade_21A19A8_hook'',
      macro (Pfs_facade 0x219BB70) ''pfs_facade_219BB70_hook'',
      macro (Pfs_facade 0x219BDD4) ''pfs_facade_219BDD4_hook'',
      macro (Pfs_facade 0x219BD88) ''pfs_facade_219BD88_hook'',
      macro (Pfs_facade 0xc1dd4317) ''pfs_facade_c1dd4317_hook'',
      macro (Pfs_facade 0x219BEA0) ''pfs_facade_219BEA0_hook'',
      macro (Pfs_facade 0x15c17487) ''pfs_facade_15c17487_hook'',
      macro (Pfs_crypto_patch 1) ''pfs_facade_0219C328_crypto_patch1'',
      macro (Pfs_crypto_patch 2) ''pfs_facade_0219C486_crypto_patch2'',
      macro (Pfs_crypto_patch 3) ''pfs_facade_0219C3F4_crypto_patch3'',
      macro (Pfs_crypto_patch 4) ''pfs_facade_0219C1F0_crypto_patch4'']"

definition hook_report :: "(hook_var \<times> string \<times> string) list" where
  "hook_report = report_1 @ report_2 @ report_3 @ report_4 @ report_5 @ report_6 @ report_7 @ report_8 @ report_9 @ report_10 @ report_11 @ report_12"


section \<open>What is released\<close>

definition releases_1 :: "hook_release list" where
  "releases_1 =
     [Rel_hook Gc,
      Rel_hook Init_mmc,
      Rel_hook Init_sd,
      Rel_inject (Patch 0),
      Rel_inject (Patch 1),
      Rel_inject (Patch 2),
      Rel_hook Cmd55_41,
      Rel_hook (Gen_init 0),
      Rel_hook (Gen_init 1),
      Rel_hook (Gen_init 2),
      Rel_hook Load_mbr,
      Rel_hook Mnt_pnt_chk,
      Rel_hook Mbr_table_init,
      Rel_hook Sysroot_zero]
     @ map (\<lambda>f. Rel_hook (Sdstor_dev_fs f)) [0..<13]
     @ [Rel_hook SceVfsMount,
      Rel_hook SceVfsAddVfs,
      Rel_hook SceVfsUnmount,
      Rel_hook SceVfsDeleteVfs,
      Rel_hook SceVfsGetNewNode,
      Rel_inject (Gen_init_patch 2),
      Rel_inject (Gen_init_patch 1),
      Rel_hook Gen_read,
      Rel_hook Sd_read,
      Rel_inject (Hs_dis_patch 1),
      Rel_inject (Hs_dis_patch 2),
      Rel_inject Bus_size_patch,
      Rel_inject (Mbr_init_zero_patch 1),
      Rel_inject (Mbr_init_zero_patch 2),
      Rel_hook Init_partition_table,
      Rel_hook Create_device_handle,
      Rel_hook Send_command,
      Rel_hook SceErrorHistoryPostError,
      Rel_hook SceErrorHistoryUpdateSequenceInfo,
      Rel_hook SceErrorGetExternalString_kernel,
      Rel_hook SceErrorHistoryGetError,
      Rel_hook KsceKernelCreateThread,
      Rel_hook SceKernelCreateThreadForUser,
      Rel_hook SceIoOpenForDriver,
      Rel_hook KsceKernelWaitSema,
      Rel_hook KsceKernelSignalSema,
      Rel_hook VshSblAuthMgrVerifySpsfo,
      Rel_hook Debug_printf_callback_invoke,
      Rel_hook Gc_22fd5d23,
      Rel_hook (Appmgr 0x23D642C),
      Rel_hook SceAppMgrGameDataMountForDriver,
      Rel_hook (Appmgr 0x23D9B50),
      Rel_hook SceAppMgrGameDataVfsMountForDriver,
      Rel_hook SceFiosKernelOverlayRemoveForProcessForDriver,
      Rel_hook Proc_read_sealedkey_23D6EA0,
      Rel_hook Sbl_acmgr_0b6e6cd7,
      Rel_hook Proc_generate_random_path_23D4FBC,
      Rel_hook Proc_get_clearsign_stat_23D9A4C,
      Rel_hook (Pfs_mgr 0xa772209c),
      Rel_hook (Pfs_mgr 0x2d48aea2),
      Rel_hook (Pfs_mgr 0x2190AEC),
      Rel_hook (Iofilemgr 0xfeee44a9),
      Rel_hook (Iofilemgr 0xd220539d),
      Rel_hook (Iofilemgr 0xBF3848),
      Rel_hook (Iofilemgr 0xBF3474),
      Rel_hook Iofilemgr_sceVfsMount,
      Rel_hook Iofilemgr_sceVfsGetNewNode,
      Rel_hook (Iofilemgr 0xBF1AF0),
      Rel_hook (Iofilemgr 0xBE5B30),
      Rel_hook (Iofilemgr 0xBF18CC),
      Rel_hook (Iofilemgr 0xBEDEB0),
      Rel_hook (Iofilemgr 0xBE62E8),
      Rel_hook (Iofilemgr 0xBE5F10),
      Rel_hook (Iofilemgr 0xBE6788),
      Rel_hook (Iofilemgr 0xBEE3C8),
      Rel_hook (Iofilemgr 0xBEBAC0),
      Rel_hook (Iofilemgr 0xBE61C4),
      Rel_hook (Iofilemgr 0xBE59BC),
      Rel_hook (Iofilemgr 0xBEE364),
      Rel_hook (Iofilemgr 0xBEE2D4),
      Rel_hook (Iofilemgr 0xBEE2C4),
      Rel_hook (Iofilemgr 0xBEDF5C),
      Rel_hook (Iofilemgr 0xBECE80),
      Rel_hook (Iofilemgr 0xBEC808),
      Rel_hook (Iofilemgr 0xBEC620),
      Rel_hook (Iofilemgr 0xBEC578),
      Rel_hook (Iofilemgr 0xBEC56C),
      Rel_hook (Iofilemgr 0xBEC530),
      Rel_hook (Iofilemgr 0xBEC010),
      Rel_hook (Iofilemgr 0xBE5A38),
      Rel_hook (Iofilemgr 0xBE5814)]"

definition releases_2 :: "hook_release list" where
  "releases_2 =
     [Rel_hook (Iofilemgr 0xBEBB84),
      Rel_hook (Iofilemgr 0xBEC7C0),
      Rel_hook (Iofilemgr 0xBECE0C),
      Rel_hook (Iofilemgr_exp 0xaa45010b),
      Rel_hook (Iofilemgr_exp 0x21d57633),
      Rel_hook (Iofilemgr_exp 0xdc2d8bce),
      Rel_hook (Iofilemgr_exp 0x6b3ca9f7),
      Rel_hook (Pfs_mgr 0x219105C),
      Rel_hook (Pfs_mgr 0x2193624),
      Rel_hook (Pfs_mgr 0x2198928),
      Rel_hook (Pfs_mgr 0x2199064),
      Rel_hook (Pfs_mgr 0x219DE44),
      Rel_hook (Pfs_mgr 0x219DE7C),
      Rel_hook (Pfs_mgr 0x2199144),
      Rel_inject (Pfs_check_patch 1),
      Rel_inject (Pfs_check_patch 2),
      Rel_hook (App_mgr 0x23D5028),
      Rel_hook (App_mgr 0x23EF934),
      Rel_hook (App_mgr 0x75c96d25),
      Rel_hook (Iofilemgr 0xBE8444),
      Rel_hook (Iofilemgr 0x50a63acf),
      Rel_hook (Iofilemgr 0xBE584C),
      Rel_hook (Iofilemgr 0xBE5CC4),
      Rel_hook (Iofilemgr 0xf7dac0f5),
      Rel_hook (Iofilemgr 0xa5a6a55c),
      Rel_hook (Pfs_mgr 0x21910F4),
      Rel_hook (Pfs_mgr 0x2193B44),
      Rel_inject (Pfs_check_patch 3),
      Rel_inject (Pfs_check_patch 4),
      Rel_hook (App_mgr 0x75192972),
      Rel_hook (Iofilemgr 0xBEA704),
      Rel_hook (Iofilemgr 0x9e347c7d),
      Rel_hook (Iofilemgr 0x76b79bec),
      Rel_hook (Pfs_mgr 0x219112C),
      Rel_hook (Pfs_mgr 0x2192190),
      Rel_inject (Pfs_check_patch 5),
      Rel_inject (Pfs_check_patch 6),
      Rel_inject (Pfs_check_patch 7),
      Rel_hook (App_mgr 0xe17efc03),
      Rel_inject (Pfs_test_patch 1),
      Rel_inject (Pfs_test_patch 2),
      Rel_hook (Pfs_mgr 0x219BF20),
      Rel_hook (Iofilemgr 0xBE7AEC),
      Rel_hook (Iofilemgr 0xBF57F8),
      Rel_hook (Iofilemgr 0xBF66E4),
      Rel_hook (Iofilemgr 0xBF6B6C),
      Rel_hook (Iofilemgr 0xBF69B4),
      Rel_hook (Iofilemgr 0xBF651C),
      Rel_hook (Iofilemgr 0xBF89EC),
      Rel_hook (Iofilemgr 0xBF8BD4),
      Rel_hook (Iofilemgr 0xBF7C00),
      Rel_hook (Iofilemgr 0xBF8BB0),
      Rel_hook (Iofilemgr 0xBF7288),
      Rel_hook (Iofilemgr 0xBFB5F0),
      Rel_hook (Iofilemgr 0xBF88C4),
      Rel_hook (Iofilemgr 0xBFB794),
      Rel_hook (Iofilemgr 0xBF7268),
      Rel_hook (Iofilemgr 0xBF83A0),
      Rel_hook (Iofilemgr 0xBFB628),
      Rel_hook (Iofilemgr 0xBF7228),
      Rel_hook (Iofilemgr 0xBF83F8),
      Rel_hook (Iofilemgr 0xBFB748),
      Rel_hook (Iofilemgr 0xBE7F4C),
      Rel_hook (Iofilemgr 0xBFB2A8),
      Rel_hook (Pfs_facade 0x4238d2d2),
      Rel_hook (Iofilemgr 0x0b54f9e0),
      Rel_hook (Pfs_facade 0x219C9E8),
      Rel_hook (Pfs_facade 0x21A179C),
      Rel_hook (Pfs_facade 0x21A19A8),
      Rel_hook (Pfs_facade 0x219BB70),
      Rel_hook (Pfs_facade 0x219BDD4),
      Rel_hook (Pfs_facade 0x219BD88),
      Rel_hook (Pfs_facade 0xc1dd4317),
      Rel_hook (Pfs_facade 0x219BEA0),
      Rel_hook (Pfs_facade 0x15c17487),
      Rel_inject (Pfs_crypto_patch 1),
      Rel_inject (Pfs_crypto_patch 2),
      Rel_inject (Pfs_crypto_patch 3),
      Rel_inject (Pfs_crypto_patch 4)]"

definition releases :: "hook_release list" where
  "releases = releases_1 @ releases_2"


section \<open>The tables agree\<close>

fun op_var :: "tai_op \<Rightarrow> hook_var" where
  "op_var (Offset v _ _) = v"
| "op_var (Export v _ _ _) = v"
| "op_var (Import v _ _ _) = v"
| "op_var (Inject v _ _ _) = v"

fun rel_var :: "hook_release \<Rightarrow> hook_var" where
  "rel_var (Rel_hook v) = v"
| "rel_var (Rel_inject v) = v"

fun is_inject :: "tai_op \<Rightarrow> bool" where
  "is_inject (Inject _ _ _ _) = True"
| "is_inject _ = False"

definition rel_of :: "tai_op \<Rightarrow> hook_release" where
  "rel_of x = (if is_inject x then Rel_inject (op_var x) else Rel_hook (op_var x))"

definition all_ops :: "tai_op list" where
  "all_ops = concat (map snd hook_modules)"

text \<open>Every hook and every overwritten instruction has its own variable, and each of them is
  released, by the call of its kind.\<close>

lemma ops_distinct: "distinct (map op_var all_ops)"
  by code_simp

lemma ops_released: "list_all (\<lambda>x. rel_of x \<in> set releases) all_ops"
  by code_simp

text \<open>What is installed but not reported, and who installs the three unreported patches.\<close>

lemma unreported: "filter (\<lambda>v. v \<notin> set (map fst hook_report)) (map op_var all_ops) = [Patch 0, Patch 1, Patch 2]"
  by code_simp

lemma patches_in_sdif:
  "list_all (\<lambda>b. fst b = ''SceSdif'' \<or> Patch 0 \<notin> set (map op_var (snd b))) hook_modules"
  by code_simp

end
