(* ===== verification/Hook_Registry.thy ===== *)
theory Hook_Registry
  imports Hook_Table
begin

text \<open>
  \<open>driver/debug.c\<close>: \<open>initialize_all_hooks\<close> and \<open>deinitialize_all_hooks\<close> over the tables of
  \<open>Hook_Table\<close>. The library taiHEN, which patches the kernel, is a parameter; a call gets the
  variable of its hook for the address of the hook function. The state holds the C variables,
  \<open>ids\<close> for all \<open>_id\<close> and \<open>_uid\<close> variables and \<open>refs\<close> for the \<open>_ref\<close> ones.
\<close>

record 'w tai =
  t_HookFunctionOffset :: "int \<Rightarrow> nat \<Rightarrow> int \<Rightarrow> hook_var \<Rightarrow> 'w \<Rightarrow> int \<times> int \<times> 'w"
  t_HookFunctionExport :: "string \<Rightarrow> int \<Rightarrow> int \<Rightarrow> hook_var \<Rightarrow> 'w \<Rightarrow> int \<times> int \<times> 'w"
  t_HookFunctionImport :: "string \<Rightarrow> int \<Rightarrow> int \<Rightarrow> hook_var \<Rightarrow> 'w \<Rightarrow> int \<times> int \<times> 'w"
  t_InjectData :: "int \<Rightarrow> nat \<Rightarrow> int \<Rightarrow> byte list \<Rightarrow> 'w \<Rightarrow> int \<times> 'w"
  t_HookRelease :: "int \<Rightarrow> int \<Rightarrow> 'w \<Rightarrow> int \<times> 'w"
  t_InjectRelease :: "int \<Rightarrow> 'w \<Rightarrow> int \<times> 'w"

record 'w reg = "'w kbase" +
  ids :: "hook_var \<Rightarrow> int"
  refs :: "hook_var \<Rightarrow> int"


section \<open>The code\<close>

text \<open>The values the variables have when the module is loaded. Most are initialised with -1;
  \<open>patch_uids\<close> and \<open>gen_init_hook_uids\<close> have no initialiser, and the one of
  \<open>sdstor_dev_fs_ids[13]\<close> gives only its first element, so that these are 0.\<close>

fun initial_id :: "hook_var \<Rightarrow> int" where
  "initial_id (Patch n) = 0"
| "initial_id (Gen_init n) = 0"
| "initial_id (Sdstor_dev_fs f) = (if f = 0 then -1 else 0)"
| "initial_id v = -1"

text \<open>What taiHEN is asked for: the new id, the reference for hooks, the new world.\<close>

fun tai_call :: "'w tai \<Rightarrow> int \<Rightarrow> tai_op \<Rightarrow> 'w \<Rightarrow> int \<times> int option \<times> 'w" where
  "tai_call t modid (Offset v sg off) w = (let (u, r, w') = t_HookFunctionOffset t modid sg off v w in (u, Some r, w'))"
| "tai_call t modid (Export v m lib nid) w = (let (u, r, w') = t_HookFunctionExport t m lib nid v w in (u, Some r, w'))"
| "tai_call t modid (Import v m lib nid) w = (let (u, r, w') = t_HookFunctionImport t m lib nid v w in (u, Some r, w'))"
| "tai_call t modid (Inject v sg off bs) w = (let (u, w') = t_InjectData t modid sg off bs w in (u, None, w'))"

definition exec_op :: "'w tai \<Rightarrow> int \<Rightarrow> tai_op \<Rightarrow> ('w, 'm) reg_scheme \<Rightarrow> ('w, 'm) reg_scheme" where
  "exec_op t modid x s =
     (let (u, r, s1) = kcall2 (tai_call t modid x) s
      in s1\<lparr>ids := (ids s1)(op_var x := u),
            refs := (case r of None \<Rightarrow> refs s1 | Some r' \<Rightarrow> (refs s1)(op_var x := r'))\<rparr>)"

definition install_module ::
    "'w kapi \<Rightarrow> 'w tai \<Rightarrow> string \<times> tai_op list \<Rightarrow> ('w, 'm) reg_scheme \<Rightarrow> ('w, 'm) reg_scheme" where
  "install_module k t b s =
     (let (r, modid, s1) = kcall2 (k_taiGetModuleInfo k (fst b)) s
      in if r \<ge> 0 then fold (exec_op t modid) (snd b) s1 else s1)"

definition report_hook ::
    "'w kapi \<Rightarrow> hook_var \<times> string \<times> string \<Rightarrow> ('w, 'm) reg_scheme \<Rightarrow> ('w, 'm) reg_scheme" where
  "report_hook k e s = (case e of (v, good, bad) \<Rightarrow>
     if ids s v \<ge> 0 then FILE_GLOBAL_WRITE_LEN k (good @ newline) s
     else FILE_GLOBAL_WRITE_LEN k (bad @ hex_int (ids s v) @ newline) s)"

definition initialize_all_hooks :: "'w kapi \<Rightarrow> 'w tai \<Rightarrow> ('w, 'm) reg_scheme \<Rightarrow> int \<times> ('w, 'm) reg_scheme" where
  "initialize_all_hooks k t s =
     (let s1 = fold (install_module k t) hook_modules s;
          s2 = fold (report_hook k) hook_report (open_global_log k s1)
      in (0, close_global_log k s2))"

definition exec_release :: "'w tai \<Rightarrow> hook_release \<Rightarrow> ('w, 'm) reg_scheme \<Rightarrow> ('w, 'm) reg_scheme" where
  "exec_release t x s = (case x of
     Rel_hook v \<Rightarrow> if ids s v \<ge> 0 then kdo (t_HookRelease t (ids s v) (refs s v)) s else s
   | Rel_inject v \<Rightarrow> if ids s v \<ge> 0 then kdo (t_InjectRelease t (ids s v)) s else s)"

definition deinitialize_all_hooks :: "'w tai \<Rightarrow> ('w, 'm) reg_scheme \<Rightarrow> int \<times> ('w, 'm) reg_scheme" where
  "deinitialize_all_hooks t s = (0, fold (exec_release t) releases s)"


section \<open>Installing and releasing\<close>

text \<open>What the code relies on of taiHEN: \<open>live\<close> is what is patched into the kernel, by id and,
  for hooks, reference. A successful call adds one entry with a new id; a release takes away the
  entry it names, if it is there. The other calls of the code leave all this alone.\<close>

type_synonym patched = "(int \<times> int option) set"

definition tai_law :: "'w kapi \<Rightarrow> 'w tai \<Rightarrow> ('w \<Rightarrow> patched) \<Rightarrow> bool" where
  "tai_law k t live \<longleftrightarrow>
     (\<forall>m x w. case tai_call t m x w of (u, r, w') \<Rightarrow>
        if u \<ge> 0 then u \<notin> fst ` live w \<and> live w' = insert (u, r) (live w) else live w' = live w)
   \<and> (\<forall>u r w. live (snd (t_HookRelease t u r w)) = live w - {(u, Some r)})
   \<and> (\<forall>u w. live (snd (t_InjectRelease t u w)) = live w - {(u, None)})
   \<and> (\<forall>nm w. live (snd (snd (k_taiGetModuleInfo k nm w))) = live w)
   \<and> (\<forall>m w. live (snd (k_LockMutex k m w)) = live w \<and> live (snd (k_UnlockMutex k m w)) = live w)
   \<and> (\<forall>nm f w. live (snd (k_IoOpen k nm f w)) = live w)
   \<and> (\<forall>fd d w. live (snd (k_IoWrite k fd d w)) = live w)
   \<and> (\<forall>fd w. live (snd (k_IoClose k fd w)) = live w)"

lemma tai_lawD:
  assumes "tai_law k t live"
  shows "tai_call t m x w = (u, r, w') \<Longrightarrow>
      if u \<ge> 0 then u \<notin> fst ` live w \<and> live w' = insert (u, r) (live w) else live w' = live w"
    and "live (snd (t_HookRelease t u0 r0 w)) = live w - {(u0, Some r0)}"
    and "live (snd (t_InjectRelease t u0 w)) = live w - {(u0, None)}"
    and "live (snd (snd (k_taiGetModuleInfo k nm w))) = live w"
    and "live (snd (k_LockMutex k i w)) = live w" and "live (snd (k_UnlockMutex k i w)) = live w"
    and "live (snd (k_IoOpen k nm f w)) = live w" and "live (snd (k_IoWrite k i d w)) = live w"
    and "live (snd (k_IoClose k i w)) = live w"
  using assms unfolding tai_law_def by (metis (mono_tags, lifting) case_prod_conv, simp_all)

lemma tai_call_ref:
  "tai_call t m x w = (u, r, w') \<Longrightarrow> (r = None \<longleftrightarrow> is_inject x)"
  by (cases x) (auto simp: Let_def split: prod.splits)

definition entry :: "('w, 'm) reg_scheme \<Rightarrow> tai_op \<Rightarrow> int \<times> int option" where
  "entry s x = (ids s (op_var x), if is_inject x then None else Some (refs s (op_var x)))"

text \<open>The variables account for everything that has been added to \<open>L\<close>, what was there before,
  and name nothing of \<open>L\<close>.\<close>

definition accounted ::
    "('w \<Rightarrow> patched) \<Rightarrow> patched \<Rightarrow> tai_op list \<Rightarrow> ('w, 'm) reg_scheme \<Rightarrow> bool" where
  "accounted live L D s \<longleftrightarrow> L \<subseteq> live (world s)
     \<and> (\<forall>e \<in> live (world s) - L. \<exists>x \<in> set D. e = entry s x \<and> ids s (op_var x) \<ge> 0)
     \<and> (\<forall>v. ids s v \<ge> 0 \<longrightarrow> ids s v \<notin> fst ` L)"

lemma accountedD:
  assumes "accounted live L D s" and "e \<in> live (world s) - L"
  shows "\<exists>x \<in> set D. e = entry s x \<and> ids s (op_var x) \<ge> 0"
proof -
  have "\<forall>e \<in> live (world s) - L. \<exists>x \<in> set D. e = entry s x \<and> ids s (op_var x) \<ge> 0"
    using assms(1) unfolding accounted_def by (elim conjE)
  then show ?thesis using assms(2) by (rule bspec)
qed

lemma exec_op_accounted:
  assumes law: "tai_law k t live" and acc: "accounted live L D s" and new: "op_var y \<notin> op_var ` set D"
  shows "accounted live L (D @ [y]) (exec_op t m y s)"
proof -
  obtain u r w' where C: "tai_call t m y (world s) = (u, r, w')" by (cases "tai_call t m y (world s)")
  note U = tai_lawD(1) [OF law C]
  have eq: "exec_op t m y s = s\<lparr>world := w', ids := (ids s)(op_var y := u),
      refs := (case r of None \<Rightarrow> refs s | Some r' \<Rightarrow> (refs s)(op_var y := r'))\<rparr>"
    by (cases r) (simp_all add: exec_op_def kcall2_eq C)
  have old: "entry (exec_op t m y s) x = entry s x" "ids (exec_op t m y s) (op_var x) = ids s (op_var x)"
    if "x \<in> set D" for x
  proof -
    have "op_var x \<noteq> op_var y" using that new by (metis imageI)
    then show "entry (exec_op t m y s) x = entry s x" "ids (exec_op t m y s) (op_var x) = ids s (op_var x)"
      by (auto simp: entry_def eq split: option.splits)
  qed
  have here: "entry (exec_op t m y s) y = (u, r)" "ids (exec_op t m y s) (op_var y) = u"
    using tai_call_ref [OF C] by (auto simp: entry_def eq)
  show ?thesis
  proof (cases "u \<ge> 0")
    case True
    then have "u \<notin> fst ` live (world s)" "live w' = insert (u, r) (live (world s))" using U by auto
    moreover from this(1) have "u \<notin> fst ` L" using acc by (auto simp: accounted_def)
    ultimately show ?thesis
      using acc True old here by (auto simp: accounted_def eq)
  next
    case False
    then have "live w' = live (world s)" using U by simp
    then show ?thesis
      using acc False old by (auto simp: accounted_def eq)
  qed
qed

lemma exec_ops_accounted:
  assumes "tai_law k t live" and "accounted live L D s" and "distinct (map op_var (D @ xs))"
  shows "accounted live L (D @ xs) (fold (exec_op t m) xs s)"
  using assms(2,3)
proof (induction xs arbitrary: D s)
  case Nil
  then show ?case by simp
next
  case (Cons x xs)
  then have "accounted live L (D @ [x]) (exec_op t m x s)"
    by (intro exec_op_accounted [OF assms(1)]) auto
  from Cons.IH [OF this] Cons.prems(2) show ?case by simp
qed

lemma accounted_mono: "accounted live L D s \<Longrightarrow> set D \<subseteq> set D' \<Longrightarrow> accounted live L D' s"
  unfolding accounted_def by blast

lemma accounted_world:
  "live w = live (world s) \<Longrightarrow> accounted live L D (s\<lparr>world := w\<rparr>) \<longleftrightarrow> accounted live L D s"
  by (simp add: accounted_def entry_def)

lemma install_modules_accounted:
  assumes "tai_law k t live" and "accounted live L D s"
    and "distinct (map op_var (D @ concat (map snd bs)))"
  shows "accounted live L (D @ concat (map snd bs)) (fold (install_module k t) bs s)"
  using assms(2,3)
proof (induction bs arbitrary: D s)
  case Nil
  then show ?case by simp
next
  case (Cons b bs)
  obtain r m s1 where G: "kcall2 (k_taiGetModuleInfo k (fst b)) s = (r, m, s1)"
    by (cases "kcall2 (k_taiGetModuleInfo k (fst b)) s")
  have "accounted live L D s1"
    using G Cons.prems(1) tai_lawD(4) [OF assms(1)] by (auto simp: kcall2_eq accounted_world)
  moreover have "distinct (map op_var (D @ snd b))" using Cons.prems(2) by auto
  ultimately have "accounted live L (D @ snd b) (fold (exec_op t m) (snd b) s1)"
    by (rule exec_ops_accounted [OF assms(1)])
  with \<open>accounted live L D s1\<close> have "accounted live L (D @ snd b) (install_module k t b s)"
    by (auto simp: install_module_def G intro: accounted_mono)
  from Cons.IH [OF this] Cons.prems(2) show ?case by simp
qed

text \<open>The report and the log leave the hooks alone.\<close>

lemma log_accounted:
  assumes "tai_law k t live"
  shows "accounted live L D (open_global_log k s) \<longleftrightarrow> accounted live L D s"
    and "accounted live L D (close_global_log k s) \<longleftrightarrow> accounted live L D s"
    and "accounted live L D (FILE_GLOBAL_WRITE_LEN k msg s) \<longleftrightarrow> accounted live L D s"
  using tai_lawD(5-9) [OF assms]
  by (simp_all add: accounted_def entry_def log_defs Let_def kcall_eq kdo_def)

lemma report_accounted:
  assumes "tai_law k t live"
  shows "accounted live L D (fold (report_hook k) es s) \<longleftrightarrow> accounted live L D s"
proof (induction es arbitrary: s)
  case (Cons e es)
  then show ?case
    by (simp add: report_hook_def log_accounted [OF assms] split: prod.splits)
qed simp

lemma initialize_accounted:
  assumes law: "tai_law k t live" and ids: "ids s = initial_id" and zero: "0 \<notin> fst ` live (world s)"
  shows "accounted live (live (world s)) all_ops (snd (initialize_all_hooks k t s))"
proof -
  have "initial_id v = 0 \<or> initial_id v = -1" for v by (cases v) auto
  then have "ids s v \<ge> 0 \<Longrightarrow> ids s v = 0" for v using ids by (metis int_one_le_iff_zero_less neg_0_le_iff_le not_one_le_zero)
  with zero have "ids s v \<ge> 0 \<Longrightarrow> ids s v \<notin> fst ` live (world s)" for v by metis
  then have "accounted live (live (world s)) [] s"
    by (simp add: accounted_def)
  from install_modules_accounted [OF law this] ops_distinct
  have "accounted live (live (world s)) all_ops (fold (install_module k t) hook_modules s)"
    by (simp add: all_ops_def)
  then show ?thesis
    by (simp add: initialize_all_hooks_def Let_def log_accounted [OF law] report_accounted [OF law])
qed

fun released :: "('w, 'm) reg_scheme \<Rightarrow> hook_release \<Rightarrow> int \<times> int option" where
  "released s (Rel_hook v) = (ids s v, Some (refs s v))"
| "released s (Rel_inject v) = (ids s v, None)"

lemma exec_release_one:
  assumes "tai_law k t live"
  shows "ids (exec_release t r s) = ids s" and "refs (exec_release t r s) = refs s"
    and "released (exec_release t r s) = released s"
    and "live (world (exec_release t r s))
      = live (world s) - (if ids s (rel_var r) \<ge> 0 then {released s r} else {})"
proof -
  show keep: "ids (exec_release t r s) = ids s" "refs (exec_release t r s) = refs s"
    by (auto simp: exec_release_def kdo_def split: hook_release.splits)
  show "released (exec_release t r s) = released s"
  proof
    fix x show "released (exec_release t r s) x = released s x" by (cases x) (simp_all add: keep)
  qed
  show "live (world (exec_release t r s))
      = live (world s) - (if ids s (rel_var r) \<ge> 0 then {released s r} else {})"
    using tai_lawD(2,3) [OF assms] by (cases r) (auto simp: exec_release_def kdo_def)
qed

lemma exec_releases:
  assumes "tai_law k t live"
  shows "live (world (fold (exec_release t) rs s))
      = live (world s) - released s ` {r \<in> set rs. ids s (rel_var r) \<ge> 0}"
proof (induction rs arbitrary: s)
  case (Cons r rs)
  show ?case
    by (auto simp: Cons.IH [of "exec_release t r s"] exec_release_one [OF assms])
qed simp

lemma released_entry: "released s (rel_of x) = entry s x" "rel_var (rel_of x) = op_var x"
  by (simp_all add: entry_def rel_of_def)

text \<open>C9: Unloading undoes loading. Whatever hooks taiHEN accepts or refuses and whatever
  modules are there, after \<open>initialize_all_hooks\<close> and \<open>deinitialize_all_hooks\<close> the kernel is
  patched exactly as it was before: every hook and every overwritten instruction of the driver
  is released with its own id and reference, and nobody else's is touched, as long as nobody
  else's has the id 0.\<close>

theorem hooks_restored:
  assumes law: "tai_law k t live" and ids: "ids s = initial_id" and zero: "0 \<notin> fst ` live (world s)"
  shows "live (world (snd (deinitialize_all_hooks t (snd (initialize_all_hooks k t s))))) = live (world s)"
proof -
  define s1 where "s1 = snd (initialize_all_hooks k t s)"
  have A: "accounted live (live (world s)) all_ops s1"
    unfolding s1_def by (rule initialize_accounted [OF law ids zero])
  let ?R = "released s1 ` {r \<in> set releases. ids s1 (rel_var r) \<ge> 0}"
  have "e \<in> ?R" if e: "e \<in> live (world s1) - live (world s)" for e
  proof -
    obtain x where x: "x \<in> set all_ops" "e = entry s1 x" "ids s1 (op_var x) \<ge> 0"
      using accountedD [OF A e] by metis
    have "rel_of x \<in> set releases" using ops_released x(1) by (auto simp: list_all_iff)
    with x have "released s1 (rel_of x) = e" "rel_of x \<in> {r \<in> set releases. ids s1 (rel_var r) \<ge> 0}"
      by (simp_all add: released_entry)
    then show ?thesis by blast
  qed
  moreover have "released s1 x \<notin> live (world s)" if "ids s1 (rel_var x) \<ge> 0" for x
  proof -
    have "fst (released s1 x) = ids s1 (rel_var x)" by (cases x) simp_all
    then have "fst (released s1 x) \<notin> fst ` live (world s)" using A that by (simp add: accounted_def)
    then show ?thesis by (metis image_eqI)
  qed
  then have "?R \<inter> live (world s) = {}" by auto
  moreover have "live (world s) \<subseteq> live (world s1)" using A by (simp add: accounted_def)
  ultimately have "live (world s1) - ?R = live (world s)" by blast
  then show ?thesis by (simp add: deinitialize_all_hooks_def exec_releases [OF law] s1_def)
qed

text \<open>A taiHEN that accepts everything and numbers its entries from 1.\<close>

definition count_in :: "'a \<Rightarrow> int \<times> (int \<times> 'a) set \<Rightarrow> int \<times> (int \<times> 'a) set" where
  "count_in r w = (fst w + 1, insert (fst w, r) {e \<in> snd w. fst e \<noteq> fst w})"

definition counting_tai :: "(int \<times> patched) tai" where
  "counting_tai = \<lparr>
     t_HookFunctionOffset = (\<lambda>_ _ _ _ w. (fst w, 0, count_in (Some 0) w)),
     t_HookFunctionExport = (\<lambda>_ _ _ _ w. (fst w, 0, count_in (Some 0) w)),
     t_HookFunctionImport = (\<lambda>_ _ _ _ w. (fst w, 0, count_in (Some 0) w)),
     t_InjectData = (\<lambda>_ _ _ _ w. (fst w, count_in None w)),
     t_HookRelease = (\<lambda>u r w. (0, (fst w, snd w - {(u, Some r)}))),
     t_InjectRelease = (\<lambda>u w. (0, (fst w, snd w - {(u, None)})))\<rparr>"

text \<open>What it has given out: the entries below its counter.\<close>

definition given :: "int \<times> patched \<Rightarrow> patched" where
  "given w = {e \<in> snd w. 0 \<le> fst e \<and> fst e < fst w}"

lemma given_in:
  "if fst w \<ge> 0 then fst w \<notin> fst ` given w \<and> given (count_in r w) = insert (fst w, r) (given w)
   else given (count_in r w) = given w"
  by (auto simp: given_def count_in_def)

lemma counting_law: "tai_law quiet_kernel counting_tai given"
  unfolding tai_law_def
proof (intro conjI allI)
  fix m x and w :: "int \<times> patched"
  show "case tai_call counting_tai m x w of (u, r, w') \<Rightarrow>
      if u \<ge> 0 then u \<notin> fst ` given w \<and> given w' = insert (u, r) (given w) else given w' = given w"
    using given_in [of w "Some 0"] given_in [of w None]
    by (cases x) (simp_all add: counting_tai_def)
qed (auto simp: counting_tai_def given_def quiet_kernel_def)

definition reg_boot :: "'w \<Rightarrow> 'w reg" where
  "reg_boot w = kbase.extend (log_boot w) (reg.fields initial_id (\<lambda>_. 0))"

lemma reg_boot_simps: "world (reg_boot w) = w" "ids (reg_boot w) = initial_id"
  by (simp_all add: reg_boot_def log_boot_def kbase.defs reg.defs)

theorem hooks_restored_witness:
  "given (world (snd (deinitialize_all_hooks counting_tai
     (snd (initialize_all_hooks quiet_kernel counting_tai (reg_boot (8, {(7, Some 3)}))))))) = {(7, Some 3)}"
proof -
  have "given (8, {(7, Some 3)}) = {(7, Some 3)}" by (auto simp: given_def)
  with hooks_restored [OF counting_law, of "reg_boot (8, {(7, Some 3)})"]
  show ?thesis by (simp add: reg_boot_simps)
qed


section \<open>Variables that are never set\<close>

lemma exec_ops_ids: "v \<notin> op_var ` set xs \<Longrightarrow> ids (fold (exec_op t m) xs s) v = ids s v"
proof (induction xs arbitrary: s)
  case (Cons x xs)
  have "ids (exec_op t m x s) v = ids s v"
    using Cons.prems by (simp add: exec_op_def kcall2_eq)
  with Cons show ?case by simp
qed simp

lemma install_ids:
  fixes s :: "('w, 'm) reg_scheme"
  assumes "\<And>b m. b \<in> set bs \<Longrightarrow> v \<in> op_var ` set (snd b) \<Longrightarrow> \<forall>w. fst (k_taiGetModuleInfo k (fst b) w) < 0"
  shows "ids (fold (install_module k t) bs s) v = ids s v"
  using assms
proof (induction bs arbitrary: s)
  case (Cons b bs)
  have "ids (install_module k t b s) v = ids s v"
  proof (cases "v \<in> op_var ` set (snd b)")
    case True
    then have "\<forall>w. fst (k_taiGetModuleInfo k (fst b) w) < 0" using Cons.prems [of b] by simp
    then have "\<not> 0 \<le> fst (k_taiGetModuleInfo k (fst b) (world s))" by (metis not_le)
    then show ?thesis by (simp add: install_module_def kcall2_eq)
  next
    case False
    then show ?thesis by (simp add: install_module_def kcall2_eq exec_ops_ids)
  qed
  moreover have "ids (fold (install_module k t) bs s') v = ids s' v" for s' :: "('w, 'm) reg_scheme"
    by (intro Cons.IH) (use Cons.prems in auto)
  ultimately show ?case by simp
qed simp

lemma log_ids:
  fixes s :: "('w, 'm) reg_scheme"
  shows "ids (open_global_log k s) = ids s" "ids (close_global_log k s) = ids s"
    "ids (FILE_GLOBAL_WRITE_LEN k msg s) = ids s"
  by (simp_all add: log_defs Let_def kcall_eq kdo_def)

lemma report_ids: "ids (fold (report_hook k) es s) = ids s"
proof (induction es arbitrary: s)
  case (Cons e es)
  then show ?case by (simp add: report_hook_def log_ids split: prod.splits)
qed simp

lemma initialize_ids: "ids (snd (initialize_all_hooks k t s)) = ids (fold (install_module k t) hook_modules s)"
  by (simp add: initialize_all_hooks_def Let_def log_ids report_ids)

text \<open>The arrays of ids without a full initialiser start with the id 0, which is a valid
  one. When the module SceSdif is not there, its patches are never made, and unloading asks
  taiHEN to release the data with the id 0 all the same: whoever owns it loses it.\<close>

theorem uninitialised_id_released:
  assumes law: "tai_law k t live" and ids: "ids s = initial_id"
    and missing: "\<And>w. fst (k_taiGetModuleInfo k ''SceSdif'' w) < 0"
  shows "(0, None) \<notin> live (world (snd (deinitialize_all_hooks t (snd (initialize_all_hooks k t s)))))"
proof -
  define s1 where "s1 = snd (initialize_all_hooks k t s)"
  have "\<forall>w. fst (k_taiGetModuleInfo k (fst b) w) < 0" if "b \<in> set hook_modules" "Patch 0 \<in> op_var ` set (snd b)" for b
    using patches_in_sdif that missing by (auto simp: list_all_iff)
  then have "ids s1 (Patch 0) = 0"
    using install_ids [of hook_modules "Patch 0" k t s] by (simp add: s1_def initialize_ids ids)
  moreover have "Rel_inject (Patch 0) \<in> set releases" by (simp add: releases_def releases_1_def)
  ultimately have "(0, None) \<in> released s1 ` {r \<in> set releases. ids s1 (rel_var r) \<ge> 0}"
    by (intro image_eqI [of _ _ "Rel_inject (Patch 0)"]) simp_all
  then show ?thesis by (simp add: deinitialize_all_hooks_def exec_releases [OF law] flip: s1_def)
qed

theorem uninitialised_id_released_witness:
  "(0, None) \<notin> given (world (snd (deinitialize_all_hooks counting_tai (snd (initialize_all_hooks
     (quiet_kernel\<lparr>k_taiGetModuleInfo := \<lambda>nm w. (if nm = ''SceSdif'' then -1 else 0, 1, w)\<rparr>) counting_tai
     (reg_boot (1, {(0, None)})))))))"
proof (rule uninitialised_id_released)
  show "tai_law (quiet_kernel\<lparr>k_taiGetModuleInfo := \<lambda>nm w. (if nm = ''SceSdif'' then -1 else 0, 1, w)\<rparr>)
      counting_tai given"
    using counting_law by (simp add: tai_law_def)
qed (simp_all add: reg_boot_simps)

text \<open>Every hook and patch the driver installs has a line in its report except for the
  three patches of the command iterations in SceSdif; and a variable that no module installs
  keeps its first value, so that its line always tells of a failure, with the error code -1.\<close>

theorem report_covers_hooks:
  "filter (\<lambda>v. v \<notin> set (map fst hook_report)) (map op_var all_ops) = [Patch 0, Patch 1, Patch 2]
   \<and> (v \<in> op_var ` set all_ops \<or> ids (snd (initialize_all_hooks k t s)) v = ids s v)"
proof -
  have "ids (snd (initialize_all_hooks k t s)) v = ids s v" if "v \<notin> op_var ` set all_ops"
    using that install_ids [of hook_modules v k t s] by (auto simp: initialize_ids all_ops_def)
  then show ?thesis using unreported by blast
qed

end
