(* ===== verification/Dnet.thy ===== *)
theory Dnet
  imports Glog
begin

text \<open>
  \<open>driver/net.c\<close>: the debug connection of the driver. A listen thread waits for one client; the
  hooks of the driver send it messages of a fixed size. The connection flag is read and written
  under a mutex. The thread that runs the listener is started by the kernel; its body is
  \<open>ConnListenThread\<close>. The interleaving of the listener with the senders is the step relation
  \<open>netstep\<close>.
\<close>

record 'w dnet = "'w kbase" +
  g_connListenThid :: int
  g_connInitMutexId :: int
  g_connInitialized :: int
  server_sock :: int
  client_sock :: int
  message_buffer :: "byte list"

definition MSG_SIZE :: nat where "MSG_SIZE = 256"
definition serv_port :: "16 word" where "serv_port = 1332"
definition serv_sock_name :: string where "serv_sock_name = ''emmcdebug''"

text \<open>The characters of a string as they lie in memory.\<close>

definition c_bytes :: "string \<Rightarrow> byte list" where
  "c_bytes = map of_char"


section \<open>Addresses\<close>

fun dotted :: "byte list \<Rightarrow> string" where
  "dotted [] = []"
| "dotted [b] = dec_str (uint b)"
| "dotted (b # bs) = dec_str (uint b) @ ''.'' @ dotted bs"

definition inet_ntop4 :: "byte list \<Rightarrow> int \<Rightarrow> string option" where
  "inet_ntop4 addr len =
     (let tmp = dotted (take 4 addr)
      in if int (length tmp) \<ge> len then None else Some tmp)"

definition SCE_NET_AF_INET :: int where "SCE_NET_AF_INET = 2"

definition ksceNetInetNtop :: "int \<Rightarrow> byte list \<Rightarrow> int \<Rightarrow> string option" where
  "ksceNetInetNtop af src len = (if af = SCE_NET_AF_INET then inet_ntop4 src len else None)"

text \<open>The operand of a shift is promoted to \<open>int\<close>, the result is cut back to 16 bits.\<close>

definition ksceNetNtohs :: "16 word \<Rightarrow> 16 word" where
  "ksceNetNtohs net16 =
     (let r3 = push_bit 8 (ucast net16 :: 32 word);
          r0 = or r3 (drop_bit 8 (ucast net16))
      in ucast r0)"


section \<open>Sending\<close>

definition lock_listen_mutex :: "'w kapi \<Rightarrow> ('w, 'm) dnet_scheme \<Rightarrow> ('w, 'm) dnet_scheme" where
  "lock_listen_mutex k s = kdo (k_LockMutex k (g_connInitMutexId s)) s"

definition unlock_listen_mutex :: "'w kapi \<Rightarrow> ('w, 'm) dnet_scheme \<Rightarrow> ('w, 'm) dnet_scheme" where
  "unlock_listen_mutex k s = kdo (k_UnlockMutex k (g_connInitMutexId s)) s"

definition close_client_sock :: "'w kapi \<Rightarrow> ('w, 'm) dnet_scheme \<Rightarrow> ('w, 'm) dnet_scheme" where
  "close_client_sock k s =
     (let s1 = (if client_sock s \<noteq> 0
                then (let (r, s') = kcall (k_NetSocketClose k (client_sock s)) s;
                          s'' = (if r < 0 then glog_line k ''failed to close client socket'' s' else s')
                      in s''\<lparr>client_sock := 0\<rparr>)
                else s)
      in glog_line k ''closed client socket'' s1)"

definition close_server_sock :: "'w kapi \<Rightarrow> ('w, 'm) dnet_scheme \<Rightarrow> ('w, 'm) dnet_scheme" where
  "close_server_sock k s =
     (let s1 = (if server_sock s \<noteq> 0
                then (let (r, s') = kcall (k_NetSocketClose k (server_sock s)) s;
                          s'' = (if r < 0 then glog_line k ''failed to close server socket'' s' else s')
                      in s''\<lparr>server_sock := 0\<rparr>)
                else s)
      in glog_line k ''closed server socket'' s1)"

text \<open>The loop of \<open>send_message\<close>. A count beyond the end of the buffer, which a network
  that took more than it was given would cause, is out of bounds.\<close>

partial_function (option) send_rest ::
    "'w kapi \<Rightarrow> int \<Rightarrow> ('w, 'm) dnet_scheme \<Rightarrow> ('w, 'm) dnet_scheme run" where
  "send_rest k bytesWereSend s =
     (if bytesWereSend = int MSG_SIZE then ret s
      else if bytesWereSend > int MSG_SIZE then fail OutOfBounds
      else
        let (sendLen, s1) = kcall (k_NetSend k (client_sock s)
              (drop (nat bytesWereSend) (message_buffer s))) s
        in if sendLen < 0 then ret s1
           else send_rest k (bytesWereSend + sendLen) s1)"

definition send_message ::
    "'w kapi \<Rightarrow> byte list \<Rightarrow> int \<Rightarrow> ('w, 'm) dnet_scheme \<Rightarrow> (int \<times> ('w, 'm) dnet_scheme) run" where
  "send_message k msg_raw n s =
     (if n > int MSG_SIZE then ret (0, s)
      else if n < 0 \<or> n > int (length msg_raw) then fail OutOfBounds
      else
        let s1 = s\<lparr>message_buffer := replicate MSG_SIZE 0\<rparr>;
            s2 = s1\<lparr>message_buffer := overlay (take (nat n) msg_raw) (message_buffer s1)\<rparr>
        in run_bind (send_rest k 0 s2) (\<lambda>s3. ret (0, s3)))"

definition send_message_to_client ::
    "'w kapi \<Rightarrow> byte list \<Rightarrow> int \<Rightarrow> ('w, 'm) dnet_scheme \<Rightarrow> (int \<times> ('w, 'm) dnet_scheme) run" where
  "send_message_to_client k msg n s =
     (if n > int MSG_SIZE then ret (-1, s)
      else
        let s1 = lock_listen_mutex k s
        in run_bind
             (if g_connInitialized s1 = 1
              then run_bind (send_message k msg n s1) (\<lambda>(res, s2).
                   ret (if res < 0 then close_client_sock k (s2\<lparr>g_connInitialized := 0\<rparr>) else s2))
              else ret s1)
             (\<lambda>s3. ret (0, unlock_listen_mutex k s3)))"

definition ping_debug_client :: "'w kapi \<Rightarrow> ('w, 'm) dnet_scheme \<Rightarrow> ('w, 'm) dnet_scheme run" where
  "ping_debug_client k s =
     (let msg_buffer = overlay (c_bytes (''ping debug client'' @ newline)) (replicate 100 0)
      in run_bind (send_message_to_client k msg_buffer 100 s) (\<lambda>(r, s'). ret s'))"


section \<open>Listening\<close>

text \<open>One pass of the \<open>while(1)\<close> of \<open>accept_single_connection\<close>: \<open>Inl\<close> when the function
  returns, \<open>Inr\<close> when it goes round again.\<close>

definition accept_round ::
    "'w kapi \<Rightarrow> ('w, 'm) dnet_scheme \<Rightarrow> (('w, 'm) dnet_scheme + ('w, 'm) dnet_scheme) run" where
  "accept_round k s =
     (let s1 = lock_listen_mutex k s
      in if g_connInitialized s1 = 1
         then ret (Inr (unlock_listen_mutex k (kdo (k_DelayThread k 5000) s1)))
         else
           let s2 = unlock_listen_mutex k s1;
               (clsock, client, s3) = kcall2 (k_NetAccept k (server_sock s2)) s2
           in if clsock < 0
              then ret (Inl (glog_line k (''failed to accept socket '' @ hex_int clsock) s3))
              else
                let s4 = s3\<lparr>client_sock := clsock\<rparr>
                in case ksceNetInetNtop SCE_NET_AF_INET (sin_addr client) 16 of
                     None \<Rightarrow> fail NullDeref
                   | Some ip \<Rightarrow>
                       let s5 = glog_line k (''Accepted connection from '' @ ip @ '':''
                                  @ dec_str (uint (ksceNetNtohs (sin_port client)))) s4;
                           s6 = (lock_listen_mutex k s5)\<lparr>g_connInitialized := 1\<rparr>
                       in run_bind (ping_debug_client k (unlock_listen_mutex k s6)) (\<lambda>s7. ret (Inr s7)))"

partial_function (option) accept_single_connection ::
    "'w kapi \<Rightarrow> ('w, 'm) dnet_scheme \<Rightarrow> ('w, 'm) dnet_scheme run" where
  "accept_single_connection k s =
     run_bind (accept_round k s) (\<lambda>r.
     case r of Inl s' \<Rightarrow> ret s' | Inr s' \<Rightarrow> accept_single_connection k s')"

definition get_current_ip :: "int \<times> string" where
  "get_current_ip = (0, ''192.168.0.34'')"

definition init_net_internal :: "'w kapi \<Rightarrow> ('w, 'm) dnet_scheme \<Rightarrow> int \<times> ('w, 'm) dnet_scheme" where
  "init_net_internal k s =
     (let (sock, s1) = kcall (k_NetSocket k serv_sock_name) s;
          s2 = s1\<lparr>server_sock := sock\<rparr>
      in if server_sock s2 < 0 then (-1, glog_line k ''failed to create socket'' s2)
         else
           let s3 = glog_line k ''server socket created'' s2;
               (bind_res, s4) = kcall (k_NetBind k (server_sock s3) (k_NetHtons k serv_port)) s3
           in if bind_res < 0 then (-1, glog_line k ''failed to bind socket'' s4)
              else
                let s5 = glog_line k (''server socket binded '' @ snd get_current_ip @ '':''
                           @ dec_str (uint serv_port)) s4;
                    (r, s6) = kcall (k_NetListen k (server_sock s5) 128) s5
                in if r < 0 then (-1, glog_line k ''failed to listen socket'' s6)
                   else (0, glog_line k ''listening for connection'' s6))"

definition ConnListenThread :: "'w kapi \<Rightarrow> ('w, 'm) dnet_scheme \<Rightarrow> (int \<times> ('w, 'm) dnet_scheme) run" where
  "ConnListenThread k s =
     (let (r, s1) = init_net_internal k s
      in run_bind (if r \<ge> 0 then accept_single_connection k s1 else ret s1) (\<lambda>s2.
         ret (0, glog_line k ''exit listen thread'' s2)))"


section \<open>Starting and stopping\<close>

definition init_listen_mutex :: "'w kapi \<Rightarrow> ('w, 'm) dnet_scheme \<Rightarrow> int \<times> ('w, 'm) dnet_scheme" where
  "init_listen_mutex k s =
     (let (m, s1) = kcall (k_CreateMutex k ''ConnInitMutex'') s;
          s2 = s1\<lparr>g_connInitMutexId := m\<rparr>
      in if g_connInitMutexId s2 < 0
         then (-1, glog_line k (''failed to create conn init mutex '' @ hex_int (g_connInitMutexId s2)) s2)
         else (0, glog_line k ''created conn init mutex'' s2))"

definition init_listen_thread :: "'w kapi \<Rightarrow> ('w, 'm) dnet_scheme \<Rightarrow> int \<times> ('w, 'm) dnet_scheme" where
  "init_listen_thread k s =
     (let (t, s1) = kcall (k_CreateThread k ''ConnListenThread'') s;
          s2 = s1\<lparr>g_connListenThid := t\<rparr>
      in if g_connListenThid s2 < 0
         then (-1, glog_line k ''failed to create thread'' s2)
         else (0, glog_line k (''created thread '' @ hex_int (g_connListenThid s2)) s2))"

definition init_dnet :: "'w kapi \<Rightarrow> ('w, 'm) dnet_scheme \<Rightarrow> int \<times> ('w, 'm) dnet_scheme" where
  "init_dnet k s =
     (let (r, s1) = init_listen_mutex k s
      in if r < 0 then (-1, s1)
         else
           let (r, s2) = init_listen_thread k s1
           in if r < 0 then (-1, s2)
              else (0, kdo (k_StartThread k (g_connListenThid s2)) s2))"

definition deinit_listen_mutex :: "'w kapi \<Rightarrow> ('w, 'm) dnet_scheme \<Rightarrow> ('w, 'm) dnet_scheme" where
  "deinit_listen_mutex k s =
     (let (mutexRes, s1) = kcall (k_DeleteMutex k (g_connInitMutexId s)) s
      in if mutexRes < 0
         then glog_line k (''failed to delete conn init mutex '' @ hex_int mutexRes) s1
         else glog_line k ''deleted conn init mutex'' s1)"

definition deinit_listen_thread :: "'w kapi \<Rightarrow> ('w, 'm) dnet_scheme \<Rightarrow> ('w, 'm) dnet_scheme" where
  "deinit_listen_thread k s =
     (let s1 = kdo (k_WaitThreadEnd k (g_connListenThid s)) s;
          (delret, s2) = kcall (k_DeleteThread k (g_connListenThid s1)) s1;
          s3 = (if delret < 0 then glog_line k ''failed to delete conn listen thread'' s2 else s2)
      in glog_line k ''deleted conn listen thread'' s3)"

definition deinit_dnet :: "'w kapi \<Rightarrow> ('w, 'm) dnet_scheme \<Rightarrow> ('w, 'm) dnet_scheme" where
  "deinit_dnet k s =
     close_server_sock k (close_client_sock k (deinit_listen_thread k (deinit_listen_mutex k s)))"


section \<open>What the parts leave alone\<close>

lemma dnet_line [frame_simps]:
  fixes s :: "('w, 'm) dnet_scheme"
  shows "g_connInitialized (glog_line k m s) = g_connInitialized s"
    "server_sock (glog_line k m s) = server_sock s"
    "client_sock (glog_line k m s) = client_sock s"
    "g_connListenThid (glog_line k m s) = g_connListenThid s"
    "g_connInitMutexId (glog_line k m s) = g_connInitMutexId s"
    "message_buffer (glog_line k m s) = message_buffer s"
  by (rule glog_line_shape [of k m s], simp)+

lemma dnet_kdo [frame_simps]:
  fixes s :: "('w, 'm) dnet_scheme"
  shows "g_connInitialized (kdo f s) = g_connInitialized s"
    "server_sock (kdo f s) = server_sock s"
    "client_sock (kdo f s) = client_sock s"
    "g_connListenThid (kdo f s) = g_connListenThid s"
    "g_connInitMutexId (kdo f s) = g_connInitMutexId s"
    "message_buffer (kdo f s) = message_buffer s"
  by (simp_all add: kdo_def)

lemmas mutex_defs = lock_listen_mutex_def unlock_listen_mutex_def

lemma world_self: "\<exists>w. s = s\<lparr>world := w\<rparr>"
  by (rule exI [of _ "world s"]) simp

text \<open>Induction over the passes of the loop, for what holds of every run that ends.\<close>

lemma send_rest_passes:
  assumes "send_rest k b s = Some y"
    and stop: "\<And>k b s y. (if b = int MSG_SIZE then y = Inr s else if b > int MSG_SIZE then y = Inl OutOfBounds
      else case kcall (k_NetSend k (client_sock s) (drop (nat b) (message_buffer s))) s of (n, s1) \<Rightarrow>
        n < 0 \<and> y = Inr s1) \<Longrightarrow> P k b s y"
    and turn: "\<And>k b s y n s1. b < int MSG_SIZE \<Longrightarrow> 0 \<le> n \<Longrightarrow> P k (b + n) s1 y
      \<Longrightarrow> kcall (k_NetSend k (client_sock s) (drop (nat b) (message_buffer s))) s = (n, s1) \<Longrightarrow> P k b s y"
  shows "P k b s y"
proof (rule send_rest.raw_induct [where P = P, OF _ assms(1)])
  fix f k b s y
  assume IH: "\<And>k b s y. f k b s = Some y \<Longrightarrow> P k b s y"
    and body: "(if b = int MSG_SIZE then ret s
      else if int MSG_SIZE < b then fail OutOfBounds
      else let (sendLen, s1) = kcall (k_NetSend k (client_sock s) (drop (nat b) (message_buffer s))) s
           in if sendLen < 0 then ret s1 else f k (b + sendLen) s1) = Some y"
  obtain n s1 where N: "kcall (k_NetSend k (client_sock s) (drop (nat b) (message_buffer s))) s = (n, s1)"
    by fastforce
  show "P k b s y"
  proof (cases "b < int MSG_SIZE \<and> 0 \<le> n")
    case True
    with body N have "f k (b + n) s1 = Some y" by simp
    with IH True N show ?thesis by (blast intro: turn)
  next
    case False
    with body N show ?thesis
      by (intro stop) (auto simp: ret_def fail_def split: if_splits)
  qed
qed

lemma send_rest_frame:
  assumes "send_rest k b s = ret s'"
  shows "\<exists>w. s' = s\<lparr>world := w\<rparr>"
proof -
  have "send_rest k b s = Some (Inr s')" using assms by (simp add: ret_def)
  then have "\<forall>t. Inr s' = (Inr t :: fault + _) \<longrightarrow> (\<exists>w. t = s\<lparr>world := w\<rparr>)"
  proof (rule send_rest_passes)
    show "\<forall>t. y = Inr t \<longrightarrow> (\<exists>w. t = s\<lparr>world := w\<rparr>)"
      if "if b = int MSG_SIZE then y = Inr s else if b > int MSG_SIZE then y = Inl OutOfBounds
        else case kcall (k_NetSend k (client_sock s) (drop (nat b) (message_buffer s))) s of (n, s1) \<Rightarrow>
          n < 0 \<and> y = Inr s1" for k b s y
      using that by (auto simp: kcall_eq world_self split: if_splits)
  next
    fix k b s y n s1
    assume "\<forall>t. y = Inr t \<longrightarrow> (\<exists>w. t = s1\<lparr>world := w\<rparr>)"
      and "kcall (k_NetSend k (client_sock s) (drop (nat b) (message_buffer s))) s = (n, s1)"
    then show "\<forall>t. y = Inr t \<longrightarrow> (\<exists>w. t = s\<lparr>world := w\<rparr>)" by (auto simp: kcall_eq)
  qed
  then show ?thesis by simp
qed

lemma send_message_frame:
  assumes "send_message k msg n s = ret (r, s')"
  shows "r = 0 \<and> g_connInitialized s' = g_connInitialized s \<and> client_sock s' = client_sock s
    \<and> server_sock s' = server_sock s"
  using assms
  by (auto simp: send_message_def run_simps Let_def split: if_splits dest!: send_rest_frame)

text \<open>\<open>send_message\<close> never answers a negative number, so that the branch that would reset the
  connection is never taken.\<close>

lemma send_message_to_client_frame:
  assumes "send_message_to_client k msg n s = ret (r, s')"
  shows "g_connInitialized s' = g_connInitialized s \<and> client_sock s' = client_sock s
    \<and> server_sock s' = server_sock s"
  using assms
  by (auto simp: send_message_to_client_def run_simps Let_def mutex_defs frame_simps
      split: if_splits dest!: send_message_frame)

lemma ping_frame:
  assumes "ping_debug_client k s = ret s'"
  shows "g_connInitialized s' = g_connInitialized s \<and> client_sock s' = client_sock s
    \<and> server_sock s' = server_sock s"
  using assms by (auto simp: ping_debug_client_def run_simps dest!: send_message_to_client_frame)

lemma accept_round_connected:
  assumes "g_connInitialized s = 1"
  shows "\<exists>s'. accept_round k s = ret (Inr s') \<and> g_connInitialized s' = 1
    \<and> client_sock s' = client_sock s \<and> server_sock s' = server_sock s"
  using assms by (simp add: accept_round_def mutex_defs frame_simps Let_def run_simps)

lemma accept_round_again:
  assumes "accept_round k s = ret (Inr s')"
  shows "g_connInitialized s' = 1"
  using assms
  by (auto simp: accept_round_def run_simps Let_def mutex_defs frame_simps kcall2_eq
      split: if_splits option.splits dest!: ping_frame)

lemma accept_round_exit:
  "accept_round k s = ret (Inl s') \<longleftrightarrow> g_connInitialized s \<noteq> 1
     \<and> (let (r, c, s3) = kcall2 (k_NetAccept k (server_sock s)) (unlock_listen_mutex k (lock_listen_mutex k s))
        in r < 0 \<and> s' = glog_line k (''failed to accept socket '' @ hex_int r) s3)"
  by (auto simp: accept_round_def run_simps Let_def mutex_defs frame_simps kcall2_eq
      split: if_splits option.splits)


section \<open>Delivery\<close>

text \<open>What the code relies on of the kernel's sockets: \<open>sent\<close> is what has gone out on the
  connection; a send of some bytes takes a part of them or fails, and never takes none.\<close>

definition wire_law :: "'w kapi \<Rightarrow> ('w \<Rightarrow> byte list) \<Rightarrow> bool" where
  "wire_law k sent \<longleftrightarrow>
     (\<forall>sock bs w. bs \<noteq> [] \<longrightarrow> (case k_NetSend k sock bs w of (r, w') \<Rightarrow>
        r \<noteq> 0 \<and> r \<le> int (length bs) \<and> sent w' = sent w @ take (nat r) bs))
   \<and> (\<forall>m w. sent (snd (k_LockMutex k m w)) = sent w \<and> sent (snd (k_UnlockMutex k m w)) = sent w)"

definition wire_up :: "'w kapi \<Rightarrow> bool" where
  "wire_up k \<longleftrightarrow> (\<forall>sock bs w. bs \<noteq> [] \<longrightarrow> 0 \<le> fst (k_NetSend k sock bs w))"

lemma wire_lawD:
  assumes "wire_law k sent"
  shows "bs \<noteq> [] \<Longrightarrow> k_NetSend k sock bs w = (r, w') \<Longrightarrow>
      r \<noteq> 0 \<and> r \<le> int (length bs) \<and> sent w' = sent w @ take (nat r) bs"
    and "sent (snd (k_LockMutex k m w)) = sent w" and "sent (snd (k_UnlockMutex k m w)) = sent w"
  using assms unfolding wire_law_def by (metis (mono_tags, lifting) case_prod_conv)+

lemma send_rest_from:
  assumes law: "wire_law k sent"
    and "got \<le> MSG_SIZE" and "length (message_buffer s) = MSG_SIZE"
    and "sent (world s) = before @ take got (message_buffer s)"
  shows "\<exists>w n. send_rest k (int got) s = ret (s\<lparr>world := w\<rparr>) \<and> n \<le> MSG_SIZE
    \<and> sent w = before @ take n (message_buffer s) \<and> (wire_up k \<longrightarrow> n = MSG_SIZE)"
  using assms(2-4)
proof (induction "MSG_SIZE - got" arbitrary: got s rule: less_induct)
  case less
  show ?case
  proof (cases "got = MSG_SIZE")
    case True
    then show ?thesis
      using less.prems by (subst send_rest.simps)
        (auto intro!: exI [of _ "world s"] exI [of _ MSG_SIZE])
  next
    case False
    with less.prems have lt: "got < MSG_SIZE" by simp
    let ?bs = "drop got (message_buffer s)"
    have ne: "?bs \<noteq> []" using lt less.prems(2) by simp
    obtain r w' where S: "k_NetSend k (client_sock s) ?bs (world s) = (r, w')" by fastforce
    note o = wire_lawD(1) [OF law ne S]
    have step: "send_rest k (int got) s =
        (if r < 0 then ret (s\<lparr>world := w'\<rparr>) else send_rest k (int got + r) (s\<lparr>world := w'\<rparr>))"
      using lt S by (subst send_rest.simps) (simp add: kcall_eq)
    show ?thesis
    proof (cases "r < 0")
      case True
      then have "\<not> wire_up k" using ne S unfolding wire_up_def by (metis fst_conv not_less)
      then show ?thesis using step True o lt less.prems(3)
        by (auto intro!: exI [of _ w'] exI [of _ got])
    next
      case False
      then obtain d where d: "r = int d" using nonneg_int_cases by (metis not_less)
      have le: "got + d \<le> MSG_SIZE" using o lt less.prems(2) d by simp
      have pre: "sent (world (s\<lparr>world := w'\<rparr>))
          = before @ take (got + d) (message_buffer (s\<lparr>world := w'\<rparr>))"
        using o less.prems(3) d by (simp add: take_add)
      have "MSG_SIZE - (got + d) < MSG_SIZE - got" using lt o d by auto
      from less.hyps [OF this le _ pre] show ?thesis
        using step d less.prems(2) by simp
    qed
  qed
qed

lemma deliver:
  assumes law: "wire_law k sent" and "g_connInitialized s = 1"
    and "0 \<le> n" and "n \<le> int (length msg)" and "n \<le> int MSG_SIZE"
  shows "\<exists>s' m. send_message_to_client k msg n s = ret (0, s')
    \<and> sent (world s') = sent (world s) @ take m (take (nat n) msg @ replicate (MSG_SIZE - nat n) 0)
    \<and> m \<le> MSG_SIZE \<and> (wire_up k \<longrightarrow> m = MSG_SIZE)
    \<and> g_connInitialized s' = 1 \<and> client_sock s' = client_sock s"
proof -
  define pk where "pk = take (nat n) msg @ replicate (MSG_SIZE - nat n) 0"
  define t where "t = (lock_listen_mutex k s)\<lparr>message_buffer := pk\<rparr>"
  have pk: "overlay (take (nat n) msg) (replicate MSG_SIZE 0) = pk"
    using assms by (simp add: pk_def overlay_def)
  have len: "length pk = MSG_SIZE" using assms by (simp add: pk_def)
  have t: "sent (world t) = sent (world s)" "message_buffer t = pk" "g_connInitialized t = 1"
      "client_sock t = client_sock s"
    using wire_lawD(2) [OF law] assms(2) by (simp_all add: t_def mutex_defs kdo_def)
  obtain w m where R: "send_rest k 0 t = ret (t\<lparr>world := w\<rparr>)" "m \<le> MSG_SIZE"
      "sent w = sent (world s) @ take m pk" "wire_up k \<longrightarrow> m = MSG_SIZE"
    using send_rest_from [OF law, of 0 t "sent (world s)"] t len by auto
  have "send_message_to_client k msg n s = ret (0, unlock_listen_mutex k (t\<lparr>world := w\<rparr>))"
    using assms R(1) t_def
    by (simp add: send_message_to_client_def send_message_def mutex_defs frame_simps
        run_bind_ret pk)
  moreover have "sent (world (unlock_listen_mutex k (t\<lparr>world := w\<rparr>))) = sent (world s) @ take m pk"
    using R(3) wire_lawD(3) [OF law] by (simp add: mutex_defs kdo_def)
  moreover have "g_connInitialized (unlock_listen_mutex k (t\<lparr>world := w\<rparr>)) = 1"
      "client_sock (unlock_listen_mutex k (t\<lparr>world := w\<rparr>)) = client_sock s"
    using t(3,4) by (simp_all add: mutex_defs frame_simps)
  ultimately show ?thesis using R(2,4) unfolding pk_def [symmetric] by blast
qed

text \<open>C26: A message of at most 256 bytes, sent while a client is connected, goes out as one
  packet of exactly 256 bytes: the message and zeros behind it, in order and once, however the
  network splits it, or a prefix of that packet when the network fails on the way. The caller
  is told 0 in both cases, and the connection is kept as it is.\<close>

theorem message_padded_and_sent:
  assumes law: "wire_law k sent" and "g_connInitialized s = 1"
    and "0 \<le> n" and "n \<le> int (length msg)" and "n \<le> int MSG_SIZE"
  shows "\<exists>s' m. send_message_to_client k msg n s = ret (0, s')
    \<and> sent (world s') = sent (world s) @ take m (take (nat n) msg @ replicate (MSG_SIZE - nat n) 0)
    \<and> m \<le> MSG_SIZE \<and> (wire_up k \<longrightarrow> m = MSG_SIZE)
    \<and> g_connInitialized s' = 1 \<and> client_sock s' = client_sock s"
  by (rule deliver [OF assms])

definition dnet_boot :: "'w \<Rightarrow> 'w dnet" where
  "dnet_boot w = kbase.extend (log_boot w) (dnet.fields (-1) (-1) 0 0 0 (replicate MSG_SIZE 0))"

text \<open>A network that takes at most 100 bytes at a time; its world is what it has taken.\<close>

definition wire_kernel :: "byte list kapi" where
  "wire_kernel = quiet_kernel\<lparr>k_NetSend := \<lambda>_ bs out. (int (min 100 (length bs)), out @ take 100 bs)\<rparr>"

lemma wire_kernel_laws: "wire_law wire_kernel id" "wire_up wire_kernel"
  by (auto simp: wire_law_def wire_up_def wire_kernel_def quiet_kernel_def min_def)

lemmas dnet_boot_simps = dnet_boot_def log_boot_def kbase.defs dnet.defs

theorem message_padded_and_sent_witness:
  "\<exists>s'. send_message_to_client wire_kernel [1, 2, 3] 2 ((dnet_boot [])\<lparr>g_connInitialized := 1\<rparr>) = ret (0, s')
    \<and> world s' = [1, 2] @ replicate 254 0"
proof -
  define s :: "byte list dnet" where "s = (dnet_boot [])\<lparr>g_connInitialized := 1\<rparr>"
  have "g_connInitialized s = 1" "world s = []" by (simp_all add: s_def dnet_boot_simps)
  with message_padded_and_sent [OF wire_kernel_laws(1), of s 2 "[1, 2, 3]"] wire_kernel_laws(2)
  have "\<exists>s'. send_message_to_client wire_kernel [1, 2, 3] 2 s = ret (0, s') \<and> world s' = [1, 2] @ replicate 254 0"
    by (auto simp: MSG_SIZE_def)
  then show ?thesis by (simp only: s_def)
qed

text \<open>A send that takes no byte and reports no error is retried at once and without end:
  if the connected socket answers 0, the sender never returns, and never gives back the mutex.\<close>

theorem silent_socket_hangs_sender:
  assumes zero: "\<And>bs w. fst (k_NetSend k (client_sock s) bs w) = 0" and "g_connInitialized s = 1"
    and "0 \<le> n" and "n \<le> int (length msg)" and "n \<le> int MSG_SIZE"
  shows "send_message_to_client k msg n s = None"
proof -
  have hang: "send_rest k 0 t = None" if "client_sock t = client_sock s" for t :: "('a, 'b) dnet_scheme"
  proof (cases "send_rest k 0 t")
    case (Some y)
    define quiet where "quiet k' c \<longleftrightarrow> (\<forall>bs w. fst (k_NetSend k' c bs w) = 0)" for k' :: "'a kapi" and c
    have loud: "\<not> quiet k' c" if "fst (k_NetSend k' c bs w) < 0" for k' c bs w
      using that by (auto simp: quiet_def) (metis less_irrefl)
    from Some have "\<not> (0 < int MSG_SIZE \<and> quiet k (client_sock t))"
    proof (rule send_rest_passes)
      show "\<not> (b < int MSG_SIZE \<and> quiet k' (client_sock s))"
        if "if b = int MSG_SIZE then y = Inr s else if b > int MSG_SIZE then y = Inl OutOfBounds
        else case kcall (k_NetSend k' (client_sock s) (drop (nat b) (message_buffer s))) s of (n, s1) \<Rightarrow>
          n < 0 \<and> y = Inr s1" for k' :: "'a kapi" and b :: int and s :: "('a, 'b) dnet_scheme" and y
        using that loud by (auto simp: kcall_eq split: if_splits)
    next
      fix k' :: "'a kapi" and b n :: int and s s1 :: "('a, 'b) dnet_scheme" and y
      assume "b < int MSG_SIZE" and "\<not> (b + n < int MSG_SIZE \<and> quiet k' (client_sock s1))"
        and "kcall (k_NetSend k' (client_sock s) (drop (nat b) (message_buffer s))) s = (n, s1)"
      moreover from this(3) have "n = 0 \<or> \<not> quiet k' (client_sock s)"
        by (auto simp: kcall_eq quiet_def)
      ultimately show "\<not> (b < int MSG_SIZE \<and> quiet k' (client_sock s))"
        by (auto simp: kcall_eq)
    qed
    moreover have "quiet k (client_sock t)" using zero that by (simp add: quiet_def)
    ultimately show ?thesis by (simp add: MSG_SIZE_def)
  qed
  show ?thesis
    using assms(2-5)
    by (simp add: send_message_to_client_def send_message_def mutex_defs frame_simps hang run_bind_None)
qed

theorem silent_socket_hangs_sender_witness:
  "send_message_to_client (quiet_kernel\<lparr>k_NetSend := \<lambda>_ _ w. (0, w)\<rparr>) [7] 1
     ((dnet_boot ())\<lparr>g_connInitialized := 1\<rparr>) = None"
  by (rule silent_socket_hangs_sender) (simp_all add: MSG_SIZE_def dnet_boot_simps)


section \<open>One client\<close>

text \<open>The listener and the senders, interleaved, with whatever else the kernel does in
  between.\<close>

inductive netstep :: "'w kapi \<Rightarrow> ('w, 'm) dnet_scheme \<Rightarrow> ('w, 'm) dnet_scheme \<Rightarrow> bool" for k where
  listen: "accept_round k s = ret (Inr s') \<Longrightarrow> netstep k s s'"
| leave: "accept_round k s = ret (Inl s') \<Longrightarrow> netstep k s s'"
| send: "send_message_to_client k msg n s = ret (r, s') \<Longrightarrow> netstep k s s'"
| other: "netstep k s (s\<lparr>world := w\<rparr>)"

lemma netstep_keeps_client:
  assumes "netstep k s s'" and "g_connInitialized s = 1"
  shows "g_connInitialized s' = 1 \<and> client_sock s' = client_sock s \<and> server_sock s' = server_sock s"
  using assms
proof cases
  case listen
  with accept_round_connected [OF assms(2), of k] show ?thesis by (auto simp: run_simps)
next
  case leave
  with accept_round_connected [OF assms(2), of k] show ?thesis by (auto simp: run_simps)
next
  case send
  then show ?thesis using assms(2) by (auto dest: send_message_to_client_frame)
qed (use assms(2) in auto)



text \<open>C33: The listen thread's loop returns only by a failed accept, and only on its first
  pass: once one client has been accepted it runs for ever, and whoever waits for the thread's
  end, as the driver's shutdown does, waits for ever.\<close>

theorem listener_returns_iff:
  fixes s s' :: "('a, 'b) dnet_scheme"
  shows "accept_single_connection k s = ret s' \<longleftrightarrow> g_connInitialized s \<noteq> 1
     \<and> (let (r, c, s3) = kcall2 (k_NetAccept k (server_sock s)) (unlock_listen_mutex k (lock_listen_mutex k s))
        in r < 0 \<and> s' = glog_line k (''failed to accept socket '' @ hex_int r) s3)"
proof -
  have stuck: "accept_single_connection k s \<noteq> ret t" if "g_connInitialized s = 1"
    for s t :: "('a, 'b) dnet_scheme"
  proof
    assume "accept_single_connection k s = ret t"
    then have "accept_single_connection k s = Some (Inr t)" by (simp add: ret_def)
    define P where "P k' u y \<longleftrightarrow> g_connInitialized u \<noteq> 1"
      for k' :: "'a kapi" and u :: "('a, 'b) dnet_scheme" and y :: "fault + ('a, 'b) dnet_scheme"
    have "P k s (Inr t)"
    proof (rule accept_single_connection.raw_induct [where P = P, OF _ \<open>_ = Some (Inr t)\<close>])
      fix f and k' :: "'a kapi" and u :: "('a, 'b) dnet_scheme" and y :: "fault + ('a, 'b) dnet_scheme"
      assume IH: "\<And>k' u y. f k' u = Some y \<Longrightarrow> P k' u y"
        and body: "run_bind (accept_round k' u) (\<lambda>r. case r of Inl s' \<Rightarrow> ret s' | Inr s' \<Rightarrow> f k' s') = Some y"
      show "P k' u y"
      proof (cases "g_connInitialized u = 1")
        case True
        then obtain u' where "accept_round k' u = ret (Inr u')" "g_connInitialized u' = 1"
          using accept_round_connected by blast
        with body IH show ?thesis by (auto simp: run_bind_ret P_def)
      qed (simp add: P_def)
    qed
    with that show False by (simp add: P_def)
  qed
  have "accept_single_connection k s = ret s' \<longleftrightarrow> accept_round k s = ret (Inl s')"
  proof
    assume R: "accept_single_connection k s = ret s'"
    then obtain x where x: "accept_round k s = ret x"
        "(case x of Inl t \<Rightarrow> ret t | Inr t \<Rightarrow> accept_single_connection k t) = ret s'"
      by (subst (asm) accept_single_connection.simps) (auto simp: run_simps)
    with accept_round_again [of k s] stuck show "accept_round k s = ret (Inl s')"
      by (cases x) (auto simp: run_simps)
  next
    assume "accept_round k s = ret (Inl s')"
    then show "accept_single_connection k s = ret s'"
      by (subst accept_single_connection.simps) (simp add: run_bind_ret)
  qed
  then show ?thesis by (simp only: accept_round_exit)
qed


section \<open>The peer\<close>

lemma length_digits:
  assumes "2 \<le> b" and "n < b ^ Suc d"
  shows "length (digits b n) \<le> Suc d"
  using assms(2)
proof (induction d arbitrary: n)
  case 0
  then show ?case using assms(1) by (subst digits.simps) simp
next
  case (Suc d)
  then have "n div b < b ^ Suc d"
    using assms(1) by (simp add: less_mult_imp_div_less mult.commute)
  from Suc.IH [OF this] show ?case by (subst digits.simps) simp
qed

lemma length_dec_byte: "length (dec_str (uint (b :: byte))) \<le> 3"
proof -
  have "unat b < 256" using unsigned_less [of b, where ?'a = nat] by simp
  then have "nat \<bar>uint b\<bar> < 10 ^ Suc 2" by simp
  from length_digits [OF _ this] show ?thesis by (simp add: dec_str_def)
qed

lemma dotted_fits:
  assumes "length addr = 4"
  shows "inet_ntop4 addr 16 = Some (dotted addr)"
proof -
  obtain a b c d where "addr = [a, b, c, d]"
    using assms by (auto simp: numeral_eq_Suc length_Suc_conv)
  then show ?thesis
    using length_dec_byte [of a] length_dec_byte [of b] length_dec_byte [of c] length_dec_byte [of d]
    by (simp add: inet_ntop4_def)
qed

lemma ping_returns:
  assumes "wire_law k sent" and "g_connInitialized s = 1"
  shows "\<exists>s'. ping_debug_client k s = ret s'"
  using deliver [OF assms, of 100 "overlay (c_bytes (''ping debug client'' @ newline)) (replicate 100 0)"]
  by (auto simp: ping_debug_client_def run_bind_ret MSG_SIZE_def c_bytes_def newline_def)

text \<open>A pass of the listener always comes to an end, without undefined behaviour, when the
  peer's address has its four bytes and the network takes bytes or fails: the 16-byte buffer for
  the address always suffices, so that the string printed for the peer is never NULL, and the
  pass leaves the listener unconnected only by the failed accept that ends its loop.\<close>

theorem listener_pass_returns:
  assumes "wire_law k sent" and addr: "\<And>sock w. length (sin_addr (fst (snd (k_NetAccept k sock w)))) = 4"
  shows "\<exists>r. accept_round k s = ret r \<and> (case r of
      Inl s' \<Rightarrow> g_connInitialized s' = g_connInitialized s \<and> g_connInitialized s \<noteq> 1
    | Inr s' \<Rightarrow> g_connInitialized s' = 1)"
proof (cases "g_connInitialized s = 1")
  case True
  then show ?thesis using accept_round_connected [of s k] by auto
next
  case False
  define s2 where "s2 = unlock_listen_mutex k (lock_listen_mutex k s)"
  obtain c a s3 where A: "kcall2 (k_NetAccept k (server_sock s)) s2 = (c, a, s3)"
    by (cases "kcall2 (k_NetAccept k (server_sock s)) s2") auto
  have keep: "g_connInitialized s3 = g_connInitialized s" "length (sin_addr a) = 4"
    using A addr by (auto simp: kcall2_eq s2_def mutex_defs frame_simps)
  show ?thesis
  proof (cases "c < 0")
    case True
    with False A have "accept_round k s = ret (Inl (glog_line k (''failed to accept socket '' @ hex_int c) s3))"
      unfolding accept_round_exit s2_def by simp
    with keep False show ?thesis by (auto simp: frame_simps)
  next
    case c: False
    define s6 where "s6 = unlock_listen_mutex k ((lock_listen_mutex k
      (glog_line k (''Accepted connection from '' @ dotted (sin_addr a) @ '':''
        @ dec_str (uint (ksceNetNtohs (sin_port a)))) (s3\<lparr>client_sock := c\<rparr>)))\<lparr>g_connInitialized := 1\<rparr>)"
    have "accept_round k s = run_bind (ping_debug_client k s6) (\<lambda>s7. ret (Inr s7))"
      using False A c keep(2) unfolding s2_def
      by (simp add: accept_round_def mutex_defs frame_simps ksceNetInetNtop_def dotted_fits s6_def Let_def)
    moreover have "g_connInitialized s6 = 1" by (simp add: s6_def mutex_defs frame_simps)
    then obtain s7 where "ping_debug_client k s6 = ret s7" using ping_returns [OF assms(1)] by blast
    ultimately have "accept_round k s = ret (Inr s7)" by (simp add: run_bind_ret)
    with accept_round_again show ?thesis by fastforce
  qed
qed

theorem listener_pass_returns_witness:
  "\<exists>r. accept_round (wire_kernel\<lparr>k_NetAccept := \<lambda>_ w. (6, \<lparr>sin_addr = [10, 0, 0, 1], sin_port = 80\<rparr>, w)\<rparr>)
     (dnet_boot []) = ret r"
proof -
  let ?k = "wire_kernel\<lparr>k_NetAccept := \<lambda>_ w. (6, \<lparr>sin_addr = [10, 0, 0, 1], sin_port = 80\<rparr>, w)\<rparr>"
  have "wire_law ?k id" using wire_kernel_laws(1) by (simp add: wire_law_def)
  from listener_pass_returns [OF this, of "dnet_boot []"] show ?thesis by auto
qed

text \<open>The driver's replacement for the missing \<open>ntohs\<close> exchanges the two bytes of its
  argument, and is its own inverse.\<close>

lemma ntohs_exchanges_bytes:
  "ksceNetNtohs (word_cat (hi :: byte) (lo :: byte)) = word_cat lo hi \<and> ksceNetNtohs (ksceNetNtohs x) = x"
proof -
  have eq: "ksceNetNtohs y = or (push_bit 8 y) (drop_bit 8 y)" for y
    by (rule bit_word_eqI) (auto simp: ksceNetNtohs_def bit_simps Let_def)
  show ?thesis
    by (intro conjI; rule bit_word_eqI) (auto simp: eq bit_simps bit_word_cat_iff)
qed

end
