(* ===== verification/Driver.thy ===== *)
theory Driver
  imports Emmc_Props Hooks_Vfs Hook_Registry Stacktrace Dnet
begin

text \<open>
  The module as a whole: \<open>module_start\<close> and \<open>module_stop\<close> of \<open>driver/psvemmc.c\<close>, which put the
  components together. Which of them are compiled in is chosen in \<open>driver/defines.h\<close>, here the
  record \<open>build\<close>. The driver's state is that of the system calls with the variables of the hook
  registry, of the debug connection and of the two module tables beside them; a component works
  on the part that is common to all and on its own.
\<close>

record build =
  ENABLE_REVERSING :: bool
  ENABLE_NETWORK :: bool

text \<open>Both lines are commented out in \<open>defines.h\<close>.\<close>

definition default_build :: build where
  "default_build = \<lparr>ENABLE_REVERSING = False, ENABLE_NETWORK = False\<rparr>"

definition SCE_KERNEL_START_SUCCESS :: int where "SCE_KERNEL_START_SUCCESS = 0"
definition SCE_KERNEL_STOP_SUCCESS :: int where "SCE_KERNEL_STOP_SUCCESS = 0"

text \<open>What \<open>module_start\<close> uses beside the functions of \<open>kapi\<close>: taiHEN, the process that loads
  the module, and the id of the kernel's own process.\<close>

record 'w start_env =
  s_tai :: "'w tai"
  s_GetProcessId :: "'w \<Rightarrow> int \<times> 'w"
  KERNEL_PID :: int

record 'w driver = "'w emmc" +
  hook_vars :: "unit reg_ext"
  net_vars :: "unit dnet_ext"
  kernel_table :: module_table
  user_table :: module_table

definition with_hooks :: "('w reg \<Rightarrow> int \<times> 'w reg) \<Rightarrow> ('w, 'm) driver_scheme \<Rightarrow> int \<times> ('w, 'm) driver_scheme" where
  "with_hooks f s =
     (let (r, t) = f (kbase.extend (kbase.truncate s) (hook_vars s))
      in (r, kbase.extend (kbase.truncate t) (kbase.more (s\<lparr>hook_vars := kbase.more t\<rparr>))))"

definition with_net :: "('w dnet \<Rightarrow> int \<times> 'w dnet) \<Rightarrow> ('w, 'm) driver_scheme \<Rightarrow> int \<times> ('w, 'm) driver_scheme" where
  "with_net f s =
     (let (r, t) = f (kbase.extend (kbase.truncate s) (net_vars s))
      in (r, kbase.extend (kbase.truncate t) (kbase.more (s\<lparr>net_vars := kbase.more t\<rparr>))))"

text \<open>The part of \<open>module_start\<close> under \<open>ENABLE_REVERSING\<close>. The results of building the tables are
  not looked at.\<close>

definition start_reversing ::
    "'w kapi \<Rightarrow> 'w start_env \<Rightarrow> ('w, 'm) driver_scheme \<Rightarrow> ('w, 'm) driver_scheme run" where
  "start_reversing k v s =
     (let (_, s1) = with_hooks (initialize_all_hooks k (s_tai v)) s
      in run_bind (construct_module_range_table k (KERNEL_PID v) 0x80000001 1 (kernel_table s1) s1) (\<lambda>(_, T, s2).
         let s3 = s2\<lparr>kernel_table := snd (sort_segment_table T)\<rparr>;
             (pid, s4) = kcall (s_GetProcessId v) s3
         in run_bind (construct_module_range_table k pid 0xFFFFFFFF 1 (user_table s4) s4) (\<lambda>(_, T', s5).
            let s6 = s5\<lparr>user_table := snd (sort_segment_table T')\<rparr>
            in ret (snd (print_segment_table k (user_table s6) s6)))))"

definition module_start ::
    "build \<Rightarrow> 'w kapi \<Rightarrow> 'w start_env \<Rightarrow> ('w, 'm) driver_scheme \<Rightarrow> (int \<times> ('w, 'm) driver_scheme) run" where
  "module_start b k v s =
     (let s1 = init_sdstor_log k (init_global_log k (init_threadInfoMutex k s));
          (_, s2) = initialize_emmc_globals k s1
      in run_bind (initialize_gc_globals k s2) (\<lambda>(_, s3).
         let (_, s4) = initialize_ms_globals s3
         in run_bind (if ENABLE_REVERSING b then start_reversing k v s4 else ret s4) (\<lambda>s5.
            let s6 = (if ENABLE_NETWORK b then snd (with_net (init_dnet k) s5) else s5)
            in ret (SCE_KERNEL_START_SUCCESS, s6))))"

definition module_stop :: "build \<Rightarrow> 'w kapi \<Rightarrow> 'w start_env \<Rightarrow> ('w, 'm) driver_scheme \<Rightarrow> int \<times> ('w, 'm) driver_scheme" where
  "module_stop b k v s =
     (let s1 = (if ENABLE_NETWORK b then snd (with_net (\<lambda>t. (0, deinit_dnet k t)) s) else s);
          s2 = (if ENABLE_REVERSING b then snd (with_hooks (deinitialize_all_hooks (s_tai v)) s1) else s1);
          (_, s3) = psvemmcDeinitialize k s2
      in (SCE_KERNEL_STOP_SUCCESS,
          deinit_threadInfoMutex k (deinit_sdstor_log k (deinit_global_log k s3))))"


section \<open>The pool's blocks\<close>

text \<open>What the driver owns of the kernel's memory: the pool's block while the pool counts as
  initialised, and nothing else.\<close>

definition only_pool :: "('w, 'm) emmc_scheme \<Rightarrow> bool" where
  "only_pool s \<longleftrightarrow> dom (kblocks s) \<subseteq> (if g_clusterPoolInitialized s = 0 then {} else {g_clusterPool s})"

text \<open>A kernel in which an allocated block has a base address and can be freed.\<close>

definition block_law :: "'w kapi \<Rightarrow> bool" where
  "block_law k \<longleftrightarrow> (\<forall>u w. 0 \<le> fst (k_GetMemBlockBase k u w) \<and> 0 \<le> fst (k_FreeMemBlock k u w))"

text \<open>All the invariant speaks of.\<close>

definition pool_part :: "('w, 'm) emmc_scheme \<Rightarrow> int \<times> int \<times> int set" where
  "pool_part s = (g_clusterPoolInitialized s, g_clusterPool s, dom (kblocks s))"

lemma pool_part_updates [simp]:
  "pool_part (s\<lparr>world := w\<rparr>) = pool_part s"
  "dom m = dom (kblocks s) \<Longrightarrow> pool_part (s\<lparr>world := w, kblocks := m\<rparr>) = pool_part s"
  by (simp_all add: pool_part_def)

lemma only_pool_part: "pool_part s' = pool_part s \<Longrightarrow> only_pool s' = only_pool s"
  by (simp add: only_pool_def pool_part_def)

lemma only_pool_initialize:
  assumes "block_law k" and "only_pool s"
  shows "only_pool (snd (psvemmcInitialize k bps spc s))"
proof -
  have "\<not> fst (k_GetMemBlockBase k u w) < 0" for u w
    using assms(1) by (simp add: block_law_def not_less)
  with assms(2) show ?thesis
    by (auto simp: psvemmcInitialize_def only_pool_def kcall2_eq Let_def split: if_splits)
qed

lemma only_pool_deinitialize:
  assumes "block_law k" and "only_pool s"
  shows "g_clusterPoolInitialized (snd (psvemmcDeinitialize k s)) = 0"
    and "kblocks (snd (psvemmcDeinitialize k s)) = Map.empty"
proof -
  have freed: "\<not> fst (k_FreeMemBlock k u w) < 0" for u w
    using assms(1) by (simp add: block_law_def not_less)
  then show "g_clusterPoolInitialized (snd (psvemmcDeinitialize k s)) = 0"
    by (simp add: psvemmcDeinitialize_def kcall_eq Let_def)
  have "(kblocks s)(g_clusterPool s := None) = Map.empty" if "g_clusterPoolInitialized s \<noteq> 0"
    using assms(2) that by (auto simp: only_pool_def fun_eq_iff)
  moreover have "kblocks s = Map.empty" if "g_clusterPoolInitialized s = 0"
    using assms(2) that by (simp add: only_pool_def)
  ultimately show "kblocks (snd (psvemmcDeinitialize k s)) = Map.empty"
    using freed by (simp add: psvemmcDeinitialize_def kcall_eq Let_def)
qed

lemma same_copy_to_user:
  "copy_to_user k buf src s = ret (r, buf', s') \<Longrightarrow> pool_part s' = pool_part s"
  by (auto simp: copy_to_user_def kcall2_eq run_simps split: if_splits option.splits)

lemma same_read_sector:
  "read_sector_with k dev n buf s = ret (r, buf', s') \<Longrightarrow> pool_part s' = pool_part s"
  by (auto simp: read_sector_with_def kcall2_eq run_simps Let_def
      dest!: same_copy_to_user split: if_splits)

lemma blk_store_dom: "blk_store p off d m = ret m' \<Longrightarrow> dom m' = dom m"
  by (auto simp: blk_store_def run_simps split: kptr.splits option.splits if_splits)

lemma same_read_cluster:
  "read_cluster_with k dev n buf s = ret (r, buf', s') \<Longrightarrow> pool_part s' = pool_part s"
  by (auto simp: read_cluster_with_def kcall2_eq run_simps Let_def
      dest!: same_copy_to_user blk_store_dom split: if_splits)

lemma same_read_sector_call:
  "read_sector_call k d n buf s = ret (r, buf', s') \<Longrightarrow> pool_part s' = pool_part s"
  by (cases d) (auto simp: emmc_read_defs run_simps dest: same_read_sector split: if_splits)

lemma same_read_cluster_call:
  "read_cluster_call k d n buf s = ret (r, buf', s') \<Longrightarrow> pool_part s' = pool_part s"
  by (cases d) (auto simp: emmc_read_defs run_simps dest: same_read_cluster split: if_splits)

lemma only_pool_exec:
  assumes "block_law k" and "only_pool s" and "emmc_exec k c buf s = ret (r, buf', s')"
  shows "only_pool s'"
proof (cases c)
  case (Initialize bps spc)
  then show ?thesis
    using assms(3) only_pool_initialize [OF assms(1,2), of bps spc] by (auto simp: run_simps split: prod.splits)
next
  case Deinitialize
  then show ?thesis
    using assms(3) only_pool_deinitialize [OF assms(1,2)]
    by (auto simp: run_simps only_pool_def split: prod.splits)
next
  case (Read_sector d n)
  then show ?thesis
    using assms(2,3) by (simp add: only_pool_part [OF same_read_sector_call])
next
  case (Read_cluster d n)
  then show ?thesis
    using assms(2,3) by (simp add: only_pool_part [OF same_read_cluster_call])
qed (use assms(2,3) in \<open>auto simp: run_simps\<close>)

lemma only_pool_execs:
  assumes "block_law k"
  shows "only_pool s \<Longrightarrow> emmc_execs k cs s = ret (rs, s') \<Longrightarrow> only_pool s'"
proof (induction cs arbitrary: s rs)
  case (Cons x cs)
  then show ?case
    by (cases x) (auto simp: run_simps dest: only_pool_exec [OF assms])
qed (simp add: run_simps)


section \<open>Starting and stopping\<close>

text \<open>The other components leave the system calls' variables alone.\<close>

lemma pool_part_more: "kbase.more s' = kbase.more s \<Longrightarrow> pool_part s' = pool_part s"
  by (cases s, cases s') (simp add: pool_part_def)

lemma pool_part_same: "log_same s s' \<Longrightarrow> pool_part s' = pool_part s"
  by (rule pool_part_more) (simp add: log_same_def)

lemma pool_part_parts [simp]:
  "pool_part (snd (with_hooks f s)) = pool_part s"
  "pool_part (snd (with_net g s)) = pool_part s"
  by (cases s, simp add: pool_part_def with_hooks_def with_net_def split_beta Let_def kbase.defs)+

lemma pool_part_tables [simp]:
  "pool_part (s\<lparr>kernel_table := T\<rparr>) = pool_part s" "pool_part (s\<lparr>user_table := T\<rparr>) = pool_part s"
  by (simp_all add: pool_part_def)

lemma same_add_modules: "add_modules k ms idx segs s = ret (r, idx', segs', s') \<Longrightarrow> log_same s s'"
proof (induction ms arbitrary: idx segs s)
  case (Cons m ms)
  then show ?case
    by (auto simp: kcall2_eq run_simps Let_def log_same_def split: if_splits)
qed (simp add: run_simps log_same_refl)

lemma same_construct:
  assumes "construct_module_range_table k pid a b T s = ret (r, T', s')"
  shows "log_same s s'"
proof (cases "moduleConstructured T > 0")
  case True
  with assms show ?thesis by (simp add: construct_module_range_table_def run_simps log_same_refl)
next
  case False
  define s2 where "s2 = (glog_line k ''constructing module range table'' s)
    \<lparr>world := snd (snd (k_GetModuleList k pid a b (length (modlist T))
       (world (glog_line k ''constructing module range table'' s))))\<rparr>"
  have s2: "log_same s s2" "log_same s (glog_line k m s2)" for m
    unfolding s2_def by (intro same_then log_same_refl)+
  from False assms have "s' = s2 \<or> (\<exists>m ms segs r idx segs'. add_modules k ms 0 segs (glog_line k m s2) = ret (r, idx, segs', s'))"
    by (auto simp: construct_module_range_table_def kcall2_eq run_simps Let_def s2_def split: if_splits)
  with s2 show ?thesis by (auto dest!: same_add_modules intro: log_same_trans)
qed

lemma same_print_segments: "log_same s (print_segments k xs s)"
  by (induction xs arbitrary: s) (auto simp: log_same_refl intro: log_same_trans [OF same_glog])

lemma start_reversing_part:
  assumes "start_reversing k v s = ret s'"
  shows "pool_part s' = pool_part s"
  using assms
  by (auto simp: start_reversing_def split_beta run_simps Let_def kcall_eq print_segment_table_def
      pool_part_same [OF same_print_segments] dest!: same_construct [THEN pool_part_same])

lemma emmc_globals_part [simp]: "pool_part (snd (initialize_emmc_globals k s)) = pool_part s"
  by (simp add: pool_part_def initialize_emmc_globals_def kcall_eq kcall2_eq Let_def)

lemma gc_globals_part: "initialize_gc_globals k s = ret (r, s') \<Longrightarrow> pool_part s' = pool_part s"
  by (auto simp: pool_part_def initialize_gc_globals_def initialize_gc_mmc_device_def
      initialize_gc_sd_device_def kcall_eq kcall2_eq Let_def run_simps split: option.splits if_splits)

lemma ms_globals_part [simp]: "pool_part (snd (initialize_ms_globals s)) = pool_part s"
  by (simp add: pool_part_def initialize_ms_globals_def)

lemma module_start_part:
  assumes "module_start b k v s = ret (r, s')"
  shows "r = 0 \<and> pool_part s' = pool_part s"
proof -
  have start: "pool_part (init_sdstor_log k (init_global_log k (init_threadInfoMutex k s))) = pool_part s"
    by (simp add: pool_part_def init_sdstor_log_def init_global_log_def init_threadInfoMutex_def kcall_eq Let_def)
  show ?thesis
    using assms
    by (auto simp: module_start_def split_beta run_simps Let_def SCE_KERNEL_START_SUCCESS_def start
        dest!: gc_globals_part start_reversing_part split: if_splits)
qed

definition driver_boot :: "'w \<Rightarrow> 'w driver" where
  "driver_boot w =
     (let empty = \<lparr>modlist = replicate MOD_LIST_SIZE 0, segList = replicate SEG_LIST_SIZE blank_segment,
                   moduleConstructured = 0\<rparr>
      in emmc.extend (emmc_boot w) (driver.fields (kbase.more (reg_boot w)) (kbase.more (dnet_boot w)) empty empty))"

lemma boot_pool: "only_pool (driver_boot w)"
  by (simp add: driver_boot_def emmc_boot_def only_pool_def emmc.defs Let_def)

text \<open>In the default build loading succeeds whatever the devices answer, as long as the driver
  of the game card slot has its context.\<close>

lemma gc_globals_returns:
  assumes "\<And>w. fst (k_SdifGetGlobal k SCE_SDIF_DEV_GAME_CARD w) \<noteq> None"
  obtains x where "initialize_gc_globals k s = ret x"
proof -
  obtain g where "fst (k_SdifGetGlobal k SCE_SDIF_DEV_GAME_CARD (world s)) = Some g"
    using assms by fastforce
  then have "\<exists>x. initialize_gc_globals k s = ret x"
    by (simp add: initialize_gc_globals_def kcall_eq run_simps surj_pair)
  with that show thesis by blast
qed

lemma module_starts:
  assumes "\<And>w. fst (k_SdifGetGlobal k SCE_SDIF_DEV_GAME_CARD w) \<noteq> None"
  shows "\<exists>s'. module_start default_build k v s = ret (0, s') \<and> g_msCtxInitialized s' = 1"
proof -
  obtain x where x: "initialize_gc_globals k (snd (initialize_emmc_globals k
      (init_sdstor_log k (init_global_log k (init_threadInfoMutex k s))))) = ret x"
    by (rule gc_globals_returns [OF assms])
  show ?thesis
    by (simp add: module_start_def default_build_def split_beta Let_def x run_simps initialize_ms_globals_def
        SCE_KERNEL_START_SUCCESS_def)
qed

lemma deinit_fields [simp]:
  "kblocks (deinit_global_log k s) = kblocks s" "kblocks (deinit_sdstor_log k s) = kblocks s"
  "kblocks (deinit_threadInfoMutex k s) = kblocks s"
  "g_clusterPoolInitialized (deinit_global_log k s) = g_clusterPoolInitialized s"
  "g_clusterPoolInitialized (deinit_sdstor_log k s) = g_clusterPoolInitialized s"
  "g_clusterPoolInitialized (deinit_threadInfoMutex k s) = g_clusterPoolInitialized s"
  by (simp_all add: deinit_threadInfoMutex_def deinit_sdstor_log_def deinit_global_log_def kdo_def Let_def)

lemma deinit_mutexes [simp]:
  "g_globalLogMutex (deinit_global_log k s) = -1" "g_sdstorLogMutex (deinit_sdstor_log k s) = -1"
  "g_threadInfoMutex (deinit_threadInfoMutex k s) = -1"
  "g_globalLogMutex (deinit_sdstor_log k s) = g_globalLogMutex s"
  "g_globalLogMutex (deinit_threadInfoMutex k s) = g_globalLogMutex s"
  "g_sdstorLogMutex (deinit_threadInfoMutex k s) = g_sdstorLogMutex s"
  by (simp_all add: deinit_threadInfoMutex_def deinit_sdstor_log_def deinit_global_log_def kdo_def Let_def)

text \<open>The parts of \<open>module_stop\<close> before the pool is released.\<close>

definition stopped_parts :: "build \<Rightarrow> 'w kapi \<Rightarrow> 'w start_env \<Rightarrow> ('w, 'm) driver_scheme \<Rightarrow> ('w, 'm) driver_scheme" where
  "stopped_parts b k v s =
     (let s1 = (if ENABLE_NETWORK b then snd (with_net (\<lambda>t. (0, deinit_dnet k t)) s) else s)
      in if ENABLE_REVERSING b then snd (with_hooks (deinitialize_all_hooks (s_tai v)) s1) else s1)"

lemma stopped_parts_pool [simp]: "pool_part (stopped_parts b k v s) = pool_part s"
  by (simp add: stopped_parts_def Let_def)

lemma module_stop_eq:
  "module_stop b k v s = (0, deinit_threadInfoMutex k (deinit_sdstor_log k
     (deinit_global_log k (snd (psvemmcDeinitialize k (stopped_parts b k v s))))))"
  by (simp only: module_stop_def stopped_parts_def split_beta Let_def SCE_KERNEL_STOP_SUCCESS_def)

lemma module_stop_pool:
  assumes "block_law k" and "only_pool s"
  shows "fst (module_stop b k v s) = 0" and "kblocks (snd (module_stop b k v s)) = Map.empty"
    and "g_clusterPoolInitialized (snd (module_stop b k v s)) = 0"
proof -
  have "only_pool (stopped_parts b k v s)"
    using only_pool_part [OF stopped_parts_pool] assms(2) by blast
  from only_pool_deinitialize [OF assms(1) this]
  show "fst (module_stop b k v s) = 0" and "kblocks (snd (module_stop b k v s)) = Map.empty"
    and "g_clusterPoolInitialized (snd (module_stop b k v s)) = 0"
    unfolding module_stop_eq by simp_all
qed

lemma module_stop_mutexes:
  "g_threadInfoMutex (snd (module_stop b k v s)) = -1 \<and> g_globalLogMutex (snd (module_stop b k v s)) = -1
   \<and> g_sdstorLogMutex (snd (module_stop b k v s)) = -1"
  unfolding module_stop_eq by simp


definition quiet_start :: "'w start_env" where
  "quiet_start = \<lparr>s_tai = \<lparr>t_HookFunctionOffset = \<lambda>_ _ _ _ w. (0, 0, w), t_HookFunctionExport = \<lambda>_ _ _ _ w. (0, 0, w),
     t_HookFunctionImport = \<lambda>_ _ _ _ w. (0, 0, w), t_InjectData = \<lambda>_ _ _ _ w. (0, w),
     t_HookRelease = \<lambda>_ _ w. (0, w), t_InjectRelease = \<lambda>_ w. (0, w)\<rparr>,
     s_GetProcessId = \<lambda>w. (5, w), KERNEL_PID = 0x10005\<rparr>"


end
