(* ===== verification/Ring.thy ===== *)
theory Ring
  imports Prelude
begin

text \<open>
  Arrays that are written round and round: the driver keeps its last device initialisations and its
  last mounts so, and the error logger its last allocations. The locale \<open>ring_buffer\<close> is their
  contract: a step writes one entry at the index and moves the index on. What is proved once here
  is that after any number of steps the last entries are all still there.
\<close>

definition ring_put :: "nat \<Rightarrow> 'e \<Rightarrow> int \<times> 'e list \<Rightarrow> int \<times> 'e list" where
  "ring_put n e b = ((fst b + 1) mod int n, (snd b)[nat (fst b) := e])"

definition ring_ok :: "nat \<Rightarrow> int \<times> 'e list \<Rightarrow> bool" where
  "ring_ok n b \<longleftrightarrow> length (snd b) = n \<and> 0 \<le> fst b \<and> fst b < int n"

text \<open>The entry written \<open>j\<close> steps before the last one.\<close>

definition ring_last :: "nat \<Rightarrow> int \<times> 'e list \<Rightarrow> nat \<Rightarrow> 'e" where
  "ring_last n b j = snd b ! nat ((fst b - 1 - int j) mod int n)"

text \<open>A sequence of steps of a relation.\<close>

fun trace :: "('a \<Rightarrow> 's \<Rightarrow> 's \<Rightarrow> bool) \<Rightarrow> 'a list \<Rightarrow> 's \<Rightarrow> 's \<Rightarrow> bool" where
  "trace R [] s s' \<longleftrightarrow> s' = s"
| "trace R (a # as) s s' \<longleftrightarrow> (\<exists>t. R a s t \<and> trace R as t s')"

lemma trace_append: "trace R (as @ bs) s s' \<longleftrightarrow> (\<exists>t. trace R as s t \<and> trace R bs t s')"
  by (induction as arbitrary: s) auto

lemma ring_put_ok: "ring_ok n b \<Longrightarrow> ring_ok n (ring_put n e b)"
  by (simp add: ring_ok_def ring_put_def)

lemma ring_last_put:
  assumes "ring_ok n b" and "j < n"
  shows "ring_last n (ring_put n e b) j = (if j = 0 then e else ring_last n b (j - 1))"
proof -
  obtain i xs where b: "b = (i, xs)" by fastforce
  with assms(1) have i: "0 \<le> i" "i < int n" "length xs = n" by (simp_all add: ring_ok_def)
  have "((i + 1) mod int n - 1 - int j) mod int n = ((i + 1) mod int n - (1 + int j)) mod int n"
    by (simp only: diff_diff_eq)
  also have "\<dots> = (i + 1 - (1 + int j)) mod int n" by (rule mod_diff_left_eq)
  finally have pos: "((i + 1) mod int n - 1 - int j) mod int n = (i - int j) mod int n" by simp
  show ?thesis
  proof (cases "j = 0")
    case True
    with i pos show ?thesis by (simp add: b ring_last_def ring_put_def)
  next
    case False
    have "(i - int j) mod int n \<noteq> i"
    proof
      assume "(i - int j) mod int n = i"
      with i have "(i - int j) mod int n = i mod int n" by simp
      then have "int n dvd (i - int j - i)" using mod_eq_dvd_iff by blast
      with False assms(2) show False by (auto dest: nat_dvd_not_less)
    qed
    moreover have "0 \<le> (i - int j) mod int n" using i by simp
    ultimately have "nat ((i - int j) mod int n) \<noteq> nat i" using i by (simp add: eq_nat_nat_iff)
    moreover have "ring_last n b (j - 1) = xs ! nat ((i - int j) mod int n)"
      using False by (simp add: b ring_last_def of_nat_diff)
    ultimately show ?thesis using False pos by (simp add: b ring_last_def ring_put_def)
  qed
qed

locale ring_buffer =
  fixes n :: nat
    and buf :: "'s \<Rightarrow> int \<times> 'e list"
    and step :: "'e \<Rightarrow> 's \<Rightarrow> 's \<Rightarrow> bool"
  assumes step_puts: "step e s s' \<Longrightarrow> ring_ok n (buf s) \<Longrightarrow> buf s' = ring_put n e (buf s)"
begin

lemma steps_ok: "trace step es s s' \<Longrightarrow> ring_ok n (buf s) \<Longrightarrow> ring_ok n (buf s')"
proof (induction es arbitrary: s)
  case (Cons e es)
  then obtain t where t: "step e s t" "trace step es t s'" by auto
  with Cons.prems have "ring_ok n (buf t)" by (simp add: step_puts ring_put_ok)
  with Cons.IH t(2) show ?case by blast
qed simp

lemma steps_keep_last:
  assumes "trace step es s s'" and "ring_ok n (buf s)" and "j < n" and "j < length es"
  shows "ring_last n (buf s') j = es ! (length es - 1 - j)"
  using assms(1,3,4)
proof (induction es arbitrary: j s' rule: rev_induct)
  case (snoc e es)
  then obtain t where t: "trace step es s t" "step e t s'" by (auto simp: trace_append)
  then have ok: "ring_ok n (buf t)" using steps_ok assms(2) by blast
  with t have b: "buf s' = ring_put n e (buf t)" by (simp add: step_puts)
  show ?case
  proof (cases j)
    case 0
    with snoc.prems ok b show ?thesis by (simp add: ring_last_put)
  next
    case (Suc i)
    with snoc.prems have "length es - Suc i < length es" by simp
    with Suc snoc.prems snoc.IH [OF t(1), of i] ok b show ?thesis by (simp add: ring_last_put nth_append)
  qed
qed simp

end

end
