(* ===== verification/Hooks_Sd.thy ===== *)
theory Hooks_Sd
  imports Log_Frame Hook_Table Mtable Ring
begin

text \<open>
  \<open>driver/hooks_misc.c\<close>, first part: the variables of the file, and the hooks that make the driver
  read SD cards in the game card slot. A hook is given the original function, which is any
  transformer of the driver's state that may fault or not return: it can call other hooks. The
  structures the hooks look into are read from memory at the offsets of \<open>driver/sector_api.h\<close>,
  \<open>driver/sdstor_types.h\<close> and \<open>driver/vfs_types.h\<close>.
\<close>

text \<open>Memory the driver does not own: the text that \<open>%s\<close> prints for a pointer, 32-bit words, and
  byte ranges; and the address of the context of an SD device.\<close>

record 'w hmem =
  m_str :: "addr \<Rightarrow> 'w \<Rightarrow> string"
  m_word :: "addr \<Rightarrow> 'w \<Rightarrow> addr"
  m_set_word :: "addr \<Rightarrow> addr \<Rightarrow> 'w \<Rightarrow> 'w"
  m_bytes :: "addr \<Rightarrow> nat \<Rightarrow> 'w \<Rightarrow> byte list"
  m_store :: "addr \<Rightarrow> byte list \<Rightarrow> 'w \<Rightarrow> 'w"
  m_SdContextGlobal :: "int \<Rightarrow> 'w \<Rightarrow> addr \<times> 'w"

record device_init_info =
  sd_ctx_index :: int
  ii_ctx :: addr

text \<open>The variables of \<open>hooks_misc.c\<close> that are not hook ids. Those that record errors come in
  groups of one for each hook.\<close>

record 'w sd_hooks = "'w kbase" +
  last_mmc_index :: int
  last_sd_index :: int
  last_mmc_inits :: "device_init_info list"
  last_sd_inits :: "device_init_info list"
  data_5018_real_data :: "byte list"
  data_5018_buffer :: "byte list"
  readCnt :: int
  sdReadCnt :: int

record 'w misc_log = "'w sd_hooks" +
  sceKernelCreateThreadForUser_hook_entered :: int
  debug_printf_callback_invoke_hook_called :: int
  SceGameGcPromoteJobQueue_semaid :: int
  g_spsfo_path :: string
  g_pfs_mount_enable_log :: int
  g_iofilemgr_sceVfsMount_enable_log :: int
  log_iofilemgr_in_app_mgr :: int

record 'w misc_err = "'w misc_log" +
  hook_err :: "hook_var \<Rightarrow> int"
  hook_err_cnt :: "hook_var \<Rightarrow> int"
  hook_ret :: "hook_var \<Rightarrow> int"
  BF66E4_result_error :: int
  BF66E4_result_error_cnt :: int
  BF651C_ioctl_result :: int
  BF651C_ioctl_result_cnt :: int
  BFB628_err_r2 :: int
  BEA0_prob_err :: int

record 'w misc = "'w misc_err" +
  BE5CC4_ops1 :: addr
  BE5CC4_ops2 :: addr
  g_mount_copys :: "byte list list"
  g_mount_copys_cnt :: int
  nodeStr :: "byte list"
  nodeStrLen :: int
  kernel_segments :: module_table

text \<open>The original function of a hook, by its arguments.\<close>

type_synonym ('a, 'w, 'm) orig = "'a \<Rightarrow> ('w, 'm) misc_scheme \<Rightarrow> (int \<times> ('w, 'm) misc_scheme) run"

text \<open>The word at an offset of a structure.\<close>

definition field :: "'w hmem \<Rightarrow> addr \<Rightarrow> addr \<Rightarrow> ('w, 'm) kbase_scheme \<Rightarrow> addr run" where
  "field m p off s = (if p = 0 then fail NullDeref else ret (m_word m (p + off) (world s)))"

text \<open>A line written to the open log, cut to the buffer of 256 characters it is made in, and several
  lines between one opening and closing of the log.\<close>

definition put_line :: "'w kapi \<Rightarrow> string \<Rightarrow> ('w, 'm) kbase_scheme \<Rightarrow> ('w, 'm) kbase_scheme" where
  "put_line k l s = FILE_GLOBAL_WRITE_LEN k (take 255 (l @ newline)) s"

definition glog_lines :: "'w kapi \<Rightarrow> string list \<Rightarrow> ('w, 'm) kbase_scheme \<Rightarrow> ('w, 'm) kbase_scheme" where
  "glog_lines k ls s = close_global_log k (fold (put_line k) ls (open_global_log k s))"

definition DEVICE_INFO_SIZE :: nat where "DEVICE_INFO_SIZE = 4"


section \<open>The device arrays\<close>

definition blank_init :: device_init_info where
  "blank_init = \<lparr>sd_ctx_index = -1, ii_ctx = -1\<rparr>"

definition clear_device_info_arrays :: "('w, 'm) misc_scheme \<Rightarrow> int \<times> ('w, 'm) misc_scheme" where
  "clear_device_info_arrays s =
     (0, s\<lparr>last_mmc_inits := replicate DEVICE_INFO_SIZE blank_init,
           last_sd_inits := replicate DEVICE_INFO_SIZE blank_init\<rparr>)"

definition init_line :: "device_init_info \<Rightarrow> string" where
  "init_line e = ''idx:'' @ hex_int (sd_ctx_index e) @ '' ctx:'' @ hex_ptr (ii_ctx e)"

definition print_device_info_arrays :: "'w kapi \<Rightarrow> ('w, 'm) misc_scheme \<Rightarrow> int \<times> ('w, 'm) misc_scheme" where
  "print_device_info_arrays k s =
     (0, glog_lines k
       (''------ mmc -------'' # map init_line (take DEVICE_INFO_SIZE (last_mmc_inits s))
        @ ''------ sd  -------'' # map init_line (take DEVICE_INFO_SIZE (last_sd_inits s))) s)"

text \<open>An entry at the index of an array, and the index moved on.\<close>

definition put_init :: "int \<Rightarrow> device_init_info \<Rightarrow> device_init_info list \<Rightarrow> (int \<times> device_init_info list) run" where
  "put_init i e xs =
     (if i < 0 \<or> int (length xs) \<le> i then fail OutOfBounds
      else ret (if wrap32 (i + 1) = int DEVICE_INFO_SIZE then 0 else wrap32 (i + 1), xs[nat i := e]))"

definition init_entry :: "'w hmem \<Rightarrow> int \<Rightarrow> addr \<Rightarrow> 'w \<Rightarrow> device_init_info" where
  "init_entry m sd_idx result w =
     \<lparr>sd_ctx_index = sd_idx, ii_ctx = (if result \<noteq> 0 then m_word m result w else -1)\<rparr>"


section \<open>Data of the game card authentication\<close>

definition gc_sd_init :: "'w kapi \<Rightarrow> ('w, 'm) misc_scheme \<Rightarrow> int \<times> ('w, 'm) misc_scheme" where
  "gc_sd_init k s =
     (let (ctx, s1) = kcall (k_SdifGetPartSd k SCE_SDIF_DEV_GAME_CARD) s
      in if ctx = 0
         then let (res, _, s2) = kcall2 (k_SdifInitPartSd k SCE_SDIF_DEV_GAME_CARD ctx) s1
              in if res \<noteq> 0 then (wrap32 0x808A0703, s2) else (0, s2)
         else (0, s1))"

definition set_5018_data :: "'w kapi \<Rightarrow> 'w hmem \<Rightarrow> ('w, 'm) misc_scheme \<Rightarrow> int \<times> ('w, 'm) misc_scheme" where
  "set_5018_data k m s =
     (let (r, modid, s1) = kcall2 (k_taiGetModuleInfo k ''SceSblGcAuthMgr'') s
      in if r \<ge> 0
         then let (ofstRes, a, s2) = kcall2 (k_ModuleGetOffset k modid 1 0x5018) s1
              in (0, if ofstRes = 0
                     then s2\<lparr>world := m_store m a (take 0x34 (data_5018_real_data s2)) (world s2)\<rparr> else s2)
         else (0, s1))"

definition get_5018_data :: "'w kapi \<Rightarrow> 'w hmem \<Rightarrow> ('w, 'm) misc_scheme \<Rightarrow> (int \<times> ('w, 'm) misc_scheme) run" where
  "get_5018_data k m s =
     (let (r, modid, s1) = kcall2 (k_taiGetModuleInfo k ''SceSblGcAuthMgr'') s
      in if r \<ge> 0
         then let (ofstRes, a, s2) = kcall2 (k_ModuleGetOffset k modid 1 0x5018) s1
              in if ofstRes = 0
                 then
                   let s3 = glog_line k ''start reading SceSblGcAuthMgr 5018 data'' s2;
                       s4 = s3\<lparr>data_5018_buffer := m_bytes m a 0x34 (world s3)\<rparr>
                   in run_bind (print_bytes k (data_5018_buffer s4) 0x34 s4) (\<lambda>(_, s5).
                      ret (0, glog_line k ''finished reading SceSblGcAuthMgr 5018 data'' s5))
                 else ret (0, glog_line k ''failed to get SceSblGcAuthMgr offset'' s2)
         else ret (0, glog_line k ''failed to get SceSblGcAuthMgr info'' s1))"


section \<open>The hooks\<close>

definition gc_patch :: "'w kapi \<Rightarrow> 'w hmem \<Rightarrow> (int, 'w, 'm) orig \<Rightarrow> (int, 'w, 'm) orig" where
  "gc_patch k m orig param0 s =
     run_bind (orig param0 s) (\<lambda>(res, s1).
     run_bind (get_5018_data k m (glog_line k (''call gc auth res:'' @ hex_int res) s1)) (\<lambda>(_, s2).
     ret (res, s2)))"

text \<open>The text of the line is made while the log is open, and reads \<open>*result\<close> whether \<open>result\<close> is
  null or not.\<close>

definition init_log_line ::
    "'w kapi \<Rightarrow> 'w hmem \<Rightarrow> string \<Rightarrow> int \<Rightarrow> addr \<Rightarrow> int \<Rightarrow> ('w, 'm) kbase_scheme \<Rightarrow> ('w, 'm) kbase_scheme run" where
  "init_log_line k m dev sd_idx result res s =
     (let s1 = open_global_log k s
      in run_bind (field m result 0 s1) (\<lambda>ctx.
         ret (close_global_log k (FILE_GLOBAL_WRITE_LEN k
           (''init '' @ dev @ '' - idx:'' @ hex_int sd_idx @ '' ctx:'' @ hex_ptr ctx @ '' res:'' @ hex_int res
            @ newline) s1))))"

definition init_mmc_hook :: "'w kapi \<Rightarrow> 'w hmem \<Rightarrow> (int \<times> addr, 'w, 'm) orig \<Rightarrow> (int \<times> addr, 'w, 'm) orig" where
  "init_mmc_hook k m orig a s = (case a of (sd_idx, result) \<Rightarrow>
     run_bind (orig (sd_idx, result) s) (\<lambda>(res, s1).
     run_bind (put_init (last_mmc_index s1) (init_entry m sd_idx result (world s1)) (last_mmc_inits s1)) (\<lambda>(i, xs).
     run_bind (init_log_line k m ''mmc'' sd_idx result res (s1\<lparr>last_mmc_index := i, last_mmc_inits := xs\<rparr>)) (\<lambda>s2.
     ret (res, s2)))))"

definition init_sd_hook :: "'w kapi \<Rightarrow> 'w hmem \<Rightarrow> (int \<times> addr, 'w, 'm) orig \<Rightarrow> (int \<times> addr, 'w, 'm) orig" where
  "init_sd_hook k m orig a s = (case a of (sd_idx, result) \<Rightarrow>
     run_bind (orig (sd_idx, result) s) (\<lambda>(res, s1).
     run_bind (put_init (last_sd_index s1) (init_entry m sd_idx result (world s1)) (last_sd_inits s1)) (\<lambda>(i, xs).
     run_bind (init_log_line k m ''sd'' sd_idx result res (s1\<lparr>last_sd_index := i, last_sd_inits := xs\<rparr>)) (\<lambda>s2.
     ret (res, if ENABLE_SD_PATCHES then snd (set_5018_data k m s2) else s2)))))"

text \<open>A read of the generic reader: bytes at \<open>0x40\<close> and \<open>0x41\<close> of the device, logged for the
  game card.\<close>

definition gen_read_hook ::
    "'w kapi \<Rightarrow> 'w hmem \<Rightarrow> (addr \<times> addr \<times> int \<times> int, 'w, 'm) orig \<Rightarrow> (addr \<times> addr \<times> int \<times> int, 'w, 'm) orig" where
  "gen_read_hook k m orig a s = (case a of (ctx, buffer, sector, nSectors) \<Rightarrow>
     run_bind (orig (ctx, buffer, sector, nSectors) s) (\<lambda>(res, s1).
     if ctx = 0 then fail NullDeref
     else
       let idx = m_bytes m (ctx + 0x40) 1 (world s1) ! 0;
           type = m_bytes m (ctx + 0x41) 1 (world s1) ! 0
       in ret (res, if idx = 1
            then (let s2 = glog_line k (''called gen_read_hook idx:'' @ hex_str (uint idx) @ '' type:'' @ hex_str (uint type)
                        @ '' sector:'' @ hex_int sector @ '' nSectors: '' @ hex_int nSectors @ '' res:'' @ hex_int res) s1
                  in s2\<lparr>readCnt := wrap32 (readCnt s2 + 1)\<rparr>)
            else s1)))"

text \<open>The first sector is copied to where SceSdstor keeps a master boot record.\<close>

definition copy_mbr :: "'w kapi \<Rightarrow> 'w hmem \<Rightarrow> addr \<Rightarrow> ('w, 'm) misc_scheme \<Rightarrow> ('w, 'm) misc_scheme" where
  "copy_mbr k m buffer s =
     (let (r, modid, s1) = kcall2 (k_taiGetModuleInfo k ''SceSdstor'') s
      in if r \<ge> 0
         then let (ofstRes, a, s2) = kcall2 (k_ModuleGetOffset k modid 1 0x1CC0) s1
              in if ofstRes = 0 then s2\<lparr>world := m_store m a (m_bytes m buffer 0x200 (world s2)) (world s2)\<rparr> else s2
         else s1)"

definition sd_read_hook ::
    "'w kapi \<Rightarrow> 'w hmem \<Rightarrow> (addr \<times> int \<times> addr \<times> int, 'w, 'm) orig \<Rightarrow> (addr \<times> int \<times> addr \<times> int, 'w, 'm) orig" where
  "sd_read_hook k m orig a s = (case a of (ctx, sector, buffer, nSectors) \<Rightarrow>
     run_bind (orig (ctx, sector, buffer, nSectors) s) (\<lambda>(res, s1).
     run_bind (if ENABLE_SD_PATCHES
               then
                 let s2 = (if nSectors = 1 \<and> sector = 0 then copy_mbr k m buffer s1 else s1);
                     (_, s3) = kcall (m_SdContextGlobal m SCE_SDIF_DEV_GAME_CARD) s2
                 in run_bind (field m ctx 0 s3) (\<lambda>_. ret s3)
               else ret s1) (\<lambda>s4.
     let s5 = glog_line k (''called sd_read_hook sector: '' @ hex_int sector @ '' nSectors: '' @ hex_int nSectors
                @ '' res: '' @ hex_int res) s4
     in ret (res, s5\<lparr>sdReadCnt := wrap32 (sdReadCnt s5 + 1)\<rparr>))))"

text \<open>The command number and the argument of a \<open>cmd_input\<close> are at \<open>0x8\<close> and \<open>0xC\<close>. Reads, CMD17 and
  CMD18, of the game card are moved by \<open>ADDRESS_OFFSET\<close>.\<close>

definition ADDRESS_OFFSET :: addr where "ADDRESS_OFFSET = 0x8000"

definition fix_address :: "'w hmem \<Rightarrow> addr \<Rightarrow> ('w, 'm) misc_scheme \<Rightarrow> ('w, 'm) misc_scheme run" where
  "fix_address m cmd s =
     run_bind (field m cmd 0x8 s) (\<lambda>command.
     if command = 17 \<or> command = 18
     then run_bind (field m cmd 0xC s) (\<lambda>argument.
          ret (s\<lparr>world := m_set_word m (cmd + 0xC) (argument + ADDRESS_OFFSET) (world s)\<rparr>))
     else ret s)"

definition cmd_text :: "'w hmem \<Rightarrow> addr \<Rightarrow> ('w, 'm) misc_scheme \<Rightarrow> string run" where
  "cmd_text m cmd s =
     run_bind (field m cmd 0x8 s) (\<lambda>command.
     run_bind (field m cmd 0xC s) (\<lambda>argument.
     ret (''CMD'' @ dec_str (sint command) @ '' '' @ hex8_str argument)))"

definition send_command_hook ::
    "'w kapi \<Rightarrow> 'w hmem \<Rightarrow> (addr \<times> addr \<times> addr \<times> int \<times> int, 'w, 'm) orig
     \<Rightarrow> (addr \<times> addr \<times> addr \<times> int \<times> int, 'w, 'm) orig" where
  "send_command_hook k m orig a s = (case a of (ctx, cmd_data1, cmd_data2, nIter, num) \<Rightarrow>
     run_bind (if ENABLE_SD_PATCHES
               then let (g, s1) = kcall (m_SdContextGlobal m SCE_SDIF_DEV_GAME_CARD) s
                    in if g = ctx then fix_address m cmd_data1 s1 else ret s1
               else ret s) (\<lambda>s2.
     run_bind (orig (ctx, cmd_data1, cmd_data2, nIter, num) s2) (\<lambda>(res, s3).
     let (g, s4) = kcall (m_SdContextGlobal m SCE_SDIF_DEV_GAME_CARD) s3
     in if g = ctx
        then
          let s5 = open_global_log k s4
          in run_bind (cmd_text m cmd_data1 s5) (\<lambda>t1.
             run_bind (if cmd_data2 = 0 then ret [] else run_bind (cmd_text m cmd_data2 s5) (\<lambda>t2. ret ('' '' @ t2))) (\<lambda>t2.
             ret (res, close_global_log k (FILE_GLOBAL_WRITE_LEN k
               (''called send_command_hook: '' @ t1 @ t2 @ '' res: '' @ hex8_str (word_of_int res) @ newline) s5))))
        else ret (res, s4))))"

text \<open>The check of the card's last answer always succeeds.\<close>

definition gc_22fd5d23_hook :: "(addr, 'w, 'm) orig \<Rightarrow> (addr, 'w, 'm) orig" where
  "gc_22fd5d23_hook orig buffer s =
     run_bind (orig buffer s) (\<lambda>(res, s1). ret (if ENABLE_SD_PATCHES then 0 else res, s1))"


section \<open>Frames\<close>

lemma put_line_counts:
  "kbase.more (put_line k l s) = kbase.more s" "sdstor_ref_ctx (put_line k l s) = sdstor_ref_ctx s"
  "global_ref_ctx (put_line k l s) = global_ref_ctx s"
  by (simp_all add: put_line_def glog_counts)

lemma put_lines_counts:
  "kbase.more (fold (put_line k) ls s) = kbase.more s"
  "sdstor_ref_ctx (fold (put_line k) ls s) = sdstor_ref_ctx s"
  "global_ref_ctx (fold (put_line k) ls s) = global_ref_ctx s"
  by (induction ls arbitrary: s) (simp_all add: put_line_counts)

lemma same_glog_lines: "log_same s (glog_lines k ls s)"
  by (simp add: glog_lines_def log_same_def glog_counts put_lines_counts)

lemma same_set_5018: "log_same s (snd (set_5018_data k m s))"
  by (simp add: set_5018_data_def kcall2_eq Let_def log_same_def)

lemma same_init_log_line: "init_log_line k m dev i p res s = ret s' \<Longrightarrow> log_same s s'"
  by (auto simp: init_log_line_def field_def run_simps Let_def log_same_def glog_counts split: if_splits)

lemma log_same_sd:
  fixes s s' :: "('w, 'm) sd_hooks_scheme"
  assumes "log_same s s'"
  shows "last_mmc_index s' = last_mmc_index s" "last_mmc_inits s' = last_mmc_inits s"
    "last_sd_index s' = last_sd_index s" "last_sd_inits s' = last_sd_inits s"
  using assms by (cases s, cases s', simp add: log_same_def)+


section \<open>The last devices\<close>

lemma put_init_ring:
  assumes "put_init i e xs = ret r" and "ring_ok 4 (i, xs)"
  shows "r = ring_put 4 e (i, xs)"
proof -
  from assms(2) have "i = 0 \<or> i = 1 \<or> i = 2 \<or> i = 3" by (auto simp: ring_ok_def)
  with assms show ?thesis
    by (auto simp: put_init_def run_simps DEVICE_INFO_SIZE_def c_int_def ring_ok_def ring_put_def)
qed

definition mmc_ring :: "('w, 'm) misc_scheme \<Rightarrow> int \<times> device_init_info list" where
  "mmc_ring s = (last_mmc_index s, last_mmc_inits s)"

definition sd_ring :: "('w, 'm) misc_scheme \<Rightarrow> int \<times> device_init_info list" where
  "sd_ring s = (last_sd_index s, last_sd_inits s)"

definition puts_init ::
    "(('w, 'm) misc_scheme \<Rightarrow> int \<times> device_init_info list) \<Rightarrow> device_init_info
     \<Rightarrow> ('w, 'm) misc_scheme \<Rightarrow> ('w, 'm) misc_scheme \<Rightarrow> bool" where
  "puts_init buf e s s' \<longleftrightarrow> put_init (fst (buf s)) e (snd (buf s)) = ret (buf s')"

interpretation mmc: ring_buffer 4 mmc_ring "puts_init mmc_ring"
  by unfold_locales (metis put_init_ring prod.collapse puts_init_def)

interpretation sd: ring_buffer 4 sd_ring "puts_init sd_ring"
  by unfold_locales (metis put_init_ring prod.collapse puts_init_def)


text \<open>A sequence of calls of one hook.\<close>

fun calls :: "('a, 'w, 'm) orig \<Rightarrow> 'a list \<Rightarrow> ('w, 'm) misc_scheme \<Rightarrow> ('w, 'm) misc_scheme run" where
  "calls h [] s = ret s"
| "calls h (a # as) s = run_bind (h a s) (\<lambda>(_, s1). calls h as s1)"

text \<open>An original that does not touch the driver's device arrays.\<close>

definition keeps_inits :: "('a, 'w, 'm) orig \<Rightarrow> bool" where
  "keeps_inits orig \<longleftrightarrow> (\<forall>a s r s'. orig a s = ret (r, s') \<longrightarrow>
     last_mmc_index s' = last_mmc_index s \<and> last_mmc_inits s' = last_mmc_inits s \<and>
     last_sd_index s' = last_sd_index s \<and> last_sd_inits s' = last_sd_inits s)"

lemma init_entry_index [simp]: "sd_ctx_index (init_entry m i p w) = i"
  by (simp add: init_entry_def)

lemma init_mmc_step:
  assumes "keeps_inits orig" and "init_mmc_hook k m orig (i, p) s = ret (r, s')"
  shows "\<exists>e. sd_ctx_index e = i \<and> puts_init mmc_ring e s s'"
proof -
  from assms(2) obtain s1 j xs s2 where o1: "orig (i, p) s = ret (r, s1)"
    and put: "put_init (last_mmc_index s1) (init_entry m i p (world s1)) (last_mmc_inits s1) = ret (j, xs)"
    and line: "init_log_line k m ''mmc'' i p r (s1\<lparr>last_mmc_index := j, last_mmc_inits := xs\<rparr>) = ret s'"
    by (auto simp: init_mmc_hook_def run_simps)
  from assms(1) o1 have "last_mmc_index s1 = last_mmc_index s" "last_mmc_inits s1 = last_mmc_inits s"
    unfolding keeps_inits_def by blast+
  then show ?thesis
    using put log_same_sd(1,2) [OF same_init_log_line [OF line]]
    by (intro exI [of _ "init_entry m i p (world s1)"]) (simp add: puts_init_def mmc_ring_def)
qed

lemma init_sd_step:
  assumes "keeps_inits orig" and "init_sd_hook k m orig (i, p) s = ret (r, s')"
  shows "\<exists>e. sd_ctx_index e = i \<and> puts_init sd_ring e s s'"
proof -
  from assms(2) obtain s1 j xs s2 where o1: "orig (i, p) s = ret (r, s1)"
    and put: "put_init (last_sd_index s1) (init_entry m i p (world s1)) (last_sd_inits s1) = ret (j, xs)"
    and line: "init_log_line k m ''sd'' i p r (s1\<lparr>last_sd_index := j, last_sd_inits := xs\<rparr>) = ret s2"
    and s': "s' = snd (set_5018_data k m s2)"
    by (auto simp: init_sd_hook_def run_simps ENABLE_SD_PATCHES_def)
  from assms(1) o1 have "last_sd_index s1 = last_sd_index s" "last_sd_inits s1 = last_sd_inits s"
    unfolding keeps_inits_def by blast+
  then show ?thesis
    using put log_same_sd(3,4) [OF log_same_trans [OF same_init_log_line [OF line] same_set_5018]] s'
    by (intro exI [of _ "init_entry m i p (world s1)"]) (simp add: puts_init_def sd_ring_def)
qed

lemma calls_trace:
  assumes step: "\<And>a s r s'. h a s = ret (r, s') \<Longrightarrow> \<exists>e. P a e \<and> R e s s'"
  shows "calls h as s = ret s' \<Longrightarrow> \<exists>es. list_all2 P as es \<and> trace R es s s'"
proof (induction as arbitrary: s)
  case (Cons a as)
  then obtain r s1 where h: "h a s = ret (r, s1)" and rest: "calls h as s1 = ret s'"
    by (auto simp: run_simps)
  from step [OF h] obtain e where e: "P a e" "R e s s1" by blast
  from Cons.IH [OF rest] obtain es where "list_all2 P as es" "trace R es s1 s'" by blast
  then show ?case using e by (intro exI [of _ "e # es"]) auto
qed (simp add: run_simps)

lemma last_of_calls:
  assumes "list_all2 P as es" and "j < length as"
  shows "P (as ! (length as - 1 - j)) (es ! (length es - 1 - j))"
proof -
  have "length es = length as" using assms(1) by (simp add: list_all2_lengthD)
  moreover from assms(2) have "length as - 1 - j < length as" by linarith
  ultimately show ?thesis using list_all2_nthD [OF assms(1)] by simp
qed

text \<open>C24: The driver remembers the last four initialisations of each kind: after any number of calls
  of a hook the arrays still have their four entries, the indexes are in range, and the device of the
  \<open>j\<close>-th last call is found \<open>j + 1\<close> places before the index, counted round. The original is any
  function that leaves the arrays alone.\<close>

theorem last_inits_remembered:
  assumes "keeps_inits orig"
  shows "(calls (init_mmc_hook k m orig) as s = ret s' \<and> ring_ok 4 (mmc_ring s) \<longrightarrow>
      ring_ok 4 (mmc_ring s') \<and>
      (\<forall>j < min 4 (length as). sd_ctx_index (ring_last 4 (mmc_ring s') j) = fst (as ! (length as - 1 - j))))
    \<and> (calls (init_sd_hook k m orig) as s = ret s' \<and> ring_ok 4 (sd_ring s) \<longrightarrow>
      ring_ok 4 (sd_ring s') \<and>
      (\<forall>j < min 4 (length as). sd_ctx_index (ring_last 4 (sd_ring s') j) = fst (as ! (length as - 1 - j))))"
proof (rule conjI; rule impI)
  assume a: "calls (init_mmc_hook k m orig) as s = ret s' \<and> ring_ok 4 (mmc_ring s)"
  then obtain es where es: "list_all2 (\<lambda>a e. sd_ctx_index e = fst a) as es" "trace (puts_init mmc_ring) es s s'"
    using calls_trace [of "init_mmc_hook k m orig" "\<lambda>a e. sd_ctx_index e = fst a" "puts_init mmc_ring" as s s']
      init_mmc_step [OF assms] by fastforce
  have "sd_ctx_index (ring_last 4 (mmc_ring s') j) = fst (as ! (length as - 1 - j))" if "j < min 4 (length as)" for j
    using last_of_calls [OF es(1), of j] mmc.steps_keep_last [OF es(2), of j] a that list_all2_lengthD [OF es(1)] by simp
  with a show "ring_ok 4 (mmc_ring s') \<and>
      (\<forall>j < min 4 (length as). sd_ctx_index (ring_last 4 (mmc_ring s') j) = fst (as ! (length as - 1 - j)))"
    using mmc.steps_ok [OF es(2)] by blast
next
  assume a: "calls (init_sd_hook k m orig) as s = ret s' \<and> ring_ok 4 (sd_ring s)"
  then obtain es where es: "list_all2 (\<lambda>a e. sd_ctx_index e = fst a) as es" "trace (puts_init sd_ring) es s s'"
    using calls_trace [of "init_sd_hook k m orig" "\<lambda>a e. sd_ctx_index e = fst a" "puts_init sd_ring" as s s']
      init_sd_step [OF assms] by fastforce
  have "sd_ctx_index (ring_last 4 (sd_ring s') j) = fst (as ! (length as - 1 - j))" if "j < min 4 (length as)" for j
    using last_of_calls [OF es(1), of j] sd.steps_keep_last [OF es(2), of j] a that list_all2_lengthD [OF es(1)] by simp
  with a show "ring_ok 4 (sd_ring s') \<and>
      (\<forall>j < min 4 (length as). sd_ctx_index (ring_last 4 (sd_ring s') j) = fst (as ! (length as - 1 - j)))"
    using sd.steps_ok [OF es(2)] by blast
qed

definition misc_boot :: "'w \<Rightarrow> 'w misc" where
  "misc_boot w =
     misc_err.extend (misc_log.extend (sd_hooks.extend (kbase.extend (log_boot w)
       (sd_hooks.fields 0 0 (replicate 4 \<lparr>sd_ctx_index = 0, ii_ctx = 0\<rparr>)
          (replicate 4 \<lparr>sd_ctx_index = 0, ii_ctx = 0\<rparr>) (replicate 0x34 0) (replicate 0x34 0) 0 0))
       (misc_log.fields 0 0 (-1) [] 0 0 0))
       (misc_err.fields (\<lambda>_. 0) (\<lambda>_. 0) (\<lambda>_. 0) 0 0 0 0 0 0))
       (misc.fields 0 0 (replicate 10 (replicate 0xF0 0)) 0 (replicate 0x100 0) 0
          \<lparr>modlist = replicate MOD_LIST_SIZE 0,
           segList = replicate SEG_LIST_SIZE \<lparr>moduleName = replicate 30 (CHR 0x00), seg = 0, range_start = 0, range_end = 0\<rparr>,
           moduleConstructured = 0\<rparr>)"

lemma misc_boot_simps [simp]:
  "last_mmc_index (misc_boot w) = 0" "length (last_mmc_inits (misc_boot w)) = 4"
  "last_sd_index (misc_boot w) = 0" "length (last_sd_inits (misc_boot w)) = 4"
  "world (misc_boot w) = w"
  by (simp_all add: misc_boot_def log_boot_def kbase.defs sd_hooks.defs misc_log.defs misc_err.defs misc.defs)

text \<open>Memory whose words are all 1, which nothing changes.\<close>

definition ones_mem :: "'w hmem" where
  "ones_mem = \<lparr>m_str = \<lambda>_ _. [], m_word = \<lambda>_ _. 1, m_set_word = \<lambda>_ _ w. w, m_bytes = \<lambda>_ n _. replicate n 0,
     m_store = \<lambda>_ _ w. w, m_SdContextGlobal = \<lambda>_ w. (0x5000, w)\<rparr>"

lemma mmc_calls_return:
  assumes "keeps_inits orig" and "\<forall>a \<in> set as. snd a \<noteq> 0" and "\<And>a s. \<exists>x. orig a s = ret x" and "ring_ok 4 (mmc_ring s)"
  shows "\<exists>s'. calls (init_mmc_hook k m orig) as s = ret s'"
  using assms(2,4)
proof (induction as arbitrary: s)
  case (Cons a as)
  obtain i p where a: "a = (i, p)" by fastforce
  obtain r s1 where o1: "orig (i, p) s = ret (r, s1)" using assms(3) by (metis surj_pair)
  then have "last_mmc_index s1 = last_mmc_index s" "last_mmc_inits s1 = last_mmc_inits s"
    using assms(1) unfolding keeps_inits_def by blast+
  then have "\<exists>s2. init_mmc_hook k m orig (i, p) s = ret (r, s2)"
    using Cons.prems a
    by (simp add: init_mmc_hook_def o1 run_simps put_init_def init_log_line_def field_def Let_def ring_ok_def mmc_ring_def)
  then obtain s2 where h: "init_mmc_hook k m orig (i, p) s = ret (r, s2)" by blast
  with init_mmc_step [OF assms(1)] obtain e where "puts_init mmc_ring e s s2" by blast
  with Cons.prems(2) have "ring_ok 4 (mmc_ring s2)" by (simp add: mmc.step_puts ring_put_ok)
  with Cons.IH [of s2] Cons.prems(1) show ?case by (simp add: a h run_simps)
qed (simp add: run_simps)

theorem last_inits_remembered_witness:
  "\<exists>s'. calls (init_mmc_hook quiet_kernel ones_mem (\<lambda>_ s. ret (0, s))) [(0, 64), (1, 64), (0, 64), (2, 64), (1, 64)] (misc_boot ())
     = ret s' \<and> sd_ctx_index (ring_last 4 (mmc_ring s') 0) = 1 \<and> sd_ctx_index (ring_last 4 (mmc_ring s') 1) = 2"
proof -
  let ?o = "\<lambda>_ s. ret (0 :: int, s)" and ?as = "[(0, 64), (1, 64), (0, 64), (2, 64), (1, 64)] :: (int \<times> addr) list"
  have keeps: "keeps_inits ?o" by (simp add: keeps_inits_def run_simps)
  have ok: "ring_ok 4 (mmc_ring (misc_boot ()))" by (simp add: ring_ok_def mmc_ring_def)
  have "\<exists>s'. calls (init_mmc_hook quiet_kernel ones_mem ?o) ?as (misc_boot ()) = ret s'"
    by (rule mmc_calls_return [OF keeps]) (auto simp: ok)
  then obtain s' where s': "calls (init_mmc_hook quiet_kernel ones_mem ?o) ?as (misc_boot ()) = ret s'" by blast
  from last_inits_remembered [OF keeps, of quiet_kernel ones_mem ?as "misc_boot ()" s'] s' ok
  have "\<forall>j < min 4 (length ?as). sd_ctx_index (ring_last 4 (mmc_ring s') j) = fst (?as ! (length ?as - 1 - j))" by simp
  from this [THEN spec, of 0] this [THEN spec, of 1] s' show ?thesis by (intro exI [of _ s']) simp
qed


section \<open>Moved addresses\<close>

text \<open>Memory in which setting the argument of the command at \<open>c\<close> is seen by a read of it, and not by a
  read of the command number; and a context of the game card slot that nothing moves.\<close>

definition mem_law :: "'w hmem \<Rightarrow> addr \<Rightarrow> addr \<Rightarrow> bool" where
  "mem_law m g c \<longleftrightarrow> (\<forall>x w. m_word m (c + 0xC) (m_set_word m (c + 0xC) x w) = x
       \<and> m_word m (c + 0x8) (m_set_word m (c + 0xC) x w) = m_word m (c + 0x8) w)
     \<and> (\<forall>w. m_SdContextGlobal m SCE_SDIF_DEV_GAME_CARD w = (g, w))"

text \<open>Kernel calls and the original leave the command alone.\<close>

definition keeps_cmd :: "'w kapi \<Rightarrow> 'w hmem \<Rightarrow> addr \<Rightarrow> (addr \<times> addr \<times> addr \<times> int \<times> int, 'w, 'm) orig \<Rightarrow> bool" where
  "keeps_cmd k m c orig \<longleftrightarrow>
     (\<forall>u w. (\<forall>p \<in> {c + 0x8, c + 0xC}. m_word m p (snd (k_LockMutex k u w)) = m_word m p w
        \<and> m_word m p (snd (k_UnlockMutex k u w)) = m_word m p w \<and> m_word m p (snd (k_IoClose k u w)) = m_word m p w)) \<and>
     (\<forall>n f w. \<forall>p \<in> {c + 0x8, c + 0xC}. m_word m p (snd (k_IoOpen k n f w)) = m_word m p w) \<and>
     (\<forall>u d w. \<forall>p \<in> {c + 0x8, c + 0xC}. m_word m p (snd (k_IoWrite k u d w)) = m_word m p w) \<and>
     (\<forall>a s r s'. orig a s = ret (r, s') \<longrightarrow> (\<forall>p \<in> {c + 0x8, c + 0xC}. m_word m p (world s') = m_word m p (world s)))"

lemma log_keeps_cmd:
  fixes s :: "('w, 'm) misc_scheme"
  assumes "keeps_cmd k m c orig" and "p \<in> {c + 0x8, c + 0xC}"
  shows "m_word m p (world (open_global_log k s)) = m_word m p (world s)"
    "m_word m p (world (FILE_GLOBAL_WRITE_LEN k t s)) = m_word m p (world s)"
    "m_word m p (world (close_global_log k s)) = m_word m p (world s)"
  using assms unfolding keeps_cmd_def
  by (auto simp: log_defs Let_def kdo_def kcall_eq)

text \<open>One call on the game card moves the argument of a read, and leaves that of any other command.\<close>

lemma send_command_step:
  fixes s :: "('w, 'm) misc_scheme"
  assumes law: "mem_law m ctx c1" and keeps: "keeps_cmd k m c1 orig"
    and run: "send_command_hook k m orig (ctx, c1, c2, nIter, num) s = ret (r, s')"
  shows "\<exists>s2 s3. orig (ctx, c1, c2, nIter, num) s2 = ret (r, s3)
    \<and> m_word m (c1 + 0x8) (world s2) = m_word m (c1 + 0x8) (world s)
    \<and> m_word m (c1 + 0xC) (world s2) = m_word m (c1 + 0xC) (world s)
        + (if m_word m (c1 + 0x8) (world s) \<in> {17, 18} then 0x8000 else 0)
    \<and> m_word m (c1 + 0x8) (world s') = m_word m (c1 + 0x8) (world s2)
    \<and> m_word m (c1 + 0xC) (world s') = m_word m (c1 + 0xC) (world s2)"
proof -
  have g: "kcall (m_SdContextGlobal m SCE_SDIF_DEV_GAME_CARD) t = (ctx, t)" for t :: "('w, 'm) misc_scheme"
    using law by (simp add: mem_law_def kcall_eq)
  from run obtain s2 s3 where moved: "fix_address m c1 s = ret s2"
    and o1: "orig (ctx, c1, c2, nIter, num) s2 = ret (r, s3)"
    and s': "\<exists>t. s' = close_global_log k (FILE_GLOBAL_WRITE_LEN k t (open_global_log k s3))"
    by (auto simp: send_command_hook_def g run_simps ENABLE_SD_PATCHES_def Let_def)
  have o2: "m_word m p (world s3) = m_word m p (world s2)" if "p \<in> {c1 + 0x8, c1 + 0xC}" for p
    using keeps o1 that unfolding keeps_cmd_def by blast
  have "m_word m p (world s') = m_word m p (world s2)" if "p \<in> {c1 + 0x8, c1 + 0xC}" for p
  proof -
    from s' obtain t where "s' = close_global_log k (FILE_GLOBAL_WRITE_LEN k t (open_global_log k s3))" by blast
    then show ?thesis by (simp add: log_keeps_cmd [OF keeps that] o2 [OF that])
  qed
  moreover have "m_word m (c1 + 0x8) (world s2) = m_word m (c1 + 0x8) (world s)
    \<and> m_word m (c1 + 0xC) (world s2) = m_word m (c1 + 0xC) (world s)
        + (if m_word m (c1 + 0x8) (world s) \<in> {17, 18} then 0x8000 else 0)"
    using moved law by (auto simp: fix_address_def field_def run_simps mem_law_def ADDRESS_OFFSET_def split: if_splits)
  ultimately show ?thesis using o1 by blast
qed

text \<open>C23: The address fix-up of SD cards. Of the commands sent to the game card slot, single and
  multiple block reads (CMD17 and CMD18) reach the original with their argument moved by \<open>0x8000\<close> sectors, all
  others as they are. But the argument is moved in the caller's own structure: when the same
  structure is sent again, as after an error, the original gets it moved once more for each time.\<close>

theorem reads_moved_each_time:
  assumes law: "mem_law m ctx c1" and keeps: "keeps_cmd k m c1 orig"
    and run: "calls (send_command_hook k m orig) (replicate (Suc n) (ctx, c1, c2, nIter, num)) s = ret s'"
  shows "\<exists>s2 r s3. orig (ctx, c1, c2, nIter, num) s2 = ret (r, s3)
    \<and> m_word m (c1 + 0x8) (world s2) = m_word m (c1 + 0x8) (world s)
    \<and> m_word m (c1 + 0xC) (world s2) = m_word m (c1 + 0xC) (world s)
        + (if m_word m (c1 + 0x8) (world s) \<in> {17, 18} then of_nat (Suc n) * 0x8000 else 0)"
  using run
proof (induction n arbitrary: s)
  case 0
  then obtain r where "send_command_hook k m orig (ctx, c1, c2, nIter, num) s = ret (r, s')" by (auto simp: run_simps)
  from send_command_step [OF law keeps this] obtain s2 s3 where
    "orig (ctx, c1, c2, nIter, num) s2 = ret (r, s3)"
    "m_word m (c1 + 0x8) (world s2) = m_word m (c1 + 0x8) (world s)"
    "m_word m (c1 + 0xC) (world s2) = m_word m (c1 + 0xC) (world s)
        + (if m_word m (c1 + 0x8) (world s) \<in> {17, 18} then 0x8000 else 0)" by blast
  then show ?case by (intro exI [of _ s2] exI [of _ r] exI [of _ s3]) simp
next
  case (Suc n)
  then obtain r s1 where h: "send_command_hook k m orig (ctx, c1, c2, nIter, num) s = ret (r, s1)"
    and rest: "calls (send_command_hook k m orig) (replicate (Suc n) (ctx, c1, c2, nIter, num)) s1 = ret s'"
    by (auto simp: run_simps)
  from Suc.IH [OF rest] obtain s2 r' s3 where o2: "orig (ctx, c1, c2, nIter, num) s2 = ret (r', s3)"
    "m_word m (c1 + 0x8) (world s2) = m_word m (c1 + 0x8) (world s1)"
    "m_word m (c1 + 0xC) (world s2) = m_word m (c1 + 0xC) (world s1)
        + (if m_word m (c1 + 0x8) (world s1) \<in> {17, 18} then of_nat (Suc n) * 0x8000 else 0)" by blast
  from send_command_step [OF law keeps h] have
    "m_word m (c1 + 0x8) (world s1) = m_word m (c1 + 0x8) (world s)"
    "m_word m (c1 + 0xC) (world s1) = m_word m (c1 + 0xC) (world s)
        + (if m_word m (c1 + 0x8) (world s) \<in> {17, 18} then 0x8000 else 0)" by auto
  with o2 show ?case by (intro exI [of _ s2] exI [of _ r'] exI [of _ s3]) (simp add: algebra_simps)
qed

text \<open>Memory of words, as the world of a kernel that does nothing.\<close>

definition word_mem :: "(addr \<Rightarrow> addr) hmem" where
  "word_mem = \<lparr>m_str = \<lambda>_ _. [], m_word = \<lambda>p w. w p, m_set_word = \<lambda>p x w. w(p := x), m_bytes = \<lambda>_ n _. replicate n 0,
     m_store = \<lambda>_ _ w. w, m_SdContextGlobal = \<lambda>_ w. (0x5000, w)\<rparr>"

lemma send_command_returns:
  fixes s :: "('w, 'm) misc_scheme"
  assumes "mem_law m ctx c1" and "c1 \<noteq> 0" and "\<And>a s. \<exists>x. orig a s = ret x"
  shows "\<exists>x. send_command_hook k m orig (ctx, c1, c2, nIter, num) s = ret x"
proof -
  have g: "kcall (m_SdContextGlobal m SCE_SDIF_DEV_GAME_CARD) t = (ctx, t)" for t :: "('w, 'm) misc_scheme"
    using assms(1) by (simp add: mem_law_def kcall_eq)
  have "\<exists>s2. fix_address m c1 s = ret s2"
    using assms(2) by (simp add: fix_address_def field_def run_simps)
  then obtain s2 where f: "fix_address m c1 s = ret s2" by blast
  obtain r s3 where o1: "orig (ctx, c1, c2, nIter, num) s2 = ret (r, s3)" using assms(3) by (metis surj_pair)
  have c: "\<exists>t. cmd_text m c u = ret t" if "c \<noteq> 0" for c and u :: "('w, 'm) misc_scheme"
    using that by (simp add: cmd_text_def field_def run_simps)
  obtain t1 where "cmd_text m c1 (open_global_log k s3) = ret t1" using c [OF assms(2)] by blast
  moreover obtain t2 where "(if c2 = 0 then ret [] else
      run_bind (cmd_text m c2 (open_global_log k s3)) (\<lambda>t2. ret ('' '' @ t2))) = ret t2"
    using c [of c2] by (cases "c2 = 0") (fastforce simp: run_simps)+
  ultimately show ?thesis
    by (simp add: send_command_hook_def g ENABLE_SD_PATCHES_def f o1 run_simps Let_def)
qed

lemma calls_return:
  assumes "\<And>a s. a \<in> set as \<Longrightarrow> \<exists>x. h a s = ret x"
  shows "\<exists>s'. calls h as s = ret s'"
  using assms
proof (induction as arbitrary: s)
  case (Cons a as)
  obtain r s1 where "h a s = ret (r, s1)" using Cons.prems [of a s] by auto
  moreover obtain s' where "calls h as s1 = ret s'" using Cons by (meson list.set_intros(2))
  ultimately show ?case by (simp add: run_simps)
qed (simp add: run_simps)

theorem reads_moved_each_time_witness:
  "\<exists>s' s2. calls (send_command_hook quiet_kernel word_mem (\<lambda>_ s. ret (0, s))) (replicate (Suc 1) (0x5000, 0x4000, 0, 1, 1))
      (misc_boot (\<lambda>p. if p = 0x4008 then 17 else if p = 0x400C then 100 else 0)) = ret s'
    \<and> m_word word_mem 0x400C (world (s2 :: (addr \<Rightarrow> addr) misc)) = 100 + 2 * 0x8000"
proof -
  let ?s = "misc_boot (\<lambda>p. if p = 0x4008 then 17 else if p = 0x400C then 100 else 0) :: (addr \<Rightarrow> addr) misc"
  let ?o = "\<lambda>_ s. ret (0 :: int, s)"
  have law: "mem_law word_mem 0x5000 0x4000" by (simp add: mem_law_def word_mem_def)
  have keeps: "keeps_cmd quiet_kernel word_mem 0x4000 ?o" by (simp add: keeps_cmd_def quiet_kernel_def word_mem_def run_simps)
  have "\<exists>s'. calls (send_command_hook quiet_kernel word_mem ?o) (replicate (Suc 1) (0x5000, 0x4000, 0, 1, 1)) ?s = ret s'"
  proof (rule calls_return)
    fix a :: "addr \<times> addr \<times> addr \<times> int \<times> int" and s :: "(addr \<Rightarrow> addr) misc"
    assume "a \<in> set (replicate (Suc 1) (0x5000, 0x4000, 0, 1, 1))"
    then have a: "a = (0x5000, 0x4000, 0, 1, 1)" by simp
    show "\<exists>x. send_command_hook quiet_kernel word_mem ?o a s = ret x"
      unfolding a by (rule send_command_returns [OF law]) (simp_all add: run_simps)
  qed
  then obtain s' where s': "calls (send_command_hook quiet_kernel word_mem ?o) (replicate (Suc 1) (0x5000, 0x4000, 0, 1, 1)) ?s = ret s'"
    by blast
  from reads_moved_each_time [OF law keeps s'] obtain s2 :: "(addr \<Rightarrow> addr) misc"
    where "m_word word_mem 0x400C (world s2) = 100 + 2 * 0x8000" by (auto simp: word_mem_def)
  with s' show ?thesis by blast
qed


section \<open>A null result\<close>

text \<open>Both initialisation hooks provide for a caller that passes no place for the context: the
  entry of the array then gets -1. The line they log afterwards reads through the pointer all
  the same, and that is the end of the call.\<close>

theorem null_result_faults:
  assumes "orig (i, 0) s = ret (r, s1)"
    and "0 \<le> last_mmc_index s1 \<and> last_mmc_index s1 < int (length (last_mmc_inits s1))"
    and "0 \<le> last_sd_index s1 \<and> last_sd_index s1 < int (length (last_sd_inits s1))"
  shows "init_mmc_hook k m orig (i, 0) s = fail NullDeref \<and> init_sd_hook k m orig (i, 0) s = fail NullDeref"
  using assms
  by (simp add: init_mmc_hook_def init_sd_hook_def put_init_def init_log_line_def field_def run_simps Let_def)

theorem null_result_faults_witness:
  "init_mmc_hook quiet_kernel ones_mem (\<lambda>_ s. ret (0, s)) (1, 0) (misc_boot ()) = fail NullDeref"
  using null_result_faults [of "\<lambda>_ s. ret (0, s)" 1 "misc_boot ()" 0 "misc_boot ()" quiet_kernel ones_mem] by simp

end
