(* ===== verification/Hooks_Errors.thy ===== *)
theory Hooks_Errors
  imports Hooks_Sd
begin

text \<open>
  \<open>driver/hooks_misc.c\<close>, the hooks that look for the origin of an error: each calls the original
  and keeps the last error it saw and how often it was called, in two variables of its own, here
  \<open>hook_err\<close> and \<open>hook_err_cnt\<close> at the hook's \<open>hook_var\<close>. Some do so always, others only while
  an application's parameter file is being read (\<open>app_mgr_23EF934_hook\<close>). The hooks of mounts,
  of status requests, of opening and of reading report what was recorded. A hook that only passes
  its arguments on has them as one value of any type.
\<close>

section \<open>Recording\<close>

definition note_error :: "int \<Rightarrow> hook_var \<Rightarrow> int \<Rightarrow> ('w, 'm) misc_scheme \<Rightarrow> ('w, 'm) misc_scheme" where
  "note_error code v res s =
     (if res = wrap32 code then s\<lparr>hook_err := (hook_err s)(v := res)\<rparr>
      else if res < 0 then s\<lparr>hook_err := (hook_err s)(v := res)\<rparr>
      else s)"

definition record_error :: "int \<Rightarrow> hook_var \<Rightarrow> int \<Rightarrow> ('w, 'm) misc_scheme \<Rightarrow> ('w, 'm) misc_scheme" where
  "record_error code v res s =
     note_error code v res (s\<lparr>hook_err_cnt := (hook_err_cnt s)(v := wrap32 (hook_err_cnt s v + 1))\<rparr>)"

definition in_app_mgr :: "('w, 'm) misc_scheme \<Rightarrow> bool" where
  "in_app_mgr s \<longleftrightarrow> log_iofilemgr_in_app_mgr s > 0"

text \<open>The result of an operation is at \<open>0x80\<close> of its context.\<close>

definition op_result :: "'w hmem \<Rightarrow> addr \<Rightarrow> ('w, 'm) misc_scheme \<Rightarrow> int" where
  "op_result m ioctx s = sint (m_word m (ioctx + 0x80) (world s))"

definition prev_err :: "'w hmem \<Rightarrow> addr \<Rightarrow> ('w, 'm) misc_scheme \<Rightarrow> int" where
  "prev_err m ioctx s = (if in_app_mgr s then (if ioctx \<noteq> 0 then op_result m ioctx s else -1) else -1)"

definition record_first ::
    "'w hmem \<Rightarrow> hook_var \<Rightarrow> addr \<Rightarrow> int \<Rightarrow> ('w, 'm) misc_scheme \<Rightarrow> ('w, 'm) misc_scheme" where
  "record_first m v ioctx prev s =
     (if in_app_mgr s \<and> ioctx \<noteq> 0 \<and> prev = 0 then record_error 0x80140F02 v (op_result m ioctx s) s else s)"


section \<open>The hooks that only record\<close>

text \<open>Those that always record.\<close>

definition iofilemgr_BE62E8_hook :: "('a, 'w, 'm) orig \<Rightarrow> ('a, 'w, 'm) orig" where
  "iofilemgr_BE62E8_hook orig a s =
     run_bind (orig a s) (\<lambda>(res, s1). ret (res, record_error 0x8001008F (Iofilemgr 0xBE62E8) res s1))"

definition iofilemgr_BE5F10_hook :: "('a, 'w, 'm) orig \<Rightarrow> ('a, 'w, 'm) orig" where
  "iofilemgr_BE5F10_hook orig a s =
     run_bind (orig a s) (\<lambda>(res, s1). ret (res, record_error 0x8001008F (Iofilemgr 0xBE5F10) res s1))"

definition iofilemgr_BE6788_hook :: "('a, 'w, 'm) orig \<Rightarrow> ('a, 'w, 'm) orig" where
  "iofilemgr_BE6788_hook orig a s =
     run_bind (orig a s) (\<lambda>(res, s1). ret (res, record_error 0x8001008F (Iofilemgr 0xBE6788) res s1))"

definition iofilemgr_BEE3C8_hook :: "('a, 'w, 'm) orig \<Rightarrow> ('a, 'w, 'm) orig" where
  "iofilemgr_BEE3C8_hook orig a s =
     run_bind (orig a s) (\<lambda>(res, s1). ret (res, record_error 0x8001008F (Iofilemgr 0xBEE3C8) res s1))"

definition iofilemgr_BEBAC0_hook :: "('a, 'w, 'm) orig \<Rightarrow> ('a, 'w, 'm) orig" where
  "iofilemgr_BEBAC0_hook orig a s =
     run_bind (orig a s) (\<lambda>(res, s1). ret (res, record_error 0x8001008F (Iofilemgr 0xBEBAC0) res s1))"

definition iofilemgr_BE61C4_hook :: "('a, 'w, 'm) orig \<Rightarrow> ('a, 'w, 'm) orig" where
  "iofilemgr_BE61C4_hook orig a s =
     run_bind (orig a s) (\<lambda>(res, s1). ret (res, record_error 0x8001008F (Iofilemgr 0xBE61C4) res s1))"

definition iofilemgr_BEDEB0_hook :: "('a, 'w, 'm) orig \<Rightarrow> ('a, 'w, 'm) orig" where
  "iofilemgr_BEDEB0_hook orig a s =
     run_bind (orig a s) (\<lambda>(res, s1). ret (res, record_error 0x8001008F (Iofilemgr 0xBEDEB0) res s1))"

definition iofilemgr_BE59BC_hook :: "('a, 'w, 'm) orig \<Rightarrow> ('a, 'w, 'm) orig" where
  "iofilemgr_BE59BC_hook orig a s =
     run_bind (orig a s) (\<lambda>(res, s1). ret (res, record_error 0x8001008F (Iofilemgr 0xBE59BC) res s1))"

definition iofilemgr_BE5B30_hook :: "('a, 'w, 'm) orig \<Rightarrow> ('a, 'w, 'm) orig" where
  "iofilemgr_BE5B30_hook orig a s =
     run_bind (orig a s) (\<lambda>(res, s1). ret (res, record_error 0x8001008F (Iofilemgr 0xBE5B30) res s1))"

definition iofilemgr_BF18CC_hook :: "('a, 'w, 'm) orig \<Rightarrow> ('a, 'w, 'm) orig" where
  "iofilemgr_BF18CC_hook orig a s =
     run_bind (orig a s) (\<lambda>(res, s1). ret (res, record_error 0x8001008F (Iofilemgr 0xBF18CC) res s1))"

definition iofilemgr_BF1AF0_hook :: "('a, 'w, 'm) orig \<Rightarrow> ('a, 'w, 'm) orig" where
  "iofilemgr_BF1AF0_hook orig a s =
     run_bind (orig a s) (\<lambda>(res, s1). ret (res, record_error 0x8001008F (Iofilemgr 0xBF1AF0) res s1))"

definition iofilemgr_BEE364_hook :: "('a, 'w, 'm) orig \<Rightarrow> ('a, 'w, 'm) orig" where
  "iofilemgr_BEE364_hook orig a s =
     run_bind (orig a s) (\<lambda>(res, s1). ret (res, record_error 0x8001008F (Iofilemgr 0xBEE364) res s1))"

definition iofilemgr_BEE2D4_hook :: "('a, 'w, 'm) orig \<Rightarrow> ('a, 'w, 'm) orig" where
  "iofilemgr_BEE2D4_hook orig a s =
     run_bind (orig a s) (\<lambda>(res, s1). ret (res, record_error 0x8001008F (Iofilemgr 0xBEE2D4) res s1))"

definition iofilemgr_BEE2C4_hook :: "('a, 'w, 'm) orig \<Rightarrow> ('a, 'w, 'm) orig" where
  "iofilemgr_BEE2C4_hook orig a s =
     run_bind (orig a s) (\<lambda>(res, s1). ret (res, record_error 0x8001008F (Iofilemgr 0xBEE2C4) res s1))"

definition iofilemgr_BEDF5C_hook :: "('a, 'w, 'm) orig \<Rightarrow> ('a, 'w, 'm) orig" where
  "iofilemgr_BEDF5C_hook orig a s =
     run_bind (orig a s) (\<lambda>(res, s1). ret (res, record_error 0x8001008F (Iofilemgr 0xBEDF5C) res s1))"

definition iofilemgr_BECE80_hook :: "('a, 'w, 'm) orig \<Rightarrow> ('a, 'w, 'm) orig" where
  "iofilemgr_BECE80_hook orig a s =
     run_bind (orig a s) (\<lambda>(res, s1). ret (res, record_error 0x8001008F (Iofilemgr 0xBECE80) res s1))"

definition iofilemgr_BEC808_hook :: "('a, 'w, 'm) orig \<Rightarrow> ('a, 'w, 'm) orig" where
  "iofilemgr_BEC808_hook orig a s =
     run_bind (orig a s) (\<lambda>(res, s1). ret (res, record_error 0x8001008F (Iofilemgr 0xBEC808) res s1))"

definition iofilemgr_BEC620_hook :: "('a, 'w, 'm) orig \<Rightarrow> ('a, 'w, 'm) orig" where
  "iofilemgr_BEC620_hook orig a s =
     run_bind (orig a s) (\<lambda>(res, s1). ret (res, record_error 0x8001008F (Iofilemgr 0xBEC620) res s1))"

definition iofilemgr_BEC578_hook :: "('a, 'w, 'm) orig \<Rightarrow> ('a, 'w, 'm) orig" where
  "iofilemgr_BEC578_hook orig a s =
     run_bind (orig a s) (\<lambda>(res, s1). ret (res, record_error 0x8001008F (Iofilemgr 0xBEC578) res s1))"

definition iofilemgr_BEC56C_hook :: "('a, 'w, 'm) orig \<Rightarrow> ('a, 'w, 'm) orig" where
  "iofilemgr_BEC56C_hook orig a s =
     run_bind (orig a s) (\<lambda>(res, s1). ret (res, record_error 0x8001008F (Iofilemgr 0xBEC56C) res s1))"

definition iofilemgr_BEC530_hook :: "('a, 'w, 'm) orig \<Rightarrow> ('a, 'w, 'm) orig" where
  "iofilemgr_BEC530_hook orig a s =
     run_bind (orig a s) (\<lambda>(res, s1). ret (res, record_error 0x8001008F (Iofilemgr 0xBEC530) res s1))"

definition iofilemgr_BEC010_hook :: "('a, 'w, 'm) orig \<Rightarrow> ('a, 'w, 'm) orig" where
  "iofilemgr_BEC010_hook orig a s =
     run_bind (orig a s) (\<lambda>(res, s1). ret (res, record_error 0x8001008F (Iofilemgr 0xBEC010) res s1))"

definition iofilemgr_BE5A38_hook :: "('a, 'w, 'm) orig \<Rightarrow> ('a, 'w, 'm) orig" where
  "iofilemgr_BE5A38_hook orig a s =
     run_bind (orig a s) (\<lambda>(res, s1). ret (res, record_error 0x8001008F (Iofilemgr 0xBE5A38) res s1))"

definition iofilemgr_BE5814_hook :: "('a, 'w, 'm) orig \<Rightarrow> ('a, 'w, 'm) orig" where
  "iofilemgr_BE5814_hook orig a s =
     run_bind (orig a s) (\<lambda>(res, s1). ret (res, record_error 0x8001008F (Iofilemgr 0xBE5814) res s1))"

definition iofilemgr_BECE0C_hook :: "('a, 'w, 'm) orig \<Rightarrow> ('a, 'w, 'm) orig" where
  "iofilemgr_BECE0C_hook orig a s =
     run_bind (orig a s) (\<lambda>(res, s1). ret (res, record_error 0x8001008F (Iofilemgr 0xBECE0C) res s1))"

definition iofilemgr_exp_aa45010b_hook :: "('a, 'w, 'm) orig \<Rightarrow> ('a, 'w, 'm) orig" where
  "iofilemgr_exp_aa45010b_hook orig a s =
     run_bind (orig a s) (\<lambda>(res, s1). ret (res, record_error 0x8001008F (Iofilemgr_exp 0xaa45010b) res s1))"

definition iofilemgr_exp_21d57633_hook :: "('a, 'w, 'm) orig \<Rightarrow> ('a, 'w, 'm) orig" where
  "iofilemgr_exp_21d57633_hook orig a s =
     run_bind (orig a s) (\<lambda>(res, s1). ret (res, record_error 0x8001008F (Iofilemgr_exp 0x21d57633) res s1))"

definition iofilemgr_exp_dc2d8bce_hook :: "('a, 'w, 'm) orig \<Rightarrow> ('a, 'w, 'm) orig" where
  "iofilemgr_exp_dc2d8bce_hook orig a s =
     run_bind (orig a s) (\<lambda>(res, s1). ret (res, record_error 0x8001008F (Iofilemgr_exp 0xdc2d8bce) res s1))"

definition iofilemgr_exp_6b3ca9f7_hook :: "('a, 'w, 'm) orig \<Rightarrow> ('a, 'w, 'm) orig" where
  "iofilemgr_exp_6b3ca9f7_hook orig a s =
     run_bind (orig a s) (\<lambda>(res, s1). ret (res, record_error 0x8001008F (Iofilemgr_exp 0x6b3ca9f7) res s1))"

definition pfs_mgr_219105C_hook :: "('a, 'w, 'm) orig \<Rightarrow> ('a, 'w, 'm) orig" where
  "pfs_mgr_219105C_hook orig a s =
     run_bind (orig a s) (\<lambda>(res, s1). ret (res, record_error 0x8001008F (Pfs_mgr 0x219105C) res s1))"

definition pfs_mgr_2193624_hook :: "('a, 'w, 'm) orig \<Rightarrow> ('a, 'w, 'm) orig" where
  "pfs_mgr_2193624_hook orig a s =
     run_bind (orig a s) (\<lambda>(res, s1). ret (res, record_error 0x8001008F (Pfs_mgr 0x2193624) res s1))"

definition pfs_mgr_2198928_hook :: "('a, 'w, 'm) orig \<Rightarrow> ('a, 'w, 'm) orig" where
  "pfs_mgr_2198928_hook orig a s =
     run_bind (orig a s) (\<lambda>(res, s1). ret (res, record_error 0x8001008F (Pfs_mgr 0x2198928) res s1))"

definition pfs_mgr_2199064_hook :: "('a, 'w, 'm) orig \<Rightarrow> ('a, 'w, 'm) orig" where
  "pfs_mgr_2199064_hook orig a s =
     run_bind (orig a s) (\<lambda>(res, s1). ret (res, record_error 0x8001008F (Pfs_mgr 0x2199064) res s1))"

definition pfs_mgr_219DE44_hook :: "('a, 'w, 'm) orig \<Rightarrow> ('a, 'w, 'm) orig" where
  "pfs_mgr_219DE44_hook orig a s =
     run_bind (orig a s) (\<lambda>(res, s1). ret (res, record_error 0x8001008F (Pfs_mgr 0x219DE44) res s1))"

text \<open>Those that record while the parameter file of an application is read.\<close>

definition iofilemgr_BE8444_hook :: "('a, 'w, 'm) orig \<Rightarrow> ('a, 'w, 'm) orig" where
  "iofilemgr_BE8444_hook orig a s =
     run_bind (orig a s) (\<lambda>(res, s1). ret (res, if in_app_mgr s1 then record_error 0x8001008F (Iofilemgr 0xBE8444) res s1 else s1))"

definition iofilemgr_50a63acf_hook :: "('a, 'w, 'm) orig \<Rightarrow> ('a, 'w, 'm) orig" where
  "iofilemgr_50a63acf_hook orig a s =
     run_bind (orig a s) (\<lambda>(res, s1). ret (res, if in_app_mgr s1 then record_error 0x8001008F (Iofilemgr 0x50a63acf) res s1 else s1))"

definition iofilemgr_BE584C_hook :: "('a, 'w, 'm) orig \<Rightarrow> ('a, 'w, 'm) orig" where
  "iofilemgr_BE584C_hook orig a s =
     run_bind (orig a s) (\<lambda>(res, s1). ret (res, if in_app_mgr s1 then record_error 0x8001008F (Iofilemgr 0xBE584C) res s1 else s1))"

definition iofilemgr_f7dac0f5_hook :: "('a, 'w, 'm) orig \<Rightarrow> ('a, 'w, 'm) orig" where
  "iofilemgr_f7dac0f5_hook orig a s =
     run_bind (orig a s) (\<lambda>(res, s1). ret (res, if in_app_mgr s1 then record_error 0x8001008F (Iofilemgr 0xf7dac0f5) res s1 else s1))"

definition iofilemgr_a5a6a55c_hook :: "('a, 'w, 'm) orig \<Rightarrow> ('a, 'w, 'm) orig" where
  "iofilemgr_a5a6a55c_hook orig a s =
     run_bind (orig a s) (\<lambda>(res, s1). ret (res, if in_app_mgr s1 then record_error 0x8001008F (Iofilemgr 0xa5a6a55c) res s1 else s1))"

definition pfs_mgr_21910F4_hook :: "('a, 'w, 'm) orig \<Rightarrow> ('a, 'w, 'm) orig" where
  "pfs_mgr_21910F4_hook orig a s =
     run_bind (orig a s) (\<lambda>(res, s1). ret (res, if in_app_mgr s1 then record_error 0x8001008F (Pfs_mgr 0x21910F4) res s1 else s1))"

definition pfs_mgr_2193B44_hook :: "('a, 'w, 'm) orig \<Rightarrow> ('a, 'w, 'm) orig" where
  "pfs_mgr_2193B44_hook orig a s =
     run_bind (orig a s) (\<lambda>(res, s1). ret (res, if in_app_mgr s1 then record_error 0x8001008F (Pfs_mgr 0x2193B44) res s1 else s1))"

definition iofilemgr_BEA704_hook :: "('a, 'w, 'm) orig \<Rightarrow> ('a, 'w, 'm) orig" where
  "iofilemgr_BEA704_hook orig a s =
     run_bind (orig a s) (\<lambda>(res, s1). ret (res, if in_app_mgr s1 then record_error 0x8001008F (Iofilemgr 0xBEA704) res s1 else s1))"

definition iofilemgr_9e347c7d_hook :: "('a, 'w, 'm) orig \<Rightarrow> ('a, 'w, 'm) orig" where
  "iofilemgr_9e347c7d_hook orig a s =
     run_bind (orig a s) (\<lambda>(res, s1). ret (res, if in_app_mgr s1 then record_error 0x8001008F (Iofilemgr 0x9e347c7d) res s1 else s1))"

definition iofilemgr_76b79bec_hook :: "('a, 'w, 'm) orig \<Rightarrow> ('a, 'w, 'm) orig" where
  "iofilemgr_76b79bec_hook orig a s =
     run_bind (orig a s) (\<lambda>(res, s1). ret (res, if in_app_mgr s1 then record_error 0x8001008F (Iofilemgr 0x76b79bec) res s1 else s1))"

definition pfs_mgr_219112C_hook :: "('a, 'w, 'm) orig \<Rightarrow> ('a, 'w, 'm) orig" where
  "pfs_mgr_219112C_hook orig a s =
     run_bind (orig a s) (\<lambda>(res, s1). ret (res, if in_app_mgr s1 then record_error 0x8001008F (Pfs_mgr 0x219112C) res s1 else s1))"

definition pfs_mgr_2192190_hook :: "('a, 'w, 'm) orig \<Rightarrow> ('a, 'w, 'm) orig" where
  "pfs_mgr_2192190_hook orig a s =
     run_bind (orig a s) (\<lambda>(res, s1). ret (res, if in_app_mgr s1 then record_error 0x8001008F (Pfs_mgr 0x2192190) res s1 else s1))"

definition pfs_mgr_219BF20_hook :: "('a, 'w, 'm) orig \<Rightarrow> ('a, 'w, 'm) orig" where
  "pfs_mgr_219BF20_hook orig a s =
     run_bind (orig a s) (\<lambda>(res, s1). ret (res, if in_app_mgr s1 then record_error 0x8001008F (Pfs_mgr 0x219BF20) res s1 else s1))"

definition iofilemgr_BE7AEC_hook :: "('a, 'w, 'm) orig \<Rightarrow> ('a, 'w, 'm) orig" where
  "iofilemgr_BE7AEC_hook orig a s =
     run_bind (orig a s) (\<lambda>(res, s1). ret (res, if in_app_mgr s1 then record_error 0x8001008F (Iofilemgr 0xBE7AEC) res s1 else s1))"

definition iofilemgr_BF57F8_hook :: "('a, 'w, 'm) orig \<Rightarrow> ('a, 'w, 'm) orig" where
  "iofilemgr_BF57F8_hook orig a s =
     run_bind (orig a s) (\<lambda>(res, s1). ret (res, if in_app_mgr s1 then record_error 0x8001008F (Iofilemgr 0xBF57F8) res s1 else s1))"

definition iofilemgr_BF6B6C_hook :: "('a, 'w, 'm) orig \<Rightarrow> ('a, 'w, 'm) orig" where
  "iofilemgr_BF6B6C_hook orig a s =
     run_bind (orig a s) (\<lambda>(res, s1). ret (res, if in_app_mgr s1 then record_error 0x8001008F (Iofilemgr 0xBF6B6C) res s1 else s1))"

definition iofilemgr_BF69B4_hook :: "('a, 'w, 'm) orig \<Rightarrow> ('a, 'w, 'm) orig" where
  "iofilemgr_BF69B4_hook orig a s =
     run_bind (orig a s) (\<lambda>(res, s1). ret (res, if in_app_mgr s1 then record_error 0x8001008F (Iofilemgr 0xBF69B4) res s1 else s1))"

text \<open>Those on the way of its reads, whose error is another.\<close>

definition iofilemgr_BE7F4C_hook :: "('a, 'w, 'm) orig \<Rightarrow> ('a, 'w, 'm) orig" where
  "iofilemgr_BE7F4C_hook orig a s =
     run_bind (orig a s) (\<lambda>(res, s1). ret (res, if in_app_mgr s1 then record_error 0x80140F02 (Iofilemgr 0xBE7F4C) res s1 else s1))"

definition iofilemgr_BFB2A8_hook :: "('a, 'w, 'm) orig \<Rightarrow> ('a, 'w, 'm) orig" where
  "iofilemgr_BFB2A8_hook orig a s =
     run_bind (orig a s) (\<lambda>(res, s1). ret (res, if in_app_mgr s1 then record_error 0x80140F02 (Iofilemgr 0xBFB2A8) res s1 else s1))"

definition pfs_facade_4238d2d2_hook :: "('a, 'w, 'm) orig \<Rightarrow> ('a, 'w, 'm) orig" where
  "pfs_facade_4238d2d2_hook orig a s =
     run_bind (orig a s) (\<lambda>(res, s1). ret (res, if in_app_mgr s1 then record_error 0x80140F02 (Pfs_facade 0x4238d2d2) res s1 else s1))"

definition iofilemgr_0b54f9e0_hook :: "('a, 'w, 'm) orig \<Rightarrow> ('a, 'w, 'm) orig" where
  "iofilemgr_0b54f9e0_hook orig a s =
     run_bind (orig a s) (\<lambda>(res, s1). ret (res, if in_app_mgr s1 then record_error 0x80140F02 (Iofilemgr 0x0b54f9e0) res s1 else s1))"

definition pfs_facade_219C9E8_hook :: "('a, 'w, 'm) orig \<Rightarrow> ('a, 'w, 'm) orig" where
  "pfs_facade_219C9E8_hook orig a s =
     run_bind (orig a s) (\<lambda>(res, s1). ret (res, if in_app_mgr s1 then record_error 0x80140F02 (Pfs_facade 0x219C9E8) res s1 else s1))"

definition pfs_facade_21A179C_hook :: "('a, 'w, 'm) orig \<Rightarrow> ('a, 'w, 'm) orig" where
  "pfs_facade_21A179C_hook orig a s =
     run_bind (orig a s) (\<lambda>(res, s1). ret (res, if in_app_mgr s1 then record_error 0x80140F02 (Pfs_facade 0x21A179C) res s1 else s1))"

definition pfs_facade_21A19A8_hook :: "('a, 'w, 'm) orig \<Rightarrow> ('a, 'w, 'm) orig" where
  "pfs_facade_21A19A8_hook orig a s =
     run_bind (orig a s) (\<lambda>(res, s1). ret (res, if in_app_mgr s1 then record_error 0x80140F02 (Pfs_facade 0x21A19A8) res s1 else s1))"

definition pfs_facade_219BB70_hook :: "('a, 'w, 'm) orig \<Rightarrow> ('a, 'w, 'm) orig" where
  "pfs_facade_219BB70_hook orig a s =
     run_bind (orig a s) (\<lambda>(res, s1). ret (res, if in_app_mgr s1 then record_error 0x80140F02 (Pfs_facade 0x219BB70) res s1 else s1))"

definition pfs_facade_219BDD4_hook :: "('a, 'w, 'm) orig \<Rightarrow> ('a, 'w, 'm) orig" where
  "pfs_facade_219BDD4_hook orig a s =
     run_bind (orig a s) (\<lambda>(res, s1). ret (res, if in_app_mgr s1 then record_error 0x80140F02 (Pfs_facade 0x219BDD4) res s1 else s1))"

definition pfs_facade_219BD88_hook :: "('a, 'w, 'm) orig \<Rightarrow> ('a, 'w, 'm) orig" where
  "pfs_facade_219BD88_hook orig a s =
     run_bind (orig a s) (\<lambda>(res, s1). ret (res, if in_app_mgr s1 then record_error 0x80140F02 (Pfs_facade 0x219BD88) res s1 else s1))"

definition pfs_facade_c1dd4317_hook :: "('a, 'w, 'm) orig \<Rightarrow> ('a, 'w, 'm) orig" where
  "pfs_facade_c1dd4317_hook orig a s =
     run_bind (orig a s) (\<lambda>(res, s1). ret (res, if in_app_mgr s1 then record_error 0x80140F02 (Pfs_facade 0xc1dd4317) res s1 else s1))"

definition pfs_facade_15c17487_hook :: "('a, 'w, 'm) orig \<Rightarrow> ('a, 'w, 'm) orig" where
  "pfs_facade_15c17487_hook orig a s =
     run_bind (orig a s) (\<lambda>(res, s1). ret (res, if in_app_mgr s1 then record_error 0x80140F02 (Pfs_facade 0x15c17487) res s1 else s1))"

text \<open>Those that record the result kept in the context of the operation.\<close>

definition iofilemgr_BF89EC_hook :: "'w hmem \<Rightarrow> (addr \<times> addr, 'w, 'm) orig \<Rightarrow> (addr \<times> addr, 'w, 'm) orig" where
  "iofilemgr_BF89EC_hook m orig a s = (case a of (shed, ioctx) \<Rightarrow>
     run_bind (orig (shed, ioctx) s) (\<lambda>(res, s1).
     ret (res, if in_app_mgr s1 \<and> ioctx \<noteq> 0 then record_error 0x80140F02 (Iofilemgr 0xBF89EC) (op_result m ioctx s1) s1 else s1)))"

definition iofilemgr_BF8BD4_hook :: "'w hmem \<Rightarrow> (addr \<times> addr, 'w, 'm) orig \<Rightarrow> (addr \<times> addr, 'w, 'm) orig" where
  "iofilemgr_BF8BD4_hook m orig a s = (case a of (shed, ioctx) \<Rightarrow>
     run_bind (orig (shed, ioctx) s) (\<lambda>(res, s1).
     ret (res, if in_app_mgr s1 \<and> ioctx \<noteq> 0 then record_error 0x80140F02 (Iofilemgr 0xBF8BD4) (op_result m ioctx s1) s1 else s1)))"

definition iofilemgr_BF8BB0_hook :: "'w hmem \<Rightarrow> (addr \<times> addr, 'w, 'm) orig \<Rightarrow> (addr \<times> addr, 'w, 'm) orig" where
  "iofilemgr_BF8BB0_hook m orig a s = (case a of (shed, ioctx) \<Rightarrow>
     run_bind (orig (shed, ioctx) s) (\<lambda>(res, s1).
     ret (res, if in_app_mgr s1 \<and> ioctx \<noteq> 0 then record_error 0x80140F02 (Iofilemgr 0xBF8BB0) (op_result m ioctx s1) s1 else s1)))"

definition iofilemgr_BF7288_hook :: "'w hmem \<Rightarrow> (addr, 'w, 'm) orig \<Rightarrow> (addr, 'w, 'm) orig" where
  "iofilemgr_BF7288_hook m orig ioctx s =
     run_bind (orig ioctx s) (\<lambda>(res, s1).
     ret (res, if in_app_mgr s1 \<and> ioctx \<noteq> 0 then record_error 0x80140F02 (Iofilemgr 0xBF7288) (op_result m ioctx s1) s1 else s1))"

definition iofilemgr_BFB5F0_hook :: "'w hmem \<Rightarrow> (addr \<times> addr \<times> int, 'w, 'm) orig \<Rightarrow> (addr \<times> addr \<times> int, 'w, 'm) orig" where
  "iofilemgr_BFB5F0_hook m orig a s = (case a of (shed, ioctx, num) \<Rightarrow>
     run_bind (orig (shed, ioctx, num) s) (\<lambda>(res, s1).
     ret (res, if in_app_mgr s1 \<and> ioctx \<noteq> 0 then record_error 0x80140F02 (Iofilemgr 0xBFB5F0) (op_result m ioctx s1) s1 else s1)))"

definition iofilemgr_BF88C4_hook :: "'w hmem \<Rightarrow> (addr \<times> addr, 'w, 'm) orig \<Rightarrow> (addr \<times> addr, 'w, 'm) orig" where
  "iofilemgr_BF88C4_hook m orig a s = (case a of (ioctx, resptr) \<Rightarrow>
     run_bind (orig (ioctx, resptr) s) (\<lambda>(res, s1).
     ret (res, if in_app_mgr s1 \<and> ioctx \<noteq> 0 then record_error 0x80140F02 (Iofilemgr 0xBF88C4) (op_result m ioctx s1) s1 else s1)))"

definition iofilemgr_BF7268_hook :: "'w hmem \<Rightarrow> (addr \<times> addr, 'w, 'm) orig \<Rightarrow> (addr \<times> addr, 'w, 'm) orig" where
  "iofilemgr_BF7268_hook m orig a s = (case a of (ioctx, ptr1) \<Rightarrow>
     run_bind (orig (ioctx, ptr1) s) (\<lambda>(res, s1).
     ret (res, if in_app_mgr s1 \<and> ioctx \<noteq> 0 then record_error 0x80140F02 (Iofilemgr 0xBF7268) (op_result m ioctx s1) s1 else s1)))"

definition iofilemgr_BF83F8_hook :: "'w hmem \<Rightarrow> (addr \<times> addr, 'w, 'm) orig \<Rightarrow> (addr \<times> addr, 'w, 'm) orig" where
  "iofilemgr_BF83F8_hook m orig a s = (case a of (shed, ioctx) \<Rightarrow>
     run_bind (orig (shed, ioctx) s) (\<lambda>(res, s1).
     ret (res, if in_app_mgr s1 \<and> ioctx \<noteq> 0 then record_error 0x80140F02 (Iofilemgr 0xBF83F8) (op_result m ioctx s1) s1 else s1)))"

text \<open>Those that record it when it was not set before the call.\<close>

definition iofilemgr_BF83A0_hook :: "'w hmem \<Rightarrow> (addr \<times> addr \<times> addr, 'w, 'm) orig \<Rightarrow> (addr \<times> addr \<times> addr, 'w, 'm) orig" where
  "iofilemgr_BF83A0_hook m orig a s = (case a of (unk0, unk1, ioctx) \<Rightarrow>
     run_bind (orig (unk0, unk1, ioctx) s) (\<lambda>(res, s1).
     ret (res, record_first m (Iofilemgr 0xBF83A0) ioctx (prev_err m ioctx s) s1)))"

definition iofilemgr_BF7228_hook :: "'w hmem \<Rightarrow> (addr, 'w, 'm) orig \<Rightarrow> (addr, 'w, 'm) orig" where
  "iofilemgr_BF7228_hook m orig ioctx s =
     run_bind (orig ioctx s) (\<lambda>(res, s1).
     ret (res, record_first m (Iofilemgr 0xBF7228) ioctx (prev_err m ioctx s) s1))"

definition iofilemgr_BFB748_hook :: "'w hmem \<Rightarrow> (addr \<times> addr, 'w, 'm) orig \<Rightarrow> (addr \<times> addr, 'w, 'm) orig" where
  "iofilemgr_BFB748_hook m orig a s = (case a of (shed, ioctx) \<Rightarrow>
     run_bind (orig (shed, ioctx) s) (\<lambda>(res, s1).
     ret (res, record_first m (Iofilemgr 0xBFB748) ioctx (prev_err m ioctx s) s1)))"

section \<open>The hooks that record more\<close>

text \<open>A copy of the mount is kept as well, in a ring of ten.\<close>

definition copy_mount :: "'w hmem \<Rightarrow> addr \<Rightarrow> ('w, 'm) misc_scheme \<Rightarrow> ('w, 'm) misc_scheme run" where
  "copy_mount m mount s =
     (if mount = 0 then fail NullDeref
      else if g_mount_copys_cnt s < 0 \<or> int (length (g_mount_copys s)) \<le> g_mount_copys_cnt s then fail OutOfBounds
      else
        let s1 = s\<lparr>g_mount_copys := (g_mount_copys s)[nat (g_mount_copys_cnt s) := m_bytes m mount 0xF0 (world s)],
                   g_mount_copys_cnt := wrap32 (g_mount_copys_cnt s + 1)\<rparr>
        in ret (if g_mount_copys_cnt s1 = 10 then s1\<lparr>g_mount_copys_cnt := 0\<rparr> else s1))"

definition iofilemgr_sceVfsGetNewNode_hook ::
    "'w hmem \<Rightarrow> (addr \<times> addr \<times> int \<times> addr, 'w, 'm) orig \<Rightarrow> (addr \<times> addr \<times> int \<times> addr, 'w, 'm) orig" where
  "iofilemgr_sceVfsGetNewNode_hook m orig a s = (case a of (mount, ops, unused, node) \<Rightarrow>
     run_bind (orig (mount, ops, unused, node) s) (\<lambda>(res, s1).
     run_bind (copy_mount m mount s1) (\<lambda>s2.
     ret (res, record_error 0x8001008F Iofilemgr_sceVfsGetNewNode res s2))))"

text \<open>Only calls on the start of the file \<open>files.db\<close> of a saved game are looked at.\<close>

definition sao_files_db_start :: "byte list" where
  "sao_files_db_start =
     [0x53, 0x43, 0x45, 0x4e, 0x47, 0x50, 0x46, 0x53, 0x05, 0x00, 0x00, 0x00, 0x01, 0x00, 0x00, 0x00,
      0x00, 0x04, 0x00, 0x00, 0x0a, 0x00, 0x00, 0x00, 0x0d, 0x00, 0x00, 0x00, 0xe6, 0x79, 0x2c, 0x65,
      0xff, 0xff, 0xff, 0xff, 0xff, 0xff, 0xff, 0xff, 0x00, 0x38, 0x00, 0x00, 0x00, 0x00, 0x00, 0x00]"

definition pfs_mgr_219DE7C_hook ::
    "'w hmem \<Rightarrow> (addr \<times> addr \<times> addr \<times> int, 'w, 'm) orig \<Rightarrow> (addr \<times> addr \<times> addr \<times> int, 'w, 'm) orig" where
  "pfs_mgr_219DE7C_hook m orig a s = (case a of (bytes14, base, data_base, nbytes) \<Rightarrow>
     if data_base = 0 then fail NullDeref
     else
       let isSaoFilesDb = (m_bytes m data_base 0x30 (world s) = sao_files_db_start)
       in run_bind (orig (bytes14, base, data_base, nbytes) s) (\<lambda>(res, s1).
          ret (res, if isSaoFilesDb then record_error 0x8001008F (Pfs_mgr 0x219DE7C) res s1 else s1)))"

text \<open>The first name found in a node is kept: \<open>node\<close> of the holder, \<open>unk_70\<close> of the node, and there
  the length at \<open>0x18\<close> and the text at \<open>0x1C\<close>. A negative length is a huge one for \<open>memcpy\<close>.\<close>

definition copy_node_name :: "'w hmem \<Rightarrow> addr \<Rightarrow> ('w, 'm) misc_scheme \<Rightarrow> ('w, 'm) misc_scheme run" where
  "copy_node_name m nodeHolder s =
     (if nodeHolder \<noteq> 0
      then let node = m_word m nodeHolder (world s)
        in if node \<noteq> 0
           then let ctx70 = m_word m (node + 0x70) (world s)
             in if ctx70 \<noteq> 0
                then let str = m_word m (ctx70 + 0x1C) (world s); str_len = sint (m_word m (ctx70 + 0x18) (world s))
                  in if str \<noteq> 0
                     then (if nodeStrLen s = 0
                           then (let n = min 0x100 str_len
                                 in if n < 0 then fail OutOfBounds
                                    else ret (s\<lparr>nodeStr := m_bytes m str (nat n) (world s) @ drop (nat n) (nodeStr s),
                                                nodeStrLen := str_len\<rparr>))
                           else ret s)
                     else ret (s\<lparr>nodeStrLen := -4\<rparr>)
                else ret (s\<lparr>nodeStrLen := -3\<rparr>)
           else ret (s\<lparr>nodeStrLen := -2\<rparr>)
      else ret (s\<lparr>nodeStrLen := -1\<rparr>))"

definition pfs_mgr_2199144_hook :: "'w hmem \<Rightarrow> (addr \<times> addr, 'w, 'm) orig \<Rightarrow> (addr \<times> addr, 'w, 'm) orig" where
  "pfs_mgr_2199144_hook m orig a s = (case a of (nodeHolder, result_pair) \<Rightarrow>
     run_bind (orig (nodeHolder, result_pair) s) (\<lambda>(res, s1).
     run_bind (copy_node_name m nodeHolder (record_error 0x8001008F (Pfs_mgr 0x2199144) res s1)) (\<lambda>s2.
     ret (res, s2))))"

text \<open>With the error, the tables of operations of the node and of its mount.\<close>

definition note_operations :: "'w hmem \<Rightarrow> addr \<Rightarrow> ('w, 'm) misc_scheme \<Rightarrow> ('w, 'm) misc_scheme" where
  "note_operations m ctx s =
     (if ctx \<noteq> 0
      then
        let mnt = m_word m (ctx + 0x4C) (world s);
            add = m_word m (mnt + 0x5C) (world s);
            s1 = (if mnt \<noteq> 0 \<and> add \<noteq> 0 then s\<lparr>BE5CC4_ops1 := m_word m add (world s)\<rparr> else s)
        in s1\<lparr>BE5CC4_ops2 := m_word m (ctx + 0x40) (world s1)\<rparr>
      else s)"

definition iofilemgr_BE5CC4_hook ::
    "'w hmem \<Rightarrow> (addr \<times> int \<times> int \<times> int \<times> int, 'w, 'm) orig \<Rightarrow> (addr \<times> int \<times> int \<times> int \<times> int, 'w, 'm) orig" where
  "iofilemgr_BE5CC4_hook m orig a s = (case a of (ctx, unk1, unk2, unk3, arg_0) \<Rightarrow>
     run_bind (orig (ctx, unk1, unk2, unk3, arg_0) s) (\<lambda>(res, s1).
     ret (res,
       if in_app_mgr s1
       then (let s2 = record_error 0x8001008F (Iofilemgr 0xBE5CC4) res s1
             in if res = wrap32 0x8001008F then note_operations m ctx s2 else s2)
       else s1)))"

text \<open>The result of the operation is looked at without a test of the context.\<close>

definition iofilemgr_BF66E4_hook :: "'w hmem \<Rightarrow> (addr \<times> addr, 'w, 'm) orig \<Rightarrow> (addr \<times> addr, 'w, 'm) orig" where
  "iofilemgr_BF66E4_hook m orig a s = (case a of (disp, ioctx) \<Rightarrow>
     run_bind (orig (disp, ioctx) s) (\<lambda>(res, s1).
     if in_app_mgr s1
     then
       let s2 = record_error 0x8001008F (Iofilemgr 0xBF66E4) res s1;
           s3 = s2\<lparr>BF66E4_result_error_cnt := wrap32 (BF66E4_result_error_cnt s2 + 1)\<rparr>
       in if ioctx = 0 then fail NullDeref
          else
            let e = op_result m ioctx s3
            in ret (res, if e = wrap32 0x80140F02 then s3\<lparr>BF66E4_result_error := e\<rparr>
                         else if e < 0 then s3\<lparr>BF66E4_result_error := e\<rparr>
                         else s3)
     else ret (res, s1)))"

definition iofilemgr_BF651C_hook ::
    "'w hmem \<Rightarrow> (int \<times> addr \<times> int, 'w, 'm) orig \<Rightarrow> (int \<times> addr \<times> int, 'w, 'm) orig" where
  "iofilemgr_BF651C_hook m orig a s = (case a of (fd, outdata, indataValue) \<Rightarrow>
     run_bind (orig (fd, outdata, indataValue) s) (\<lambda>(res, s1).
     if in_app_mgr s1
     then
       let s2 = record_error 0x8001008F (Iofilemgr 0xBF651C) res s1
       in run_bind (field m outdata 4 s2) (\<lambda>item1.
          ret (res,
            if sint item1 \<ge> 0 \<and> take_bit 16 (uint item1) \<noteq> 0x400
            then s2\<lparr>BF651C_ioctl_result := 1, BF651C_ioctl_result_cnt := wrap32 (BF651C_ioctl_result_cnt s2 + 1)\<rparr>
            else s2))
     else ret (res, s1)))"

text \<open>The returned error of a dispatcher is kept without a count.\<close>

definition note_return :: "hook_var \<Rightarrow> int \<Rightarrow> ('w, 'm) misc_scheme \<Rightarrow> ('w, 'm) misc_scheme" where
  "note_return v res s =
     (if res = wrap32 0x80140F02 then s\<lparr>hook_ret := (hook_ret s)(v := res)\<rparr>
      else if res < 0 then s\<lparr>hook_ret := (hook_ret s)(v := res)\<rparr>
      else s)"

definition iofilemgr_BF7C00_hook :: "'w hmem \<Rightarrow> (addr, 'w, 'm) orig \<Rightarrow> (addr, 'w, 'm) orig" where
  "iofilemgr_BF7C00_hook m orig ioctx s =
     run_bind (orig ioctx s) (\<lambda>(res, s1).
     let s2 = (if in_app_mgr s1 \<and> ioctx \<noteq> 0
               then record_error 0x80140F02 (Iofilemgr 0xBF7C00) (op_result m ioctx s1) s1 else s1)
     in ret (res, if in_app_mgr s2 then note_return (Iofilemgr 0xBF7C00) res s2 else s2))"

definition iofilemgr_BFB794_hook :: "'w hmem \<Rightarrow> (addr \<times> int, 'w, 'm) orig \<Rightarrow> (addr \<times> int, 'w, 'm) orig" where
  "iofilemgr_BFB794_hook m orig a s = (case a of (ioctx, unk) \<Rightarrow>
     run_bind (orig (ioctx, unk) s) (\<lambda>(res, s1).
     let s2 = record_first m (Iofilemgr 0xBFB794) ioctx (prev_err m ioctx s) s1
     in ret (res, if in_app_mgr s2 then note_return (Iofilemgr 0xBFB794) res s2 else s2)))"

text \<open>Here the error that was passed in is kept as well.\<close>

definition iofilemgr_BFB628_hook ::
    "'w hmem \<Rightarrow> (addr \<times> int \<times> int, 'w, 'm) orig \<Rightarrow> (addr \<times> int \<times> int, 'w, 'm) orig" where
  "iofilemgr_BFB628_hook m orig a s = (case a of (ioctx, unk1, err) \<Rightarrow>
     run_bind (orig (ioctx, unk1, err) s) (\<lambda>(res, s1).
     let s2 = record_first m (Iofilemgr 0xBFB628) ioctx (prev_err m ioctx s) s1
     in ret (res, if in_app_mgr s2 \<and> prev_err m ioctx s = 0
                  then (if err = wrap32 0x80140F02 then s2\<lparr>BFB628_err_r2 := err\<rparr>
                        else if err < 0 then s2\<lparr>BFB628_err_r2 := err\<rparr>
                        else s2)
                  else s2)))"

definition pfs_facade_219BEA0_hook :: "'w hmem \<Rightarrow> (addr, 'w, 'm) orig \<Rightarrow> (addr, 'w, 'm) orig" where
  "pfs_facade_219BEA0_hook m orig unk0 s =
     run_bind (orig unk0 s) (\<lambda>(res, s1).
     let s2 = (if in_app_mgr s1 then record_error 0x80140F02 (Pfs_facade 0x219BEA0) res s1 else s1);
         prob_err = sint (m_word m (unk0 + 0xC) (world s2))
     in ret (res, if in_app_mgr s2 \<and> unk0 \<noteq> 0
                  then (if prob_err = wrap32 0x80140F02 then s2\<lparr>BEA0_prob_err := prob_err\<rparr>
                        else if prob_err < 0 then s2\<lparr>BEA0_prob_err := prob_err\<rparr>
                        else s2)
                  else s2))"


section \<open>Reports\<close>

definition double_bar :: string where "double_bar = ''======================================''"

definition error_line :: "string \<Rightarrow> hook_var \<Rightarrow> ('w, 'm) misc_scheme \<Rightarrow> string" where
  "error_line name v s =
     name @ '' error: '' @ hex8_str (word_of_int (hook_err s v)) @ '' cnt: '' @ hex8_str (word_of_int (hook_err_cnt s v))"

text \<open>The hook within which the others record.\<close>

definition app_mgr_23EF934_hook :: "'w kapi \<Rightarrow> ('a, 'w, 'm) orig \<Rightarrow> ('a, 'w, 'm) orig" where
  "app_mgr_23EF934_hook k orig a s =
     run_bind (orig a (s\<lparr>log_iofilemgr_in_app_mgr := 1\<rparr>)) (\<lambda>(res, s1).
     ret (res, glog_lines k
       [double_bar, ''called app_mgr_23EF934_hook:'' @ newline @ ''res: '' @ hex8_str (word_of_int res), double_bar]
       (s1\<lparr>log_iofilemgr_in_app_mgr := 0\<rparr>)))"

definition print_vfs_mount :: "'w kapi \<Rightarrow> 'w hmem \<Rightarrow> addr \<Rightarrow> ('w, 'm) misc_scheme \<Rightarrow> (int \<times> ('w, 'm) misc_scheme) run" where
  "print_vfs_mount k m mnt s =
     (if mnt = 0 then fail NullDeref
      else
        let s1 = put_line k (''vfs_mount unixMount: '' @ m_str m (mnt + 0x80) (world s)) s;
            s2 = put_line k (''vfs_mount devMajor: '' @ hex8_str (m_word m (mnt + 0x4C) (world s1))) s1;
            s3 = put_line k (''vfs_mount devMinor: '' @ hex8_str (m_word m (mnt + 0x50) (world s2))) s2;
            add = m_word m (mnt + 0x5C) (world s3);
            s4 = (if add \<noteq> 0
                  then put_line k (''vfs_mount add_data name: '' @ m_str m (m_word m (add + 4) (world s3)) (world s3)) s3
                  else s3);
            blockDev = m_word m (mnt + 0x7C) (world s4)
        in ret (0,
             if blockDev \<noteq> 0
             then
               let s5 = put_line k (''vfs_mount blockDev vitaMount: '' @ m_str m (m_word m blockDev (world s4)) (world s4)) s4;
                   s6 = put_line k (''vfs_mount blockDev filesystem: ''
                          @ m_str m (m_word m (blockDev + 4) (world s5)) (world s5)) s5
               in put_line k (''vfs_mount blockDev blockDevicePrimary: ''
                    @ m_str m (m_word m (blockDev + 8) (world s6)) (world s6)) s6
             else s4))"

definition iofilemgr_BEBB84_hook ::
    "'w kapi \<Rightarrow> 'w hmem \<Rightarrow> (addr \<times> addr \<times> int \<times> addr, 'w, 'm) orig \<Rightarrow> (addr \<times> addr \<times> int \<times> addr, 'w, 'm) orig" where
  "iofilemgr_BEBB84_hook k m orig a s = (case a of (arg0, arg1, heapid, arg3) \<Rightarrow>
     run_bind (orig (arg0, arg1, heapid, arg3) s) (\<lambda>(res, s1).
     let s2 = put_line k ''======iofilemgr_BEBB84_hook==========='' (open_global_log k s1);
         s3 = (if arg3 \<noteq> 0 then put_line k (''add name: '' @ m_str m (m_word m (arg3 + 4) (world s2)) (world s2)) s2 else s2)
     in run_bind (if arg0 \<noteq> 0 then print_vfs_mount k m arg0 s3 else ret (0, s3)) (\<lambda>(_, s4).
        run_bind (field m arg1 0x70 s4) (\<lambda>unk_70.
        let s5 = fold (put_line k)
                   [''unk_70: '' @ hex8_str unk_70, ''res: '' @ hex8_str (word_of_int res), double_bar] s4
        in ret (res, record_error 0x8001008F (Iofilemgr 0xBEBB84) res (close_global_log k s5))))))"

definition iofilemgr_BEC7C0_hook :: "'w kapi \<Rightarrow> 'w hmem \<Rightarrow> (addr, 'w, 'm) orig \<Rightarrow> (addr, 'w, 'm) orig" where
  "iofilemgr_BEC7C0_hook k m orig filesystem s =
     run_bind (orig filesystem s) (\<lambda>(res, s1).
     let s2 = put_line k ''======iofilemgr_BEC7C0_hook==========='' (open_global_log k s1);
         s3 = put_line k (''filesystem: '' @ m_str m filesystem (world s2)) s2;
         s4 = (if res \<noteq> 0
               then put_line k (''add name: '' @ m_str m (m_word m (word_of_int res + 4) (world s3)) (world s3)) s3
               else s3);
         s5 = fold (put_line k) [''res: '' @ hex8_str (word_of_int res), double_bar] s4
     in ret (res, record_error 0x8001008F (Iofilemgr 0xBEC7C0) res (close_global_log k s5)))"

text \<open>Where one of the kept tables lies, in a nested opening of the log.\<close>

definition ops_line :: "'w kapi \<Rightarrow> string \<Rightarrow> addr \<Rightarrow> ('w, 'm) misc_scheme \<Rightarrow> ('w, 'm) misc_scheme" where
  "ops_line k name ops s =
     (if ops \<noteq> 0
      then
        let segidx = find_in_segments (kernel_segments s) ops; x = segList (kernel_segments s) ! nat segidx
        in if segidx \<ge> 0
           then glog_line k (name @ '': '' @ hex8_str ops @ '' '' @ c_string (moduleName x) @ '' '' @ dec_str (seg x)
                  @ '' '' @ hex8_str (range_start x) @ '' '' @ hex8_str (ops - range_start x)) s
           else s
      else s)"

definition app_mgr_75c96d25_hook ::
    "'w kapi \<Rightarrow> 'w hmem \<Rightarrow> (addr \<times> addr, 'w, 'm) orig \<Rightarrow> (addr \<times> addr, 'w, 'm) orig" where
  "app_mgr_75c96d25_hook k m orig a s = (case a of (file, stat) \<Rightarrow>
     run_bind (orig (file, stat) s) (\<lambda>(res, s1).
     ret (res,
       if in_app_mgr s1
       then
         let s2 = put_line k double_bar (open_global_log k s1);
             s3 = put_line k (''called ksceIoGetstat:'' @ newline @ ''file: '' @ m_str m file (world s2)
                    @ '' res: '' @ hex8_str (word_of_int res)) s2;
             s4 = put_line k (error_line ''iofilemgr_BE8444_hook'' (Iofilemgr 0xBE8444) s3) s3;
             s5 = put_line k (error_line ''g_iofilemgr_BE6788_hook'' (Iofilemgr 0xBE6788) s4) s4;
             s6 = put_line k (error_line ''iofilemgr_BE5CC4_hook'' (Iofilemgr 0xBE5CC4) s5) s5;
             s7 = ops_line k ''ops1'' (BE5CC4_ops1 s6) s6;
             s8 = ops_line k ''ops2'' (BE5CC4_ops2 s7) s7;
             s9 = put_line k (error_line ''iofilemgr_a5a6a55c_hook'' (Iofilemgr 0xa5a6a55c) s8) s8;
             s10 = put_line k (error_line ''pfs_mgr_21910F4_hook'' (Pfs_mgr 0x21910F4) s9) s9;
             s11 = put_line k (error_line ''pfs_mgr_2193B44_hook'' (Pfs_mgr 0x2193B44) s10) s10
         in close_global_log k (put_line k double_bar s11)
       else s1)))"

text \<open>Lines on the recorded errors, which do not change while they are written.\<close>

definition error_lines :: "'w kapi \<Rightarrow> (string \<times> hook_var) list \<Rightarrow> ('w, 'm) misc_scheme \<Rightarrow> ('w, 'm) misc_scheme" where
  "error_lines k es s = fold (\<lambda>(name, v) t. put_line k (error_line name v t) t) es s"

definition app_mgr_75192972_hook ::
    "'w kapi \<Rightarrow> 'w hmem \<Rightarrow> (addr \<times> int \<times> int, 'w, 'm) orig \<Rightarrow> (addr \<times> int \<times> int, 'w, 'm) orig" where
  "app_mgr_75192972_hook k m orig a s = (case a of (name, flags, mode) \<Rightarrow>
     run_bind (orig (name, flags, mode) s) (\<lambda>(res, s1).
     ret (res,
       if in_app_mgr s1
       then
         let s2 = put_line k double_bar (open_global_log k s1);
             s3 = put_line k (''called ksceIoOpen:'' @ newline @ ''name: '' @ m_str m name (world s2)
                    @ '' res: '' @ hex8_str (word_of_int res)) s2;
             s4 = error_lines k [(''iofilemgr_BEA704_hook'', Iofilemgr 0xBEA704),
                    (''pfs_mgr_219112C_hook'', Pfs_mgr 0x219112C),
                    (''pfs_mgr_2192190_hook'', Pfs_mgr 0x2192190)] s3
         in close_global_log k (put_line k double_bar s4)
       else s1)))"

text \<open>The first bytes that were read are shown, and the record of the control function is cleared.\<close>

definition data_text :: "byte \<Rightarrow> string" where
  "data_text b = (let h = hex_str (uint b) in replicate (2 - length h) (CHR ''0'') @ h @ '' '')"

definition app_mgr_e17efc03_hook ::
    "'w kapi \<Rightarrow> 'w hmem \<Rightarrow> (int \<times> addr \<times> int, 'w, 'm) orig \<Rightarrow> (int \<times> addr \<times> int, 'w, 'm) orig" where
  "app_mgr_e17efc03_hook k m orig a s = (case a of (fd, data, len) \<Rightarrow>
     run_bind (orig (fd, data, len) s) (\<lambda>(res, s1).
     if in_app_mgr s1
     then
       let hex = (\<lambda>x. hex8_str (word_of_int x));
           cnt = (\<lambda>v t. hex (hook_err_cnt t v)); err = (\<lambda>v t. hex (hook_err t v));
           s2 = put_line k double_bar (open_global_log k s1);
           s3 = put_line k (''called sceIoReadForDriver:'' @ newline @ ''fd: '' @ hex fd @ '' size: '' @ hex len
                  @ '' res: '' @ hex res) s2;
           s4 = error_lines k [(''iofilemgr_BE7AEC_hook (read)'', Iofilemgr 0xBE7AEC),
                  (''iofilemgr_BF57F8_hook (callback)'', Iofilemgr 0xBF57F8),
                  (''iofilemgr_BF66E4_hook'', Iofilemgr 0xBF66E4)] s3;
           s5 = put_line k (''iofilemgr_BF66E4_hook_result error: '' @ hex (BF66E4_result_error s4)
                  @ '' cnt: '' @ hex (BF66E4_result_error_cnt s4)) s4;
           s6 = error_lines k [(''iofilemgr_BF6B6C_hook'', Iofilemgr 0xBF6B6C),
                  (''iofilemgr_BF651C_hook (ioctl)'', Iofilemgr 0xBF651C)] s5;
           s7 = put_line k (''iofilemgr_BF651C_hook_ioctl_result error: '' @ hex (BF651C_ioctl_result s6)
                  @ '' cnt: '' @ hex (BF651C_ioctl_result_cnt s6)) s6;
           s8 = error_lines k [(''iofilemgr_BF89EC_hook'', Iofilemgr 0xBF89EC),
                  (''iofilemgr_BF8BD4_hook'', Iofilemgr 0xBF8BD4)] s7;
           s9 = put_line k (error_line ''iofilemgr_BF7C00_hook'' (Iofilemgr 0xBF7C00) s8
                  @ '' ret: '' @ hex (hook_ret s8 (Iofilemgr 0xBF7C00))) s8;
           s10 = put_line k (error_line ''iofilemgr_BFB794_hook'' (Iofilemgr 0xBFB794) s9
                  @ '' ret: '' @ hex (hook_ret s9 (Iofilemgr 0xBFB794))) s9;
           s11 = put_line k (error_line ''iofilemgr_BFB628_hook'' (Iofilemgr 0xBFB628) s10
                  @ '' err2: '' @ hex (BFB628_err_r2 s10)) s10;
           s12 = error_lines k [(''iofilemgr_BE7F4C_hook'', Iofilemgr 0xBE7F4C),
                  (''iofilemgr_BFB2A8_hook'', Iofilemgr 0xBFB2A8),
                  (''pfs_facade_4238d2d2_hook'', Pfs_facade 0x4238d2d2),
                  (''iofilemgr_0b54f9e0_hook'', Iofilemgr 0x0b54f9e0),
                  (''pfs_facade_219C9E8_hook'', Pfs_facade 0x219C9E8)] s11;
           s13 = put_line k (''pfs_facade_219BEA0_hook error: '' @ err (Pfs_facade 0x219BEA0) s12
                  @ '' error_C: '' @ hex (BEA0_prob_err s12) @ '' cnt: '' @ cnt (Pfs_facade 0x219BEA0) s12) s12;
           s14 = put_line k double_bar s13;
           n = nat (min 0x10 (wrap32 len))
       in if n \<noteq> 0 \<and> data = 0 then fail NullDeref
          else
            let s15 = fold (\<lambda>i t. FILE_GLOBAL_WRITE_LEN k (data_text (m_bytes m (data + of_nat i) 1 (world t) ! 0)) t) [0..<n] s14;
                s16 = close_global_log k (fold (put_line k) [[], double_bar] s15)
            in ret (res, s16\<lparr>hook_err := (hook_err s16)(Iofilemgr 0xBF651C := 0),
                             hook_err_cnt := (hook_err_cnt s16)(Iofilemgr 0xBF651C := 0),
                             BF651C_ioctl_result := 0, BF651C_ioctl_result_cnt := 0\<rparr>)
     else ret (res, s1)))"

text \<open>Mounts of the file system of the game card's parameter files. \<open>strncmp\<close> compares the
  terminating zero too.\<close>

definition is_gdsd_mount :: "'w hmem \<Rightarrow> addr \<Rightarrow> ('w, 'm) misc_scheme \<Rightarrow> bool" where
  "is_gdsd_mount m mountInfo s \<longleftrightarrow>
     mountInfo \<noteq> 0 \<and> m_word m (mountInfo + 0x10) (world s) \<noteq> 0
     \<and> m_str m (m_word m (mountInfo + 0x10) (world s)) (world s) = ''PFS_GDSD_INF''"

definition mount_report_hooks :: "(string \<times> hook_var) list" where
  "mount_report_hooks =
     [(''g_iofilemgr_BE62E8_hook'', Iofilemgr 0xBE62E8), (''g_iofilemgr_BE6788_hook'', Iofilemgr 0xBE6788),
      (''g_iofilemgr_BE5F10_hook'', Iofilemgr 0xBE5F10), (''g_iofilemgr_BEE3C8_hook'', Iofilemgr 0xBEE3C8),
      (''g_iofilemgr_BEBAC0_hook'', Iofilemgr 0xBEBAC0),
      (''g_iofilemgr_sceVfsGetNewNode_hook'', Iofilemgr_sceVfsGetNewNode),
      (''g_iofilemgr_BE61C4_hook'', Iofilemgr 0xBE61C4), (''g_iofilemgr_BEDEB0_hook'', Iofilemgr 0xBEDEB0),
      (''g_iofilemgr_BE59BC_hook'', Iofilemgr 0xBE59BC), (''g_iofilemgr_BE5B30_hook'', Iofilemgr 0xBE5B30),
      (''g_iofilemgr_BF18CC_hook'', Iofilemgr 0xBF18CC), (''g_iofilemgr_BF1AF0_hook'', Iofilemgr 0xBF1AF0),
      (''g_pfs_mgr_219105C_hook'', Pfs_mgr 0x219105C), (''g_pfs_mgr_2193624_hook'', Pfs_mgr 0x2193624),
      (''g_pfs_mgr_2198928_hook'', Pfs_mgr 0x2198928), (''g_pfs_mgr_2199064_hook'', Pfs_mgr 0x2199064),
      (''g_pfs_mgr_219DE44_hook'', Pfs_mgr 0x219DE44), (''g_pfs_mgr_219DE7C_hook'', Pfs_mgr 0x219DE7C),
      (''g_pfs_mgr_2199144_hook'', Pfs_mgr 0x2199144)]"

text \<open>The report of a mount. The tests \<open>mountInfo >= 0\<close> and \<open>blockDev1 >= 0\<close> hold of every pointer.\<close>

definition mount_info_lines ::
    "'w kapi \<Rightarrow> 'w hmem \<Rightarrow> addr \<Rightarrow> ('w, 'm) misc_scheme \<Rightarrow> ('w, 'm) misc_scheme run" where
  "mount_info_lines k m mountInfo s =
     (if mountInfo = 0 then fail NullDeref
      else
        let s1 = put_line k (''unixMount: '' @ m_str m (m_word m mountInfo (world s)) (world s)
                   @ '' filesystem: '' @ m_str m (m_word m (mountInfo + 0x10) (world s)) (world s)) s
        in ret (put_line k (''devMajor: '' @ hex8_str (m_word m (mountInfo + 8) (world s1))
             @ '' devMinor: '' @ hex8_str (m_word m (mountInfo + 0xC) (world s1))) s1))"

definition block_dev_lines ::
    "'w kapi \<Rightarrow> 'w hmem \<Rightarrow> addr \<Rightarrow> ('w, 'm) misc_scheme \<Rightarrow> ('w, 'm) misc_scheme run" where
  "block_dev_lines k m mountInfo s =
     run_bind (field m mountInfo 0x18 s) (\<lambda>blockDev1.
     if blockDev1 = 0 then fail NullDeref
     else
       let s1 = put_line k (''vitaMount: '' @ m_str m (m_word m blockDev1 (world s)) (world s)
                  @ '' filesystem: '' @ m_str m (m_word m (blockDev1 + 4) (world s)) (world s)) s
       in ret (put_line k (''blockDevicePrimary: '' @ m_str m (m_word m (blockDev1 + 8) (world s1)) (world s1)
            @ '' vshMountId: '' @ hex8_str (m_word m (blockDev1 + 0x10) (world s1))) s1))"

definition mount_report ::
    "'w kapi \<Rightarrow> 'w hmem \<Rightarrow> addr \<Rightarrow> int \<Rightarrow> ('w, 'm) misc_scheme \<Rightarrow> ('w, 'm) misc_scheme run" where
  "mount_report k m mountInfo res s =
     (let s1 = put_line k double_bar (open_global_log k s);
          s2 = put_line k (''called iofilemgr_sceVfsMount_hook:'' @ newline @ ''res: '' @ hex8_str (word_of_int res)) s1
      in run_bind (mount_info_lines k m mountInfo s2) (\<lambda>s3.
         run_bind (block_dev_lines k m mountInfo s3) (\<lambda>s4.
         ret (close_global_log k (put_line k double_bar (error_lines k mount_report_hooks s4))))))"

definition iofilemgr_sceVfsMount_hook :: "'w kapi \<Rightarrow> 'w hmem \<Rightarrow> (addr, 'w, 'm) orig \<Rightarrow> (addr, 'w, 'm) orig" where
  "iofilemgr_sceVfsMount_hook k m orig mountInfo s =
     (let s1 = (if is_gdsd_mount m mountInfo s then s\<lparr>g_iofilemgr_sceVfsMount_enable_log := 1\<rparr> else s)
      in run_bind (orig mountInfo s1) (\<lambda>(res, s2).
         run_bind (if g_pfs_mount_enable_log s2 > 0 \<and> g_iofilemgr_sceVfsMount_enable_log s2 > 0
                   then mount_report k m mountInfo res s2 else ret s2) (\<lambda>s3.
         ret (res, if is_gdsd_mount m mountInfo s3 then s3\<lparr>g_iofilemgr_sceVfsMount_enable_log := 0\<rparr> else s3))))"


end
