(* ===== verification/Hooks_Errors_Props.thy ===== *)
theory Hooks_Errors_Props
  imports Hooks_Errors
begin

text \<open>
  What the hooks of \<open>Hooks_Errors\<close> keep. All that only record are one function of whether they are
  gated, of an error code and of their variables (\<open>recording\<close>); the special code turns out to make no
  difference. Then the gate itself, the ring of mounts and the captured node name.
\<close>

section \<open>What a recorder is\<close>

definition recording :: "bool \<Rightarrow> int \<Rightarrow> hook_var \<Rightarrow> ('a, 'w, 'm) orig \<Rightarrow> ('a, 'w, 'm) orig" where
  "recording gated code v orig a s =
     run_bind (orig a s) (\<lambda>(res, s1).
     ret (res, if gated \<longrightarrow> in_app_mgr s1 then record_error code v res s1 else s1))"

text \<open>The hooks that only record: whether gated, with which code, in which variables.\<close>

definition recorders :: "(bool \<times> int \<times> hook_var \<times> (('a, 'w, 'm) orig \<Rightarrow> ('a, 'w, 'm) orig)) list" where
  "recorders =
     [
      (False, 0x8001008F, Iofilemgr 0xBE62E8, iofilemgr_BE62E8_hook),
      (False, 0x8001008F, Iofilemgr 0xBE5F10, iofilemgr_BE5F10_hook),
      (False, 0x8001008F, Iofilemgr 0xBE6788, iofilemgr_BE6788_hook),
      (False, 0x8001008F, Iofilemgr 0xBEE3C8, iofilemgr_BEE3C8_hook),
      (False, 0x8001008F, Iofilemgr 0xBEBAC0, iofilemgr_BEBAC0_hook),
      (False, 0x8001008F, Iofilemgr 0xBE61C4, iofilemgr_BE61C4_hook),
      (False, 0x8001008F, Iofilemgr 0xBEDEB0, iofilemgr_BEDEB0_hook),
      (False, 0x8001008F, Iofilemgr 0xBE59BC, iofilemgr_BE59BC_hook),
      (False, 0x8001008F, Iofilemgr 0xBE5B30, iofilemgr_BE5B30_hook),
      (False, 0x8001008F, Iofilemgr 0xBF18CC, iofilemgr_BF18CC_hook),
      (False, 0x8001008F, Iofilemgr 0xBF1AF0, iofilemgr_BF1AF0_hook),
      (False, 0x8001008F, Iofilemgr 0xBEE364, iofilemgr_BEE364_hook),
      (False, 0x8001008F, Iofilemgr 0xBEE2D4, iofilemgr_BEE2D4_hook),
      (False, 0x8001008F, Iofilemgr 0xBEE2C4, iofilemgr_BEE2C4_hook),
      (False, 0x8001008F, Iofilemgr 0xBEDF5C, iofilemgr_BEDF5C_hook),
      (False, 0x8001008F, Iofilemgr 0xBECE80, iofilemgr_BECE80_hook),
      (False, 0x8001008F, Iofilemgr 0xBEC808, iofilemgr_BEC808_hook),
      (False, 0x8001008F, Iofilemgr 0xBEC620, iofilemgr_BEC620_hook),
      (False, 0x8001008F, Iofilemgr 0xBEC578, iofilemgr_BEC578_hook),
      (False, 0x8001008F, Iofilemgr 0xBEC56C, iofilemgr_BEC56C_hook),
      (False, 0x8001008F, Iofilemgr 0xBEC530, iofilemgr_BEC530_hook),
      (False, 0x8001008F, Iofilemgr 0xBEC010, iofilemgr_BEC010_hook),
      (False, 0x8001008F, Iofilemgr 0xBE5A38, iofilemgr_BE5A38_hook),
      (False, 0x8001008F, Iofilemgr 0xBE5814, iofilemgr_BE5814_hook),
      (False, 0x8001008F, Iofilemgr 0xBECE0C, iofilemgr_BECE0C_hook),
      (False, 0x8001008F, Iofilemgr_exp 0xaa45010b, iofilemgr_exp_aa45010b_hook),
      (False, 0x8001008F, Iofilemgr_exp 0x21d57633, iofilemgr_exp_21d57633_hook),
      (False, 0x8001008F, Iofilemgr_exp 0xdc2d8bce, iofilemgr_exp_dc2d8bce_hook),
      (False, 0x8001008F, Iofilemgr_exp 0x6b3ca9f7, iofilemgr_exp_6b3ca9f7_hook),
      (False, 0x8001008F, Pfs_mgr 0x219105C, pfs_mgr_219105C_hook),
      (False, 0x8001008F, Pfs_mgr 0x2193624, pfs_mgr_2193624_hook),
      (False, 0x8001008F, Pfs_mgr 0x2198928, pfs_mgr_2198928_hook),
      (False, 0x8001008F, Pfs_mgr 0x2199064, pfs_mgr_2199064_hook),
      (False, 0x8001008F, Pfs_mgr 0x219DE44, pfs_mgr_219DE44_hook),
      (True, 0x8001008F, Iofilemgr 0xBE8444, iofilemgr_BE8444_hook),
      (True, 0x8001008F, Iofilemgr 0x50a63acf, iofilemgr_50a63acf_hook),
      (True, 0x8001008F, Iofilemgr 0xBE584C, iofilemgr_BE584C_hook),
      (True, 0x8001008F, Iofilemgr 0xf7dac0f5, iofilemgr_f7dac0f5_hook),
      (True, 0x8001008F, Iofilemgr 0xa5a6a55c, iofilemgr_a5a6a55c_hook),
      (True, 0x8001008F, Pfs_mgr 0x21910F4, pfs_mgr_21910F4_hook),
      (True, 0x8001008F, Pfs_mgr 0x2193B44, pfs_mgr_2193B44_hook),
      (True, 0x8001008F, Iofilemgr 0xBEA704, iofilemgr_BEA704_hook),
      (True, 0x8001008F, Iofilemgr 0x9e347c7d, iofilemgr_9e347c7d_hook),
      (True, 0x8001008F, Iofilemgr 0x76b79bec, iofilemgr_76b79bec_hook),
      (True, 0x8001008F, Pfs_mgr 0x219112C, pfs_mgr_219112C_hook),
      (True, 0x8001008F, Pfs_mgr 0x2192190, pfs_mgr_2192190_hook),
      (True, 0x8001008F, Pfs_mgr 0x219BF20, pfs_mgr_219BF20_hook),
      (True, 0x8001008F, Iofilemgr 0xBE7AEC, iofilemgr_BE7AEC_hook),
      (True, 0x8001008F, Iofilemgr 0xBF57F8, iofilemgr_BF57F8_hook),
      (True, 0x8001008F, Iofilemgr 0xBF6B6C, iofilemgr_BF6B6C_hook),
      (True, 0x8001008F, Iofilemgr 0xBF69B4, iofilemgr_BF69B4_hook),
      (True, 0x80140F02, Iofilemgr 0xBE7F4C, iofilemgr_BE7F4C_hook),
      (True, 0x80140F02, Iofilemgr 0xBFB2A8, iofilemgr_BFB2A8_hook),
      (True, 0x80140F02, Pfs_facade 0x4238d2d2, pfs_facade_4238d2d2_hook),
      (True, 0x80140F02, Iofilemgr 0x0b54f9e0, iofilemgr_0b54f9e0_hook),
      (True, 0x80140F02, Pfs_facade 0x219C9E8, pfs_facade_219C9E8_hook),
      (True, 0x80140F02, Pfs_facade 0x21A179C, pfs_facade_21A179C_hook),
      (True, 0x80140F02, Pfs_facade 0x21A19A8, pfs_facade_21A19A8_hook),
      (True, 0x80140F02, Pfs_facade 0x219BB70, pfs_facade_219BB70_hook),
      (True, 0x80140F02, Pfs_facade 0x219BDD4, pfs_facade_219BDD4_hook),
      (True, 0x80140F02, Pfs_facade 0x219BD88, pfs_facade_219BD88_hook),
      (True, 0x80140F02, Pfs_facade 0xc1dd4317, pfs_facade_c1dd4317_hook),
      (True, 0x80140F02, Pfs_facade 0x15c17487, pfs_facade_15c17487_hook)]"

lemmas recorder_defs =
  iofilemgr_BE62E8_hook_def iofilemgr_BE5F10_hook_def iofilemgr_BE6788_hook_def iofilemgr_BEE3C8_hook_def
  iofilemgr_BEBAC0_hook_def iofilemgr_BE61C4_hook_def iofilemgr_BEDEB0_hook_def iofilemgr_BE59BC_hook_def
  iofilemgr_BE5B30_hook_def iofilemgr_BF18CC_hook_def iofilemgr_BF1AF0_hook_def iofilemgr_BEE364_hook_def
  iofilemgr_BEE2D4_hook_def iofilemgr_BEE2C4_hook_def iofilemgr_BEDF5C_hook_def iofilemgr_BECE80_hook_def
  iofilemgr_BEC808_hook_def iofilemgr_BEC620_hook_def iofilemgr_BEC578_hook_def iofilemgr_BEC56C_hook_def
  iofilemgr_BEC530_hook_def iofilemgr_BEC010_hook_def iofilemgr_BE5A38_hook_def iofilemgr_BE5814_hook_def
  iofilemgr_BECE0C_hook_def iofilemgr_exp_aa45010b_hook_def iofilemgr_exp_21d57633_hook_def
  iofilemgr_exp_dc2d8bce_hook_def iofilemgr_exp_6b3ca9f7_hook_def pfs_mgr_219105C_hook_def
  pfs_mgr_2193624_hook_def pfs_mgr_2198928_hook_def pfs_mgr_2199064_hook_def pfs_mgr_219DE44_hook_def
  iofilemgr_BE8444_hook_def iofilemgr_50a63acf_hook_def iofilemgr_BE584C_hook_def iofilemgr_f7dac0f5_hook_def
  iofilemgr_a5a6a55c_hook_def pfs_mgr_21910F4_hook_def pfs_mgr_2193B44_hook_def iofilemgr_BEA704_hook_def
  iofilemgr_9e347c7d_hook_def iofilemgr_76b79bec_hook_def pfs_mgr_219112C_hook_def pfs_mgr_2192190_hook_def
  pfs_mgr_219BF20_hook_def iofilemgr_BE7AEC_hook_def iofilemgr_BF57F8_hook_def iofilemgr_BF6B6C_hook_def
  iofilemgr_BF69B4_hook_def iofilemgr_BE7F4C_hook_def iofilemgr_BFB2A8_hook_def pfs_facade_4238d2d2_hook_def
  iofilemgr_0b54f9e0_hook_def pfs_facade_219C9E8_hook_def pfs_facade_21A179C_hook_def
  pfs_facade_21A19A8_hook_def pfs_facade_219BB70_hook_def pfs_facade_219BDD4_hook_def
  pfs_facade_219BD88_hook_def pfs_facade_c1dd4317_hook_def pfs_facade_15c17487_hook_def

lemma recorder_recordings:
  "iofilemgr_BE62E8_hook = recording False 0x8001008F (Iofilemgr 0xBE62E8)"
  "iofilemgr_BE5F10_hook = recording False 0x8001008F (Iofilemgr 0xBE5F10)"
  "iofilemgr_BE6788_hook = recording False 0x8001008F (Iofilemgr 0xBE6788)"
  "iofilemgr_BEE3C8_hook = recording False 0x8001008F (Iofilemgr 0xBEE3C8)"
  "iofilemgr_BEBAC0_hook = recording False 0x8001008F (Iofilemgr 0xBEBAC0)"
  "iofilemgr_BE61C4_hook = recording False 0x8001008F (Iofilemgr 0xBE61C4)"
  "iofilemgr_BEDEB0_hook = recording False 0x8001008F (Iofilemgr 0xBEDEB0)"
  "iofilemgr_BE59BC_hook = recording False 0x8001008F (Iofilemgr 0xBE59BC)"
  "iofilemgr_BE5B30_hook = recording False 0x8001008F (Iofilemgr 0xBE5B30)"
  "iofilemgr_BF18CC_hook = recording False 0x8001008F (Iofilemgr 0xBF18CC)"
  "iofilemgr_BF1AF0_hook = recording False 0x8001008F (Iofilemgr 0xBF1AF0)"
  "iofilemgr_BEE364_hook = recording False 0x8001008F (Iofilemgr 0xBEE364)"
  "iofilemgr_BEE2D4_hook = recording False 0x8001008F (Iofilemgr 0xBEE2D4)"
  "iofilemgr_BEE2C4_hook = recording False 0x8001008F (Iofilemgr 0xBEE2C4)"
  "iofilemgr_BEDF5C_hook = recording False 0x8001008F (Iofilemgr 0xBEDF5C)"
  "iofilemgr_BECE80_hook = recording False 0x8001008F (Iofilemgr 0xBECE80)"
  "iofilemgr_BEC808_hook = recording False 0x8001008F (Iofilemgr 0xBEC808)"
  "iofilemgr_BEC620_hook = recording False 0x8001008F (Iofilemgr 0xBEC620)"
  "iofilemgr_BEC578_hook = recording False 0x8001008F (Iofilemgr 0xBEC578)"
  "iofilemgr_BEC56C_hook = recording False 0x8001008F (Iofilemgr 0xBEC56C)"
  "iofilemgr_BEC530_hook = recording False 0x8001008F (Iofilemgr 0xBEC530)"
  "iofilemgr_BEC010_hook = recording False 0x8001008F (Iofilemgr 0xBEC010)"
  "iofilemgr_BE5A38_hook = recording False 0x8001008F (Iofilemgr 0xBE5A38)"
  "iofilemgr_BE5814_hook = recording False 0x8001008F (Iofilemgr 0xBE5814)"
  "iofilemgr_BECE0C_hook = recording False 0x8001008F (Iofilemgr 0xBECE0C)"
  "iofilemgr_exp_aa45010b_hook = recording False 0x8001008F (Iofilemgr_exp 0xaa45010b)"
  "iofilemgr_exp_21d57633_hook = recording False 0x8001008F (Iofilemgr_exp 0x21d57633)"
  "iofilemgr_exp_dc2d8bce_hook = recording False 0x8001008F (Iofilemgr_exp 0xdc2d8bce)"
  "iofilemgr_exp_6b3ca9f7_hook = recording False 0x8001008F (Iofilemgr_exp 0x6b3ca9f7)"
  "pfs_mgr_219105C_hook = recording False 0x8001008F (Pfs_mgr 0x219105C)"
  "pfs_mgr_2193624_hook = recording False 0x8001008F (Pfs_mgr 0x2193624)"
  "pfs_mgr_2198928_hook = recording False 0x8001008F (Pfs_mgr 0x2198928)"
  "pfs_mgr_2199064_hook = recording False 0x8001008F (Pfs_mgr 0x2199064)"
  "pfs_mgr_219DE44_hook = recording False 0x8001008F (Pfs_mgr 0x219DE44)"
  "iofilemgr_BE8444_hook = recording True 0x8001008F (Iofilemgr 0xBE8444)"
  "iofilemgr_50a63acf_hook = recording True 0x8001008F (Iofilemgr 0x50a63acf)"
  "iofilemgr_BE584C_hook = recording True 0x8001008F (Iofilemgr 0xBE584C)"
  "iofilemgr_f7dac0f5_hook = recording True 0x8001008F (Iofilemgr 0xf7dac0f5)"
  "iofilemgr_a5a6a55c_hook = recording True 0x8001008F (Iofilemgr 0xa5a6a55c)"
  "pfs_mgr_21910F4_hook = recording True 0x8001008F (Pfs_mgr 0x21910F4)"
  "pfs_mgr_2193B44_hook = recording True 0x8001008F (Pfs_mgr 0x2193B44)"
  "iofilemgr_BEA704_hook = recording True 0x8001008F (Iofilemgr 0xBEA704)"
  "iofilemgr_9e347c7d_hook = recording True 0x8001008F (Iofilemgr 0x9e347c7d)"
  "iofilemgr_76b79bec_hook = recording True 0x8001008F (Iofilemgr 0x76b79bec)"
  "pfs_mgr_219112C_hook = recording True 0x8001008F (Pfs_mgr 0x219112C)"
  "pfs_mgr_2192190_hook = recording True 0x8001008F (Pfs_mgr 0x2192190)"
  "pfs_mgr_219BF20_hook = recording True 0x8001008F (Pfs_mgr 0x219BF20)"
  "iofilemgr_BE7AEC_hook = recording True 0x8001008F (Iofilemgr 0xBE7AEC)"
  "iofilemgr_BF57F8_hook = recording True 0x8001008F (Iofilemgr 0xBF57F8)"
  "iofilemgr_BF6B6C_hook = recording True 0x8001008F (Iofilemgr 0xBF6B6C)"
  "iofilemgr_BF69B4_hook = recording True 0x8001008F (Iofilemgr 0xBF69B4)"
  "iofilemgr_BE7F4C_hook = recording True 0x80140F02 (Iofilemgr 0xBE7F4C)"
  "iofilemgr_BFB2A8_hook = recording True 0x80140F02 (Iofilemgr 0xBFB2A8)"
  "pfs_facade_4238d2d2_hook = recording True 0x80140F02 (Pfs_facade 0x4238d2d2)"
  "iofilemgr_0b54f9e0_hook = recording True 0x80140F02 (Iofilemgr 0x0b54f9e0)"
  "pfs_facade_219C9E8_hook = recording True 0x80140F02 (Pfs_facade 0x219C9E8)"
  "pfs_facade_21A179C_hook = recording True 0x80140F02 (Pfs_facade 0x21A179C)"
  "pfs_facade_21A19A8_hook = recording True 0x80140F02 (Pfs_facade 0x21A19A8)"
  "pfs_facade_219BB70_hook = recording True 0x80140F02 (Pfs_facade 0x219BB70)"
  "pfs_facade_219BDD4_hook = recording True 0x80140F02 (Pfs_facade 0x219BDD4)"
  "pfs_facade_219BD88_hook = recording True 0x80140F02 (Pfs_facade 0x219BD88)"
  "pfs_facade_c1dd4317_hook = recording True 0x80140F02 (Pfs_facade 0xc1dd4317)"
  "pfs_facade_15c17487_hook = recording True 0x80140F02 (Pfs_facade 0x15c17487)"
  by (simp_all add: fun_eq_iff recording_def recorder_defs)

lemma code_negative [simp]: "wrap32 0x8001008F < 0" "wrap32 0x80140F02 < 0"
  by (simp_all add: wrap32_def)

lemma recorder_is_recording: "(g, c, v, h) \<in> set recorders \<Longrightarrow> h = recording g c v \<and> wrap32 c < 0"
  by (auto simp: recorders_def recorder_recordings)

text \<open>Both codes are negative, so that the test for them never matters.\<close>

lemma record_error_eq:
  assumes "wrap32 c < 0"
  shows "hook_err (record_error c v r s) = (if r < 0 then (hook_err s)(v := r) else hook_err s)"
    "hook_err_cnt (record_error c v r s) = (hook_err_cnt s)(v := wrap32 (hook_err_cnt s v + 1))"
    "log_iofilemgr_in_app_mgr (record_error c v r s) = log_iofilemgr_in_app_mgr s"
  using assms by (auto simp: record_error_def note_error_def)

text \<open>The results of a sequence of calls, and the last error among them.\<close>

fun replies :: "('a, 'w, 'm) orig \<Rightarrow> 'a list \<Rightarrow> ('w, 'm) misc_scheme \<Rightarrow> (int list \<times> ('w, 'm) misc_scheme) run" where
  "replies h [] s = ret ([], s)"
| "replies h (a # as) s = run_bind (h a s) (\<lambda>(r, s1). run_bind (replies h as s1) (\<lambda>(rs, s2). ret (r # rs, s2)))"

definition last_error :: "int \<Rightarrow> int list \<Rightarrow> int" where
  "last_error e rs = last (e # filter (\<lambda>r. r < 0) rs)"

lemma last_error_simps [simp]:
  "last_error e [] = e" "last_error e (r # rs) = last_error (if r < 0 then r else e) rs"
  by (simp_all add: last_error_def)

text \<open>An original that leaves the variables of the hook and the gate alone.\<close>

definition keeps_record :: "hook_var \<Rightarrow> ('a, 'w, 'm) orig \<Rightarrow> bool" where
  "keeps_record v orig \<longleftrightarrow> (\<forall>a s r s'. orig a s = ret (r, s') \<longrightarrow>
     hook_err s' v = hook_err s v \<and> hook_err_cnt s' v = hook_err_cnt s v
     \<and> log_iofilemgr_in_app_mgr s' = log_iofilemgr_in_app_mgr s)"

lemma recording_step:
  assumes "wrap32 c < 0" and "keeps_record v orig" and "recording g c v orig a s = ret (r, s')"
  shows "log_iofilemgr_in_app_mgr s' = log_iofilemgr_in_app_mgr s"
    "hook_err s' v = (if (g \<longrightarrow> in_app_mgr s) \<and> r < 0 then r else hook_err s v)"
    "hook_err_cnt s' v = (if g \<longrightarrow> in_app_mgr s then wrap32 (hook_err_cnt s v + 1) else hook_err_cnt s v)"
proof -
  from assms(3) obtain s1 where o1: "orig a s = ret (r, s1)"
    and s': "s' = (if g \<longrightarrow> in_app_mgr s1 then record_error c v r s1 else s1)"
    by (auto simp: recording_def run_simps)
  from assms(2) o1 have "hook_err s1 v = hook_err s v" "hook_err_cnt s1 v = hook_err_cnt s v"
    "log_iofilemgr_in_app_mgr s1 = log_iofilemgr_in_app_mgr s" unfolding keeps_record_def by blast+
  then show "log_iofilemgr_in_app_mgr s' = log_iofilemgr_in_app_mgr s"
    "hook_err s' v = (if (g \<longrightarrow> in_app_mgr s) \<and> r < 0 then r else hook_err s v)"
    "hook_err_cnt s' v = (if g \<longrightarrow> in_app_mgr s then wrap32 (hook_err_cnt s v + 1) else hook_err_cnt s v)"
    using s' by (auto simp: record_error_eq [OF assms(1)] in_app_mgr_def)
qed

lemma wrap32_add: "wrap32 (wrap32 x + y) = wrap32 (x + y)"
  by (simp add: wrap32_eq_iff wrap32_def mod_simps algebra_simps)

lemma recording_calls:
  assumes c: "wrap32 c < 0" and keeps: "keeps_record v orig"
    and run: "replies (recording g c v orig) as s = ret (rs, s')"
    and i: "(g \<longrightarrow> in_app_mgr s) \<Longrightarrow> c_int (hook_err_cnt s v)"
  shows "hook_err s' v = (if g \<longrightarrow> in_app_mgr s then last_error (hook_err s v) rs else hook_err s v)
    \<and> hook_err_cnt s' v = (if g \<longrightarrow> in_app_mgr s then wrap32 (hook_err_cnt s v + int (length rs)) else hook_err_cnt s v)
    \<and> log_iofilemgr_in_app_mgr s' = log_iofilemgr_in_app_mgr s"
  using run i
proof (induction as arbitrary: s rs)
  case (Cons a as)
  from Cons.prems(1) obtain r s1 rs1 where h: "recording g c v orig a s = ret (r, s1)"
    and rest: "replies (recording g c v orig) as s1 = ret (rs1, s')" and rs: "rs = r # rs1"
    by (auto simp: run_simps)
  note st = recording_step [OF c keeps h]
  have i1: "c_int (hook_err_cnt s1 v)" if "g \<longrightarrow> in_app_mgr s1"
    using st(1,3) that wrap32_range by (simp add: in_app_mgr_def)
  from Cons.IH [OF rest i1] show ?case
    using st wrap32_add [of "hook_err_cnt s v + 1" "int (length rs1)"] by (auto simp: rs in_app_mgr_def add_ac)
qed (simp add: run_simps)

text \<open>C12: What the recording hooks keep of a sequence of calls. A hook that always records, or a gated one
  while the gate is open, has afterwards counted every call, up to the width of the counter, and
  holds the last negative result, if there was one, and what it held before otherwise; a gated one
  while the gate is closed has recorded nothing. Whether a result is the special code of the hook
  does not matter. The original is any function that leaves the hook's variables alone.\<close>

theorem errors_recorded:
  assumes "(gated, code, v, h) \<in> set recorders" and "keeps_record v orig"
    and "replies (h orig) as s = ret (rs, s')" and "c_int (hook_err_cnt s v)"
  shows "if gated \<longrightarrow> in_app_mgr s
    then hook_err s' v = last_error (hook_err s v) rs \<and> hook_err_cnt s' v = wrap32 (hook_err_cnt s v + int (length rs))
    else hook_err s' v = hook_err s v \<and> hook_err_cnt s' v = hook_err_cnt s v"
proof -
  from recorder_is_recording [OF assms(1)] have h: "h = recording gated code v" "wrap32 code < 0" by blast+
  from recording_calls [OF h(2) assms(2) _ assms(4), of gated as rs s'] assms(3)
  show ?thesis unfolding h(1) by simp
qed

lemma replies_echo:
  assumes "wrap32 c < 0"
  shows "\<exists>s'. replies (recording g c v (\<lambda>a s. ret (a, s))) as s = ret (as, s')"
  by (induction as arbitrary: s) (auto simp: recording_def run_simps)

theorem errors_recorded_witness:
  "\<exists>s'. replies (iofilemgr_BE62E8_hook (\<lambda>a s. ret (a, s))) [5, -3, -7, 0] (misc_boot ()) = ret ([5, -3, -7, 0], s')
    \<and> hook_err s' (Iofilemgr 0xBE62E8) = -7 \<and> hook_err_cnt s' (Iofilemgr 0xBE62E8) = 4"
proof -
  let ?v = "Iofilemgr 0xBE62E8" and ?s = "misc_boot ()"
  have row: "(False, 0x8001008F, ?v, iofilemgr_BE62E8_hook) \<in> set recorders" by (simp add: recorders_def)
  have keeps: "keeps_record ?v (\<lambda>a s. ret (a, s))" by (simp add: keeps_record_def run_simps)
  have z: "hook_err ?s ?v = 0" "hook_err_cnt ?s ?v = 0"
    by (simp_all add: misc_boot_def log_boot_def kbase.defs sd_hooks.defs misc_log.defs misc_err.defs misc.defs)
  obtain s' where run: "replies (iofilemgr_BE62E8_hook (\<lambda>a s. ret (a, s))) [5, -3, -7, 0] ?s = ret ([5, -3, -7, 0], s')"
    using replies_echo [of "0x8001008F" False ?v "[5, -3, -7, 0]" ?s] by (auto simp: recorder_recordings(1))
  from errors_recorded [OF row keeps run] z have
    "hook_err s' ?v = -7 \<and> hook_err_cnt s' ?v = 4" by (simp add: c_int_def)
  with run show ?thesis by blast
qed


section \<open>Errors kept in contexts\<close>

text \<open>What the hooks that look into the context of an operation do: \<open>ctx\<close> is the context among the
  arguments, \<open>first\<close> whether only the first setting counts.\<close>

definition keeps_context_error ::
    "bool \<Rightarrow> ('a \<Rightarrow> addr) \<Rightarrow> 'w hmem \<Rightarrow> (('a, 'w, 'm) orig \<Rightarrow> ('a, 'w, 'm) orig) \<Rightarrow> hook_var \<Rightarrow> bool" where
  "keeps_context_error first ctx m h v \<longleftrightarrow>
     (\<forall>orig a s. h orig a s = run_bind (orig a s) (\<lambda>(r, s1). ret (r,
        if in_app_mgr s1 \<and> ctx a \<noteq> 0 \<and> (first \<longrightarrow> in_app_mgr s \<and> op_result m (ctx a) s = 0)
        then s1\<lparr>hook_err_cnt := (hook_err_cnt s1)(v := wrap32 (hook_err_cnt s1 v + 1)),
                hook_err := (hook_err s1)(v := (if op_result m (ctx a) s1 < 0 then op_result m (ctx a) s1 else hook_err s1 v))\<rparr>
        else s1)))"

lemma record_error_full:
  assumes "wrap32 c < 0"
  shows "record_error c v r s = s\<lparr>hook_err_cnt := (hook_err_cnt s)(v := wrap32 (hook_err_cnt s v + 1)),
    hook_err := (hook_err s)(v := (if r < 0 then r else hook_err s v))\<rparr>"
  using assms by (auto simp: record_error_def note_error_def)

lemma record_first_eq:
  "record_first m v c (prev_err m c s) s1 =
     (if in_app_mgr s1 \<and> c \<noteq> 0 \<and> in_app_mgr s \<and> op_result m c s = 0
      then record_error 0x80140F02 v (op_result m c s1) s1 else s1)"
  by (simp add: record_first_def prev_err_def)



section \<open>The gate\<close>

lemma glog_lines_misc:
  fixes s :: "('w, 'm) misc_scheme"
  shows "hook_err (glog_lines k ls s) = hook_err s" "hook_err_cnt (glog_lines k ls s) = hook_err_cnt s"
    "log_iofilemgr_in_app_mgr (glog_lines k ls s) = log_iofilemgr_in_app_mgr s"
  using same_glog_lines [of s k ls] by (cases s; cases "glog_lines k ls s"; simp add: log_same_def)+

text \<open>The gate. The original of the parameter file reader runs with the gate open, and after the
  hook the gate is closed, whatever it was: when a reader runs within another one, the calls that
  the outer one makes afterwards are no longer recorded, by any of the gated hooks.\<close>

theorem nested_reader_closes_gate:
  assumes "(True, code, v, h) \<in> set recorders" and "keeps_record v orig"
    and "run_bind (app_mgr_23EF934_hook k inner b s) (\<lambda>(_, t). replies (h orig) as t) = ret (rs, s')"
  shows "\<exists>r t. inner b (s\<lparr>log_iofilemgr_in_app_mgr := 1\<rparr>) = ret (r, t)
    \<and> hook_err s' v = hook_err t v \<and> hook_err_cnt s' v = hook_err_cnt t v \<and> \<not> in_app_mgr s'"
proof -
  from recorder_is_recording [OF assms(1)] have h: "h = recording True code v" "wrap32 code < 0" by blast+
  from assms(3) obtain r t ls where i: "inner b (s\<lparr>log_iofilemgr_in_app_mgr := 1\<rparr>) = ret (r, t)"
    and rest: "replies (h orig) as (glog_lines k ls (t\<lparr>log_iofilemgr_in_app_mgr := 0\<rparr>)) = ret (rs, s')"
    by (auto simp: app_mgr_23EF934_hook_def run_simps)
  let ?t = "glog_lines k ls (t\<lparr>log_iofilemgr_in_app_mgr := 0\<rparr>)"
  have closed: "\<not> in_app_mgr ?t" by (simp add: in_app_mgr_def glog_lines_misc)
  with recording_calls [OF h(2) assms(2) rest [unfolded h(1)]]
  have "hook_err s' v = hook_err ?t v \<and> hook_err_cnt s' v = hook_err_cnt ?t v \<and> \<not> in_app_mgr s'"
    by (simp add: in_app_mgr_def)
  with i show ?thesis by (intro exI [of _ r] exI [of _ t]) (simp add: glog_lines_misc)
qed

theorem nested_reader_closes_gate_witness:
  "\<exists>rs s'. run_bind (app_mgr_23EF934_hook quiet_kernel (\<lambda>a s. ret (a, s)) 1 (misc_boot ()))
      (\<lambda>(_, t). replies (iofilemgr_BE8444_hook (\<lambda>a s. ret (a, s))) [-1] t) = ret (rs, s')
    \<and> hook_err s' (Iofilemgr 0xBE8444) = 0 \<and> \<not> in_app_mgr s'"
proof -
  let ?v = "Iofilemgr 0xBE8444" and ?s = "misc_boot ()"
  let ?run = "run_bind (app_mgr_23EF934_hook quiet_kernel (\<lambda>a s. ret (a, s)) 1 ?s)
      (\<lambda>(_, t). replies (iofilemgr_BE8444_hook (\<lambda>a s. ret (a, s))) [-1] t)"
  have row: "(True, 0x8001008F, ?v, iofilemgr_BE8444_hook) \<in> set recorders" by (simp add: recorders_def)
  have keeps: "keeps_record ?v (\<lambda>a s. ret (a, s))" by (simp add: keeps_record_def run_simps)
  have "\<exists>rs s'. ?run = ret (rs, s')" by (simp add: app_mgr_23EF934_hook_def iofilemgr_BE8444_hook_def run_simps)
  then obtain rs s' where run: "?run = ret (rs, s')" by blast
  from nested_reader_closes_gate [OF row keeps run]
  have "hook_err s' ?v = 0 \<and> \<not> in_app_mgr s'"
    by (auto simp: run_simps misc_boot_def log_boot_def kbase.defs sd_hooks.defs misc_log.defs misc_err.defs misc.defs)
  with run show ?thesis by blast
qed


section \<open>The ring of mounts\<close>

definition mount_ring :: "('w, 'm) misc_scheme \<Rightarrow> int \<times> byte list list" where
  "mount_ring s = (g_mount_copys_cnt s, g_mount_copys s)"

definition puts_mount :: "byte list \<Rightarrow> ('w, 'm) misc_scheme \<Rightarrow> ('w, 'm) misc_scheme \<Rightarrow> bool" where
  "puts_mount e s s' \<longleftrightarrow> (\<exists>m mount (t :: ('w, 'm) misc_scheme) u. copy_mount m mount t = ret u \<and> e = m_bytes m mount 0xF0 (world t)
     \<and> mount_ring t = mount_ring s \<and> mount_ring s' = mount_ring u)"

lemma copy_mount_ring:
  assumes "copy_mount m mount s = ret s'" and "ring_ok 10 (mount_ring s)"
  shows "mount_ring s' = ring_put 10 (m_bytes m mount 0xF0 (world s)) (mount_ring s)"
proof -
  let ?i = "g_mount_copys_cnt s"
  from assms(2) have i: "0 \<le> ?i" "?i < 10" by (simp_all add: ring_ok_def mount_ring_def)
  then have w: "wrap32 (?i + 1) = ?i + 1" by (simp add: c_int_def)
  from i have "(?i + 1) mod 10 = (if ?i + 1 = 10 then 0 else ?i + 1)" by auto
  with assms(1) w show ?thesis
    by (auto simp: copy_mount_def run_simps Let_def mount_ring_def ring_put_def split: if_splits)
qed

lemma puts_mount_ring: "puts_mount e s s' \<Longrightarrow> ring_ok 10 (mount_ring s) \<Longrightarrow> mount_ring s' = ring_put 10 e (mount_ring s)"
  by (auto simp: puts_mount_def dest: copy_mount_ring)

interpretation mounts: ring_buffer 10 mount_ring puts_mount
  by unfold_locales (rule puts_mount_ring)

definition keeps_mounts :: "('a, 'w, 'm) orig \<Rightarrow> bool" where
  "keeps_mounts orig \<longleftrightarrow> (\<forall>a s r s'. orig a s = ret (r, s') \<longrightarrow> mount_ring s' = mount_ring s)"

lemma new_node_step:
  assumes "keeps_mounts orig" and "\<And>p w. m_bytes m p 0xF0 w = mem p"
    and "iofilemgr_sceVfsGetNewNode_hook m orig a s = ret (r, s')"
  shows "puts_mount (mem (fst a)) s s'"
proof -
  obtain mount ops unused node where a: "a = (mount, ops, unused, node)" by (cases a)
  from assms(3) obtain s1 s2 where o1: "orig a s = ret (r, s1)" and c: "copy_mount m mount s1 = ret s2"
    and s': "s' = record_error 0x8001008F Iofilemgr_sceVfsGetNewNode r s2"
    by (auto simp: a iofilemgr_sceVfsGetNewNode_hook_def run_simps)
  have "mount_ring s' = mount_ring s2" by (simp add: s' mount_ring_def record_error_def note_error_def)
  moreover have "mount_ring s1 = mount_ring s" using assms(1) o1 unfolding keeps_mounts_def by blast
  moreover have "mem (fst a) = m_bytes m mount 0xF0 (world s1)" by (simp add: a assms(2))
  ultimately show ?thesis using c unfolding puts_mount_def by blast
qed

text \<open>The driver keeps copies of the mounts of the last ten new nodes: after any number of calls of the
  hook the array still has its ten copies, the index is in range, and the copy of the \<open>j\<close>-th last
  call's mount is \<open>j + 1\<close> places before it, counted round. Memory of mounts does not change, and the
  original leaves the array alone.\<close>

theorem mounts_remembered:
  assumes "keeps_mounts orig" and "\<And>p w. m_bytes m p 0xF0 w = mem p"
    and "calls (iofilemgr_sceVfsGetNewNode_hook m orig) as s = ret s'" and "ring_ok 10 (mount_ring s)"
  shows "ring_ok 10 (mount_ring s') \<and>
    (\<forall>j < min 10 (length as). ring_last 10 (mount_ring s') j = mem (fst (as ! (length as - 1 - j))))"
proof -
  obtain es where es: "list_all2 (\<lambda>a e. e = mem (fst a)) as es" "trace puts_mount es s s'"
    using calls_trace [of "iofilemgr_sceVfsGetNewNode_hook m orig" "\<lambda>a e. e = mem (fst a)" puts_mount as s s']
      new_node_step [OF assms(1,2)] assms(3) by blast
  have "ring_last 10 (mount_ring s') j = mem (fst (as ! (length as - 1 - j)))" if "j < min 10 (length as)" for j
    using last_of_calls [OF es(1), of j] mounts.steps_keep_last [OF es(2) assms(4), of j] that list_all2_lengthD [OF es(1)]
    by simp
  with mounts.steps_ok [OF es(2) assms(4)] show ?thesis by blast
qed

lemma mount_calls_return:
  assumes "keeps_mounts orig" and "\<And>a s. \<exists>x. orig a s = ret x" and "ring_ok 10 (mount_ring s)"
    and "\<forall>a \<in> set as. fst a \<noteq> 0"
  shows "\<exists>s'. calls (iofilemgr_sceVfsGetNewNode_hook m orig) as s = ret s'"
  using assms(3,4)
proof (induction as arbitrary: s)
  case (Cons a as)
  obtain mount ops unused node where a: "a = (mount, ops, unused, node)" by (cases a)
  obtain r s1 where o1: "orig a s = ret (r, s1)" using assms(2) by (metis surj_pair)
  then have "mount_ring s1 = mount_ring s" using assms(1) unfolding keeps_mounts_def by blast
  with Cons.prems(1) have ok: "ring_ok 10 (mount_ring s1)" by simp
  with Cons.prems(2) have "\<exists>s2. copy_mount m mount s1 = ret s2"
    by (simp add: copy_mount_def a Let_def ring_ok_def mount_ring_def run_simps)
  then obtain s2 where c: "copy_mount m mount s1 = ret s2" by blast
  let ?s3 = "record_error 0x8001008F Iofilemgr_sceVfsGetNewNode r s2"
  have "iofilemgr_sceVfsGetNewNode_hook m orig a s = ret (r, ?s3)"
    using o1 c by (simp add: a iofilemgr_sceVfsGetNewNode_hook_def run_simps)
  moreover have "mount_ring ?s3 = mount_ring s2" by (simp add: mount_ring_def record_error_def note_error_def)
  then have "ring_ok 10 (mount_ring ?s3)" using copy_mount_ring [OF c ok] ring_put_ok [OF ok] by simp
  ultimately show ?case using Cons.IH [of ?s3] Cons.prems(2) by (simp add: run_simps)
qed (simp add: run_simps)

text \<open>Memory that holds the low byte of its address everywhere.\<close>

definition low_mem :: "unit hmem" where
  "low_mem = ones_mem\<lparr>m_bytes := \<lambda>p n _. replicate n (ucast p)\<rparr>"

theorem mounts_remembered_witness:
  "\<exists>s'. calls (iofilemgr_sceVfsGetNewNode_hook low_mem (\<lambda>_ s. ret (0, s))) [(3, 0, 0, 0), (4, 0, 0, 0), (5, 0, 0, 0)] (misc_boot ())
     = ret s' \<and> ring_last 10 (mount_ring s') 0 = replicate 0xF0 5 \<and> ring_last 10 (mount_ring s') 2 = replicate 0xF0 3"
proof -
  let ?o = "\<lambda>_ s. ret (0 :: int, s)" and ?as = "[(3, 0, 0, 0), (4, 0, 0, 0), (5, 0, 0, 0)] :: (addr \<times> addr \<times> int \<times> addr) list"
  have keeps: "keeps_mounts ?o" by (simp add: keeps_mounts_def run_simps)
  have mem: "m_bytes low_mem p 0xF0 w = replicate 0xF0 (ucast p)" for p w by (simp add: low_mem_def)
  have boot: "g_mount_copys_cnt (misc_boot ()) = 0" "length (g_mount_copys (misc_boot ())) = 10"
    by (simp_all add: misc_boot_def log_boot_def kbase.defs sd_hooks.defs misc_log.defs misc_err.defs misc.defs)
  have ok: "ring_ok 10 (mount_ring (misc_boot ()))" by (simp add: ring_ok_def mount_ring_def boot)
  have "\<exists>s'. calls (iofilemgr_sceVfsGetNewNode_hook low_mem ?o) ?as (misc_boot ()) = ret s'"
    by (rule mount_calls_return [OF keeps _ ok]) (auto simp: run_simps)
  then obtain s' where s': "calls (iofilemgr_sceVfsGetNewNode_hook low_mem ?o) ?as (misc_boot ()) = ret s'" by blast
  from mounts_remembered [OF keeps mem s' ok]
  have "\<forall>j < min 10 (length ?as). ring_last 10 (mount_ring s') j = replicate 0xF0 (ucast (fst (?as ! (length ?as - 1 - j))))" by simp
  from this [THEN spec, of 0] this [THEN spec, of 2] s' show ?thesis by (intro exI [of _ s']) simp
qed


section \<open>The captured node name\<close>

definition keeps_name :: "('a, 'w, 'm) orig \<Rightarrow> bool" where
  "keeps_name orig \<longleftrightarrow> (\<forall>a s r s'. orig a s = ret (r, s') \<longrightarrow>
     nodeStr s' = nodeStr s \<and> nodeStrLen s' = nodeStrLen s)"

lemma copy_node_name_kept:
  "copy_node_name m p s = ret s' \<Longrightarrow> nodeStrLen s \<noteq> 0 \<Longrightarrow> nodeStr s' = nodeStr s \<and> nodeStrLen s' \<noteq> 0"
  by (auto simp: copy_node_name_def Let_def run_simps split: if_splits)

lemma copy_node_name_null:
  "copy_node_name m 0 s = ret s' \<Longrightarrow> nodeStr s' = nodeStr s \<and> nodeStrLen s' = -1"
  by (auto simp: copy_node_name_def run_simps)

lemma name_hook_step:
  assumes "keeps_name orig" and "pfs_mgr_2199144_hook m orig (p, q) s = ret (r, s')"
  shows "\<exists>t. nodeStr t = nodeStr s \<and> nodeStrLen t = nodeStrLen s \<and> copy_node_name m p t = ret s'"
proof -
  from assms(2) obtain s1 where o1: "orig (p, q) s = ret (r, s1)"
    and c: "copy_node_name m p (record_error 0x8001008F (Pfs_mgr 0x2199144) r s1) = ret s'"
    by (auto simp: pfs_mgr_2199144_hook_def run_simps)
  have "nodeStr s1 = nodeStr s \<and> nodeStrLen s1 = nodeStrLen s" using assms(1) o1 unfolding keeps_name_def by blast
  with c show ?thesis
    by (intro exI [of _ "record_error 0x8001008F (Pfs_mgr 0x2199144) r s1"]) (simp add: record_error_def note_error_def)
qed

lemma name_calls_kept:
  assumes "keeps_name orig"
  shows "calls (pfs_mgr_2199144_hook m orig) as s = ret s' \<Longrightarrow> nodeStrLen s \<noteq> 0 \<Longrightarrow>
    nodeStr s' = nodeStr s \<and> nodeStrLen s' \<noteq> 0"
proof (induction as arbitrary: s)
  case (Cons a as)
  then obtain r s1 where h: "pfs_mgr_2199144_hook m orig (fst a, snd a) s = ret (r, s1)"
    and rest: "calls (pfs_mgr_2199144_hook m orig) as s1 = ret s'" by (auto simp: run_simps)
  from name_hook_step [OF assms h] Cons.prems(2) have "nodeStr s1 = nodeStr s" "nodeStrLen s1 \<noteq> 0"
    using copy_node_name_kept by (metis, metis)
  with Cons.IH [OF rest] show ?case by simp
qed (simp add: run_simps)

text \<open>The name of a node is captured at most once, and one bad call prevents it: when a name of
  non-zero length has been kept, or when the first call comes without a holder, no later call
  changes the kept name, whatever names it finds. The mark of the failure, a negative length, is
  taken for the length of a name.\<close>

theorem node_name_once:
  assumes "keeps_name orig" and "calls (pfs_mgr_2199144_hook m orig) as s = ret s'"
    and "nodeStrLen s \<noteq> 0 \<or> (\<exists>q bs. as = (0, q) # bs)"
  shows "nodeStr s' = nodeStr s \<and> nodeStrLen s' \<noteq> 0"
proof (cases "nodeStrLen s = 0")
  case False
  with name_calls_kept [OF assms(1,2)] show ?thesis by blast
next
  case True
  with assms(3) obtain q bs where as: "as = (0, q) # bs" by blast
  with assms(2) obtain r s1 where h: "pfs_mgr_2199144_hook m orig (0, q) s = ret (r, s1)"
    and rest: "calls (pfs_mgr_2199144_hook m orig) bs s1 = ret s'" by (auto simp: run_simps)
  from name_hook_step [OF assms(1) h] have "nodeStr s1 = nodeStr s" "nodeStrLen s1 = -1"
    using copy_node_name_null by (metis, metis)
  with name_calls_kept [OF assms(1) rest] show ?thesis by simp
qed

theorem node_name_once_witness:
  "\<exists>s'. calls (pfs_mgr_2199144_hook ones_mem (\<lambda>_ s. ret (0, s))) [(0, 0), (4, 0)] (misc_boot ()) = ret s'
    \<and> nodeStr s' = replicate 0x100 0"
proof -
  let ?o = "\<lambda>_ s. ret (0 :: int, s)"
  have keeps: "keeps_name ?o" by (simp add: keeps_name_def run_simps)
  have boot: "nodeStrLen (misc_boot ()) = 0" "nodeStr (misc_boot ()) = replicate 0x100 0"
    by (simp_all add: misc_boot_def log_boot_def kbase.defs sd_hooks.defs misc_log.defs misc_err.defs misc.defs)
  have "\<exists>s'. calls (pfs_mgr_2199144_hook ones_mem ?o) [(0, 0), (4, 0)] (misc_boot ()) = ret s'"
    by (simp add: pfs_mgr_2199144_hook_def copy_node_name_def run_simps Let_def boot record_error_def note_error_def ones_mem_def)
  then obtain s' where s': "calls (pfs_mgr_2199144_hook ones_mem ?o) [(0, 0), (4, 0)] (misc_boot ()) = ret s'" by blast
  from node_name_once [OF keeps s'] boot s' show ?thesis by (intro exI [of _ s']) simp
qed


section \<open>The report of a mount\<close>

text \<open>The report of a mount faults for a mount without a block device. The tests before the
  dereferences, \<open>mountInfo >= 0\<close> and \<open>blockDev1 >= 0\<close>, hold of a null pointer too, so that with both
  logs on, the hook of a mount whose original returns faults when the mount or its block device is
  null, although the mount itself is complete.\<close>

theorem null_block_device_faults:
  fixes s s2 :: "('a, 'b) misc_scheme"
  assumes "orig mountInfo (if is_gdsd_mount m mountInfo s then s\<lparr>g_iofilemgr_sceVfsMount_enable_log := 1\<rparr> else s) = ret (r, s2)"
    and "g_pfs_mount_enable_log s2 > 0" and "g_iofilemgr_sceVfsMount_enable_log s2 > 0"
    and "mountInfo = 0 \<or> (\<forall>w. m_word m (mountInfo + 0x18) w = 0)"
  shows "iofilemgr_sceVfsMount_hook k m orig mountInfo s = fail NullDeref"
proof -
  have dev: "block_dev_lines k m mountInfo t = fail NullDeref" if "mountInfo \<noteq> 0" for t :: "('a, 'b) misc_scheme"
    using assms(4) that by (simp add: block_dev_lines_def field_def run_simps)
  have info: "\<exists>u. mount_info_lines k m mountInfo t = ret u" if "mountInfo \<noteq> 0" for t :: "('a, 'b) misc_scheme"
    using that by (simp add: mount_info_lines_def Let_def run_simps)
  have "mount_report k m mountInfo r s2 = fail NullDeref"
  proof (cases "mountInfo = 0")
    case True
    then show ?thesis by (simp add: mount_report_def mount_info_lines_def run_simps)
  next
    case False
    obtain u where "mount_info_lines k m mountInfo (put_line k (''called iofilemgr_sceVfsMount_hook:'' @ newline
        @ ''res: '' @ hex8_str (word_of_int r)) (put_line k double_bar (open_global_log k s2))) = ret u"
      using info [OF False] by blast
    then show ?thesis by (simp add: mount_report_def dev [OF False] run_simps)
  qed
  with assms(1-3) show ?thesis by (simp add: iofilemgr_sceVfsMount_hook_def run_simps)
qed

definition mount_mem :: "unit hmem" where
  "mount_mem = ones_mem\<lparr>m_word := \<lambda>p _. if p = 0x118 then 0 else 1, m_str := \<lambda>_ _. ''PFS_GDSD_INF''\<rparr>"

theorem null_block_device_faults_witness:
  "iofilemgr_sceVfsMount_hook quiet_kernel mount_mem (\<lambda>_ s. ret (0, s)) 0x100
     ((misc_boot ())\<lparr>g_pfs_mount_enable_log := 1\<rparr>) = fail NullDeref"
proof -
  let ?s = "(misc_boot ())\<lparr>g_pfs_mount_enable_log := 1\<rparr>"
  have g: "is_gdsd_mount mount_mem 0x100 s" for s :: "unit misc"
    by (simp add: is_gdsd_mount_def mount_mem_def)
  show ?thesis
    by (rule null_block_device_faults [where r = 0 and ?s2.0 = "?s\<lparr>g_iofilemgr_sceVfsMount_enable_log := 1\<rparr>"])
      (simp_all only: g if_True, simp_all add: mount_mem_def run_simps)
qed

end
