(* ===== verification/Hooks_Log.thy ===== *)
theory Hooks_Log
  imports Hooks_Errors Stacktrace
begin

text \<open>
  \<open>driver/hooks_misc.c\<close>, the hooks that call the original and write its result to the log, with some
  of the arguments or with the stack and the thread of the caller, and a few that keep a variable.
  An argument that is only passed on is part of a value of any type.
\<close>

section \<open>One line\<close>

definition cmd55_41_hook :: "('a, 'w, 'm) orig \<Rightarrow> ('a, 'w, 'm) orig" where
  "cmd55_41_hook orig ctx s = run_bind (orig ctx s) (\<lambda>(res, s1). ret (res, s1))"

definition gen_init_hook_1 :: "'w kapi \<Rightarrow> ('a, 'w, 'm) orig \<Rightarrow> ('a, 'w, 'm) orig" where
  "gen_init_hook_1 k orig ctx s =
     run_bind (orig ctx s) (\<lambda>(res, s1). ret (res, glog_line k (''called gen_init_hook_1 res:'' @ hex_int res) s1))"

definition gen_init_hook_2 :: "'w kapi \<Rightarrow> ('a, 'w, 'm) orig \<Rightarrow> ('a, 'w, 'm) orig" where
  "gen_init_hook_2 k orig ctx s =
     run_bind (orig ctx s) (\<lambda>(res, s1). ret (res, glog_line k (''called gen_init_hook_2 res:'' @ hex_int res) s1))"

definition gen_init_hook_3 :: "'w kapi \<Rightarrow> ('a, 'w, 'm) orig \<Rightarrow> ('a, 'w, 'm) orig" where
  "gen_init_hook_3 k orig ctx s =
     run_bind (orig ctx s) (\<lambda>(res, s1). ret (res, glog_line k (''called gen_init_hook_3 res:'' @ hex_int res) s1))"

definition bar :: string where "bar = ''------------------------''"

definition sysroot_zero_hook :: "'w kapi \<Rightarrow> (unit, 'w, 'm) orig \<Rightarrow> (unit, 'w, 'm) orig" where
  "sysroot_zero_hook k orig a s =
     run_bind (orig a s) (\<lambda>(res, s1).
     ret (res, glog_lines k [bar] (glog_lines k [bar, ''called sysroot_zero_hook'', bar] s1)))"

definition load_mbr_hook :: "'w kapi \<Rightarrow> (int, 'w, 'm) orig \<Rightarrow> (int, 'w, 'm) orig" where
  "load_mbr_hook k orig ctx_index s =
     run_bind (orig ctx_index s) (\<lambda>(res, s1).
     ret (res, glog_line k (''called load_mbr_hook: '' @ hex_int ctx_index @ '' res: '' @ hex_int res) s1))"

text \<open>Lines that show what arguments point to are made while the log is open.\<close>

definition mnt_pnt_chk_hook ::
    "'w kapi \<Rightarrow> 'w hmem \<Rightarrow> (addr \<times> int \<times> addr, 'w, 'm) orig \<Rightarrow> (addr \<times> int \<times> addr, 'w, 'm) orig" where
  "mnt_pnt_chk_hook k m orig a s =
     run_bind (orig a s) (\<lambda>(res, s1).
     ret (res, case a of (blockDeviceName, mountNum, mountData) \<Rightarrow>
       let s2 = open_global_log k s1
       in close_global_log k (put_line k
            (if blockDeviceName = 0 \<or> mountData = 0 then ''called mnt_pnt_chk_hook: data is invalid''
             else ''called mnt_pnt_chk_hook: '' @ m_str m blockDeviceName (world s2) @ '' ''
               @ hex8_str (word_of_int mountNum) @ '' '' @ hex8_str (m_word m mountData (world s2))
               @ '' res: '' @ hex8_str (word_of_int res)) s2)))"

definition mbr_table_init_hook ::
    "'w kapi \<Rightarrow> 'w hmem \<Rightarrow> (addr \<times> int, 'w, 'm) orig \<Rightarrow> (addr \<times> int, 'w, 'm) orig" where
  "mbr_table_init_hook k m orig a s =
     run_bind (orig a s) (\<lambda>(res, s1).
     ret (res, case a of (blockDeviceName, mountNum) \<Rightarrow>
       let s2 = open_global_log k s1
       in close_global_log k (put_line k
            (if blockDeviceName = 0 then ''called mbr_table_init_hook: data is invalid''
             else ''called mbr_table_init_hook: '' @ m_str m blockDeviceName (world s2) @ '' ''
               @ hex8_str (word_of_int mountNum) @ '' res: '' @ hex8_str (word_of_int res)) s2)))"

definition init_partition_table_hook ::
    "'w kapi \<Rightarrow> (int \<times> addr, 'w, 'm) orig \<Rightarrow> (int \<times> addr, 'w, 'm) orig" where
  "init_partition_table_hook k orig a s =
     run_bind (orig a s) (\<lambda>(res, s1).
     ret (res, case a of (arg0, data) \<Rightarrow>
       glog_line k (''called init_partition_table_hook arg0: '' @ hex_int arg0 @ '' mbr_ctx: '' @ hex_ptr data
         @ '' res: '' @ hex_int res) s1))"

definition create_device_handle ::
    "'w kapi \<Rightarrow> 'w hmem \<Rightarrow> (addr \<times> int \<times> addr, 'w, 'm) orig \<Rightarrow> (addr \<times> int \<times> addr, 'w, 'm) orig" where
  "create_device_handle k m orig a s = (case a of (pentry, unk1, handle) \<Rightarrow>
     run_bind (orig (pentry, unk1, handle) s) (\<lambda>(res, s1).
     if pentry = 0 then fail NullDeref
     else
       let s2 = open_global_log k s1
       in ret (res, close_global_log k (put_line k
            (''called create_device_handle partition: '' @ m_str m (pentry + 0x10) (world s2) @ '' unk1: ''
             @ hex_int unk1 @ '' handle: '' @ hex_ptr handle @ '' res: '' @ hex_int res) s2))))"

definition sceErrorHistoryPostError_hook :: "'w kapi \<Rightarrow> (addr, 'w, 'm) orig \<Rightarrow> (addr, 'w, 'm) orig" where
  "sceErrorHistoryPostError_hook k orig src_user s =
     run_bind (orig src_user s) (\<lambda>(res, s1).
     ret (res, glog_line k (''called sceErrorHistoryPostError_hook: src_user: '' @ hex8_str src_user
       @ '' res: '' @ hex8_str (word_of_int res)) s1))"

definition sceErrorHistoryUpdateSequenceInfo_hook ::
    "'w kapi \<Rightarrow> (addr \<times> int, 'w, 'm) orig \<Rightarrow> (addr \<times> int, 'w, 'm) orig" where
  "sceErrorHistoryUpdateSequenceInfo_hook k orig a s =
     run_bind (orig a s) (\<lambda>(res, s1).
     ret (res, case a of (src_user, unk1) \<Rightarrow>
       glog_line k (''called sceErrorHistoryUpdateSequenceInfo_hook: src_user: '' @ hex8_str src_user
         @ '' unk1: '' @ hex8_str (word_of_int unk1) @ '' res: '' @ hex8_str (word_of_int res)) s1))"

definition sceErrorHistoryGetError_hook ::
    "'w kapi \<Rightarrow> (int \<times> addr, 'w, 'm) orig \<Rightarrow> (int \<times> addr, 'w, 'm) orig" where
  "sceErrorHistoryGetError_hook k orig a s =
     run_bind (orig a s) (\<lambda>(res, s1).
     ret (res, case a of (unk0, dest_user) \<Rightarrow>
       glog_line k (''called sceErrorHistoryGetError: dest_user: '' @ hex8_str dest_user
         @ '' unk0: '' @ hex8_str (word_of_int unk0) @ '' res: '' @ hex8_str (word_of_int res)) s1))"

text \<open>With the stack from the address \<open>mark0\<close> of the first local variable of \<open>stacktrace_from_here_global\<close>.\<close>

definition sceErrorGetExternalString_kernel_hook ::
    "'w kapi \<Rightarrow> 'w cpu \<Rightarrow> addr \<Rightarrow> (addr \<times> int, 'w, 'm) orig \<Rightarrow> (addr \<times> int, 'w, 'm) orig" where
  "sceErrorGetExternalString_kernel_hook k c mark0 orig a s =
     run_bind (orig a s) (\<lambda>(res, s1).
     ret (res, case a of (dest_user, unk) \<Rightarrow>
       let s2 = glog_line k (''called sceErrorGetExternalString_kernel_hook: dest_user: '' @ hex8_str dest_user
                  @ '' unk: '' @ hex8_str (word_of_int unk) @ '' res: '' @ hex8_str (word_of_int res)) s1;
           (_, s3) = stacktrace_from_here_global k c (kernel_segments s2) mark0 [] 0 100 1 s2
       in snd (print_current_thread_info_global k c s3)))"


section \<open>The result between bars\<close>

definition called_lines :: "string \<Rightarrow> int \<Rightarrow> string list" where
  "called_lines name res =
     [double_bar, ''called '' @ name @ '':'' @ newline @ ''res: '' @ hex8_str (word_of_int res), double_bar]"

definition appmgr_23D642C_hook :: "'w kapi \<Rightarrow> ('a, 'w, 'm) orig \<Rightarrow> ('a, 'w, 'm) orig" where
  "appmgr_23D642C_hook k orig a s =
     run_bind (orig a s) (\<lambda>(res, s1). ret (res, glog_lines k (called_lines ''appmgr_23D642C_hook'' res) s1))"

definition sceAppMgrGameDataMountForDriver_hook :: "'w kapi \<Rightarrow> ('a, 'w, 'm) orig \<Rightarrow> ('a, 'w, 'm) orig" where
  "sceAppMgrGameDataMountForDriver_hook k orig a s =
     run_bind (orig a s) (\<lambda>(res, s1). ret (res, glog_lines k (called_lines ''sceAppMgrGameDataMountForDriver_hook'' res) s1))"

definition appmgr_23D9B50_hook :: "'w kapi \<Rightarrow> ('a, 'w, 'm) orig \<Rightarrow> ('a, 'w, 'm) orig" where
  "appmgr_23D9B50_hook k orig a s =
     run_bind (orig a s) (\<lambda>(res, s1). ret (res, glog_lines k (called_lines ''appmgr_23D9B50_hook'' res) s1))"

definition sceAppMgrGameDataVfsMountForDriver_hook :: "'w kapi \<Rightarrow> ('a, 'w, 'm) orig \<Rightarrow> ('a, 'w, 'm) orig" where
  "sceAppMgrGameDataVfsMountForDriver_hook k orig a s =
     run_bind (orig a s) (\<lambda>(res, s1). ret (res, glog_lines k (called_lines ''sceAppMgrGameDataVfsMountForDriver'' res) s1))"

definition sceFiosKernelOverlayRemoveForProcessForDriver_hook :: "'w kapi \<Rightarrow> ('a, 'w, 'm) orig \<Rightarrow> ('a, 'w, 'm) orig" where
  "sceFiosKernelOverlayRemoveForProcessForDriver_hook k orig a s =
     run_bind (orig a s) (\<lambda>(res, s1). ret (res, glog_lines k (called_lines ''sceFiosKernelOverlayRemoveForProcessForDriver'' res) s1))"

definition proc_read_sealedkey_23D6EA0_hook :: "'w kapi \<Rightarrow> ('a, 'w, 'm) orig \<Rightarrow> ('a, 'w, 'm) orig" where
  "proc_read_sealedkey_23D6EA0_hook k orig a s =
     run_bind (orig a s) (\<lambda>(res, s1). ret (res, glog_lines k (called_lines ''proc_read_sealedkey_23D6EA0_hook'' res) s1))"

definition sbl_acmgr_0b6e6cd7_hook :: "'w kapi \<Rightarrow> ('a, 'w, 'm) orig \<Rightarrow> ('a, 'w, 'm) orig" where
  "sbl_acmgr_0b6e6cd7_hook k orig a s =
     run_bind (orig a s) (\<lambda>(res, s1). ret (res, glog_lines k (called_lines ''sbl_acmgr_0b6e6cd7_hook'' res) s1))"

definition proc_generate_random_path_23D4FBC_hook :: "'w kapi \<Rightarrow> ('a, 'w, 'm) orig \<Rightarrow> ('a, 'w, 'm) orig" where
  "proc_generate_random_path_23D4FBC_hook k orig a s =
     run_bind (orig a s) (\<lambda>(res, s1). ret (res, glog_lines k (called_lines ''proc_generate_random_path_23D4FBC_hook'' res) s1))"

definition pfs_mgr_a772209c_hook :: "'w kapi \<Rightarrow> ('a, 'w, 'm) orig \<Rightarrow> ('a, 'w, 'm) orig" where
  "pfs_mgr_a772209c_hook k orig a s =
     run_bind (orig a s) (\<lambda>(res, s1). ret (res, glog_lines k (called_lines ''pfs_mgr_a772209c_hook'' res) s1))"

definition pfs_mgr_2d48aea2_hook :: "'w kapi \<Rightarrow> ('a, 'w, 'm) orig \<Rightarrow> ('a, 'w, 'm) orig" where
  "pfs_mgr_2d48aea2_hook k orig a s =
     run_bind (orig a s) (\<lambda>(res, s1). ret (res, glog_lines k (called_lines ''pfs_mgr_2d48aea2_hook'' res) s1))"

definition pfs_mgr_2190AEC_hook :: "'w kapi \<Rightarrow> ('a, 'w, 'm) orig \<Rightarrow> ('a, 'w, 'm) orig" where
  "pfs_mgr_2190AEC_hook k orig a s =
     run_bind (orig a s) (\<lambda>(res, s1). ret (res, glog_lines k (called_lines ''pfs_mgr_2190AEC_hook'' res) s1))"

definition iofilemgr_feee44a9_hook :: "'w kapi \<Rightarrow> ('a, 'w, 'm) orig \<Rightarrow> ('a, 'w, 'm) orig" where
  "iofilemgr_feee44a9_hook k orig a s =
     run_bind (orig a s) (\<lambda>(res, s1). ret (res, glog_lines k (called_lines ''iofilemgr_feee44a9_hook'' res) s1))"

definition iofilemgr_d220539d_hook :: "'w kapi \<Rightarrow> ('a, 'w, 'm) orig \<Rightarrow> ('a, 'w, 'm) orig" where
  "iofilemgr_d220539d_hook k orig a s =
     run_bind (orig a s) (\<lambda>(res, s1). ret (res, glog_lines k (called_lines ''iofilemgr_d220539d_hook'' res) s1))"

definition app_mgr_23D5028_hook :: "'w kapi \<Rightarrow> ('a, 'w, 'm) orig \<Rightarrow> ('a, 'w, 'm) orig" where
  "app_mgr_23D5028_hook k orig a s =
     run_bind (orig a s) (\<lambda>(res, s1). ret (res, glog_lines k (called_lines ''app_mgr_23D5028_hook'' res) s1))"

text \<open>The second argument is not passed on.\<close>

definition proc_get_clearsign_stat_23D9A4C_hook ::
    "'w kapi \<Rightarrow> (int, 'w, 'm) orig \<Rightarrow> (int \<times> int, 'w, 'm) orig" where
  "proc_get_clearsign_stat_23D9A4C_hook k orig a s =
     run_bind (orig (fst a) s) (\<lambda>(res, s1).
     ret (res, glog_lines k (called_lines ''proc_get_clearsign_stat_23D9A4C_hook'' res) s1))"

text \<open>The error of a request is at \<open>0x20\<close> of it, its operation at the start.\<close>

definition request_lines ::
    "'w kapi \<Rightarrow> 'w hmem \<Rightarrow> string \<Rightarrow> addr \<Rightarrow> bool \<Rightarrow> int \<Rightarrow> ('w, 'm) misc_scheme \<Rightarrow> ('w, 'm) misc_scheme" where
  "request_lines k m name ctx any res s =
     (let s1 = put_line k double_bar (open_global_log k s);
          s2 = put_line k (''called '' @ name @ '':'' @ newline @ ''res: '' @ hex8_str (word_of_int res)) s1;
          s3 = (if ctx \<noteq> 0 \<and> (any \<or> m_word m ctx (world s2) = 3)
                then put_line k (''20: '' @ hex8_str (m_word m (ctx + 0x20) (world s2))) s2 else s2)
      in close_global_log k (put_line k double_bar s3))"

definition iofilemgr_BF3848_hook :: "'w kapi \<Rightarrow> 'w hmem \<Rightarrow> (addr, 'w, 'm) orig \<Rightarrow> (addr, 'w, 'm) orig" where
  "iofilemgr_BF3848_hook k m orig ctx s =
     run_bind (orig ctx s) (\<lambda>(res, s1). ret (res, request_lines k m ''iofilemgr_BF3848_hook'' ctx True res s1))"


section \<open>Hooks that keep variables\<close>

text \<open>The log of mounts is on during the requests with operation 3.\<close>

definition set_mount_log :: "'w hmem \<Rightarrow> addr \<Rightarrow> int \<Rightarrow> ('w, 'm) misc_scheme \<Rightarrow> ('w, 'm) misc_scheme" where
  "set_mount_log m ctx x s =
     (if ctx \<noteq> 0 then (if m_word m ctx (world s) = 3 then s\<lparr>g_pfs_mount_enable_log := x\<rparr> else s) else s)"

definition iofilemgr_BF3474_hook :: "'w kapi \<Rightarrow> 'w hmem \<Rightarrow> (addr, 'w, 'm) orig \<Rightarrow> (addr, 'w, 'm) orig" where
  "iofilemgr_BF3474_hook k m orig ctx s =
     run_bind (orig ctx (set_mount_log m ctx 1 s)) (\<lambda>(res, s1).
     ret (res, set_mount_log m ctx 0 (request_lines k m ''iofilemgr_BF3474_hook'' ctx False res s1)))"

definition ksceKernelCreateThread_hook :: "('a, 'w, 'm) orig \<Rightarrow> ('a, 'w, 'm) orig" where
  "ksceKernelCreateThread_hook orig a s = run_bind (orig a s) (\<lambda>(res, s1). ret (res, s1))"

definition sceKernelCreateThreadForUser_hook :: "('a, 'w, 'm) orig \<Rightarrow> ('a, 'w, 'm) orig" where
  "sceKernelCreateThreadForUser_hook orig a s =
     run_bind (orig a s) (\<lambda>(res, s1).
     ret (res,
       if sceKernelCreateThreadForUser_hook_entered s1 = 0
       then (let s2 = s1\<lparr>sceKernelCreateThreadForUser_hook_entered := 1\<rparr>
             in s2\<lparr>sceKernelCreateThreadForUser_hook_entered := 0\<rparr>)
       else s1))"

text \<open>The log of opened files is not compiled in (\<open>ENABLE_IO_FILE_OPEN_LOG\<close>).\<close>

definition sceIoOpenForDriver_hook :: "('a, 'w, 'm) orig \<Rightarrow> ('a, 'w, 'm) orig" where
  "sceIoOpenForDriver_hook orig a s = run_bind (orig a s) (\<lambda>(res, s1). ret (res, s1))"

definition ksceKernelWaitSema_hook ::
    "'w kapi \<Rightarrow> 'w cpu \<Rightarrow> (int \<times> int \<times> addr, 'w, 'm) orig \<Rightarrow> (int \<times> int \<times> addr, 'w, 'm) orig" where
  "ksceKernelWaitSema_hook k c orig a s = (case a of (a_semaid, a_signal, a_timeout) \<Rightarrow>
     run_bind (orig (a_semaid, a_signal, a_timeout) s) (\<lambda>(res, s1).
     let (_, t_info, s2) = get_current_thread_info k c s1
     in ret (res, if c_string (ti_name t_info) = ''SceGameGcPromoteJobQueue''
                  then s2\<lparr>SceGameGcPromoteJobQueue_semaid := a_semaid\<rparr> else s2)))"

definition ksceKernelSignalSema_hook ::
    "'w kapi \<Rightarrow> 'w cpu \<Rightarrow> (int \<times> int, 'w, 'm) orig \<Rightarrow> (int \<times> int, 'w, 'm) orig" where
  "ksceKernelSignalSema_hook k c orig a s = (case a of (a_semaid, a_signal) \<Rightarrow>
     run_bind (orig (a_semaid, a_signal) s) (\<lambda>(res, s1).
     ret (res,
       if SceGameGcPromoteJobQueue_semaid s1 \<noteq> -1 \<and> SceGameGcPromoteJobQueue_semaid s1 = a_semaid
       then
         let s2 = glog_lines k [double_bar, ''called ksceKernelSignalSema: '' @ hex8_str (word_of_int a_semaid)] s1;
             (_, s3) = print_current_thread_info_global k c s2
         in glog_lines k [double_bar] s3
       else s1)))"

text \<open>The path is copied from the caller's memory into a buffer of 1024 bytes.\<close>

definition vshSblAuthMgrVerifySpsfo_hook ::
    "'w kapi \<Rightarrow> 'w hmem \<Rightarrow> (addr \<times> addr \<times> int \<times> addr, 'w, 'm) orig \<Rightarrow> (addr \<times> addr \<times> int \<times> addr, 'w, 'm) orig" where
  "vshSblAuthMgrVerifySpsfo_hook k m orig a s = (case a of (path_user, dest_user, maxSize, opt) \<Rightarrow>
     run_bind (orig (path_user, dest_user, maxSize, opt) s) (\<lambda>(res, s1).
     let s2 = open_global_log k s1;
         s3 = s2\<lparr>g_spsfo_path := take 1024 (m_str m path_user (world s2))\<rparr>
     in ret (res, close_global_log k (fold (put_line k)
          [double_bar,
           ''called vshSblAuthMgrVerifySpsfo:'' @ newline @ ''path: '' @ g_spsfo_path s3 @ '' size: ''
             @ hex8_str (word_of_int maxSize) @ '' res: '' @ hex8_str (word_of_int res),
           double_bar] s3))))"

definition debug_printf_callback_invoke_hook :: "('a, 'w, 'm) orig \<Rightarrow> ('a, 'w, 'm) orig" where
  "debug_printf_callback_invoke_hook orig a s =
     (let s1 = (if debug_printf_callback_invoke_hook_called s = 0
                then (s\<lparr>debug_printf_callback_invoke_hook_called := 1\<rparr>)\<lparr>debug_printf_callback_invoke_hook_called := 0\<rparr>
                else s)
      in run_bind (orig a s1) (\<lambda>(res, s2). ret (res, s2)))"


section \<open>Forwarding\<close>

text \<open>A hook that calls the original once, on its arguments and on the state as it is, returns
  whatever the original returns, faults only if it does, and afterwards changes nothing but the
  world, through the log, which it closes as often as it opens it.\<close>

definition forwards :: "(('a, 'w, 'm) orig \<Rightarrow> ('a, 'w, 'm) orig) \<Rightarrow> bool" where
  "forwards h \<longleftrightarrow> (\<exists>after. (\<forall>orig a s. h orig a s = run_bind (orig a s) (\<lambda>(r, t). ret (r, after a r t)))
     \<and> (\<forall>a r t. log_same t (after a r t)))"

lemma forwardsI:
  assumes "\<And>orig a s. h orig a s = run_bind (orig a s) (\<lambda>(r, t). ret (r, f a r t))" and "\<And>a r t. log_same t (f a r t)"
  shows "forwards h"
  using assms unfolding forwards_def by blast

lemma same_put: "log_same s (close_global_log k (put_line k l (open_global_log k s)))"
  by (simp add: log_same_def glog_counts put_line_counts)

lemma same_request_lines: "log_same s (request_lines k m name ctx any res s)"
  by (simp add: request_lines_def Let_def log_same_def glog_counts put_line_counts)

lemma same_thread_info: "log_same s (snd (snd (get_current_thread_info k c s)))"
  by (simp add: get_current_thread_info_def kcall2_eq kdo_def Let_def log_same_def)

lemma same_print_thread: "log_same s (snd (print_current_thread_info_global k c s))"
  using same_thread_info [of s k c]
  by (simp add: print_current_thread_info_global_def split_beta log_same_trans [OF _ same_glog])

lemma same_stack_loop:
  assumes "\<And>l s. log_same s (line l s)"
  shows "log_same s (stack_loop c line tag T nm sg v n p s)"
proof (induction n arbitrary: p s)
  case (Suc n)
  show ?case unfolding stack_loop.simps Let_def
    by (rule log_same_trans [OF _ Suc.IH]) (simp add: assms log_same_refl)
qed (simp add: log_same_refl)

lemma same_stacktrace: "log_same s (snd (stacktrace_from_here_global k c T mark0 nm sg words v s))"
  using same_thread_info [of s k c]
  by (simp add: stacktrace_from_here_global_def split_beta log_same_trans [OF _ same_stack_loop] same_glog)

lemma same_string_hook:
  "log_same s (let s2 = glog_line k l s; (_, s3) = stacktrace_from_here_global k c (T s2) mark0 nm sg words v s2
     in snd (print_current_thread_info_global k c s3))"
  by (simp add: Let_def split_beta)
    (rule log_same_trans [OF log_same_trans [OF same_glog same_stacktrace] same_print_thread])

lemmas log_hook_defs =
  cmd55_41_hook_def gen_init_hook_1_def gen_init_hook_2_def gen_init_hook_3_def sysroot_zero_hook_def
  load_mbr_hook_def mnt_pnt_chk_hook_def mbr_table_init_hook_def init_partition_table_hook_def
  sceErrorHistoryPostError_hook_def sceErrorHistoryUpdateSequenceInfo_hook_def sceErrorHistoryGetError_hook_def
  sceErrorGetExternalString_kernel_hook_def appmgr_23D642C_hook_def sceAppMgrGameDataMountForDriver_hook_def
  appmgr_23D9B50_hook_def sceAppMgrGameDataVfsMountForDriver_hook_def
  sceFiosKernelOverlayRemoveForProcessForDriver_hook_def proc_read_sealedkey_23D6EA0_hook_def
  sbl_acmgr_0b6e6cd7_hook_def proc_generate_random_path_23D4FBC_hook_def pfs_mgr_a772209c_hook_def
  pfs_mgr_2d48aea2_hook_def pfs_mgr_2190AEC_hook_def iofilemgr_feee44a9_hook_def iofilemgr_d220539d_hook_def
  app_mgr_23D5028_hook_def iofilemgr_BF3848_hook_def ksceKernelCreateThread_hook_def
  sceIoOpenForDriver_hook_def

lemma same_two: "log_same s (glog_lines k ls (glog_lines k ls' s))"
  by (rule log_same_trans [OF same_glog_lines same_glog_lines])

lemma string_hook_forwards: "forwards (sceErrorGetExternalString_kernel_hook k c mark0)"
  by (rule forwardsI, rule sceErrorGetExternalString_kernel_hook_def, simp only: split: prod.splits)
    (intro allI impI same_string_hook)

lemmas forward_steps = same_two same_steps same_glog_lines same_put same_request_lines


end
