(* ===== verification/El_Base.thy ===== *)
theory El_Base
  imports Stacktrace Ring
begin

text \<open>
  The error logger (\<open>error_logger/\<close>), a user-mode module of its own: the functions it calls, its
  state, and its copies of the log (\<open>glog.c\<close>), of the module range table (\<open>mtable.c\<close>) and of the
  stack trace (\<open>stacktrace.c\<close>). Its \<open>qsort.c\<close> is the driver's file, and the functions on tables
  that are the same text as in the driver are those of \<open>Mtable\<close>. Functions with the name of a
  function of the driver have the suffix \<open>_el\<close>.
\<close>

section \<open>Hooks, functions, state\<close>

text \<open>An \<open>ehook\<close> stands for the variables of one hook of \<open>error_logger.c\<close>, an \<open>efield\<close> for the
  variable that keeps one argument, the result or a pointer found in an argument.\<close>

datatype (plugins only: code size) ehook =
    SceErrorGetExternalString
  | SceKernelCreateThread
  | Param_sfo_verifySpsfo
  | SceKernelLoadModule
  | SceKernelLoadStartModule
  | Param_sfo_verifySpsfo_shell
  | Gc_param_sfo_83F2CEA0
  | Gc_param_sfo_83F6B554
  | Gc_param_sfo_83F74B30
  | Proc_83F258F8
  | Proc_83F27424
  | Proc_83F2407A
  | Proc_83F25592
  | Proc_83F24534
  | Proc_83F24D96
  | Proc_8430F028
  | Queue_worker_entry2_834DED94
  | ScePafAllocateMem
  | Proc_83F20D36
  | Paf_b976a154
  | Paf_b2eca849
  | Paf_7c8b2a63
  | Paf_a97584eb
  | Paf_c84832a2
  | Paf_b228a257
  | Paf_b9fb9bd6
  | Proc_83F23D5C
  | Proc_83F275CC
  | Proc_83F10C5A
  | SceAppMgrGameDataMount

datatype efield = Arg nat | Ptr | Queue_arg | Ctx14 | Result | Size | Res

datatype tai_error =
    TAI_ERROR_SYSTEM
  | TAI_ERROR_MEMORY
  | TAI_ERROR_NOT_FOUND
  | TAI_ERROR_INVALID_ARGS
  | TAI_ERROR_INVALID_KERNEL_ADDR
  | TAI_ERROR_PATCH_EXISTS
  | TAI_ERROR_HOOK_ERROR
  | TAI_ERROR_NOT_IMPLEMENTED
  | TAI_ERROR_USER_MEMORY
  | TAI_ERROR_NOT_ALLOWED
  | TAI_ERROR_STUB_NOT_RESOLVED
  | TAI_ERROR_INVALID_MODULE

text \<open>The library functions the module calls, the values of taiHEN's error codes, and the memory
  of the process, by characters and by words.\<close>

record 'w eapi =
  e_IoOpen :: "string \<Rightarrow> open_flags \<Rightarrow> 'w \<Rightarrow> int \<times> 'w"
  e_IoWrite :: "int \<Rightarrow> string \<Rightarrow> 'w \<Rightarrow> int \<times> 'w"
  e_IoClose :: "int \<Rightarrow> 'w \<Rightarrow> int \<times> 'w"
  e_CreateMutex :: "string \<Rightarrow> 'w \<Rightarrow> int \<times> 'w"
  e_DeleteMutex :: "int \<Rightarrow> 'w \<Rightarrow> int \<times> 'w"
  e_CreateThread :: "string \<Rightarrow> 'w \<Rightarrow> int \<times> 'w"
  e_StartThread :: "int \<Rightarrow> 'w \<Rightarrow> int \<times> 'w"
  e_WaitThreadEnd :: "int \<Rightarrow> int \<Rightarrow> 'w \<Rightarrow> int \<times> 'w"
  e_DeleteThread :: "int \<Rightarrow> 'w \<Rightarrow> int \<times> 'w"
  e_GetThreadId :: "'w \<Rightarrow> int \<times> 'w"
  e_GetThreadInfo :: "int \<Rightarrow> thread_info \<Rightarrow> 'w \<Rightarrow> int \<times> thread_info \<times> 'w"
  e_sizeof_ThreadInfo :: int
  e_GetModuleList :: "int \<Rightarrow> nat \<Rightarrow> 'w \<Rightarrow> int \<times> int list \<times> 'w"
  e_GetModuleInfo :: "int \<Rightarrow> 'w \<Rightarrow> int \<times> module_info \<times> 'w"
  e_taiGetModuleInfo :: "string \<Rightarrow> 'w \<Rightarrow> int \<times> int \<times> 'w"
  e_HookFunctionOffset :: "int \<Rightarrow> nat \<Rightarrow> int \<Rightarrow> ehook \<Rightarrow> 'w \<Rightarrow> int \<times> int \<times> 'w"
  e_HookFunctionImport :: "string \<Rightarrow> int \<Rightarrow> int \<Rightarrow> ehook \<Rightarrow> 'w \<Rightarrow> int \<times> int \<times> 'w"
  e_HookFunctionExport :: "string \<Rightarrow> int \<Rightarrow> int \<Rightarrow> ehook \<Rightarrow> 'w \<Rightarrow> int \<times> int \<times> 'w"
  e_HookRelease :: "int \<Rightarrow> int \<Rightarrow> 'w \<Rightarrow> int \<times> 'w"
  e_tai_error :: "tai_error \<Rightarrow> int"
  e_byte :: "addr \<Rightarrow> 'w \<Rightarrow> char"
  e_word :: "addr \<Rightarrow> 'w \<Rightarrow> addr"

record alloc_data =
  ad_ptr :: addr
  ad_caller :: addr

record 'w els =
  el_world :: 'w
  el_log_fd :: int
  el_table :: module_table
  e_id :: "ehook \<Rightarrow> int"
  e_ref :: "ehook \<Rightarrow> int"
  e_called :: "ehook \<Rightarrow> int"
  e_data :: "ehook \<Rightarrow> efield \<Rightarrow> int"
  e_path :: "ehook \<Rightarrow> string"
  e_stack :: "ehook \<Rightarrow> addr list"
  allocCtr :: int
  allocTotal :: int
  alloc_addresses :: "addr list"
  alloc_addressNum :: nat
  allocData :: "alloc_data list"
  g_sceKernelCreateThreadMutex :: int
  g_listenerThread :: int

definition el_call :: "('w \<Rightarrow> 'a \<times> 'w) \<Rightarrow> ('w, 'm) els_scheme \<Rightarrow> 'a \<times> ('w, 'm) els_scheme" where
  "el_call f s = (case f (el_world s) of (r, w) \<Rightarrow> (r, s\<lparr>el_world := w\<rparr>))"

definition el_call2 ::
    "('w \<Rightarrow> int \<times> 'a \<times> 'w) \<Rightarrow> ('w, 'm) els_scheme \<Rightarrow> int \<times> 'a \<times> ('w, 'm) els_scheme" where
  "el_call2 f s = (case f (el_world s) of (r, a, w) \<Rightarrow> (r, a, s\<lparr>el_world := w\<rparr>))"

definition el_do :: "('w \<Rightarrow> int \<times> 'w) \<Rightarrow> ('w, 'm) els_scheme \<Rightarrow> ('w, 'm) els_scheme" where
  "el_do f s = s\<lparr>el_world := snd (f (el_world s))\<rparr>"

lemma el_call_eq: "el_call f s = (fst (f (el_world s)), s\<lparr>el_world := snd (f (el_world s))\<rparr>)"
  by (simp add: el_call_def split: prod.splits)

lemma el_call2_eq: "el_call2 f s = (fst (f (el_world s)), fst (snd (f (el_world s))),
    s\<lparr>el_world := snd (snd (f (el_world s)))\<rparr>)"
  by (simp add: el_call2_def split: prod.splits)


section \<open>The log\<close>

text \<open>The file is opened anew for every message. \<open>FILE_WRITE\<close> writes \<open>sizeof\<close> of a literal, with the
  character that ends it; \<open>FILE_WRITE_LEN\<close> at most 256 characters of a string.\<close>

definition open_global_log_el :: "'w eapi \<Rightarrow> ('w, 'm) els_scheme \<Rightarrow> ('w, 'm) els_scheme" where
  "open_global_log_el k s =
     (let (fd, s1) = el_call (e_IoOpen k ''ux0:dump/error_logger.txt'' Creat_Append) s
      in s1\<lparr>el_log_fd := fd\<rparr>)"

definition close_global_log_el :: "'w eapi \<Rightarrow> ('w, 'm) els_scheme \<Rightarrow> ('w, 'm) els_scheme" where
  "close_global_log_el k s = (if el_log_fd s \<ge> 0 then el_do (e_IoClose k (el_log_fd s)) s else s)"

definition FILE_WRITE :: "'w eapi \<Rightarrow> string \<Rightarrow> ('w, 'm) els_scheme \<Rightarrow> ('w, 'm) els_scheme" where
  "FILE_WRITE k msg s =
     (if el_log_fd s \<ge> 0 then el_do (e_IoWrite k (el_log_fd s) (msg @ [CHR 0x00])) s else s)"

definition FILE_WRITE_LEN :: "'w eapi \<Rightarrow> string \<Rightarrow> ('w, 'm) els_scheme \<Rightarrow> ('w, 'm) els_scheme" where
  "FILE_WRITE_LEN k msg s =
     (if el_log_fd s \<ge> 0 then el_do (e_IoWrite k (el_log_fd s) (take 256 (c_string msg))) s else s)"

text \<open>\<open>sceClibSnprintf\<close> into the buffer of 256 characters, and the common shapes of a message.\<close>

definition put_text :: "'w eapi \<Rightarrow> string \<Rightarrow> ('w, 'm) els_scheme \<Rightarrow> ('w, 'm) els_scheme" where
  "put_text k txt s = FILE_WRITE_LEN k (take 255 txt) s"

definition el_texts :: "'w eapi \<Rightarrow> string list \<Rightarrow> ('w, 'm) els_scheme \<Rightarrow> ('w, 'm) els_scheme" where
  "el_texts k ts s = close_global_log_el k (fold (put_text k) ts (open_global_log_el k s))"

definition el_message :: "'w eapi \<Rightarrow> string \<Rightarrow> ('w, 'm) els_scheme \<Rightarrow> ('w, 'm) els_scheme" where
  "el_message k msg s = close_global_log_el k (FILE_WRITE k (msg @ newline) (open_global_log_el k s))"

lemmas el_log_defs = open_global_log_el_def close_global_log_el_def FILE_WRITE_def FILE_WRITE_LEN_def
  put_text_def

text \<open>Writing to the log changes the world and the handle only.\<close>

definition log_only :: "('w, 'm) els_scheme \<Rightarrow> ('w, 'm) els_scheme \<Rightarrow> bool" where
  "log_only s t \<longleftrightarrow> (\<exists>w fd. t = s\<lparr>el_world := w, el_log_fd := fd\<rparr>)"

lemma log_onlyI: "t = s\<lparr>el_world := w, el_log_fd := fd\<rparr> \<Longrightarrow> log_only s t"
  by (auto simp: log_only_def)

lemma log_only_refl: "log_only s s"
  by (rule log_onlyI [where w = "el_world s" and fd = "el_log_fd s"]) simp

lemma log_only_do: "log_only s (el_do f s)"
  by (rule log_onlyI [where w = "snd (f (el_world s))" and fd = "el_log_fd s"]) (simp add: el_do_def)

lemma log_only_trans: "log_only s t \<Longrightarrow> log_only t u \<Longrightarrow> log_only s u"
  by (auto simp: log_only_def) blast

lemma log_only_open: "log_only s (open_global_log_el k s)"
  by (rule log_onlyI, simp add: open_global_log_el_def el_call_eq)

lemma log_only_steps [intro!, simp]:
  "log_only s (close_global_log_el k s)"
  "log_only s (FILE_WRITE k msg s)" "log_only s (FILE_WRITE_LEN k msg s)" "log_only s (put_text k txt s)"
  by (simp_all add: close_global_log_el_def FILE_WRITE_def FILE_WRITE_LEN_def put_text_def log_only_do log_only_refl)

lemma log_only_fold: "(\<And>x u. x \<in> set xs \<Longrightarrow> log_only u (f x u)) \<Longrightarrow> log_only s (fold f xs s)"
proof (induction xs arbitrary: s)
  case (Cons x xs)
  then have "log_only s (f x s)" "log_only (f x s) (fold f xs (f x s))" by simp_all
  then show ?case by (auto intro: log_only_trans)
qed (simp add: log_only_refl)

lemma log_only_texts: "log_only s (el_texts k ts s)" "log_only s (el_message k msg s)"
  unfolding el_texts_def el_message_def
  by (rule log_only_trans [OF log_only_open], rule log_only_trans [OF _ log_only_steps(1)],
      auto intro: log_only_fold)+

lemma log_onlyD:
  assumes "log_only s t"
  shows "el_table t = el_table s" "e_id t = e_id s" "e_ref t = e_ref s" "e_called t = e_called s"
    "e_data t = e_data s" "e_path t = e_path s" "e_stack t = e_stack s" "allocCtr t = allocCtr s"
    "alloc_addresses t = alloc_addresses s" "allocData t = allocData s"
    "g_listenerThread t = g_listenerThread s"
    "g_sceKernelCreateThreadMutex t = g_sceKernelCreateThreadMutex s"
  using assms by (auto simp: log_only_def)

definition print_bytes :: "'w eapi \<Rightarrow> addr \<Rightarrow> int \<Rightarrow> ('w, 'm) els_scheme \<Rightarrow> (int \<times> ('w, 'm) els_scheme) run" where
  "print_bytes k p n s =
     (if p = 0 \<and> n > 0 then fail NullDeref
      else
        let byte_text = (\<lambda>i u. let h = hex_str (of_char (e_byte k (p + of_nat i) (el_world u)))
              in FILE_WRITE_LEN k (replicate (2 - length h) (CHR ''0'') @ h @ '' '') u);
            s1 = fold byte_text [0..<nat n] (open_global_log_el k s)
        in ret (0, close_global_log_el k (FILE_WRITE_LEN k newline s1)))"


section \<open>The module range table\<close>

fun add_modules_el ::
    "'w eapi \<Rightarrow> int list \<Rightarrow> nat \<Rightarrow> segment_info list \<Rightarrow> ('w, 'm) els_scheme
     \<Rightarrow> (int \<times> nat \<times> segment_info list \<times> ('w, 'm) els_scheme) run" where
  "add_modules_el k [] idx segs s = ret (0, idx, segs, s)"
| "add_modules_el k (m # ms) idx segs s =
     (let (r, minfo, s1) = el_call2 (e_GetModuleInfo k m) s
      in if r < 0 then ret (r, idx, segs, s1)
         else run_bind (add_segments (mod_name minfo) 0 (take 4 (segments minfo)) idx segs) (\<lambda>(idx', segs').
              add_modules_el k ms idx' segs' s1))"

definition construct_module_range_table_el ::
    "'w eapi \<Rightarrow> ('w, 'm) els_scheme \<Rightarrow> (int \<times> ('w, 'm) els_scheme) run" where
  "construct_module_range_table_el k s =
     (if moduleConstructured (el_table s) > 0 then ret (0, s)
      else
        let s1 = el_message k ''constructing module range table''
               (s\<lparr>el_table := (el_table s)\<lparr>moduleConstructured := 1\<rparr>\<rparr>);
            T1 = \<lparr>modlist = replicate MOD_LIST_SIZE 0, segList = replicate SEG_LIST_SIZE blank_segment,
                  moduleConstructured = 1\<rparr>;
            (r, mods, s2) = el_call2 (e_GetModuleList k 0xFF MOD_LIST_SIZE) (s1\<lparr>el_table := T1\<rparr>)
        in if r < 0 then ret (r, s2)
           else if length mods > MOD_LIST_SIZE then fail OutOfBounds
           else
             let T2 = T1\<lparr>modlist := mods @ drop (length mods) (modlist T1)\<rparr>;
                 s3 = el_texts k [''number of modules: '' @ dec_str (int (length mods)) @ newline] (s2\<lparr>el_table := T2\<rparr>)
             in run_bind (add_modules_el k mods 0 (segList T2) s3) (\<lambda>(r, idx, segs, s4).
                if r < 0 then ret (r, s4\<lparr>el_table := T2\<lparr>segList := segs\<rparr>\<rparr>)
                else if idx < SEG_LIST_SIZE
                then ret (0, s4\<lparr>el_table := T2\<lparr>segList := segs[idx := (segs ! idx)\<lparr>range_start := -1, range_end := -1\<rparr>]\<rparr>\<rparr>)
                else fail OutOfBounds))"

definition sort_segment_table_el :: "('w, 'm) els_scheme \<Rightarrow> int \<times> ('w, 'm) els_scheme" where
  "sort_segment_table_el s =
     (let (r, T) = sort_segment_table (el_table s) in (r, s\<lparr>el_table := T\<rparr>))"

definition find_in_segments_el :: "('w, 'm) els_scheme \<Rightarrow> addr \<Rightarrow> int" where
  "find_in_segments_el s item = find_in_segments (el_table s) item"

fun print_segments_el ::
    "'w eapi \<Rightarrow> segment_info list \<Rightarrow> ('w, 'm) els_scheme \<Rightarrow> ('w, 'm) els_scheme" where
  "print_segments_el k [] s = s"
| "print_segments_el k (x # xs) s =
     (if range_start x = -1 \<or> range_end x = -1 then s
      else print_segments_el k xs (el_texts k [segment_line x @ newline] s))"

definition print_segment_table_el :: "'w eapi \<Rightarrow> ('w, 'm) els_scheme \<Rightarrow> int \<times> ('w, 'm) els_scheme" where
  "print_segment_table_el k s =
     (if moduleConstructured (el_table s) = 0 then (-1, s)
      else (0, print_segments_el k (segList (el_table s)) s))"

lemma log_only_print_segments: "log_only s (print_segments_el k xs s)"
proof (induction xs arbitrary: s)
  case (Cons x xs)
  then show ?case by (auto simp: log_only_refl intro: log_only_trans log_only_texts)
qed (simp add: log_only_refl)


section \<open>The stack\<close>

definition get_current_thread_info_el ::
    "'w eapi \<Rightarrow> ('w, 'm) els_scheme \<Rightarrow> int \<times> thread_info \<times> ('w, 'm) els_scheme" where
  "get_current_thread_info_el k s =
     (let (thid, s1) = el_call (e_GetThreadId k) s;
          t_info = \<lparr>ti_size = e_sizeof_ThreadInfo k, processId = 0, ti_name = [], stack = 0, stackSize = 0\<rparr>
      in el_call2 (e_GetThreadInfo k thid t_info) s1)"

definition print_current_thread_info_global_base ::
    "'w eapi \<Rightarrow> thread_info \<Rightarrow> ('w, 'm) els_scheme \<Rightarrow> int \<times> ('w, 'm) els_scheme" where
  "print_current_thread_info_global_base k t s = (0, el_texts k [thread_text ''(global)'' t @ newline] s)"

definition print_current_thread_info_global_el :: "'w eapi \<Rightarrow> ('w, 'm) els_scheme \<Rightarrow> int \<times> ('w, 'm) els_scheme" where
  "print_current_thread_info_global_el k s =
     (let (r, t, s1) = get_current_thread_info_el k s; (r', s2) = print_current_thread_info_global_base k t s1
      in (0, s2))"

text \<open>The words that point into a module are collected in the caller's array \<open>A\<close>; \<open>n\<close> counts
  them. The stack is read through \<open>rd\<close>, memory with the local variables of the calling function.\<close>

fun stack_words ::
    "'w eapi \<Rightarrow> (addr \<Rightarrow> 'w \<Rightarrow> addr) \<Rightarrow> string \<Rightarrow> int \<Rightarrow> int \<Rightarrow> int \<Rightarrow> nat \<Rightarrow> addr \<Rightarrow> nat \<Rightarrow> addr list
     \<Rightarrow> ('w, 'm) els_scheme \<Rightarrow> (nat \<times> addr list \<times> ('w, 'm) els_scheme) run" where
  "stack_words k rd moduleNameSearch segIndexSearch verbose prnt 0 stackPtr n A s = ret (n, A, s)"
| "stack_words k rd moduleNameSearch segIndexSearch verbose prnt (Suc i) stackPtr n A s =
     (let curValue = rd stackPtr (el_world s);
          segidx = find_in_segments_el s curValue;
          x = segList (el_table s) ! nat segidx
      in if segidx \<ge> 0 \<and> (verbose = 1 \<or> seg x = segIndexSearch \<and> moduleNameSearch = c_string (moduleName x))
         then if n < length A
           then stack_words k rd moduleNameSearch segIndexSearch verbose prnt i (stackPtr + 4) (Suc n) (A[n := curValue])
                  (if prnt = 1 then el_texts k [stack_text ''(global)'' stackPtr curValue x @ newline] s else s)
           else fail OutOfBounds
         else stack_words k rd moduleNameSearch segIndexSearch verbose prnt i (stackPtr + 4) n A s)"

definition stacktrace_global ::
    "'w eapi \<Rightarrow> (addr \<Rightarrow> 'w \<Rightarrow> addr) \<Rightarrow> addr \<Rightarrow> string \<Rightarrow> int \<Rightarrow> int \<Rightarrow> int \<Rightarrow> int \<Rightarrow> addr list
     \<Rightarrow> ('w, 'm) els_scheme \<Rightarrow> (nat \<times> addr list \<times> ('w, 'm) els_scheme) run" where
  "stacktrace_global k rd stackPtr moduleNameSearch segIndexSearch words verbose prnt A s =
     stack_words k rd moduleNameSearch segIndexSearch verbose prnt (nat words) stackPtr 0 A s"

definition stacktrace_from_here_global_el ::
    "'w eapi \<Rightarrow> addr \<Rightarrow> string \<Rightarrow> int \<Rightarrow> int \<Rightarrow> int \<Rightarrow> int \<Rightarrow> addr list
     \<Rightarrow> ('w, 'm) els_scheme \<Rightarrow> (nat \<times> addr list \<times> ('w, 'm) els_scheme) run" where
  "stacktrace_from_here_global_el k mark0 moduleNameSearch segIndexSearch words verbose prnt A s =
     stacktrace_global k (\<lambda>p w. if p = mark0 then 0xA0A0A0A0 else e_word k p w) mark0
       moduleNameSearch segIndexSearch words verbose prnt A s"

text \<open>Without printing, the trace changes nothing and collects the words of the stack that lie in
  a listed segment, in order; an array as long as the traced stack is always long enough.\<close>

definition listed_words :: "module_table \<Rightarrow> (addr \<Rightarrow> addr) \<Rightarrow> addr \<Rightarrow> nat \<Rightarrow> addr list" where
  "listed_words T mem p n =
     filter (\<lambda>v. find_in_segments T v \<ge> 0) (map (\<lambda>i. mem (p + 4 * of_nat i)) [0..<n])"

lemma listed_words_Suc:
  "listed_words T mem p (Suc n)
   = (if find_in_segments T (mem p) \<ge> 0 then [mem p] else []) @ listed_words T mem (p + 4) n"
proof -
  have "[0..<Suc n] = 0 # map Suc [0..<n]" by (simp add: map_Suc_upt upt_conv_Cons del: upt_Suc)
  then show ?thesis by (simp add: listed_words_def comp_def algebra_simps del: upt_Suc)
qed

lemma listed_words_length: "length (listed_words T mem p n) \<le> n"
  unfolding listed_words_def by (metis length_filter_le length_map length_upt minus_nat.diff_0)

lemma stack_words_listed:
  assumes "n + i \<le> length A"
  shows "stack_words k rd nm sg 1 0 i p n A s
    = (let ws = listed_words (el_table s) (\<lambda>q. rd q (el_world s)) p i
       in ret (n + length ws, take n A @ ws @ drop (n + length ws) A, s))"
  using assms
proof (induction i arbitrary: p n A)
  case 0
  then show ?case by (simp add: listed_words_def)
next
  case (Suc i)
  let ?v = "rd p (el_world s)"
  show ?case
  proof (cases "find_in_segments (el_table s) ?v \<ge> 0")
    case True
    have "take (Suc n) (A[n := ?v]) = take n A @ [?v]" using Suc.prems by (simp add: take_Suc_conv_app_nth)
    then show ?thesis
      using True Suc.prems Suc.IH [of "Suc n" "A[n := ?v]" "p + 4"]
      by (simp add: find_in_segments_el_def listed_words_Suc Let_def)
  next
    case False
    then show ?thesis
      using Suc.prems Suc.IH [of n A "p + 4"] by (simp add: find_in_segments_el_def listed_words_Suc Let_def)
  qed
qed


section \<open>Samples for the witnesses\<close>

text \<open>The state when the module is loaded, and an environment in which every call succeeds and does
  nothing.\<close>

definition els_boot :: "'w \<Rightarrow> 'w els" where
  "els_boot w = \<lparr>el_world = w, el_log_fd = 0, el_table = fresh_table 128 512, e_id = \<lambda>_. -1, e_ref = \<lambda>_. 0,
     e_called = \<lambda>_. 0, e_data = \<lambda>_ _. 0, e_path = \<lambda>_. replicate 1024 (CHR 0x00),
     e_stack = \<lambda>h. replicate (if h = Proc_8430F028 then 15 else 16) 0, allocCtr = 0, allocTotal = 0,
     alloc_addresses = replicate 20 0, alloc_addressNum = 0, allocData = replicate 0x4000 \<lparr>ad_ptr = 0, ad_caller = 0\<rparr>,
     g_sceKernelCreateThreadMutex = 0, g_listenerThread = 0\<rparr>"

definition quiet_eapi :: "'w eapi" where
  "quiet_eapi = \<lparr>
     e_IoOpen = (\<lambda>_ _ w. (5, w)), e_IoWrite = (\<lambda>_ _ w. (0, w)), e_IoClose = (\<lambda>_ w. (0, w)),
     e_CreateMutex = (\<lambda>_ w. (3, w)), e_DeleteMutex = (\<lambda>_ w. (0, w)), e_CreateThread = (\<lambda>_ w. (9, w)),
     e_StartThread = (\<lambda>_ w. (0, w)), e_WaitThreadEnd = (\<lambda>_ _ w. (0, w)), e_DeleteThread = (\<lambda>_ w. (0, w)),
     e_GetThreadId = (\<lambda>w. (9, w)), e_GetThreadInfo = (\<lambda>_ t w. (0, t, w)), e_sizeof_ThreadInfo = 4,
     e_GetModuleList = (\<lambda>_ _ w. (0, [], w)),
     e_GetModuleInfo = (\<lambda>_ w. (0, \<lparr>mod_name = [], segments = []\<rparr>, w)),
     e_taiGetModuleInfo = (\<lambda>_ w. (0, 1, w)),
     e_HookFunctionOffset = (\<lambda>_ _ _ _ w. (1, 0, w)), e_HookFunctionImport = (\<lambda>_ _ _ _ w. (1, 0, w)),
     e_HookFunctionExport = (\<lambda>_ _ _ _ w. (1, 0, w)), e_HookRelease = (\<lambda>_ _ w. (0, w)),
     e_tai_error = (\<lambda>_. 0), e_byte = (\<lambda>_ _. CHR 0x00), e_word = (\<lambda>_ _. 0)\<rparr>"

end
