(* ===== verification/El_Hooks.thy ===== *)
theory El_Hooks
  imports El_Base
begin

text \<open>
  The hooks of \<open>error_logger.c\<close>. Most of them only keep their arguments and the result in variables
  and set a flag that the listener thread polls; what a hook stores, in which order, is a list of
  \<open>store\<close>s. A hook is given the original function, which may change the state of the module (it can
  call other hooks), fault or not return. Arguments that a hook only passes on are one value of any
  type. \<open>local\<close> is the address of a hook's local variable \<open>res\<close>.
\<close>

section \<open>Storing\<close>

type_synonym ('a, 'r, 'w, 'm) eorig = "'a \<Rightarrow> ('w, 'm) els_scheme \<Rightarrow> ('r \<times> ('w, 'm) els_scheme) run"

datatype store = Put efield int | Called

primrec exec_store :: "ehook \<Rightarrow> store \<Rightarrow> ('w, 'm) els_scheme \<Rightarrow> ('w, 'm) els_scheme" where
  "exec_store h (Put f v) s = s\<lparr>e_data := (e_data s)(h := (e_data s h)(f := v))\<rparr>"
| "exec_store h Called s = s\<lparr>e_called := (e_called s)(h := 1)\<rparr>"

definition stores :: "ehook \<Rightarrow> store list \<Rightarrow> ('w, 'm) els_scheme \<Rightarrow> ('w, 'm) els_scheme" where
  "stores h xs s = fold (exec_store h) xs s"

text \<open>The word at an offset of a structure; \<open>unk_14\<close> of \<open>input_83F23578\<close> is at \<open>0x14\<close> and
  \<open>queue_callback_arg\<close> of \<open>queue_worker_ctx\<close> at \<open>0x28\<close>.\<close>

definition member_at :: "'w eapi \<Rightarrow> addr \<Rightarrow> addr \<Rightarrow> ('w, 'm) els_scheme \<Rightarrow> addr run" where
  "member_at k p off s = (if p = 0 then fail NullDeref else ret (e_word k (p + off) (el_world s)))"

text \<open>\<open>len\<close> characters copied into a buffer, and the character that ends the string.\<close>

definition copy_path :: "'w eapi \<Rightarrow> addr \<Rightarrow> int \<Rightarrow> string \<Rightarrow> 'w \<Rightarrow> string run" where
  "copy_path k p len buf w =
     (if len < 0 \<or> int (length buf) < len then fail OutOfBounds
      else if p = 0 \<and> len > 0 then fail NullDeref
      else
        let b = map (\<lambda>i. e_byte k (p + of_nat i) w) [0..<nat len] @ drop (nat len) buf
        in if nat len < length buf then ret (b[nat len := CHR 0x00]) else fail OutOfBounds)"

definition strnlen_at :: "'w eapi \<Rightarrow> addr \<Rightarrow> nat \<Rightarrow> 'w \<Rightarrow> nat" where
  "strnlen_at k p n w = length (c_string (map (\<lambda>i. e_byte k (p + of_nat i) w) [0..<n]))"

text \<open>The words from the local variable \<open>res\<close> upwards.\<close>

definition stack_from :: "'w eapi \<Rightarrow> addr \<Rightarrow> addr \<Rightarrow> nat \<Rightarrow> 'w \<Rightarrow> addr list" where
  "stack_from k local res n w =
     map (\<lambda>i. if i = 0 then res else e_word k (local + 4 * of_nat i) w) [0..<n]"

definition put_stack :: "ehook \<Rightarrow> addr list \<Rightarrow> ('w, 'm) els_scheme \<Rightarrow> ('w, 'm) els_scheme" where
  "put_stack h ws s = s\<lparr>e_stack := (e_stack s)(h := ws)\<rparr>"

definition put_path :: "ehook \<Rightarrow> string \<Rightarrow> ('w, 'm) els_scheme \<Rightarrow> ('w, 'm) els_scheme" where
  "put_path h p s = s\<lparr>e_path := (e_path s)(h := p)\<rparr>"


section \<open>Errors, threads and modules\<close>

definition sceErrorGetExternalString_hook :: "(addr \<times> int, int, 'w, 'm) eorig \<Rightarrow> (addr \<times> int, int, 'w, 'm) eorig" where
  "sceErrorGetExternalString_hook orig a s =
     run_bind (orig a s) (\<lambda>(res, s1). ret (res, stores SceErrorGetExternalString
       [Put Ptr (uint (fst a)), Put (Arg 0) (snd a), Called] s1))"

definition sceKernelCreateThread_hook :: "('a, int, 'w, 'm) eorig \<Rightarrow> ('a, int, 'w, 'm) eorig" where
  "sceKernelCreateThread_hook orig a s = run_bind (orig a s) (\<lambda>(res, s1). ret (res, s1))"

definition sceKernelLoadModule_hook :: "('a, int, 'w, 'm) eorig \<Rightarrow> ('a, int, 'w, 'm) eorig" where
  "sceKernelLoadModule_hook orig a s = run_bind (orig a s) (\<lambda>(res, s1). ret (res, s1))"

definition sceKernelLoadStartModule_hook :: "('a, int, 'w, 'm) eorig \<Rightarrow> ('a, int, 'w, 'm) eorig" where
  "sceKernelLoadStartModule_hook orig a s = run_bind (orig a s) (\<lambda>(res, s1). ret (res, s1))"

definition sceAppMgrGameDataMount_hook :: "('a, int, 'w, 'm) eorig \<Rightarrow> ('a, int, 'w, 'm) eorig" where
  "sceAppMgrGameDataMount_hook orig a s =
     run_bind (orig a s) (\<lambda>(res, s1). ret (res, stores SceAppMgrGameDataMount [Put Res res, Called] s1))"


section \<open>Parameter files\<close>

definition param_sfo_verifySpsfo_hook ::
    "'w eapi \<Rightarrow> (addr \<times> 'a, int, 'w, 'm) eorig \<Rightarrow> (addr \<times> 'a, int, 'w, 'm) eorig" where
  "param_sfo_verifySpsfo_hook k orig a s =
     run_bind (orig a s) (\<lambda>(res, s1).
     if fst a = 0 then fail NullDeref else
     run_bind (copy_path k (fst a) (int (strnlen_at k (fst a) 1024 (el_world s1)))
                 (e_path s1 Param_sfo_verifySpsfo) (el_world s1)) (\<lambda>p.
     ret (res, stores Param_sfo_verifySpsfo [Put Ptr (uint (fst a)), Put Res res, Called]
                 (put_path Param_sfo_verifySpsfo p s1))))"

text \<open>The second argument points to the address and the length of the path.\<close>

definition param_sfo_verifySpsfo_shell_hook ::
    "'w eapi \<Rightarrow> ('a \<times> addr, int, 'w, 'm) eorig \<Rightarrow> ('a \<times> addr, int, 'w, 'm) eorig" where
  "param_sfo_verifySpsfo_shell_hook k orig a s =
     run_bind (orig a s) (\<lambda>(res, s1).
     run_bind (member_at k (snd a) 0 s1) (\<lambda>dat.
     run_bind (member_at k (snd a) 4 s1) (\<lambda>len.
     run_bind (copy_path k dat (sint len) (e_path s1 Param_sfo_verifySpsfo_shell) (el_world s1)) (\<lambda>p.
     ret (res, stores Param_sfo_verifySpsfo_shell [Put Ptr (uint dat), Put Res res, Called]
                 (put_path Param_sfo_verifySpsfo_shell p s1))))))"

definition proc_gc_param_sfo_83F2CEA0_hook :: "(int, int, 'w, 'm) eorig \<Rightarrow> (int, int, 'w, 'm) eorig" where
  "proc_gc_param_sfo_83F2CEA0_hook orig a s =
     run_bind (orig a s) (\<lambda>(res, s1). ret (res, stores Gc_param_sfo_83F2CEA0
       [Put (Arg 0) a, Put Res res, Called] s1))"

text \<open>Two hooks write to the log themselves.\<close>

definition arg_text :: "string \<Rightarrow> int \<Rightarrow> int \<Rightarrow> string" where
  "arg_text nm a res = ''called '' @ nm @ '':'' @ newline @ ''arg: '' @ hex8_str (word_of_int a)
     @ '' res: '' @ hex8_str (word_of_int res) @ newline"

definition proc_gc_param_sfo_83F6B554_hook ::
    "'w eapi \<Rightarrow> (int, int, 'w, 'm) eorig \<Rightarrow> (int, int, 'w, 'm) eorig" where
  "proc_gc_param_sfo_83F6B554_hook k orig a s =
     run_bind (orig a s) (\<lambda>(res, s1).
       ret (res, el_texts k [arg_text ''proc_gc_param_sfo_83F6B554_hook'' a res] s1))"

definition proc_gc_param_sfo_83F74B30_hook ::
    "'w eapi \<Rightarrow> (int, int, 'w, 'm) eorig \<Rightarrow> (int, int, 'w, 'm) eorig" where
  "proc_gc_param_sfo_83F74B30_hook k orig a s =
     run_bind (orig a s) (\<lambda>(res, s1).
       ret (res, el_texts k [arg_text ''proc_gc_param_sfo_83F74B30_hook'' a res] s1))"


section \<open>Calls with a context\<close>

definition stores_83F2407A :: "int \<Rightarrow> int \<Rightarrow> int \<Rightarrow> int \<Rightarrow> store list" where
  "stores_83F2407A unk0 unk1 unk2 res =
     [Put (Arg 0) unk0, Put (Arg 1) unk1, Put (Arg 2) unk2, Put Res res, Called]"

definition proc_83F2407A_hook :: "(int \<times> int \<times> int, int, 'w, 'm) eorig \<Rightarrow> (int \<times> int \<times> int, int, 'w, 'm) eorig" where
  "proc_83F2407A_hook orig a s = (case a of (unk0, unk1, unk2) \<Rightarrow>
     run_bind (orig (unk0, unk1, unk2) s) (\<lambda>(res, s1). ret (res, stores Proc_83F2407A
       (stores_83F2407A unk0 unk1 unk2 res) s1)))"

definition proc_83F25592_hook :: "'w eapi \<Rightarrow> (addr \<times> int, int, 'w, 'm) eorig \<Rightarrow> (addr \<times> int, int, 'w, 'm) eorig" where
  "proc_83F25592_hook k orig a s = (case a of (ctx, unk1) \<Rightarrow>
     run_bind (member_at k ctx 0x14 s) (\<lambda>c14.
     run_bind (orig (ctx, unk1) (stores Proc_83F25592 [Put Ctx14 (uint c14)] s)) (\<lambda>(res, s1).
     ret (res, stores Proc_83F25592
       [Put (Arg 0) (sint ctx), Put (Arg 1) unk1, Put Res res, Called] s1))))"

definition proc_83F24534_hook ::
    "'w eapi \<Rightarrow> (addr \<times> int \<times> int \<times> int \<times> int, int, 'w, 'm) eorig
     \<Rightarrow> (addr \<times> int \<times> int \<times> int \<times> int, int, 'w, 'm) eorig" where
  "proc_83F24534_hook k orig a s = (case a of (ctx, unk1, unk2, unk3, unk4) \<Rightarrow>
     run_bind (member_at k ctx 0x14 s) (\<lambda>c14.
     run_bind (orig (ctx, unk1, unk2, unk3, unk4) (stores Proc_83F24534 [Put Ctx14 (uint c14)] s)) (\<lambda>(res, s1).
     ret (res, stores Proc_83F24534
       [Put (Arg 0) (sint ctx), Put (Arg 1) unk1, Put (Arg 2) unk2, Put (Arg 3) unk3, Put (Arg 4) unk4,
        Put Res res, Called] s1))))"

definition proc_83F24D96_hook ::
    "'w eapi \<Rightarrow> (addr \<times> int \<times> int \<times> int \<times> int, int, 'w, 'm) eorig
     \<Rightarrow> (addr \<times> int \<times> int \<times> int \<times> int, int, 'w, 'm) eorig" where
  "proc_83F24D96_hook k orig a s = (case a of (ctx, unk1, unk2, unk3, unk4) \<Rightarrow>
     run_bind (member_at k ctx 0x14 s) (\<lambda>c14.
     run_bind (orig (ctx, unk1, unk2, unk3, unk4) (stores Proc_83F24D96 [Put Ctx14 (uint c14)] s)) (\<lambda>(res, s1).
     ret (res, stores Proc_83F24D96
       [Put (Arg 0) (sint ctx), Put (Arg 1) unk1, Put (Arg 2) unk2, Put (Arg 3) unk3, Put (Arg 4) unk4,
        Put Res res, Called] s1))))"

definition proc_83F258F8_hook ::
    "'w eapi \<Rightarrow> (int \<times> addr \<times> int, int, 'w, 'm) eorig \<Rightarrow> (int \<times> addr \<times> int, int, 'w, 'm) eorig" where
  "proc_83F258F8_hook k orig a s = (case a of (unk0, ctx, unk2) \<Rightarrow>
     run_bind (member_at k ctx 0x14 s) (\<lambda>c14.
     run_bind (orig (unk0, ctx, unk2) (stores Proc_83F258F8
       [Put (Arg 0) unk0, Put (Arg 1) (sint ctx), Put (Arg 2) unk2, Put Ctx14 (uint c14)] s)) (\<lambda>(res, s1).
     ret (res, stores Proc_83F258F8 [Put Res res, Called] s1))))"

text \<open>This one sets the flag first.\<close>

definition stores_83F27424 :: "int \<Rightarrow> int \<Rightarrow> int \<Rightarrow> store list" where
  "stores_83F27424 unk0 unk1 res = [Called, Put (Arg 0) unk0, Put (Arg 1) unk1, Put Res res]"

definition proc_83F27424_hook :: "(int \<times> int, int, 'w, 'm) eorig \<Rightarrow> (int \<times> int, int, 'w, 'm) eorig" where
  "proc_83F27424_hook orig a s = (case a of (unk0, unk1) \<Rightarrow>
     run_bind (orig (unk0, unk1) s) (\<lambda>(res, s1). ret (res, stores Proc_83F27424
       (stores_83F27424 unk0 unk1 res) s1)))"


section \<open>Queues\<close>

definition proc_8430F028_hook :: "'w eapi \<Rightarrow> addr \<Rightarrow> (addr, int, 'w, 'm) eorig \<Rightarrow> (addr, int, 'w, 'm) eorig" where
  "proc_8430F028_hook k local orig ctx s =
     run_bind (member_at k ctx 0x28 s) (\<lambda>arg.
     run_bind (member_at k arg 0x14 s) (\<lambda>c14.
     run_bind (orig ctx (stores Proc_8430F028
       [Put Ptr (uint ctx), Put Queue_arg (uint arg), Put Ctx14 (uint c14)] s)) (\<lambda>(res, s1).
     ret (res, stores Proc_8430F028 [Put Res res, Called]
       (put_stack Proc_8430F028 (stack_from k local (word_of_int res) 15 (el_world s1)) s1)))))"

text \<open>This one sets the flag first, and looks at the context only then.\<close>

definition proc_83F20D36_hook :: "'w eapi \<Rightarrow> (addr \<times> int \<times> int, int, 'w, 'm) eorig \<Rightarrow> (addr \<times> int \<times> int, int, 'w, 'm) eorig" where
  "proc_83F20D36_hook k orig a s = (case a of (ctx, unk1, unk2) \<Rightarrow>
     run_bind (orig (ctx, unk1, unk2) s) (\<lambda>(res, s1).
     run_bind (member_at k ctx 0x28 s1) (\<lambda>arg.
     run_bind (member_at k arg 0x14 s1) (\<lambda>c14.
     ret (res, stores Proc_83F20D36
       [Called, Put Ptr (uint ctx), Put (Arg 1) unk1, Put (Arg 2) unk2, Put Res res,
        Put Queue_arg (uint arg), Put Ctx14 (uint c14)] s1)))))"

definition queue_worker_entry2_834DED94_hook :: "'w eapi \<Rightarrow> (addr, int, 'w, 'm) eorig \<Rightarrow> (addr, int, 'w, 'm) eorig" where
  "queue_worker_entry2_834DED94_hook k orig ctx s =
     run_bind (orig ctx s) (\<lambda>(res, s1).
     run_bind (member_at k ctx 0x28 s1) (\<lambda>arg.
     run_bind (member_at k arg 0x14 s1) (\<lambda>c14.
     ret (res, stores Queue_worker_entry2_834DED94
       [Put Ptr (uint ctx), Put Queue_arg (uint arg), Put Ctx14 (uint c14), Put Res res, Called] s1))))"


section \<open>Allocations\<close>

definition ALLOC_DATA_BUFFER_SIZE :: nat where "ALLOC_DATA_BUFFER_SIZE = 0x4000"
definition ALLOC_STACKTRACE_SIZE :: nat where "ALLOC_STACKTRACE_SIZE = 20"

text \<open>The result and its caller are kept in an array that is written round and round.\<close>

definition put_alloc :: "alloc_data \<Rightarrow> ('w, 'm) els_scheme \<Rightarrow> ('w, 'm) els_scheme run" where
  "put_alloc e s =
     (if allocCtr s < 0 \<or> int (length (allocData s)) \<le> allocCtr s then fail OutOfBounds
      else
        let ctr = wrap32 (allocCtr s + 1)
        in ret (s\<lparr>allocData := (allocData s)[nat (allocCtr s) := e],
                  allocCtr := (if ctr = int ALLOC_DATA_BUFFER_SIZE then 0 else ctr),
                  allocTotal := wrap32 (allocTotal s + 1)\<rparr>))"

definition scePafAllocateMem_hook :: "'w eapi \<Rightarrow> addr \<Rightarrow> (int, addr, 'w, 'm) eorig \<Rightarrow> (int, addr, 'w, 'm) eorig" where
  "scePafAllocateMem_hook k local orig size0 s =
     run_bind (orig size0 s) (\<lambda>(res, s1).
     run_bind (stacktrace_global k (\<lambda>p w. if p = local then res else e_word k p w) local ''''
                 0 (int ALLOC_STACKTRACE_SIZE) 1 0 (replicate ALLOC_STACKTRACE_SIZE 0) s1) (\<lambda>(n, A, s2).
     run_bind (put_alloc \<lparr>ad_ptr = res, ad_caller = A ! 0\<rparr>
                 (s2\<lparr>alloc_addresses := A, alloc_addressNum := n\<rparr>)) (\<lambda>s3.
     ret (res, s3))))"

fun find_alloc :: "int \<Rightarrow> alloc_data list \<Rightarrow> addr \<Rightarrow> int" where
  "find_alloc i [] v = -1"
| "find_alloc i (e # es) v = (if ad_ptr e = v then i else find_alloc (i + 1) es v)"

definition find_allocation_data :: "addr \<Rightarrow> ('w, 'm) els_scheme \<Rightarrow> int" where
  "find_allocation_data v s = find_alloc 0 (allocData s) v"


section \<open>ScePaf and the shell\<close>

definition scePafGraphics_b976a154_hook :: "(addr \<times> 'a, addr, 'w, 'm) eorig \<Rightarrow> (addr \<times> 'a, addr, 'w, 'm) eorig" where
  "scePafGraphics_b976a154_hook orig a s =
     run_bind (orig a s) (\<lambda>(res, s1). ret (res, stores Paf_b976a154 [Put Ctx14 (uint (fst a)), Called] s1))"

definition scePafGraphics_b2eca849_hook :: "(addr \<times> 'a, addr, 'w, 'm) eorig \<Rightarrow> (addr \<times> 'a, addr, 'w, 'm) eorig" where
  "scePafGraphics_b2eca849_hook orig a s =
     run_bind (orig a s) (\<lambda>(res, s1). ret (res, stores Paf_b2eca849 [Put Ctx14 (uint (fst a)), Called] s1))"

definition scePafGraphics_7c8b2a63_hook :: "(addr \<times> 'a, addr, 'w, 'm) eorig \<Rightarrow> (addr \<times> 'a, addr, 'w, 'm) eorig" where
  "scePafGraphics_7c8b2a63_hook orig a s =
     run_bind (orig a s) (\<lambda>(res, s1). ret (res, stores Paf_7c8b2a63 [Put Ctx14 (uint (fst a)), Called] s1))"

definition scePafGraphics_a97584eb_hook :: "('a, int, 'w, 'm) eorig \<Rightarrow> ('a, int, 'w, 'm) eorig" where
  "scePafGraphics_a97584eb_hook orig a s =
     run_bind (orig a s) (\<lambda>(res, s1). ret (res, stores Paf_a97584eb [Called] s1))"

definition scePafGraphics_c84832a2_hook :: "'w eapi \<Rightarrow> addr \<Rightarrow> ('a, int, 'w, 'm) eorig \<Rightarrow> ('a, int, 'w, 'm) eorig" where
  "scePafGraphics_c84832a2_hook k local orig a s =
     run_bind (orig a s) (\<lambda>(res, s1). ret (res, stores Paf_c84832a2 [Called]
       (put_stack Paf_c84832a2 (stack_from k local (word_of_int res) 0x10 (el_world s1)) s1)))"

definition scePafGraphics_b228a257_hook :: "('a, int, 'w, 'm) eorig \<Rightarrow> ('a, int, 'w, 'm) eorig" where
  "scePafGraphics_b228a257_hook orig a s =
     run_bind (orig a s) (\<lambda>(res, s1). ret (res, stores Paf_b228a257 [Called] s1))"

definition proc_83F23D5C_hook :: "'w eapi \<Rightarrow> addr \<Rightarrow> ('a, int, 'w, 'm) eorig \<Rightarrow> ('a, int, 'w, 'm) eorig" where
  "proc_83F23D5C_hook k local orig a s =
     run_bind (orig a s) (\<lambda>(res, s1). ret (res, stores Proc_83F23D5C [Called]
       (put_stack Proc_83F23D5C (stack_from k local (word_of_int res) 0x10 (el_world s1)) s1)))"

definition proc_83F275CC_hook :: "('a, int, 'w, 'm) eorig \<Rightarrow> ('a, int, 'w, 'm) eorig" where
  "proc_83F275CC_hook orig a s =
     run_bind (orig a s) (\<lambda>(res, s1). ret (res, stores Proc_83F275CC [Put Res res, Called] s1))"

definition proc_83F10C5A_hook :: "('a, int, 'w, 'm) eorig \<Rightarrow> ('a, int, 'w, 'm) eorig" where
  "proc_83F10C5A_hook orig a s =
     run_bind (orig a s) (\<lambda>(res, s1). ret (res, stores Proc_83F10C5A [Put Res res, Called] s1))"

text \<open>The last argument points to where the original stores its answer.\<close>

definition scePafMisc_b9fb9bd6_hook :: "'w eapi \<Rightarrow> ('a \<times> addr, int, 'w, 'm) eorig \<Rightarrow> ('a \<times> addr, int, 'w, 'm) eorig" where
  "scePafMisc_b9fb9bd6_hook k orig a s =
     run_bind (orig a s) (\<lambda>(res, s1).
     run_bind (member_at k (snd a) 0 s1) (\<lambda>r.
     ret (res, stores Paf_b9fb9bd6 [Put Result (sint r), Put Res res, Called] s1)))"

end
