(* ===== verification/El_Listener.thy ===== *)
theory El_Listener
  imports El_Hooks
begin

text \<open>
  The listener thread of \<open>error_logger.c\<close>: it polls the flags of the hooks, writes what a hook has
  stored to the log and clears the flag. What it writes for a hook is a list of formats, one for each
  call of \<open>sceClibSnprintf\<close>, in the order of the code.
\<close>

section \<open>What is polled\<close>

datatype piece = Txt string | Nl | Hex efield | Path

fun piece_text :: "ehook \<Rightarrow> ('w, 'm) els_scheme \<Rightarrow> piece \<Rightarrow> string" where
  "piece_text h s (Txt t) = t"
| "piece_text h s Nl = newline"
| "piece_text h s (Hex f) = hex8_str (word_of_int (e_data s h f))"
| "piece_text h s Path = c_string (e_path s h)"

definition slot_text :: "ehook \<Rightarrow> ('w, 'm) els_scheme \<Rightarrow> piece list \<Rightarrow> string" where
  "slot_text h s ps = concat (map (piece_text h s) ps)"

definition polled_1 :: "(ehook \<times> piece list list) list" where
  "polled_1 =
     [(Proc_83F258F8, [[Txt ''called proc_83F258F8_hook:'', Nl, Txt ''arg0: '', Hex (Arg 0),
        Txt '' arg1: '', Hex (Arg 1), Txt '' arg2: '', Hex (Arg 2), Txt '' ctx14: '', Hex Ctx14,
        Txt '' res: '', Hex Res, Nl]]),
      (Proc_83F27424, [[Txt ''called proc_83F27424_hook:'', Nl, Txt ''arg0: '', Hex (Arg 0),
        Txt '' arg1: '', Hex (Arg 1), Txt '' res: '', Hex Res, Nl]]),
      (Proc_83F2407A, [[Txt ''called proc_83F2407A_hook:'', Nl, Txt '' arg0: '', Hex (Arg 0),
        Txt '' arg1: '', Hex (Arg 1), Txt '' arg2: '', Hex (Arg 2), Txt '' res: '', Hex Res, Nl]]),
      (Proc_83F25592, [[Txt ''called proc_83F25592_hook:'', Nl, Txt '' arg0: '', Hex (Arg 0),
        Txt '' arg1: '', Hex (Arg 1), Txt '' ctx14: '', Hex Ctx14, Txt '' res: '', Hex Res, Nl]])]"

definition polled_2 :: "(ehook \<times> piece list list) list" where
  "polled_2 =
     [(Proc_83F24534, [[Txt ''called proc_83F24534_hook:'', Nl, Txt '' arg0: '', Hex (Arg 0),
        Txt '' arg1: '', Hex (Arg 1), Txt '' arg2: '', Hex (Arg 2), Txt '' arg3: '', Hex (Arg 3),
        Txt '' arg4: '', Hex (Arg 4), Txt '' ctx14: '', Hex Ctx14, Txt '' res: '', Hex Res, Nl]]),
      (Proc_83F24D96, [[Txt ''called proc_83F24D96_hook:'', Nl, Txt '' arg0: '', Hex (Arg 0),
        Txt '' arg1: '', Hex (Arg 1), Txt '' arg2: '', Hex (Arg 2), Txt '' arg3: '', Hex (Arg 3),
        Txt '' arg4: '', Hex (Arg 4), Txt '' ctx14: '', Hex Ctx14, Txt '' res: '', Hex Res, Nl]])]"

definition polled_3 :: "(ehook \<times> piece list list) list" where
  "polled_3 =
     [(Proc_8430F028, [[Txt ''called proc_8430F028_hook:'', Nl, Txt ''ctx: '', Hex Ptr,
        Txt '' arg: '', Hex Queue_arg, Txt '' ctx14: '', Hex Ctx14, Txt '' res: '', Hex Res, Nl]]),
      (Queue_worker_entry2_834DED94, [[Txt ''called queue_worker_entry2_834DED94_hook:'', Nl,
        Txt ''ctx: '', Hex Ptr, Txt '' arg: '', Hex Queue_arg, Txt '' ctx14: '', Hex Ctx14,
        Txt '' res: '', Hex Res, Nl]]),
      (Param_sfo_verifySpsfo_shell, [[Txt ''called param_sfo_verifySpsfo_shell_hook:'', Nl,
        Txt ''path: '', Path, Txt '' res: '', Hex Res, Nl]]),
      (Gc_param_sfo_83F2CEA0, [[Txt ''called proc_gc_param_sfo_83F2CEA0_hook:'', Nl, Txt ''arg: '',
        Hex (Arg 0), Txt '' res: '', Hex Res, Nl]]),
      (Param_sfo_verifySpsfo, [[Txt ''called param_sfo_verifySpsfo_hook:'', Nl, Txt ''path: '', Path,
        Txt '' res: '', Hex Res, Nl]]),
      (ScePafAllocateMem, [[Txt ''called scePafAllocateMem_hook:'', Nl, Txt ''size: '', Hex Size,
        Txt '' res: '', Hex Res, Nl]]),
      (Proc_83F20D36, [[Txt ''called proc_83F20D36_hook:'', Nl, Txt ''ctx: '', Hex Ptr,
        Txt '' arg: '', Hex Queue_arg, Txt '' ctx14: '', Hex Ctx14, Nl], [Txt ''arg1: '', Hex (Arg 1),
        Txt '' arg2: '', Hex (Arg 2), Txt '' res: '', Hex Res, Nl]])]"

definition polled_4 :: "(ehook \<times> piece list list) list" where
  "polled_4 =
     [(Paf_b976a154, [[Txt ''called scePafGraphics_b976a154_hook:'', Nl, Txt ''ctx14: '', Hex Ctx14,
        Nl]]),
      (Paf_b2eca849, [[Txt ''called scePafGraphics_b2eca849_hook:'', Nl, Txt ''ctx14: '', Hex Ctx14,
        Nl]]),
      (Paf_7c8b2a63, [[Txt ''called scePafGraphics_7c8b2a63_hook:'', Nl, Txt ''ctx14: '', Hex Ctx14,
        Nl]]),
      (Paf_a97584eb, [[Txt ''called scePafGraphics_a97584eb_hook:'', Nl]]),
      (Paf_c84832a2, [[Txt ''called scePafGraphics_c84832a2_hook:'', Nl]]),
      (Paf_b228a257, [[Txt ''called scePafGraphics_b228a257_hook:'', Nl]])]"

definition polled_5 :: "(ehook \<times> piece list list) list" where
  "polled_5 =
     [(Paf_b9fb9bd6, [[Txt ''called scePafMisc_b9fb9bd6_hook:'', Nl, Txt ''result: '', Hex Result,
        Txt '' res: '', Hex Res, Nl]]),
      (Proc_83F23D5C, [[Txt ''called Shell proc_83F23D5C_hook:'', Nl]]),
      (Proc_83F275CC, [[Txt ''called Shell proc_83F275CC_hook:'', Nl, Txt ''res: '', Hex Res, Nl]]),
      (Proc_83F10C5A, [[Txt ''called Shell proc_83F10C5A_hook:'', Nl, Txt ''res: '', Hex Res, Nl]]),
      (SceAppMgrGameDataMount, [[Txt ''called AppMgr sceAppMgrGameDataMount_hook:'', Nl,
        Txt ''res: '', Hex Res, Nl]])]"

definition polled :: "(ehook \<times> piece list list) list" where
  "polled = polled_1 @ polled_2 @ polled_3 @ polled_4 @ polled_5"


section \<open>The thread\<close>

definition poll :: "'w eapi \<Rightarrow> ehook \<times> piece list list \<Rightarrow> ('w, 'm) els_scheme \<Rightarrow> ('w, 'm) els_scheme" where
  "poll k e s = (case e of (h, formats) \<Rightarrow>
     if e_called s h = 1
     then
       let s1 = fold (\<lambda>ps u. put_text k (slot_text h u ps) u) formats (open_global_log_el k s);
           s2 = close_global_log_el k s1
       in s2\<lparr>e_called := (e_called s2)(h := 0)\<rparr>
     else s)"

definition listener_pass :: "'w eapi \<Rightarrow> ('w, 'm) els_scheme \<Rightarrow> ('w, 'm) els_scheme" where
  "listener_pass k s = fold (poll k) polled s"

text \<open>While the thread is delayed the others run: \<open>delay\<close> is any transformer of the state.\<close>

partial_function (option) listener_loop ::
    "'w eapi \<Rightarrow> (int \<Rightarrow> ('w, 'm) els_scheme \<Rightarrow> ('w, 'm) els_scheme run) \<Rightarrow> ('w, 'm) els_scheme
     \<Rightarrow> ('w, 'm) els_scheme run" where
  "listener_loop k delay s = run_bind (delay 100 s) (\<lambda>s1. listener_loop k delay (listener_pass k s1))"

definition ListenerThread ::
    "'w eapi \<Rightarrow> (int \<Rightarrow> ('w, 'm) els_scheme \<Rightarrow> ('w, 'm) els_scheme run) \<Rightarrow> ('w, 'm) els_scheme
     \<Rightarrow> (int \<times> ('w, 'm) els_scheme) run" where
  "ListenerThread k delay s =
     run_bind (listener_loop k delay (el_message k ''entered ListenerThread'' s)) (\<lambda>s1.
     ret (0, el_message k ''exited ListenerThread'' s1))"

definition has_info :: "('w, 'm) els_scheme \<Rightarrow> bool" where
  "has_info s \<longleftrightarrow> (\<exists>h \<in> set [Proc_83F258F8, Proc_83F27424, Proc_83F2407A, Proc_83F25592, Proc_83F24534,
     Proc_83F24D96, Proc_8430F028, Queue_worker_entry2_834DED94, ScePafAllocateMem,
     Param_sfo_verifySpsfo_shell, Gc_param_sfo_83F2CEA0, Param_sfo_verifySpsfo]. e_called s h \<noteq> 0)"


section \<open>A pass\<close>

lemma polled_distinct: "distinct (map fst polled)"
  by (simp add: polled_def polled_1_def polled_2_def polled_3_def polled_4_def polled_5_def)

text \<open>What a pass should write: for every flag that is set, in the order of the table, the texts
  made from the variables as they are when the pass begins.\<close>

definition pending :: "('w, 'm) els_scheme \<Rightarrow> (ehook \<times> piece list list) list \<Rightarrow> string list list" where
  "pending s es = map (\<lambda>(h, formats). map (slot_text h s) formats) (filter (\<lambda>e. e_called s (fst e) = 1) es)"

lemma slot_text_cong:
  "e_data t = e_data s \<Longrightarrow> e_path t = e_path s \<Longrightarrow> slot_text h t = slot_text h s"
proof
  fix ps assume "e_data t = e_data s" "e_path t = e_path s"
  then have "piece_text h t p = piece_text h s p" for p by (cases p) simp_all
  then have "piece_text h t = piece_text h s" by (rule ext)
  then show "slot_text h t ps = slot_text h s ps" by (simp add: slot_text_def)
qed

lemma fold_put_texts:
  assumes "log_only s t"
  shows "fold (\<lambda>ps u. put_text k (slot_text h u ps) u) formats t = fold (put_text k) (map (slot_text h s) formats) t"
  using assms
proof (induction formats arbitrary: t)
  case (Cons ps formats)
  have "slot_text h t = slot_text h s" using log_onlyD [OF Cons.prems] by (intro slot_text_cong) simp_all
  moreover have "log_only s (put_text k x t)" for x by (rule log_only_trans [OF Cons.prems]) simp
  ultimately show ?case using Cons.IH by simp
qed simp

lemma poll_eq:
  "poll k (h, formats) s = (if e_called s h = 1
     then (el_texts k (map (slot_text h s) formats) s)\<lparr>e_called := (e_called s)(h := 0)\<rparr> else s)"
proof -
  have "e_called (el_texts k ts s) = e_called s" for ts by (rule log_onlyD(4) [OF log_only_texts(1)])
  then show ?thesis
    by (simp add: poll_def el_texts_def fold_put_texts [OF log_only_open])
qed

lemma texts_called: "el_texts k ts (s\<lparr>e_called := c\<rparr>) = (el_texts k ts s)\<lparr>e_called := c\<rparr>"
proof -
  have o1: "open_global_log_el k (s\<lparr>e_called := c\<rparr>) = (open_global_log_el k s)\<lparr>e_called := c\<rparr>" for s :: "('a, 'b) els_scheme"
    by (simp add: open_global_log_el_def el_call_eq)
  have c1: "close_global_log_el k (s\<lparr>e_called := c\<rparr>) = (close_global_log_el k s)\<lparr>e_called := c\<rparr>" for s :: "('a, 'b) els_scheme"
    by (simp add: close_global_log_el_def el_do_def)
  have p1: "put_text k x (s\<lparr>e_called := c\<rparr>) = (put_text k x s)\<lparr>e_called := c\<rparr>" for x and s :: "('a, 'b) els_scheme"
    by (simp add: put_text_def FILE_WRITE_LEN_def el_do_def)
  have "fold (put_text k) ts (s\<lparr>e_called := c\<rparr>) = (fold (put_text k) ts s)\<lparr>e_called := c\<rparr>" for s :: "('a, 'b) els_scheme"
    by (induction ts arbitrary: s) (simp_all add: p1)
  then show ?thesis by (simp add: el_texts_def o1 c1)
qed

lemma polls_eq:
  assumes "distinct (map fst es)"
  shows "fold (poll k) es s = (fold (el_texts k) (pending s es) s)\<lparr>e_called :=
     (\<lambda>h. if e_called s h = 1 \<and> h \<in> fst ` set es then 0 else e_called s h)\<rparr>"
  using assms
proof (induction es arbitrary: s)
  case Nil
  then show ?case by (simp add: pending_def)
next
  case (Cons e es)
  obtain h formats where e: "e = (h, formats)" by (cases e)
  have called: "(\<lambda>x. if c x = 1 \<and> x \<in> A then 0 else c x)
      = (\<lambda>x. if e_called s x = 1 \<and> x \<in> insert h A then 0 else e_called s x)"
    if "c = (e_called s)(h := 0)" "e_called s h = 1" for c A
    using that by (intro ext) simp
  show ?case
  proof (cases "e_called s h = 1")
    case True
    define s1 where "s1 = poll k e s"
    let ?t = "el_texts k (map (slot_text h s) formats) s"
    have t: "log_only s ?t" by (rule log_only_texts)
    have s1: "s1 = ?t\<lparr>e_called := (e_called s)(h := 0)\<rparr>" using True by (simp add: s1_def e poll_eq)
    have c1: "e_called s1 = (e_called s)(h := 0)" by (simp add: s1)
    have tx: "slot_text x s1 = slot_text x s" for x
      using log_onlyD [OF t] by (intro slot_text_cong) (simp_all add: s1)
    have "filter (\<lambda>e. e_called s1 (fst e) = 1) es = filter (\<lambda>e. e_called s (fst e) = 1) es"
      using Cons.prems by (intro filter_cong) (auto simp: s1 e)
    then have p: "pending s1 es = pending s es" by (simp add: pending_def tx)
    have f: "fold (el_texts k) ys (s\<lparr>e_called := c\<rparr>) = (fold (el_texts k) ys s)\<lparr>e_called := c\<rparr>"
      for ys c and s :: "('a, 'b) els_scheme"
      by (induction ys arbitrary: s) (simp_all add: texts_called)
    have "fold (poll k) (e # es) s = fold (poll k) es s1" by (simp add: s1_def)
    also have "\<dots> = (fold (el_texts k) (pending s es) s1)\<lparr>e_called :=
        (\<lambda>x. if e_called s1 x = 1 \<and> x \<in> fst ` set es then 0 else e_called s1 x)\<rparr>"
      using Cons p by simp
    also have "\<dots> = (fold (el_texts k) (pending s es) s1)\<lparr>e_called :=
        (\<lambda>x. if e_called s x = 1 \<and> x \<in> insert h (fst ` set es) then 0 else e_called s x)\<rparr>"
      by (simp only: called [OF c1 True])
    also have "\<dots> = (fold (el_texts k) (pending s es) ?t)\<lparr>e_called :=
        (\<lambda>x. if e_called s x = 1 \<and> x \<in> insert h (fst ` set es) then 0 else e_called s x)\<rparr>"
      by (simp add: s1 f)
    finally show ?thesis using True by (simp add: pending_def e)
  next
    case False
    then have "(\<lambda>x. if e_called s x = 1 \<and> x \<in> fst ` set es then 0 else e_called s x)
      = (\<lambda>x. if e_called s x = 1 \<and> x \<in> fst ` set (e # es) then 0 else e_called s x)"
      by (auto simp: e fun_eq_iff)
    with False Cons show ?thesis by (simp add: e poll_eq pending_def)
  qed
qed

text \<open>C20: A pass of the listener, while no hook runs. It writes one message for every polled hook
  whose flag is set, in the order of the polling code, with exactly the arguments and results that
  the hooks have stored, clears these flags and changes nothing else. The flags of
  \<open>sceErrorGetExternalString\<close> and of the hooks that log by themselves are never polled.\<close>

theorem pass_writes_pending:
  "listener_pass k s = (fold (el_texts k) (pending s polled) s)\<lparr>e_called :=
     (\<lambda>h. if e_called s h = 1 \<and> h \<notin> {SceErrorGetExternalString, SceKernelCreateThread, SceKernelLoadModule,
        SceKernelLoadStartModule, Gc_param_sfo_83F6B554, Gc_param_sfo_83F74B30} then 0 else e_called s h)\<rparr>"
proof -
  have "h \<in> fst ` set polled \<longleftrightarrow> h \<notin> {SceErrorGetExternalString, SceKernelCreateThread, SceKernelLoadModule,
        SceKernelLoadStartModule, Gc_param_sfo_83F6B554, Gc_param_sfo_83F74B30}" for h
    by (cases h) (simp_all add: polled_def polled_1_def polled_2_def polled_3_def polled_4_def polled_5_def)
  then show ?thesis by (simp add: listener_pass_def polls_eq [OF polled_distinct])
qed


section \<open>The loop\<close>

lemma listener_loop_never: "listener_loop k delay s \<noteq> ret x"
proof
  assume "listener_loop k delay s = ret x"
  then have "listener_loop k delay s = Some (Inr x)" by (simp add: ret_def)
  then have "case (Inr x :: fault + ('a, 'b) els_scheme) of Inl f \<Rightarrow> True | Inr _ \<Rightarrow> False"
  proof (rule listener_loop.raw_induct [rotated])
    fix loop :: "'a eapi \<Rightarrow> (int \<Rightarrow> ('a, 'b) els_scheme \<Rightarrow> ('a, 'b) els_scheme run) \<Rightarrow> ('a, 'b) els_scheme
        \<Rightarrow> ('a, 'b) els_scheme run"
      and k delay s y
    assume IH: "\<And>k delay s y. loop k delay s = Some y \<Longrightarrow> case y of Inl f \<Rightarrow> True | Inr _ \<Rightarrow> False"
      and step: "run_bind (delay 100 s) (\<lambda>s1. loop k delay (listener_pass k s1)) = Some y"
    show "case y of Inl f \<Rightarrow> True | Inr _ \<Rightarrow> False"
    proof (cases "delay 100 s" rule: run_cases)
      case (returns s1)
      then show ?thesis using step IH by (simp add: run_bind_ret)
    next
      case (faults f)
      then show ?thesis using step [unfolded faults run_bind_fail] by (auto simp: fail_def)
    qed (use step in \<open>simp add: run_bind_None\<close>)
  qed
  then show False by simp
qed

lemma listener_loop_silent:
  assumes "\<And>u. \<exists>v. delay 100 u = ret v"
  shows "listener_loop k delay s = None"
proof (rule ccontr)
  assume "listener_loop k delay s \<noteq> None"
  then obtain y where "listener_loop k delay s = Some y" by auto
  then have "(\<forall>u. \<exists>v. delay 100 u = ret v) \<longrightarrow> False"
  proof (rule listener_loop.raw_induct [rotated])
    fix loop :: "'a eapi \<Rightarrow> (int \<Rightarrow> ('a, 'b) els_scheme \<Rightarrow> ('a, 'b) els_scheme run) \<Rightarrow> ('a, 'b) els_scheme
        \<Rightarrow> ('a, 'b) els_scheme run"
      and k delay s y
    assume IH: "\<And>k delay s y. loop k delay s = Some y \<Longrightarrow> (\<forall>u. \<exists>v. delay 100 u = ret v) \<longrightarrow> False"
      and step: "run_bind (delay 100 s) (\<lambda>s1. loop k delay (listener_pass k s1)) = Some y"
    show "(\<forall>u. \<exists>v. delay 100 u = ret v) \<longrightarrow> False"
      using step IH by (metis run_bind_ret)
  qed
  with assms show False by blast
qed

text \<open>C37: The listener never returns, whatever the other threads do while it is delayed; and when
  they do not crash the process either, it runs for ever. The message that announces its end is
  never written.\<close>

theorem listener_runs_for_ever:
  "ListenerThread k delay s \<noteq> ret x
   \<and> ((\<forall>u. \<exists>v. delay 100 u = ret v) \<longrightarrow> ListenerThread k delay s = None)"
proof (intro conjI impI)
  show "ListenerThread k delay s \<noteq> ret x"
    using listener_loop_never by (auto simp: ListenerThread_def run_bind_eq_ret)
next
  assume "\<forall>u. \<exists>v. delay 100 u = ret v"
  then have "listener_loop k delay t = None" for t by (intro listener_loop_silent) blast
  then show "ListenerThread k delay s = None" by (simp add: ListenerThread_def run_bind_None)
qed

theorem listener_runs_for_ever_witness:
  "ListenerThread quiet_eapi (\<lambda>_. ret) (els_boot ()) = None"
  using listener_runs_for_ever [of quiet_eapi "\<lambda>_. ret" "els_boot ()"] by blast

end
