(* ===== verification/El_Race.thy ===== *)
theory El_Race
  imports El_Listener
begin

text \<open>
  A hook and the listener of \<open>error_logger.c\<close> as two threads. They share the hook's variables and its
  flag without a lock, so that every store of the hook and every load of the listener is a step of its
  own. A state holds the shared variables, what is left of the call that is running, the calls that
  are still to come, where the listener is, and the values it has written. The relation is
  \<open>patient\<close> if no call begins before the record of the last one is written.
\<close>

section \<open>The steps\<close>

definition slot_fields :: "piece list list \<Rightarrow> efield list" where
  "slot_fields formats = concat (map (\<lambda>p. case p of Hex f \<Rightarrow> [f] | _ \<Rightarrow> []) (concat formats))"

definition fields_of :: "ehook \<Rightarrow> efield list" where
  "fields_of h = (case map_of polled h of None \<Rightarrow> [] | Some formats \<Rightarrow> slot_fields formats)"

datatype reader = Waiting | Reading "efield list" "int list" | Clearing

record 'w race_state =
  shared :: "'w els"
  todo :: "store list"
  script :: "store list list"
  reader_at :: reader
  written :: "int list list"

definition race_start :: "'w els \<Rightarrow> store list list \<Rightarrow> 'w race_state" where
  "race_start s calls = \<lparr>shared = s, todo = [], script = calls, reader_at = Waiting, written = []\<rparr>"

inductive race :: "bool \<Rightarrow> ehook \<Rightarrow> 'w race_state \<Rightarrow> 'w race_state \<Rightarrow> bool" for patient h where
  hook_call: "todo c = [] \<Longrightarrow> script c = x # xs \<Longrightarrow>
    patient \<longrightarrow> e_called (shared c) h = 0 \<and> reader_at c = Waiting \<Longrightarrow>
    race patient h c (c\<lparr>todo := x, script := xs\<rparr>)"
| hook_store: "todo c = x # xs \<Longrightarrow>
    race patient h c (c\<lparr>shared := exec_store h x (shared c), todo := xs\<rparr>)"
| sees_flag: "reader_at c = Waiting \<Longrightarrow> e_called (shared c) h = 1 \<Longrightarrow>
    race patient h c (c\<lparr>reader_at := Reading (fields_of h) []\<rparr>)"
| reads: "reader_at c = Reading (f # fs) vs \<Longrightarrow>
    race patient h c (c\<lparr>reader_at := Reading fs (vs @ [e_data (shared c) h f])\<rparr>)"
| writes: "reader_at c = Reading [] vs \<Longrightarrow>
    race patient h c (c\<lparr>reader_at := Clearing, written := written c @ [vs]\<rparr>)"
| clears: "reader_at c = Clearing \<Longrightarrow>
    race patient h c (c\<lparr>reader_at := Waiting, shared := (shared c)\<lparr>e_called := (e_called (shared c))(h := 0)\<rparr>\<rparr>)"

text \<open>The values a call stores, and what a record of it should show.\<close>

definition apply_store :: "store \<Rightarrow> (efield \<Rightarrow> int) \<Rightarrow> efield \<Rightarrow> int" where
  "apply_store x m = (case x of Put f v \<Rightarrow> m(f := v) | Called \<Rightarrow> m)"

definition call_value :: "store list \<Rightarrow> efield \<Rightarrow> int" where
  "call_value xs = fold apply_store xs (\<lambda>_. 0)"

definition stored_fields :: "store list \<Rightarrow> efield list" where
  "stored_fields xs = concat (map (\<lambda>x. case x of Put f v \<Rightarrow> [f] | Called \<Rightarrow> []) xs)"

definition record_of :: "ehook \<Rightarrow> store list \<Rightarrow> int list" where
  "record_of h xs = map (call_value xs) (fields_of h)"

text \<open>All values are stored before the flag is set.\<close>

definition data_first :: "store list \<Rightarrow> bool" where
  "data_first xs \<longleftrightarrow> xs \<noteq> [] \<and> last xs = Called \<and> Called \<notin> set (butlast xs)"

definition full_call :: "ehook \<Rightarrow> store list \<Rightarrow> bool" where
  "full_call h xs \<longleftrightarrow> data_first xs \<and> set (fields_of h) \<subseteq> set (stored_fields xs)"


section \<open>Stores\<close>

lemma stores_data: "e_data (stores h xs s) h = fold apply_store xs (e_data s h)"
proof (induction xs arbitrary: s)
  case (Cons x xs)
  have "e_data (exec_store h x s) h = apply_store x (e_data s h)" by (cases x) (simp_all add: apply_store_def)
  with Cons.IH [of "exec_store h x s"] show ?case by (simp add: stores_def)
qed (simp add: stores_def)

lemma apply_stores_eq: "f \<in> set (stored_fields xs) \<Longrightarrow> fold apply_store xs m f = fold apply_store xs m' f"
proof (induction xs rule: rev_induct)
  case (snoc x xs)
  then show ?case by (cases x) (auto simp: apply_store_def stored_fields_def)
qed (simp add: stored_fields_def)

lemma stores_value: "f \<in> set (stored_fields xs) \<Longrightarrow> e_data (stores h xs s) h f = call_value xs f"
  unfolding stores_data call_value_def by (rule apply_stores_eq)

lemma data_first_Cons:
  "data_first (x # xs) \<longleftrightarrow> (if xs = [] then x = Called else x \<noteq> Called \<and> data_first xs)"
  by (auto simp: data_first_def)

lemma exec_put_flag: "x \<noteq> Called \<Longrightarrow> e_called (exec_store h x s) = e_called s"
  by (cases x) simp_all

lemma stores_simps [simp]: "stores h [] s = s" "stores h (x # xs) s = stores h xs (exec_store h x s)"
  by (simp_all add: stores_def)


section \<open>Patient calls\<close>

text \<open>Where a patient run can be: between two calls, within a call, with the flag set, reading, or
  about to clear the flag. \<open>n\<close> calls have been recorded.\<close>

inductive race_ok :: "ehook \<Rightarrow> store list list \<Rightarrow> 'w race_state \<Rightarrow> bool" for h calls where
  idle: "n \<le> length calls \<Longrightarrow> script c = drop n calls \<Longrightarrow> todo c = [] \<Longrightarrow> e_called (shared c) h = 0 \<Longrightarrow>
    reader_at c = Waiting \<Longrightarrow> written c = map (record_of h) (take n calls) \<Longrightarrow> race_ok h calls c"
| storing: "n < length calls \<Longrightarrow> script c = drop (Suc n) calls \<Longrightarrow> data_first (todo c) \<Longrightarrow>
    e_called (shared c) h = 0 \<Longrightarrow> reader_at c = Waiting \<Longrightarrow> written c = map (record_of h) (take n calls) \<Longrightarrow>
    map (e_data (stores h (todo c) (shared c)) h) (fields_of h) = record_of h (calls ! n) \<Longrightarrow> race_ok h calls c"
| flagged: "n < length calls \<Longrightarrow> script c = drop (Suc n) calls \<Longrightarrow> todo c = [] \<Longrightarrow>
    e_called (shared c) h = 1 \<Longrightarrow> reader_at c = Waiting \<Longrightarrow> written c = map (record_of h) (take n calls) \<Longrightarrow>
    map (e_data (shared c) h) (fields_of h) = record_of h (calls ! n) \<Longrightarrow> race_ok h calls c"
| reading: "n < length calls \<Longrightarrow> script c = drop (Suc n) calls \<Longrightarrow> todo c = [] \<Longrightarrow>
    e_called (shared c) h = 1 \<Longrightarrow> reader_at c = Reading fs vs \<Longrightarrow> written c = map (record_of h) (take n calls) \<Longrightarrow>
    vs @ map (e_data (shared c) h) fs = record_of h (calls ! n) \<Longrightarrow> race_ok h calls c"
| clearing: "n < length calls \<Longrightarrow> script c = drop (Suc n) calls \<Longrightarrow> todo c = [] \<Longrightarrow>
    e_called (shared c) h = 1 \<Longrightarrow> reader_at c = Clearing \<Longrightarrow>
    written c = map (record_of h) (take (Suc n) calls) \<Longrightarrow> race_ok h calls c"

lemma record_of_stores: "full_call h x \<Longrightarrow> map (e_data (stores h x s) h) (fields_of h) = record_of h x"
  by (auto simp: record_of_def full_call_def stores_value)

lemma race_keeps_ok:
  assumes full: "\<forall>x \<in> set calls. full_call h x" and "race_ok h calls c" and "race True h c c'"
  shows "race_ok h calls c'"
  using assms(2)
proof cases
  case (idle n)
  from assms(3) show ?thesis
  proof cases
    case (hook_call x xs)
    then have n: "n < length calls" "calls ! n = x" "xs = drop (Suc n) calls"
      using idle by (metis drop_all list.distinct(1) not_le, metis Cons_nth_drop_Suc drop_all list.distinct(1) list.inject not_le,
          metis Cons_nth_drop_Suc drop_all list.distinct(1) list.inject not_le)
    then have "full_call h x" using full by (metis nth_mem)
    then show ?thesis
      using idle hook_call n record_of_stores [of h x "shared c"]
      by (intro race_ok.storing [of n]) (simp_all add: full_call_def)
  qed (use idle in simp_all)
next
  case (storing n)
  from assms(3) show ?thesis
  proof cases
    case (hook_store x xs)
    show ?thesis
    proof (cases "xs = []")
      case True
      then show ?thesis
        using storing hook_store by (intro race_ok.flagged [of n]) (simp_all add: data_first_Cons)
    next
      case False
      then show ?thesis
        using storing hook_store by (intro race_ok.storing [of n]) (simp_all add: data_first_Cons exec_put_flag)
    qed
  qed (use storing in \<open>simp_all add: data_first_def\<close>)
next
  case (flagged n)
  from assms(3) show ?thesis
  proof cases
    case sees_flag
    then show ?thesis using flagged
      by (intro race_ok.reading [where n = n and fs = "fields_of h" and vs = "[]"]) simp_all
  qed (use flagged in simp_all)
next
  case (reading n fs vs)
  from assms(3) show ?thesis
  proof cases
    case (reads f fs' vs')
    then show ?thesis
      using reading by (intro race_ok.reading [where n = n and fs = fs' and vs = "vs' @ [e_data (shared c) h f]"]) simp_all
  next
    case (writes vs')
    then show ?thesis using reading by (intro race_ok.clearing [of n]) (simp_all add: take_Suc_conv_app_nth)
  qed (use reading in simp_all)
next
  case (clearing n)
  from assms(3) show ?thesis
  proof cases
    case clears
    then show ?thesis using clearing by (intro race_ok.idle [of "Suc n"]) simp_all
  qed (use clearing in simp_all)
qed

lemma races_keep_ok:
  assumes "\<forall>x \<in> set calls. full_call h x" and "(race True h)\<^sup>*\<^sup>* c c'" and "race_ok h calls c"
  shows "race_ok h calls c'"
  using assms(2,3) by (induction rule: rtranclp_induct) (auto intro: race_keeps_ok [OF assms(1)])

lemma race_ok_written:
  assumes "race_ok h calls c"
  shows "\<exists>n \<le> length calls. written c = map (record_of h) (take n calls)"
  using assms
proof cases
  case (clearing n)
  then show ?thesis by (intro exI [of _ "Suc n"]) auto
qed (auto intro: less_imp_le)

lemma race_ok_progress:
  assumes "race_ok h calls c" and "written c \<noteq> map (record_of h) calls"
  shows "\<exists>c'. race True h c c'"
  using assms(1)
proof cases
  case (idle n)
  with assms(2) have "n < length calls" by (metis le_neq_implies_less take_all_iff order_refl)
  then have "script c = calls ! n # drop (Suc n) calls" using idle by (simp add: Cons_nth_drop_Suc)
  from hook_call [OF _ this] idle show ?thesis by blast
next
  case (storing n)
  then obtain x xs where "todo c = x # xs" by (cases "todo c") (auto simp: data_first_def)
  from hook_store [OF this] show ?thesis by blast
next
  case (flagged n)
  from sees_flag [OF flagged(5,4)] show ?thesis by blast
next
  case (reading n fs vs)
  then show ?thesis using reads writes by (cases fs) blast+
next
  case (clearing n)
  from clears [OF clearing(5)] show ?thesis by blast
qed


lemma fields_computed:
  "fields_of Proc_83F2407A = [Arg 0, Arg 1, Arg 2, Res]"
  "fields_of Proc_83F27424 = [Arg 0, Arg 1, Res]"
  by (simp_all add: fields_of_def polled_def polled_1_def slot_fields_def)

lemma stores_83F2407A_full: "full_call Proc_83F2407A (stores_83F2407A a b c r)"
  by (simp add: full_call_def data_first_def stores_83F2407A_def stored_fields_def fields_computed)

lemma record_83F2407A: "record_of Proc_83F2407A (stores_83F2407A a b c r) = [a, b, c, r]"
  by (simp add: record_of_def call_value_def stores_83F2407A_def apply_store_def fields_computed)


section \<open>Runs\<close>

text \<open>Several stores and several loads in a row.\<close>

lemma run_stores:
  "todo c = xs @ ys \<Longrightarrow> (race p h)\<^sup>*\<^sup>* c (c\<lparr>shared := stores h xs (shared c), todo := ys\<rparr>)"
proof (induction xs arbitrary: c)
  case Nil
  then show ?case by (cases c) simp
next
  case (Cons x xs)
  then have "race p h c (c\<lparr>shared := exec_store h x (shared c), todo := xs @ ys\<rparr>)" by (intro hook_store) simp
  also have "(race p h)\<^sup>*\<^sup>* \<dots> (c\<lparr>shared := stores h (x # xs) (shared c), todo := ys\<rparr>)"
    using Cons.IH [of "c\<lparr>shared := exec_store h x (shared c), todo := xs @ ys\<rparr>"] by simp
  finally (converse_rtranclp_into_rtranclp) show ?case .
qed

lemma run_reads:
  "reader_at c = Reading (fs @ gs) vs \<Longrightarrow>
   (race p h)\<^sup>*\<^sup>* c (c\<lparr>reader_at := Reading gs (vs @ map (e_data (shared c) h) fs)\<rparr>)"
proof (induction fs arbitrary: c vs)
  case Nil
  then show ?case by (cases c) simp
next
  case (Cons f fs)
  then have "race p h c (c\<lparr>reader_at := Reading (fs @ gs) (vs @ [e_data (shared c) h f])\<rparr>)" by (intro reads) simp
  also have "(race p h)\<^sup>*\<^sup>* \<dots> (c\<lparr>reader_at := Reading gs (vs @ map (e_data (shared c) h) (f # fs))\<rparr>)"
    using Cons.IH [of "c\<lparr>reader_at := Reading (fs @ gs) (vs @ [e_data (shared c) h f])\<rparr>"] by simp
  finally (converse_rtranclp_into_rtranclp) show ?case .
qed

text \<open>A whole call, and the whole of the listener's work, without interruption.\<close>

lemma run_call:
  assumes "todo c = []" and "script c = x # xs" and "p \<longrightarrow> e_called (shared c) h = 0 \<and> reader_at c = Waiting"
  shows "(race p h)\<^sup>*\<^sup>* c (c\<lparr>shared := stores h x (shared c), script := xs\<rparr>)"
proof -
  have "race p h c (c\<lparr>todo := x, script := xs\<rparr>)" by (rule hook_call [OF assms])
  also have "(race p h)\<^sup>*\<^sup>* \<dots> (c\<lparr>shared := stores h x (shared c), script := xs\<rparr>)"
    using run_stores [of "c\<lparr>todo := x, script := xs\<rparr>" x "[]" p h] assms(1) by (cases c) simp
  finally (converse_rtranclp_into_rtranclp) show ?thesis .
qed

lemma run_record:
  assumes "reader_at c = Reading [] vs"
  shows "(race p h)\<^sup>*\<^sup>* c (c\<lparr>reader_at := Waiting, written := written c @ [vs],
     shared := (shared c)\<lparr>e_called := (e_called (shared c))(h := 0)\<rparr>\<rparr>)"
proof -
  let ?d = "c\<lparr>reader_at := Clearing, written := written c @ [vs]\<rparr>"
  have "race p h c ?d" by (rule writes [OF assms])
  also have "(race p h)\<^sup>*\<^sup>* ?d (?d\<lparr>reader_at := Waiting,
      shared := (shared ?d)\<lparr>e_called := (e_called (shared ?d))(h := 0)\<rparr>\<rparr>)"
    by (rule r_into_rtranclp, rule clears) simp
  finally (converse_rtranclp_into_rtranclp) show ?thesis by (cases c) simp
qed

lemma run_listener:
  assumes "reader_at c = Waiting" and "e_called (shared c) h = 1"
  shows "(race p h)\<^sup>*\<^sup>* c (c\<lparr>written := written c @ [map (e_data (shared c) h) (fields_of h)],
     shared := (shared c)\<lparr>e_called := (e_called (shared c))(h := 0)\<rparr>\<rparr>)"
proof -
  let ?c1 = "c\<lparr>reader_at := Reading (fields_of h) []\<rparr>"
  let ?c2 = "c\<lparr>reader_at := Reading [] (map (e_data (shared c) h) (fields_of h))\<rparr>"
  have "race p h c ?c1" using assms by (rule sees_flag)
  also have "(race p h)\<^sup>*\<^sup>* ?c1 ?c2" using run_reads [of ?c1 "fields_of h" "[]" "[]"] by simp
  also have "(race p h)\<^sup>*\<^sup>* ?c2 (c\<lparr>written := written c @ [map (e_data (shared c) h) (fields_of h)],
     shared := (shared c)\<lparr>e_called := (e_called (shared c))(h := 0)\<rparr>\<rparr>)"
    using run_record [of ?c2 _ p h] assms(1) by (cases c) simp
  finally (rtranclp_trans) show ?thesis .
qed


lemma stuck:
  "todo c = [] \<Longrightarrow> script c = [] \<Longrightarrow> reader_at c = Waiting \<Longrightarrow> e_called (shared c) h = 0 \<Longrightarrow>
   \<not> race p h c c'"
  by (auto elim: race.cases)

lemma shared_83F2407A:
  "e_called (stores h (stores_83F2407A a b c r) s) h = 1"
  "e_data (stores h (stores_83F2407A a b c r) s) h = (e_data s h)(Arg 0 := a, Arg 1 := b, Arg 2 := c, Res := r)"
  by (simp_all add: stores_83F2407A_def)


section \<open>What can go wrong\<close>

text \<open>\<open>proc_83F27424_hook\<close> sets its flag before it stores anything. Even if its calls are patient, the
  listener can write, for any call, the values that were there before, and clear the flag; the
  values of the call are then never written.\<close>

theorem early_flag_logs_old_values:
  assumes "e_called s Proc_83F27424 = 0"
  shows "\<exists>c. (race True Proc_83F27424)\<^sup>*\<^sup>* (race_start s [stores_83F27424 a b r]) c
    \<and> written c = [map (e_data s Proc_83F27424) [Arg 0, Arg 1, Res]]
    \<and> map (e_data (shared c) Proc_83F27424) [Arg 0, Arg 1, Res] = [a, b, r]
    \<and> (\<nexists>c'. race True Proc_83F27424 c c')"
proof -
  let ?h = Proc_83F27424
  define xs where "xs = [Put (Arg 0) a, Put (Arg 1) b, Put Res r]"
  define t where "t = (exec_store ?h Called s)\<lparr>e_called := (e_called s)(?h := 0)\<rparr>"
  define u where "u = stores ?h xs t"
  have u: "e_called u ?h = 0" "map (e_data u ?h) [Arg 0, Arg 1, Res] = [a, b, r]"
    by (simp_all add: u_def t_def xs_def)
  let ?c4 = "\<lparr>shared = u, todo = [], script = [], reader_at = Waiting,
     written = [map (e_data s ?h) (fields_of ?h)]\<rparr>"
  have run: "(race True ?h)\<^sup>*\<^sup>* (race_start s [Called # xs]) ?c4"
  proof -
    let ?c1 = "\<lparr>shared = s, todo = Called # xs, script = [], reader_at = Waiting, written = []\<rparr>"
    let ?c2 = "\<lparr>shared = exec_store ?h Called s, todo = xs, script = [], reader_at = Waiting, written = []\<rparr>"
    let ?c3 = "\<lparr>shared = t, todo = xs, script = [], reader_at = Waiting,
       written = [map (e_data s ?h) (fields_of ?h)]\<rparr>"
    have "(race True ?h)\<^sup>*\<^sup>* (race_start s [Called # xs]) ?c1"
      using hook_call [of "race_start s [Called # xs]" "Called # xs" "[]" True ?h] assms
      by (simp add: race_start_def r_into_rtranclp)
    also have "(race True ?h)\<^sup>*\<^sup>* ?c1 ?c2"
      using hook_store [of ?c1 Called xs True ?h] by (simp add: r_into_rtranclp)
    also have "(race True ?h)\<^sup>*\<^sup>* ?c2 ?c3"
      using run_listener [of ?c2 ?h True] by (simp add: t_def)
    also have "(race True ?h)\<^sup>*\<^sup>* ?c3 ?c4"
      using run_stores [of ?c3 xs "[]" True ?h] by (simp add: u_def)
    finally (rtranclp_trans) show ?thesis .
  qed
  have call: "stores_83F27424 a b r = Called # xs" by (simp add: stores_83F27424_def xs_def)
  show ?thesis
    unfolding call using run u by (intro exI [of _ ?c4]) (simp add: fields_computed stuck)
qed

theorem early_flag_logs_old_values_witness:
  "\<exists>c. (race True Proc_83F27424)\<^sup>*\<^sup>* (race_start (els_boot ()) [stores_83F27424 1 2 3]) c
    \<and> written c = [[0, 0, 0]]"
  using early_flag_logs_old_values [of "els_boot ()" 1 2 3] by (auto simp: els_boot_def)

text \<open>Without patience a record can mix two calls and a call can be lost. Two calls of
  \<open>proc_83F2407A_hook\<close> can end with one record in the log, the first argument of the first call
  beside the rest of the second one, and with nothing left to be written.\<close>

theorem quick_calls_mixed:
  "\<exists>c. (race False Proc_83F2407A)\<^sup>*\<^sup>*
      (race_start s [stores_83F2407A x0 x1 x2 xr, stores_83F2407A y0 y1 y2 yr]) c
    \<and> written c = [[x0, y1, y2, yr]] \<and> (\<nexists>c'. race False Proc_83F2407A c c')"
proof -
  let ?h = Proc_83F2407A
  define x where "x = stores_83F2407A x0 x1 x2 xr"
  define y where "y = stores_83F2407A y0 y1 y2 yr"
  define t where "t = stores ?h x s"
  define u where "u = stores ?h y t"
  have t: "e_called t ?h = 1" "e_data t ?h (Arg 0) = x0"
    by (simp_all add: t_def x_def shared_83F2407A)
  have u: "map (e_data u ?h) [Arg 1, Arg 2, Res] = [y1, y2, yr]"
    by (simp add: u_def y_def shared_83F2407A)
  let ?c1 = "\<lparr>shared = t, todo = [], script = [y], reader_at = Waiting, written = []\<rparr>"
  let ?c2 = "?c1\<lparr>reader_at := Reading [Arg 0, Arg 1, Arg 2, Res] []\<rparr>"
  let ?c3 = "?c1\<lparr>reader_at := Reading [Arg 1, Arg 2, Res] [x0]\<rparr>"
  let ?c4 = "\<lparr>shared = u, todo = [], script = [], reader_at = Reading [Arg 1, Arg 2, Res] [x0], written = []\<rparr>"
  let ?c5 = "?c4\<lparr>reader_at := Reading [] [x0, y1, y2, yr]\<rparr>"
  let ?c6 = "\<lparr>shared = u\<lparr>e_called := (e_called u)(?h := 0)\<rparr>, todo = [], script = [], reader_at = Waiting,
     written = [[x0, y1, y2, yr]]\<rparr>"
  have "(race False ?h)\<^sup>*\<^sup>* (race_start s [x, y]) ?c1"
    using run_call [of "race_start s [x, y]" x "[y]" False ?h] by (simp add: race_start_def t_def)
  also have "(race False ?h)\<^sup>*\<^sup>* ?c1 ?c2"
    using sees_flag [of ?c1 ?h False] t by (simp add: fields_computed r_into_rtranclp)
  also have "(race False ?h)\<^sup>*\<^sup>* ?c2 ?c3"
    using run_reads [of ?c2 "[Arg 0]" "[Arg 1, Arg 2, Res]" "[]" False ?h] t by simp
  also have "(race False ?h)\<^sup>*\<^sup>* ?c3 ?c4"
    using run_call [of ?c3 y "[]" False ?h] by (simp add: u_def)
  also have "(race False ?h)\<^sup>*\<^sup>* ?c4 ?c5"
    using run_reads [of ?c4 "[Arg 1, Arg 2, Res]" "[]" "[x0]" False ?h] u by simp
  also have "(race False ?h)\<^sup>*\<^sup>* ?c5 ?c6"
    using run_record [of ?c5 "[x0, y1, y2, yr]" False ?h] by simp
  finally (rtranclp_trans) have run: "(race False ?h)\<^sup>*\<^sup>* (race_start s [x, y]) ?c6" .
  then show ?thesis
    by (intro exI [of _ ?c6]) (simp add: stuck flip: x_def y_def)
qed


end
