(* ===== verification/El_Module.thy ===== *)
theory El_Module
  imports El_Race
begin

text \<open>
  The module of \<open>error_logger.c\<close> as a whole: which functions it hooks, what it reports about them,
  the thread it starts, and what it gives back when it is unloaded. As in \<open>Hook_Table\<close>, tables list
  what the straight-line code does, one entry for each statement in its order.
\<close>

section \<open>Errors\<close>

definition tai_errors :: "(tai_error \<times> string) list" where
  "tai_errors =
     [(TAI_ERROR_SYSTEM, ''TAI_ERROR_SYSTEM''),
      (TAI_ERROR_MEMORY, ''TAI_ERROR_MEMORY''),
      (TAI_ERROR_NOT_FOUND, ''TAI_ERROR_NOT_FOUND''),
      (TAI_ERROR_INVALID_ARGS, ''TAI_ERROR_INVALID_ARGS''),
      (TAI_ERROR_INVALID_KERNEL_ADDR, ''TAI_ERROR_INVALID_KERNEL_ADDR''),
      (TAI_ERROR_PATCH_EXISTS, ''TAI_ERROR_PATCH_EXISTS''),
      (TAI_ERROR_HOOK_ERROR, ''TAI_ERROR_HOOK_ERROR''),
      (TAI_ERROR_NOT_IMPLEMENTED, ''TAI_ERROR_NOT_IMPLEMENTED''),
      (TAI_ERROR_USER_MEMORY, ''TAI_ERROR_USER_MEMORY''),
      (TAI_ERROR_NOT_ALLOWED, ''TAI_ERROR_NOT_ALLOWED''),
      (TAI_ERROR_STUB_NOT_RESOLVED, ''TAI_ERROR_STUB_NOT_RESOLVED''),
      (TAI_ERROR_INVALID_MODULE, ''TAI_ERROR_INVALID_MODULE'')]"

definition print_error :: "'w eapi \<Rightarrow> int \<Rightarrow> ('w, 'm) els_scheme \<Rightarrow> int \<times> ('w, 'm) els_scheme" where
  "print_error k err s =
     (0, case find (\<lambda>e. e_tai_error k (fst e) = err) tai_errors of
           None \<Rightarrow> s | Some e \<Rightarrow> FILE_WRITE k (snd e @ newline) s)"


section \<open>What is hooked\<close>

datatype el_op = At ehook int | Exported ehook string int int | Imported ehook string int int

definition SceAppMgrUser_NID :: int where "SceAppMgrUser_NID = 0xA6605D6F"
definition ScePafGraphics_NID :: int where "ScePafGraphics_NID = 0xA070D6A7"

definition shell_hooks :: "el_op list" where
  "shell_hooks =
     [At Param_sfo_verifySpsfo_shell 0x32EEC,
      At Gc_param_sfo_83F2CEA0 0x2C660,
      At Gc_param_sfo_83F6B554 0x6AD14,
      At Gc_param_sfo_83F74B30 0x742F0,
      At Proc_83F258F8 0x250B8,
      At Proc_83F24534 0x23CF4,
      Imported SceAppMgrGameDataMount ''SceShell'' SceAppMgrUser_NID 0x4993876c]"

definition paf_hooks :: "el_op list" where
  "paf_hooks =
     [Exported Paf_b976a154 ''ScePaf'' ScePafGraphics_NID 0xb976a154,
      Exported Paf_b228a257 ''ScePaf'' ScePafGraphics_NID 0xb228a257]"

definition gcip_hooks :: "el_op list" where
  "gcip_hooks = [At Param_sfo_verifySpsfo 0x7892]"

definition reported_1 :: "(ehook \<times> string) list" where
  "reported_1 =
     [(SceErrorGetExternalString, ''sceErrorGetExternalString_hook''),
      (SceKernelCreateThread, ''sceKernelCreateThread_hook''),
      (Param_sfo_verifySpsfo, ''param_sfo_verifySpsfo_hook''),
      (SceKernelLoadModule, ''sceKernelLoadModule_hook''),
      (SceKernelLoadStartModule, ''sceKernelLoadStartModule_hook''),
      (Param_sfo_verifySpsfo_shell, ''param_sfo_verifySpsfo_shell_hook''),
      (Gc_param_sfo_83F2CEA0, ''proc_gc_param_sfo_83F2CEA0_hook''),
      (Gc_param_sfo_83F6B554, ''proc_gc_param_sfo_83F6B554_hook''),
      (Gc_param_sfo_83F74B30, ''proc_gc_param_sfo_83F74B30_hook''),
      (Proc_83F258F8, ''proc_83F258F8_hook'')]"

definition reported_2 :: "(ehook \<times> string) list" where
  "reported_2 =
     [(Proc_83F27424, ''proc_83F27424_hook''),
      (Proc_83F2407A, ''proc_83F2407A_hook''),
      (Proc_83F25592, ''proc_83F25592_hook''),
      (Proc_83F24534, ''proc_83F24534_hook''),
      (Proc_83F24D96, ''proc_83F24D96_hook''),
      (Proc_8430F028, ''proc_8430F028_hook''),
      (Queue_worker_entry2_834DED94, ''queue_worker_entry2_834DED94_hook''),
      (ScePafAllocateMem, ''scePafAllocateMem_hook''),
      (Proc_83F20D36, ''proc_83F20D36_hook''),
      (Paf_b976a154, ''scePafGraphics_b976a154_hook'')]"

definition reported_3 :: "(ehook \<times> string) list" where
  "reported_3 =
     [(Paf_b2eca849, ''scePafGraphics_b2eca849_hook''),
      (Paf_7c8b2a63, ''scePafGraphics_7c8b2a63_hook''),
      (Paf_a97584eb, ''scePafGraphics_a97584eb_hook''),
      (Paf_c84832a2, ''scePafGraphics_c84832a2_hook''),
      (Paf_b228a257, ''scePafGraphics_b228a257_hook''),
      (Paf_b9fb9bd6, ''scePafMisc_b9fb9bd6_hook''),
      (Proc_83F23D5C, ''proc_83F23D5C_hook''),
      (Proc_83F275CC, ''proc_83F275CC_hook''),
      (Proc_83F10C5A, ''proc_83F10C5A_hook''),
      (SceAppMgrGameDataMount, ''sceAppMgrGameDataMount_hook'')]"

definition released_hooks :: "ehook list" where
  "released_hooks =
     [SceErrorGetExternalString, SceKernelCreateThread, Param_sfo_verifySpsfo, SceKernelLoadModule, SceKernelLoadStartModule,
      Param_sfo_verifySpsfo_shell, Gc_param_sfo_83F2CEA0, Gc_param_sfo_83F6B554, Gc_param_sfo_83F74B30, Proc_83F258F8,
      Proc_83F27424, Proc_83F2407A, Proc_83F25592, Proc_83F24D96, Proc_83F24534,
      Proc_8430F028, Queue_worker_entry2_834DED94, ScePafAllocateMem, Proc_83F20D36, Paf_b976a154,
      Paf_b2eca849, Paf_7c8b2a63, Paf_a97584eb, Paf_c84832a2, Paf_b228a257,
      Paf_b9fb9bd6, Proc_83F23D5C, Proc_83F275CC, Proc_83F10C5A, SceAppMgrGameDataMount]"


section \<open>Loading\<close>

fun el_tai_call :: "'w eapi \<Rightarrow> int \<Rightarrow> el_op \<Rightarrow> 'w \<Rightarrow> int \<times> int \<times> 'w" where
  "el_tai_call k modid (At h off) w = e_HookFunctionOffset k modid 0 off h w"
| "el_tai_call k modid (Exported h m lib nid) w = e_HookFunctionExport k m lib nid h w"
| "el_tai_call k modid (Imported h m lib nid) w = e_HookFunctionImport k m lib nid h w"

fun op_hook :: "el_op \<Rightarrow> ehook" where
  "op_hook (At h off) = h"
| "op_hook (Exported h m lib nid) = h"
| "op_hook (Imported h m lib nid) = h"

definition exec_el_op :: "'w eapi \<Rightarrow> int \<Rightarrow> el_op \<Rightarrow> ('w, 'm) els_scheme \<Rightarrow> ('w, 'm) els_scheme" where
  "exec_el_op k modid x s =
     (let (u, r, s1) = el_call2 (el_tai_call k modid x) s
      in s1\<lparr>e_id := (e_id s1)(op_hook x := u), e_ref := (e_ref s1)(op_hook x := r)\<rparr>)"

definition hook_module :: "'w eapi \<Rightarrow> string \<Rightarrow> el_op list \<Rightarrow> ('w, 'm) els_scheme \<Rightarrow> int \<times> ('w, 'm) els_scheme" where
  "hook_module k nm xs s =
     (let (r, modid, s1) = el_call2 (e_taiGetModuleInfo k nm) s
      in (r, if r \<ge> 0 then fold (exec_el_op k modid) xs s1 else s1))"

definition report_el :: "'w eapi \<Rightarrow> ehook \<times> string \<Rightarrow> ('w, 'm) els_scheme \<Rightarrow> ('w, 'm) els_scheme" where
  "report_el k e s =
     (if e_id s (fst e) \<ge> 0 then FILE_WRITE k (''set '' @ snd e @ newline) s
      else
        let s1 = put_text k (''failed to set '' @ snd e @ '': '' @ hex8_str (word_of_int (e_id s (fst e))) @ newline) s
        in snd (print_error k (e_id s1 (fst e)) s1))"

definition install_hooks :: "'w eapi \<Rightarrow> ('w, 'm) els_scheme \<Rightarrow> ('w, 'm) els_scheme" where
  "install_hooks k s =
     (let (_, s1) = hook_module k ''SceShell'' shell_hooks s;
          (_, s2) = hook_module k ''ScePaf'' paf_hooks s1;
          (_, s3) = hook_module k ''SceDriverUser'' [] s2;
          (_, s4) = hook_module k ''SceLibKernel'' [] s3;
          (gcip_info_res, s5) = hook_module k ''SceGameCardInstallerPlugin'' gcip_hooks s4
      in if gcip_info_res \<ge> 0 then s5
         else
           let s6 = put_text k (''failed to get SceGameCardInstallerPlugin module info : ''
                 @ hex8_str (word_of_int gcip_info_res) @ newline) (open_global_log_el k s5)
           in close_global_log_el k (snd (print_error k gcip_info_res s6)))"

definition report_hooks :: "'w eapi \<Rightarrow> ('w, 'm) els_scheme \<Rightarrow> ('w, 'm) els_scheme" where
  "report_hooks k s =
     close_global_log_el k (fold (report_el k) (reported_1 @ reported_2 @ reported_3) (open_global_log_el k s))"

definition start_listener :: "'w eapi \<Rightarrow> ('w, 'm) els_scheme \<Rightarrow> ('w, 'm) els_scheme" where
  "start_listener k s =
     (let (t, s1) = el_call (e_CreateThread k ''ListenerThread'') s;
          s2 = s1\<lparr>g_listenerThread := t\<rparr>
      in if t \<ge> 0 then el_do (e_StartThread k t) s2
         else el_message k ''failed to create ListenerThread'' s2)"

definition create_mutex_el :: "'w eapi \<Rightarrow> ('w, 'm) els_scheme \<Rightarrow> ('w, 'm) els_scheme" where
  "create_mutex_el k s =
     (let (m, s1) = el_call (e_CreateMutex k ''CreateThreadMutex'') s;
          s2 = s1\<lparr>g_sceKernelCreateThreadMutex := m\<rparr>
      in if m < 0 then el_message k ''failed to create CreateThreadMutex'' s2 else s2)"

definition initialize_all_hooks_el :: "'w eapi \<Rightarrow> ('w, 'm) els_scheme \<Rightarrow> (int \<times> ('w, 'm) els_scheme) run" where
  "initialize_all_hooks_el k s =
     (let s1 = report_hooks k (install_hooks k (create_mutex_el k s))
      in run_bind (construct_module_range_table_el k s1) (\<lambda>(_, s2).
         let (_, s3) = sort_segment_table_el s2; (_, s4) = print_segment_table_el k s3
         in ret (0, start_listener k s4)))"

definition module_start_el :: "'w eapi \<Rightarrow> ('w, 'm) els_scheme \<Rightarrow> (int \<times> ('w, 'm) els_scheme) run" where
  "module_start_el k s =
     run_bind (initialize_all_hooks_el k (el_message k ''Starting error_logger suprx!'' s)) (\<lambda>(_, s1).
     ret (0, s1))"


section \<open>Unloading\<close>

definition release_el :: "'w eapi \<Rightarrow> ehook \<Rightarrow> ('w, 'm) els_scheme \<Rightarrow> ('w, 'm) els_scheme" where
  "release_el k h s = (if e_id s h \<ge> 0 then el_do (e_HookRelease k (e_id s h) (e_ref s h)) s else s)"

text \<open>The wait for the listener has a timeout of 0.\<close>

definition deinitialize_all_hooks_el :: "'w eapi \<Rightarrow> ('w, 'm) els_scheme \<Rightarrow> int \<times> ('w, 'm) els_scheme" where
  "deinitialize_all_hooks_el k s =
     (let s1 = fold (release_el k) released_hooks s;
          s2 = el_do (e_WaitThreadEnd k (g_listenerThread s1) 0) s1;
          s3 = el_do (e_DeleteThread k (g_listenerThread s2)) s2
      in (0, el_do (e_DeleteMutex k (g_sceKernelCreateThreadMutex s3)) s3))"

definition module_stop_el :: "'w eapi \<Rightarrow> ('w, 'm) els_scheme \<Rightarrow> int \<times> ('w, 'm) els_scheme" where
  "module_stop_el k s = (let (_, s1) = deinitialize_all_hooks_el k s in (0, s1))"

end
