(* ===== verification/El_Unload.thy ===== *)
theory El_Unload
  imports El_Module
begin

text \<open>
  Loading and unloading the error logger: every hook is given back, and the listener is not. What the
  module relies on of the kernel and of taiHEN is the hypothesis \<open>el_law\<close>.
\<close>

section \<open>The environment\<close>

text \<open>\<open>live\<close> is the set of hooks in place, by id and reference; \<open>running\<close> is the set of the threads that
  have been started and whose function has not returned. A thread function that does not return
  cannot be waited for or deleted: with a timeout the wait ends, and a thread that is not dormant
  is not deleted.\<close>

definition el_keeps :: "('w \<Rightarrow> (int \<times> int) set) \<Rightarrow> ('w \<Rightarrow> int set) \<Rightarrow> 'w \<Rightarrow> 'w \<Rightarrow> bool" where
  "el_keeps live running w w' \<longleftrightarrow> live w' = live w \<and> running w \<subseteq> running w'"

definition el_law :: "'w eapi \<Rightarrow> ('w \<Rightarrow> (int \<times> int) set) \<Rightarrow> ('w \<Rightarrow> int set) \<Rightarrow> bool" where
  "el_law k live running \<longleftrightarrow>
     (\<forall>m x w. case el_tai_call k m x w of (u, r, w') \<Rightarrow> running w \<subseteq> running w' \<and>
        (if u \<ge> 0 then u \<notin> fst ` live w \<and> live w' = insert (u, r) (live w) else live w' = live w))
   \<and> (\<forall>u r w. live (snd (e_HookRelease k u r w)) = live w - {(u, r)}
        \<and> running w \<subseteq> running (snd (e_HookRelease k u r w)))
   \<and> (\<forall>t w. e_StartThread k t w = (0, snd (e_StartThread k t w)) \<longrightarrow> t \<in> running (snd (e_StartThread k t w)))
   \<and> (\<forall>nm f w. el_keeps live running w (snd (e_IoOpen k nm f w)))
   \<and> (\<forall>fd d w. el_keeps live running w (snd (e_IoWrite k fd d w)))
   \<and> (\<forall>fd w. el_keeps live running w (snd (e_IoClose k fd w)))
   \<and> (\<forall>nm w. el_keeps live running w (snd (e_CreateMutex k nm w)))
   \<and> (\<forall>m w. el_keeps live running w (snd (e_DeleteMutex k m w)))
   \<and> (\<forall>nm w. el_keeps live running w (snd (e_CreateThread k nm w)))
   \<and> (\<forall>t w. el_keeps live running w (snd (e_StartThread k t w)))
   \<and> (\<forall>t n w. el_keeps live running w (snd (e_WaitThreadEnd k t n w)))
   \<and> (\<forall>t w. el_keeps live running w (snd (e_DeleteThread k t w)))
   \<and> (\<forall>f n w. el_keeps live running w (snd (snd (e_GetModuleList k f n w))))
   \<and> (\<forall>m w. el_keeps live running w (snd (snd (e_GetModuleInfo k m w))))
   \<and> (\<forall>nm w. el_keeps live running w (snd (snd (e_taiGetModuleInfo k nm w))))"

lemma el_lawD:
  assumes "el_law k live running"
  shows "el_tai_call k m x w = (u, r, w') \<Longrightarrow> running w \<subseteq> running w' \<and>
      (if u \<ge> 0 then u \<notin> fst ` live w \<and> live w' = insert (u, r) (live w) else live w' = live w)"
    and "live (snd (e_HookRelease k u0 r0 w)) = live w - {(u0, r0)}"
    and "running w \<subseteq> running (snd (e_HookRelease k u0 r0 w))"
    and "fst (e_StartThread k t w) = 0 \<Longrightarrow> t \<in> running (snd (e_StartThread k t w))"
  using assms unfolding el_law_def
  by (metis (mono_tags, lifting) case_prod_conv, simp_all add: prod_eq_iff)

lemma el_law_keeps:
  assumes "el_law k live running"
  shows "el_keeps live running w (snd (e_IoOpen k nm f w))"
    and "el_keeps live running w (snd (e_IoWrite k i d w))"
    and "el_keeps live running w (snd (e_IoClose k i w))"
    and "el_keeps live running w (snd (e_CreateMutex k nm w))"
    and "el_keeps live running w (snd (e_DeleteMutex k i w))"
    and "el_keeps live running w (snd (e_CreateThread k nm w))"
    and "el_keeps live running w (snd (e_StartThread k i w))"
    and "el_keeps live running w (snd (e_WaitThreadEnd k i n w))"
    and "el_keeps live running w (snd (e_DeleteThread k i w))"
    and "el_keeps live running w (snd (snd (e_GetModuleList k i j w)))"
    and "el_keeps live running w (snd (snd (e_GetModuleInfo k i w)))"
    and "el_keeps live running w (snd (snd (e_taiGetModuleInfo k nm w)))"
  using assms unfolding el_law_def by simp_all


section \<open>What leaves the hooks alone\<close>

definition hooks_kept ::
    "('w \<Rightarrow> (int \<times> int) set) \<Rightarrow> ('w \<Rightarrow> int set) \<Rightarrow> ('w, 'm) els_scheme \<Rightarrow> ('w, 'm) els_scheme \<Rightarrow> bool" where
  "hooks_kept live running s t \<longleftrightarrow>
     el_keeps live running (el_world s) (el_world t) \<and> e_id t = e_id s \<and> e_ref t = e_ref s"

lemma hooks_kept_refl: "hooks_kept live running s s"
  by (simp add: hooks_kept_def el_keeps_def)

lemma hooks_kept_trans [trans]:
  "hooks_kept live running s t \<Longrightarrow> hooks_kept live running t u \<Longrightarrow> hooks_kept live running s u"
  by (auto simp: hooks_kept_def el_keeps_def)

lemma hooks_kept_fold:
  "(\<And>x u. hooks_kept live running u (f x u)) \<Longrightarrow> hooks_kept live running s (fold f xs s)"
proof (induction xs arbitrary: s)
  case (Cons x xs)
  then have "hooks_kept live running s (f x s)" "hooks_kept live running (f x s) (fold f xs (f x s))" by blast+
  then show ?case by (auto intro: hooks_kept_trans)
qed (simp add: hooks_kept_refl)

lemma hooks_kept_log:
  assumes "el_law k live running"
  shows "hooks_kept live running s (open_global_log_el k s)"
    and "hooks_kept live running s (close_global_log_el k s)"
    and "hooks_kept live running s (FILE_WRITE k msg s)"
    and "hooks_kept live running s (FILE_WRITE_LEN k msg s)"
    and "hooks_kept live running s (put_text k txt s)"
  using el_law_keeps [OF assms]
  by (simp_all add: hooks_kept_def el_log_defs el_call_eq el_do_def) (simp_all add: el_keeps_def)

lemma hooks_kept_texts:
  assumes "el_law k live running"
  shows "hooks_kept live running s (el_texts k ts s)" and "hooks_kept live running s (el_message k msg s)"
proof -
  note L = hooks_kept_log [OF assms]
  show "hooks_kept live running s (el_texts k ts s)"
    unfolding el_texts_def by (rule hooks_kept_trans [OF L(1)], rule hooks_kept_trans [OF hooks_kept_fold L(2)], rule L(5))
  show "hooks_kept live running s (el_message k msg s)"
    unfolding el_message_def by (rule hooks_kept_trans [OF L(1)], rule hooks_kept_trans [OF L(3) L(2)])
qed

lemma hooks_kept_error: "el_law k live running \<Longrightarrow> hooks_kept live running s (snd (print_error k e s))"
  by (auto simp: print_error_def hooks_kept_refl hooks_kept_log split: option.split)

lemma hooks_kept_report: "el_law k live running \<Longrightarrow> hooks_kept live running s (report_el k e s)"
  by (auto simp: report_el_def Let_def hooks_kept_log
      intro!: hooks_kept_trans [OF hooks_kept_log(5) hooks_kept_error])

lemma hooks_kept_reports: "el_law k live running \<Longrightarrow> hooks_kept live running s (report_hooks k s)"
  unfolding report_hooks_def
  by (rule hooks_kept_trans [OF hooks_kept_log(1)], assumption,
      rule hooks_kept_trans [OF hooks_kept_fold hooks_kept_log(2)]) (auto intro: hooks_kept_report)

lemma hooks_kept_mutex: "el_law k live running \<Longrightarrow> hooks_kept live running s (create_mutex_el k s)"
proof -
  assume law: "el_law k live running"
  have "hooks_kept live running s (s\<lparr>el_world := snd (e_CreateMutex k nm (el_world s)), g_sceKernelCreateThreadMutex := m\<rparr>)"
    for nm m using el_law_keeps(4) [OF law] by (simp add: hooks_kept_def)
  then show ?thesis
    by (auto simp: create_mutex_el_def el_call_eq Let_def intro: hooks_kept_trans [OF _ hooks_kept_texts(2) [OF law]])
qed

lemma hooks_kept_print: "el_law k live running \<Longrightarrow> hooks_kept live running s (print_segments_el k xs s)"
proof (induction xs arbitrary: s)
  case (Cons x xs)
  then show ?case by (auto simp: hooks_kept_refl intro: hooks_kept_trans hooks_kept_texts)
qed (simp add: hooks_kept_refl)

lemma hooks_kept_modules:
  assumes "el_law k live running"
  shows "add_modules_el k ms i segs s = ret (r, j, segs', t) \<Longrightarrow> hooks_kept live running s t"
proof (induction ms arbitrary: i segs s)
  case Nil
  then show ?case by (simp add: run_simps hooks_kept_refl)
next
  case (Cons m ms)
  let ?s1 = "s\<lparr>el_world := snd (snd (e_GetModuleInfo k m (el_world s)))\<rparr>"
  have s1: "hooks_kept live running s ?s1"
    using el_law_keeps(11) [OF assms] by (simp add: hooks_kept_def)
  from Cons.prems consider "t = ?s1" | i' segs'' where "add_modules_el k ms i' segs'' ?s1 = ret (r, j, segs', t)"
    by (auto simp: el_call2_eq Let_def run_simps split: if_splits prod.splits)
  then show ?case
    using s1 Cons.IH by cases (auto intro: hooks_kept_trans)
qed

lemma hooks_kept_table:
  fixes s t :: "('w, 'm) els_scheme"
  shows "hooks_kept live running s (t\<lparr>el_table := T\<rparr>) \<longleftrightarrow> hooks_kept live running s t"
    and "hooks_kept live running (s\<lparr>el_table := T\<rparr>) t \<longleftrightarrow> hooks_kept live running s t"
  by (simp_all add: hooks_kept_def)

lemma hooks_kept_construct:
  assumes law: "el_law k live running" and "construct_module_range_table_el k s = ret (r, t)"
  shows "hooks_kept live running s t"
proof (cases "moduleConstructured (el_table s) > 0")
  case True
  then show ?thesis using assms(2) by (simp add: construct_module_range_table_el_def run_simps hooks_kept_refl)
next
  case False
  define s1 where "s1 = el_message k ''constructing module range table''
      (s\<lparr>el_table := (el_table s)\<lparr>moduleConstructured := 1\<rparr>\<rparr>)"
  define T1 where "T1 = \<lparr>modlist = replicate MOD_LIST_SIZE 0 :: int list, segList = replicate SEG_LIST_SIZE blank_segment,
      moduleConstructured = 1\<rparr>"
  define call where "call = e_GetModuleList k 0xFF MOD_LIST_SIZE (el_world s1)"
  define s2 where "s2 = s1\<lparr>el_table := T1, el_world := snd (snd call)\<rparr>"
  have "hooks_kept live running s s1"
    unfolding s1_def
    using hooks_kept_texts(2) [OF law, of "s\<lparr>el_table := (el_table s)\<lparr>moduleConstructured := 1\<rparr>\<rparr>"]
    by (simp add: hooks_kept_table)
  also have "hooks_kept live running s1 s2"
    using el_law_keeps(10) [OF law] by (simp add: hooks_kept_def s2_def call_def)
  finally have s2: "hooks_kept live running s s2" .
  let ?T2 = "T1\<lparr>modlist := fst (snd call) @ drop (length (fst (snd call))) (modlist T1)\<rparr>"
  let ?s3 = "el_texts k [''number of modules: '' @ dec_str (int (length (fst (snd call)))) @ newline]
      (s2\<lparr>el_table := ?T2\<rparr>)"
  have s3: "hooks_kept live running s2 ?s3"
    using hooks_kept_texts(1) [OF law, of "s2\<lparr>el_table := ?T2\<rparr>"] by (simp add: hooks_kept_table)
  from assms(2) False consider "t = s2"
    | T r' i segs s4 where "t = s4\<lparr>el_table := T\<rparr>" "add_modules_el k (fst (snd call)) 0 (segList ?T2) ?s3 = ret (r', i, segs, s4)"
    unfolding construct_module_range_table_el_def
    by (auto simp: el_call2_eq Let_def run_simps s2_def call_def T1_def
        simp flip: s1_def split: if_splits prod.splits)
  then show ?thesis
  proof cases
    case 2
    from hooks_kept_modules [OF law 2(2)] s2 s3 show ?thesis
      unfolding 2(1) hooks_kept_table by (blast intro: hooks_kept_trans)
  qed (simp add: s2)
qed


section \<open>What is installed\<close>

definition in_place :: "('w, 'm) els_scheme \<Rightarrow> ehook \<Rightarrow> int \<times> int" where
  "in_place s h = (e_id s h, e_ref s h)"

text \<open>Beside what was there before, \<open>L\<close>, exactly the hooks of \<open>D\<close> that have an id are in place; no
  other hook has one.\<close>

definition accounts ::
    "('w \<Rightarrow> (int \<times> int) set) \<Rightarrow> (int \<times> int) set \<Rightarrow> ehook set \<Rightarrow> ('w, 'm) els_scheme \<Rightarrow> bool" where
  "accounts live L D s \<longleftrightarrow> live (el_world s) = L \<union> in_place s ` {h. e_id s h \<ge> 0}
     \<and> (\<forall>h. e_id s h \<ge> 0 \<longrightarrow> h \<in> D \<and> e_id s h \<notin> fst ` L)"

lemma accounts_mono: "accounts live L D s \<Longrightarrow> D \<subseteq> D' \<Longrightarrow> accounts live L D' s"
  by (auto simp: accounts_def)

lemma accounts_kept: "hooks_kept live running s t \<Longrightarrow> accounts live L D t \<longleftrightarrow> accounts live L D s"
  by (simp add: hooks_kept_def el_keeps_def accounts_def in_place_def)

lemma exec_accounts:
  assumes law: "el_law k live running" and acc: "accounts live L D s" and new: "op_hook x \<notin> D"
  shows "accounts live L (insert (op_hook x) D) (exec_el_op k m x s)"
    and "running (el_world s) \<subseteq> running (el_world (exec_el_op k m x s))"
proof -
  obtain u r w' where C: "el_tai_call k m x (el_world s) = (u, r, w')" by (cases "el_tai_call k m x (el_world s)")
  note U = el_lawD(1) [OF law C]
  let ?h = "op_hook x" and ?t = "exec_el_op k m x s"
  have t: "el_world ?t = w'" "e_id ?t = (e_id s)(?h := u)" "e_ref ?t = (e_ref s)(?h := r)"
    by (simp_all add: exec_el_op_def el_call2_eq C)
  show "running (el_world s) \<subseteq> running (el_world ?t)" using U t by simp
  have none: "\<not> e_id s ?h \<ge> 0" using acc new unfolding accounts_def by blast
  then have ids: "{h. e_id ?t h \<ge> 0} = (if u \<ge> 0 then insert ?h {h. e_id s h \<ge> 0} else {h. e_id s h \<ge> 0})"
    by (auto simp: t)
  have old: "in_place ?t ` {h. e_id s h \<ge> 0} = in_place s ` {h. e_id s h \<ge> 0}"
    using none by (intro image_cong) (auto simp: t in_place_def)
  have "in_place ?t ?h = (u, r)" by (simp add: t in_place_def)
  then have "live w' = L \<union> in_place ?t ` {h. e_id ?t h \<ge> 0}"
    using U acc by (simp add: ids old accounts_def split: if_splits)
  moreover have "e_id ?t h \<ge> 0 \<longrightarrow> h \<in> insert ?h D \<and> e_id ?t h \<notin> fst ` L" for h
    using U acc by (auto simp: t accounts_def split: if_splits)
  ultimately show "accounts live L (insert ?h D) ?t" by (simp add: accounts_def t)
qed

lemma execs_accounts:
  assumes law: "el_law k live running"
  shows "accounts live L D s \<Longrightarrow> distinct (map op_hook xs) \<Longrightarrow> op_hook ` set xs \<inter> D = {} \<Longrightarrow>
    accounts live L (D \<union> op_hook ` set xs) (fold (exec_el_op k m) xs s)
    \<and> running (el_world s) \<subseteq> running (el_world (fold (exec_el_op k m) xs s))"
proof (induction xs arbitrary: D s)
  case (Cons x xs)
  from Cons.prems have "accounts live L (insert (op_hook x) D) (exec_el_op k m x s)"
    "running (el_world s) \<subseteq> running (el_world (exec_el_op k m x s))"
    using exec_accounts [OF law, of L D s x m] by auto
  with Cons.IH [of "insert (op_hook x) D" "exec_el_op k m x s"] Cons.prems show ?case by auto
qed simp

lemma hook_module_accounts:
  assumes law: "el_law k live running" and acc: "accounts live L D s"
    and xs: "distinct (map op_hook xs)" "op_hook ` set xs \<inter> D = {}"
  shows "accounts live L (D \<union> op_hook ` set xs) (snd (hook_module k nm xs s))"
    and "running (el_world s) \<subseteq> running (el_world (snd (hook_module k nm xs s)))"
proof -
  let ?t = "s\<lparr>el_world := snd (snd (e_taiGetModuleInfo k nm (el_world s)))\<rparr>"
  have t: "hooks_kept live running s ?t" using el_law_keeps(12) [OF law] by (simp add: hooks_kept_def)
  then have acc': "accounts live L D ?t" using acc by (simp add: accounts_kept)
  note E = execs_accounts [OF law acc' xs]
  have "accounts live L (D \<union> op_hook ` set xs) ?t" using acc' by (rule accounts_mono) simp
  then show "accounts live L (D \<union> op_hook ` set xs) (snd (hook_module k nm xs s))"
    using E by (simp add: hook_module_def el_call2_eq)
  show "running (el_world s) \<subseteq> running (el_world (snd (hook_module k nm xs s)))"
    using E t by (auto simp: hook_module_def el_call2_eq hooks_kept_def el_keeps_def)
qed

lemma install_accounts:
  assumes law: "el_law k live running" and acc: "accounts live L {} s"
  shows "accounts live L UNIV (install_hooks k s)"
    and "running (el_world s) \<subseteq> running (el_world (install_hooks k s))"
proof -
  define s1 where "s1 = snd (hook_module k ''SceShell'' shell_hooks s)"
  define s2 where "s2 = snd (hook_module k ''ScePaf'' paf_hooks s1)"
  define s3 where "s3 = snd (hook_module k ''SceDriverUser'' [] s2)"
  define s4 where "s4 = snd (hook_module k ''SceLibKernel'' [] s3)"
  define s5 where "s5 = snd (hook_module k ''SceGameCardInstallerPlugin'' gcip_hooks s4)"
  let ?D1 = "{} \<union> op_hook ` set shell_hooks" and ?P = "op_hook ` set paf_hooks"
  note H = hook_module_accounts [OF law]
  have d: "distinct (map op_hook shell_hooks)" "distinct (map op_hook paf_hooks)" "distinct (map op_hook gcip_hooks)"
    "?P \<inter> ?D1 = {}" "op_hook ` set gcip_hooks \<inter> (?D1 \<union> ?P) = {}"
    by (auto simp: shell_hooks_def paf_hooks_def gcip_hooks_def)
  have a1: "accounts live L ?D1 s1" "running (el_world s) \<subseteq> running (el_world s1)"
    unfolding s1_def by (intro H [OF acc]; use d in simp)+
  have a2: "accounts live L (?D1 \<union> ?P) s2" "running (el_world s1) \<subseteq> running (el_world s2)"
    unfolding s2_def by (intro H [OF a1(1)] d)+
  have a3: "accounts live L (?D1 \<union> ?P) s3" "running (el_world s2) \<subseteq> running (el_world s3)"
    unfolding s3_def using H [OF a2(1), of "[]"] by simp_all
  have a4: "accounts live L (?D1 \<union> ?P) s4" "running (el_world s3) \<subseteq> running (el_world s4)"
    unfolding s4_def using H [OF a3(1), of "[]"] by simp_all
  have a5: "accounts live L ((?D1 \<union> ?P) \<union> op_hook ` set gcip_hooks) s5" "running (el_world s4) \<subseteq> running (el_world s5)"
    unfolding s5_def by (intro H [OF a4(1)] d)+
  have kept: "hooks_kept live running s5 (close_global_log_el k (snd (print_error k e (put_text k x (open_global_log_el k s5)))))"
    for e x
    by (rule hooks_kept_trans [OF hooks_kept_log(1) [OF law]], rule hooks_kept_trans [OF hooks_kept_log(5) [OF law]],
        rule hooks_kept_trans [OF hooks_kept_error [OF law] hooks_kept_log(2) [OF law]])
  have "hooks_kept live running s5 (install_hooks k s)"
    using kept hooks_kept_refl
    by (auto simp: install_hooks_def Let_def split_beta s1_def s2_def s3_def s4_def s5_def)
  note K = this
  show "accounts live L UNIV (install_hooks k s)"
    using accounts_mono [OF a5(1)] by (simp add: accounts_kept [OF K])
  have "running (el_world s5) \<subseteq> running (el_world (install_hooks k s))"
    using K by (simp add: hooks_kept_def el_keeps_def)
  then show "running (el_world s) \<subseteq> running (el_world (install_hooks k s))"
    using a1(2) a2(2) a3(2) a4(2) a5(2) by blast
qed


section \<open>Loading and unloading\<close>

lemma hooks_kept_start: "el_law k live running \<Longrightarrow> hooks_kept live running s (start_listener k s)"
proof -
  assume law: "el_law k live running"
  let ?t = "s\<lparr>el_world := snd (e_CreateThread k ''ListenerThread'' (el_world s)),
     g_listenerThread := fst (e_CreateThread k ''ListenerThread'' (el_world s))\<rparr>"
  have "hooks_kept live running s ?t" using el_law_keeps(6) [OF law] by (simp add: hooks_kept_def)
  moreover have "hooks_kept live running ?t (el_do (e_StartThread k i) ?t)" for i
    using el_law_keeps(7) [OF law] by (simp add: hooks_kept_def el_do_def)
  moreover have "hooks_kept live running ?t (el_message k m ?t)" for m by (rule hooks_kept_texts [OF law])
  ultimately show ?thesis
    by (auto simp: start_listener_def el_call_eq Let_def intro: hooks_kept_trans)
qed

lemma initialize_accounts:
  assumes law: "el_law k live running" and ids: "e_id s = (\<lambda>_. -1)" and run: "module_start_el k s = ret (r, t)"
  shows "accounts live (live (el_world s)) UNIV t"
    and "\<exists>u. t = start_listener k u"
proof -
  define s0 where "s0 = create_mutex_el k (el_message k ''Starting error_logger suprx!'' s)"
  define s1 where "s1 = report_hooks k (install_hooks k s0)"
  have k0: "hooks_kept live running s s0"
    unfolding s0_def by (rule hooks_kept_trans [OF hooks_kept_texts(2) [OF law] hooks_kept_mutex [OF law]])
  have "accounts live (live (el_world s)) {} s" using ids by (simp add: accounts_def)
  then have "accounts live (live (el_world s)) {} s0" using k0 by (simp add: accounts_kept)
  from install_accounts(1) [OF law this] have a1: "accounts live (live (el_world s)) UNIV s1"
    unfolding s1_def by (simp add: accounts_kept [OF hooks_kept_reports [OF law]])
  from run obtain r' s2 where s2: "construct_module_range_table_el k s1 = ret (r', s2)"
    and t: "t = start_listener k (snd (print_segment_table_el k (snd (sort_segment_table_el s2))))"
    by (auto simp: module_start_el_def initialize_all_hooks_el_def Let_def run_simps split_beta simp flip: s0_def s1_def)
  have "hooks_kept live running s1 s2" by (rule hooks_kept_construct [OF law s2])
  moreover have "hooks_kept live running s2 (snd (sort_segment_table_el s2))"
    by (simp add: sort_segment_table_el_def split_beta hooks_kept_def el_keeps_def)
  moreover have "hooks_kept live running u (snd (print_segment_table_el k u))" for u :: "('a, 'b) els_scheme"
    by (simp add: print_segment_table_el_def hooks_kept_refl hooks_kept_print [OF law])
  ultimately have "hooks_kept live running s1 t"
    unfolding t using hooks_kept_start [OF law] by (meson hooks_kept_trans)
  then show "accounts live (live (el_world s)) UNIV t" using a1 by (simp add: accounts_kept)
  show "\<exists>u. t = start_listener k u" using t by blast
qed

lemma release_one:
  assumes "el_law k live running"
  shows "e_id (release_el k h s) = e_id s" and "e_ref (release_el k h s) = e_ref s"
    and "g_listenerThread (release_el k h s) = g_listenerThread s"
    and "running (el_world s) \<subseteq> running (el_world (release_el k h s))"
    and "live (el_world (release_el k h s)) = live (el_world s) - (if e_id s h \<ge> 0 then {in_place s h} else {})"
  using el_lawD(2,3) [OF assms] by (auto simp: release_el_def el_do_def in_place_def)

lemma releases:
  assumes law: "el_law k live running"
  shows "e_id (fold (release_el k) hs s) = e_id s \<and> g_listenerThread (fold (release_el k) hs s) = g_listenerThread s
    \<and> running (el_world s) \<subseteq> running (el_world (fold (release_el k) hs s))
    \<and> live (el_world (fold (release_el k) hs s)) = live (el_world s) - in_place s ` {h \<in> set hs. e_id s h \<ge> 0}"
proof (induction hs arbitrary: s)
  case (Cons h hs)
  have "in_place (release_el k h s) = in_place s" by (intro ext) (simp add: in_place_def release_one [OF law])
  with Cons [of "release_el k h s"] release_one [OF law, where s = s and h = h] show ?case by auto
qed simp

lemma all_released: "h \<in> set released_hooks"
  by (cases h) (simp_all add: released_hooks_def)

lemma stop_world:
  assumes law: "el_law k live running"
  shows "live (el_world (snd (module_stop_el k t))) = live (el_world t) - in_place t ` {h. e_id t h \<ge> 0}"
    and "running (el_world t) \<subseteq> running (el_world (snd (module_stop_el k t)))"
proof -
  define u where "u = fold (release_el k) released_hooks t"
  have keeps: "el_keeps live running w (snd (e_DeleteMutex k i (snd (e_DeleteThread k j (snd (e_WaitThreadEnd k l 0 w))))))" for i j l w
    using el_law_keeps(5,8,9) [OF law] by (auto simp: el_keeps_def) (meson subset_iff)
  have "el_keeps live running (el_world u) (el_world (snd (module_stop_el k t)))"
    using keeps by (simp add: module_stop_el_def deinitialize_all_hooks_el_def Let_def el_do_def u_def)
  then show "live (el_world (snd (module_stop_el k t))) = live (el_world t) - in_place t ` {h. e_id t h \<ge> 0}"
    "running (el_world t) \<subseteq> running (el_world (snd (module_stop_el k t)))"
    using releases [OF law, of released_hooks t] by (auto simp: u_def el_keeps_def all_released)
qed


text \<open>An environment that accepts every hook, numbers them from 1 and has no modules; its world is the
  next id, the hooks and the running threads.\<close>

definition el_add :: "int \<times> (int \<times> int) set \<times> int set \<Rightarrow> int \<times> int \<times> int \<times> (int \<times> int) set \<times> int set" where
  "el_add w = (fst w, 0, fst w + 1, insert (fst w, 0) {e \<in> fst (snd w). fst e \<noteq> fst w}, snd (snd w))"

definition el_live :: "int \<times> (int \<times> int) set \<times> int set \<Rightarrow> (int \<times> int) set" where
  "el_live w = {e \<in> fst (snd w). 0 \<le> fst e \<and> fst e < fst w}"

definition sample_eapi :: "(int \<times> (int \<times> int) set \<times> int set) eapi" where
  "sample_eapi = quiet_eapi\<lparr>
     e_StartThread := \<lambda>t w. (0, (fst w, fst (snd w), insert t (snd (snd w)))),
     e_WaitThreadEnd := \<lambda>_ _ w. (-1, w), e_DeleteThread := \<lambda>_ w. (-1, w),
     e_HookFunctionOffset := \<lambda>_ _ _ _. el_add, e_HookFunctionImport := \<lambda>_ _ _ _. el_add,
     e_HookFunctionExport := \<lambda>_ _ _ _. el_add,
     e_HookRelease := \<lambda>u r w. (0, (fst w, fst (snd w) - {(u, r)}, snd (snd w)))\<rparr>"

lemma sample_law: "el_law sample_eapi el_live (\<lambda>w. snd (snd w))"
  unfolding el_law_def
proof (intro conjI allI)
  fix m x and w :: "int \<times> (int \<times> int) set \<times> int set"
  have "el_tai_call sample_eapi m x w = el_add w" by (cases x) (simp_all add: sample_eapi_def quiet_eapi_def)
  then show "case el_tai_call sample_eapi m x w of (u, r, w') \<Rightarrow> snd (snd w) \<subseteq> snd (snd w') \<and>
      (if u \<ge> 0 then u \<notin> fst ` el_live w \<and> el_live w' = insert (u, r) (el_live w) else el_live w' = el_live w)"
    by (auto simp: el_add_def el_live_def)
qed (auto simp: sample_eapi_def quiet_eapi_def el_live_def el_keeps_def)

lemma sample_start: "\<exists>r t. module_start_el sample_eapi s = ret (r, t) \<and> g_listenerThread t = 9"
proof -
  have "\<exists>r t. construct_module_range_table_el sample_eapi u = ret (r, t)" for u
    by (auto simp: construct_module_range_table_el_def el_call2_eq Let_def sample_eapi_def quiet_eapi_def run_simps SEG_LIST_SIZE_def
        MOD_LIST_SIZE_def)
  moreover have "g_listenerThread (start_listener sample_eapi u) = 9" for u
    by (simp add: start_listener_def el_call_eq el_do_def Let_def sample_eapi_def quiet_eapi_def)
  ultimately show ?thesis
    by (simp add: module_start_el_def initialize_all_hooks_el_def Let_def split_beta run_simps) blast
qed


end
