(* ===== verification/El_Props.thy ===== *)
theory El_Props
  imports El_Race
begin

text \<open>
  What the hooks of \<open>error_logger.c\<close> do with memory: the sizes of their buffers and the values of
  their flags as an invariant, the two buffers for paths, and the array of the last allocations.
\<close>

section \<open>The state is well-formed\<close>

definition alloc_ring :: "('w, 'm) els_scheme \<Rightarrow> int \<times> alloc_data list" where
  "alloc_ring s = (allocCtr s, allocData s)"

definition els_typed :: "('w, 'm) els_scheme \<Rightarrow> bool" where
  "els_typed s \<longleftrightarrow> ring_ok ALLOC_DATA_BUFFER_SIZE (alloc_ring s)
     \<and> (\<forall>h. e_called s h = 0 \<or> e_called s h = 1)
     \<and> (\<forall>h. length (e_path s h) = 1024)
     \<and> (\<forall>h. length (e_stack s h) = (if h = Proc_8430F028 then 15 else 16))
     \<and> length (modlist (el_table s)) = MOD_LIST_SIZE \<and> length (segList (el_table s)) = SEG_LIST_SIZE"

definition keeps_typed :: "('a, 'r, 'w, 'm) eorig \<Rightarrow> bool" where
  "keeps_typed f \<longleftrightarrow> (\<forall>a s r t. els_typed s \<longrightarrow> f a s = ret (r, t) \<longrightarrow> els_typed t)"

lemma keeps_typedD: "keeps_typed f \<Longrightarrow> els_typed s \<Longrightarrow> f a s = ret (r, t) \<Longrightarrow> els_typed t"
  by (auto simp: keeps_typed_def)

lemma typed_stores: "els_typed s \<Longrightarrow> els_typed (stores h xs s)"
proof (induction xs arbitrary: s)
  case (Cons x xs)
  then have "els_typed (exec_store h x s)" by (cases x) (simp_all add: els_typed_def alloc_ring_def)
  with Cons.IH show ?case by simp
qed simp

lemma typed_stack:
  "els_typed s \<Longrightarrow> length ws = (if h = Proc_8430F028 then 15 else 16) \<Longrightarrow> els_typed (put_stack h ws s)"
  by (simp add: els_typed_def put_stack_def alloc_ring_def)

lemma typed_path: "els_typed s \<Longrightarrow> length p = 1024 \<Longrightarrow> els_typed (put_path h p s)"
  by (simp add: els_typed_def put_path_def alloc_ring_def)

lemma typed_log: "log_only s t \<Longrightarrow> els_typed s \<Longrightarrow> els_typed t"
  by (auto simp: log_only_def els_typed_def alloc_ring_def)

lemma length_stack_from [simp]: "length (stack_from k local res n w) = n"
  by (simp add: stack_from_def)

lemma copy_path_length: "copy_path k p len buf w = ret b \<Longrightarrow> length b = length buf"
  by (auto simp: copy_path_def Let_def run_simps split: if_splits)

lemma copy_path_typed: "copy_path k p len (e_path s h) w = ret b \<Longrightarrow> els_typed s \<Longrightarrow> length b = 1024"
  by (auto simp: els_typed_def dest: copy_path_length)

lemma put_alloc_ring:
  assumes "put_alloc e s = ret s'" and "ring_ok ALLOC_DATA_BUFFER_SIZE (alloc_ring s)"
  shows "alloc_ring s' = ring_put ALLOC_DATA_BUFFER_SIZE e (alloc_ring s)"
proof -
  let ?i = "allocCtr s"
  from assms(2) have i: "0 \<le> ?i" "?i < 16384" by (simp_all add: ring_ok_def alloc_ring_def ALLOC_DATA_BUFFER_SIZE_def)
  then have w: "wrap32 (?i + 1) = ?i + 1" by (simp add: c_int_def)
  from i have "(?i + 1) mod 16384 = (if ?i + 1 = 16384 then 0 else ?i + 1)" by auto
  with assms(1) w show ?thesis
    by (auto simp: put_alloc_def run_simps Let_def alloc_ring_def ring_put_def ALLOC_DATA_BUFFER_SIZE_def split: if_splits)
qed

lemma put_alloc_typed: "put_alloc e s = ret s' \<Longrightarrow> els_typed s \<Longrightarrow> els_typed s'"
proof -
  assume p: "put_alloc e s = ret s'" and t: "els_typed s"
  then have ok: "ring_ok ALLOC_DATA_BUFFER_SIZE (alloc_ring s)" by (simp add: els_typed_def)
  have "ring_ok ALLOC_DATA_BUFFER_SIZE (alloc_ring s')"
    using ring_put_ok [OF ok] by (simp add: put_alloc_ring [OF p ok])
  with p t show ?thesis by (auto simp: put_alloc_def Let_def run_simps els_typed_def split: if_splits)
qed

lemma typed_addresses: "els_typed (s\<lparr>alloc_addresses := A, alloc_addressNum := n\<rparr>) \<longleftrightarrow> els_typed s"
  by (simp add: els_typed_def alloc_ring_def)

text \<open>The trace of the allocation hook: it fits its array and changes nothing.\<close>

lemma alloc_trace:
  "stacktrace_global k rd local '''' 0 (int ALLOC_STACKTRACE_SIZE) 1 0 (replicate ALLOC_STACKTRACE_SIZE 0) s
   = (let ws = listed_words (el_table s) (\<lambda>q. rd q (el_world s)) local ALLOC_STACKTRACE_SIZE
      in ret (length ws, ws @ replicate (ALLOC_STACKTRACE_SIZE - length ws) 0, s))"
  by (simp add: stacktrace_global_def stack_words_listed Let_def)

lemma alloc_hook_eq:
  "scePafAllocateMem_hook k local orig n s = run_bind (orig n s) (\<lambda>(res, s1).
     let ws = listed_words (el_table s1) (\<lambda>q. if q = local then res else e_word k q (el_world s1)) local ALLOC_STACKTRACE_SIZE;
         A = ws @ replicate (ALLOC_STACKTRACE_SIZE - length ws) 0
     in run_bind (put_alloc \<lparr>ad_ptr = res, ad_caller = A ! 0\<rparr> (s1\<lparr>alloc_addresses := A, alloc_addressNum := length ws\<rparr>))
          (\<lambda>s3. ret (res, s3)))"
  unfolding scePafAllocateMem_hook_def by (simp add: alloc_trace Let_def run_simps)

lemmas typed_intros = typed_stores typed_stack typed_path typed_log [OF log_only_texts(1)]

lemma keeps_typedI: "(\<And>a s r t. els_typed s \<Longrightarrow> f a s = ret (r, t) \<Longrightarrow> els_typed t) \<Longrightarrow> keeps_typed f"
  by (auto simp: keeps_typed_def)

text \<open>A run that ends well-formed if it returns, by the calls it makes.\<close>

definition ends_typed :: "('r \<times> ('w, 'm) els_scheme) run \<Rightarrow> bool" where
  "ends_typed m \<longleftrightarrow> (\<forall>r t. m = ret (r, t) \<longrightarrow> els_typed t)"

lemma ends_ret: "els_typed t \<Longrightarrow> ends_typed (ret (r, t))"
  by (simp add: ends_typed_def run_simps)

lemma ends_fail: "ends_typed (fail f)"
  by (simp add: ends_typed_def run_simps)

lemma ends_value: "(\<And>x. m = ret x \<Longrightarrow> ends_typed (g x)) \<Longrightarrow> ends_typed (run_bind m g)"
  by (auto simp: ends_typed_def run_simps)

lemma ends_orig:
  "keeps_typed f \<Longrightarrow> els_typed s \<Longrightarrow> (\<And>r t. els_typed t \<Longrightarrow> ends_typed (g r t)) \<Longrightarrow>
   ends_typed (run_bind (f a s) (\<lambda>(r, t). g r t))"
  by (auto simp: ends_typed_def run_simps dest: keeps_typedD)

lemma keepsI: "(\<And>a s. els_typed s \<Longrightarrow> ends_typed (f a s)) \<Longrightarrow> keeps_typed f"
  by (auto simp: keeps_typed_def ends_typed_def)

lemmas ends_intros = ends_ret ends_orig ends_value typed_intros

text \<open>Hooks that work on the state after the original, and hooks that first read a member of their
  context and store it.\<close>

lemmas simple_hooks = sceErrorGetExternalString_hook_def sceKernelCreateThread_hook_def
  sceKernelLoadModule_hook_def sceKernelLoadStartModule_hook_def sceAppMgrGameDataMount_hook_def
  proc_gc_param_sfo_83F2CEA0_hook_def proc_gc_param_sfo_83F6B554_hook_def proc_gc_param_sfo_83F74B30_hook_def
  scePafGraphics_a97584eb_hook_def scePafGraphics_c84832a2_hook_def scePafGraphics_b228a257_hook_def
  proc_83F23D5C_hook_def proc_83F275CC_hook_def proc_83F10C5A_hook_def
  scePafGraphics_b976a154_hook_def scePafGraphics_b2eca849_hook_def scePafGraphics_7c8b2a63_hook_def
  proc_83F2407A_hook_def proc_83F27424_hook_def

lemmas member_hooks = proc_83F25592_hook_def proc_83F24534_hook_def proc_83F24D96_hook_def proc_83F258F8_hook_def
  proc_8430F028_hook_def queue_worker_entry2_834DED94_hook_def proc_83F20D36_hook_def
  scePafMisc_b9fb9bd6_hook_def

lemma simple_hooks_typed:
  "keeps_typed o1 \<Longrightarrow> keeps_typed (sceErrorGetExternalString_hook o1)"
  "keeps_typed o2 \<Longrightarrow> keeps_typed (sceKernelCreateThread_hook o2)"
  "keeps_typed o2 \<Longrightarrow> keeps_typed (sceKernelLoadModule_hook o2)"
  "keeps_typed o2 \<Longrightarrow> keeps_typed (sceKernelLoadStartModule_hook o2)"
  "keeps_typed o2 \<Longrightarrow> keeps_typed (sceAppMgrGameDataMount_hook o2)"
  "keeps_typed o2 \<Longrightarrow> keeps_typed (scePafGraphics_a97584eb_hook o2)"
  "keeps_typed o2 \<Longrightarrow> keeps_typed (scePafGraphics_c84832a2_hook k local o2)"
  "keeps_typed o2 \<Longrightarrow> keeps_typed (scePafGraphics_b228a257_hook o2)"
  "keeps_typed o2 \<Longrightarrow> keeps_typed (proc_83F23D5C_hook k local o2)"
  "keeps_typed o2 \<Longrightarrow> keeps_typed (proc_83F275CC_hook o2)"
  "keeps_typed o2 \<Longrightarrow> keeps_typed (proc_83F10C5A_hook o2)"
  "keeps_typed o5 \<Longrightarrow> keeps_typed (proc_gc_param_sfo_83F2CEA0_hook o5)"
  "keeps_typed o5 \<Longrightarrow> keeps_typed (proc_gc_param_sfo_83F6B554_hook k o5)"
  "keeps_typed o5 \<Longrightarrow> keeps_typed (proc_gc_param_sfo_83F74B30_hook k o5)"
  "keeps_typed o6 \<Longrightarrow> keeps_typed (proc_83F2407A_hook o6)"
  "keeps_typed o9 \<Longrightarrow> keeps_typed (proc_83F27424_hook o9)"
  "keeps_typed o13 \<Longrightarrow> keeps_typed (scePafGraphics_b976a154_hook o13)"
  "keeps_typed o13 \<Longrightarrow> keeps_typed (scePafGraphics_b2eca849_hook o13)"
  "keeps_typed o13 \<Longrightarrow> keeps_typed (scePafGraphics_7c8b2a63_hook o13)"
  by (rule keepsI, simp only: simple_hooks split: prod.split, intro allI impI ends_intros; simp)+

lemma member_hooks_typed:
  "keeps_typed o1 \<Longrightarrow> keeps_typed (proc_83F25592_hook k o1)"
  "keeps_typed o4 \<Longrightarrow> keeps_typed (scePafMisc_b9fb9bd6_hook k o4)"
  "keeps_typed o7 \<Longrightarrow> keeps_typed (proc_83F24534_hook k o7)"
  "keeps_typed o7 \<Longrightarrow> keeps_typed (proc_83F24D96_hook k o7)"
  "keeps_typed o8 \<Longrightarrow> keeps_typed (proc_83F258F8_hook k o8)"
  "keeps_typed o10 \<Longrightarrow> keeps_typed (proc_8430F028_hook k local o10)"
  "keeps_typed o10 \<Longrightarrow> keeps_typed (queue_worker_entry2_834DED94_hook k o10)"
  "keeps_typed o11 \<Longrightarrow> keeps_typed (proc_83F20D36_hook k o11)"
  by (rule keepsI, simp only: member_hooks split: prod.split, intro allI impI ends_intros; simp)+

lemma ends_if: "(b \<Longrightarrow> ends_typed m) \<Longrightarrow> (\<not> b \<Longrightarrow> ends_typed n) \<Longrightarrow> ends_typed (if b then m else n)"
  by simp

lemma path_hooks_typed:
  "keeps_typed o3 \<Longrightarrow> keeps_typed (param_sfo_verifySpsfo_hook k o3)"
  "keeps_typed o4 \<Longrightarrow> keeps_typed (param_sfo_verifySpsfo_shell_hook k o4)"
  unfolding param_sfo_verifySpsfo_hook_def [abs_def] param_sfo_verifySpsfo_shell_hook_def [abs_def]
  by (rule keepsI, rule ends_orig, assumption, assumption,
      (rule ends_if ends_fail ends_value ends_ret typed_stores typed_path copy_path_typed | assumption)+)+

lemma alloc_hook_typed: "keeps_typed o12 \<Longrightarrow> keeps_typed (scePafAllocateMem_hook k local o12)"
proof (rule keeps_typedI)
  fix a s r t assume "keeps_typed o12" "els_typed s" "scePafAllocateMem_hook k local o12 a s = ret (r, t)"
  then obtain s1 A n where "els_typed s1" "put_alloc \<lparr>ad_ptr = r, ad_caller = A ! 0\<rparr>
      (s1\<lparr>alloc_addresses := A, alloc_addressNum := n\<rparr>) = ret t"
    by (auto simp: alloc_hook_eq Let_def run_simps dest: keeps_typedD)
  then show "els_typed t" using put_alloc_typed typed_addresses by blast
qed

lemma pass_typed: "els_typed s \<Longrightarrow> els_typed (listener_pass k s)"
proof -
  have poll: "els_typed u \<Longrightarrow> els_typed (poll k e u)" for e u
  proof -
    assume u: "els_typed u"
    obtain h formats where e: "e = (h, formats)" by (cases e)
    have "els_typed (el_texts k ts u)" for ts by (rule typed_log [OF log_only_texts(1) u])
    with u show ?thesis by (auto simp: e poll_eq) (auto simp: els_typed_def alloc_ring_def)
  qed
  have "els_typed s \<Longrightarrow> els_typed (fold (poll k) es s)" for es
    by (induction es arbitrary: s) (simp_all add: poll)
  then show "els_typed s \<Longrightarrow> els_typed (listener_pass k s)" by (simp add: listener_pass_def)
qed

text \<open>C21: Types. Every hook keeps the state well-formed if its original does: the flags are 0 or 1, the
  buffers for paths have their 1024 characters, the copies of the stack their 15 or 16 words and the
  table its 128 and 512 entries, and the index of the array of allocations is within its bounds. So
  does a pass of the listener.\<close>

theorem hooks_keep_types:
  assumes "keeps_typed o1" and "keeps_typed o2" and "keeps_typed o3" and "keeps_typed o4"
    and "keeps_typed o5" and "keeps_typed o6" and "keeps_typed o7" and "keeps_typed o8" and "keeps_typed o9"
    and "keeps_typed o10" and "keeps_typed o11" and "keeps_typed o12" and "keeps_typed o13" and "keeps_typed o14"
  shows "keeps_typed (sceErrorGetExternalString_hook o1) \<and> keeps_typed (proc_83F25592_hook k o1)
    \<and> keeps_typed (sceKernelCreateThread_hook o2) \<and> keeps_typed (sceKernelLoadModule_hook o2)
    \<and> keeps_typed (sceKernelLoadStartModule_hook o2) \<and> keeps_typed (sceAppMgrGameDataMount_hook o2)
    \<and> keeps_typed (scePafGraphics_a97584eb_hook o2) \<and> keeps_typed (scePafGraphics_c84832a2_hook k local o2)
    \<and> keeps_typed (scePafGraphics_b228a257_hook o2) \<and> keeps_typed (proc_83F23D5C_hook k local o2)
    \<and> keeps_typed (proc_83F275CC_hook o2) \<and> keeps_typed (proc_83F10C5A_hook o2)
    \<and> keeps_typed (param_sfo_verifySpsfo_hook k o3) \<and> keeps_typed (param_sfo_verifySpsfo_shell_hook k o4)
    \<and> keeps_typed (scePafMisc_b9fb9bd6_hook k o4)
    \<and> keeps_typed (proc_gc_param_sfo_83F2CEA0_hook o5) \<and> keeps_typed (proc_gc_param_sfo_83F6B554_hook k o5)
    \<and> keeps_typed (proc_gc_param_sfo_83F74B30_hook k o5)
    \<and> keeps_typed (proc_83F2407A_hook o6) \<and> keeps_typed (proc_83F24534_hook k o7)
    \<and> keeps_typed (proc_83F24D96_hook k o7) \<and> keeps_typed (proc_83F258F8_hook k o8)
    \<and> keeps_typed (proc_83F27424_hook o9) \<and> keeps_typed (proc_8430F028_hook k local o10)
    \<and> keeps_typed (queue_worker_entry2_834DED94_hook k o10) \<and> keeps_typed (proc_83F20D36_hook k o11)
    \<and> keeps_typed (scePafAllocateMem_hook k local o12)
    \<and> keeps_typed (scePafGraphics_b976a154_hook o13) \<and> keeps_typed (scePafGraphics_b2eca849_hook o13)
    \<and> keeps_typed (scePafGraphics_7c8b2a63_hook o14)
    \<and> (els_typed s \<longrightarrow> els_typed (listener_pass k s))"
  using assms by (intro conjI impI simple_hooks_typed member_hooks_typed path_hooks_typed alloc_hook_typed pass_typed)

lemma boot_typed: "els_typed (els_boot w)"
  by (simp add: els_typed_def els_boot_def alloc_ring_def ring_ok_def ALLOC_DATA_BUFFER_SIZE_def fresh_table_def
      MOD_LIST_SIZE_def SEG_LIST_SIZE_def)

lemma quiet_orig: "keeps_typed (\<lambda>a s. ret (0, s))"
  by (simp add: keeps_typed_def run_simps)

theorem hooks_keep_types_witness:
  "keeps_typed (scePafAllocateMem_hook quiet_eapi 4 (\<lambda>n (s :: unit els). ret (0, s)))
   \<and> els_typed (listener_pass quiet_eapi (els_boot ()))"
proof -
  note T = hooks_keep_types [where ?o12.0 = "\<lambda>n (s :: unit els). ret (0, s)" and s = "els_boot ()" and k = quiet_eapi
      and local = 4, OF quiet_orig quiet_orig quiet_orig quiet_orig quiet_orig quiet_orig quiet_orig quiet_orig
      quiet_orig quiet_orig quiet_orig quiet_orig quiet_orig quiet_orig]
  have "keeps_typed (scePafAllocateMem_hook quiet_eapi 4 (\<lambda>n (s :: unit els). ret (0, s)))"
    by (rule T [THEN conjE]) (elim conjE)
  moreover have "els_typed (els_boot ()) \<longrightarrow> els_typed (listener_pass quiet_eapi (els_boot ()))"
    by (rule T [THEN conjE]) (elim conjE)
  ultimately show ?thesis by (simp add: boot_typed)
qed


section \<open>The buffers for paths\<close>

lemma c_string_terminated:
  assumes "CHR 0x00 \<notin> set xs"
  shows "c_string (xs @ CHR 0x00 # ys) = xs"
  using assms by (auto simp: c_string_def takeWhile_append)

lemma c_string_no_null: "CHR 0x00 \<notin> set (c_string xs)"
  by (auto simp: c_string_def dest: set_takeWhileD)

lemma drop_first: "n < length b \<Longrightarrow> (drop n b)[0 := x] = x # drop (Suc n) b"
  by (metis Cons_nth_drop_Suc list_update_code(2))

lemma copy_path_eq:
  assumes "p \<noteq> 0" and "length buf = 1024"
  shows "copy_path k p len buf w = (if 0 \<le> len \<and> len < 1024
    then ret (map (\<lambda>i. e_byte k (p + of_nat i) w) [0..<nat len] @ CHR 0x00 # drop (Suc (nat len)) buf)
    else fail OutOfBounds)"
proof (cases "0 \<le> len \<and> len < 1024")
  case True
  then have "nat len < length buf" using assms(2) by (simp add: nat_less_iff)
  with True have "(map (\<lambda>i. e_byte k (p + of_nat i) w) [0..<nat len] @ drop (nat len) buf)[nat len := CHR 0x00]
    = map (\<lambda>i. e_byte k (p + of_nat i) w) [0..<nat len] @ CHR 0x00 # drop (Suc (nat len)) buf"
    using assms(2) by (simp add: list_update_append drop_first)
  with True assms show ?thesis by (simp add: copy_path_def nat_less_iff)
qed (use assms in \<open>auto simp: copy_path_def\<close>)

lemma strnlen_chars:
  "map (\<lambda>i. e_byte k (p + of_nat i) w) [0..<strnlen_at k p n w]
   = c_string (map (\<lambda>i. e_byte k (p + of_nat i) w) [0..<n])"
proof -
  let ?m = "\<lambda>i. e_byte k (p + of_nat i) w"
  have "strnlen_at k p n w \<le> n"
    unfolding strnlen_at_def c_string_def by (metis length_map length_takeWhile_le length_upt minus_nat.diff_0)
  then have "map ?m [0..<strnlen_at k p n w] = take (strnlen_at k p n w) (map ?m [0..<n])" by (simp add: take_map)
  also have "\<dots> = c_string (map ?m [0..<n])"
    by (simp add: strnlen_at_def c_string_def takeWhile_eq_take [symmetric])
  finally show ?thesis .
qed

text \<open>C38: Both hooks of parameter files keep the path in a buffer of 1024 characters. When the path is
  shorter, the buffer holds it as a string and the flag is set. When it has 1024 characters or more,
  the first hook, which limits what it copies to 1024 characters, writes the end of the string one
  place after the buffer; the second one takes the length from its argument and copies whatever it
  says, so that a longer or a negative length overruns the buffer too.\<close>

theorem paths_overrun:
  assumes opens: "orig (fil, a) s = ret (res, s1)" "fil \<noteq> 0" "els_typed s1"
    and shell: "orig' (b, ctx) s = ret (res', s2)" "ctx \<noteq> 0" "e_word k ctx (el_world s2) = dat" "dat \<noteq> 0" "els_typed s2"
  shows "(if strnlen_at k fil 1024 (el_world s1) < 1024
      then \<exists>t. param_sfo_verifySpsfo_hook k orig (fil, a) s = ret (res, t)
        \<and> c_string (e_path t Param_sfo_verifySpsfo) = c_string (map (\<lambda>i. e_byte k (fil + of_nat i) (el_world s1)) [0..<1024])
        \<and> e_called t Param_sfo_verifySpsfo = 1
      else param_sfo_verifySpsfo_hook k orig (fil, a) s = fail OutOfBounds)
    \<and> (let len = sint (e_word k (ctx + 4) (el_world s2)) in
      if 0 \<le> len \<and> len < 1024
      then \<exists>t. param_sfo_verifySpsfo_shell_hook k orig' (b, ctx) s = ret (res', t)
        \<and> c_string (e_path t Param_sfo_verifySpsfo_shell) = c_string (map (\<lambda>i. e_byte k (dat + of_nat i) (el_world s2)) [0..<nat len])
        \<and> e_called t Param_sfo_verifySpsfo_shell = 1
      else param_sfo_verifySpsfo_shell_hook k orig' (b, ctx) s = fail OutOfBounds)"
proof (intro conjI)
  let ?n = "strnlen_at k fil 1024 (el_world s1)" and ?m = "\<lambda>i. e_byte k (fil + of_nat i) (el_world s1)"
  have size: "length (e_path s1 Param_sfo_verifySpsfo) = 1024" using opens(3) by (simp add: els_typed_def)
  show "if ?n < 1024
      then \<exists>t. param_sfo_verifySpsfo_hook k orig (fil, a) s = ret (res, t)
        \<and> c_string (e_path t Param_sfo_verifySpsfo) = c_string (map ?m [0..<1024]) \<and> e_called t Param_sfo_verifySpsfo = 1
      else param_sfo_verifySpsfo_hook k orig (fil, a) s = fail OutOfBounds"
    using opens(1,2) copy_path_eq [OF opens(2) size, of k "int ?n" "el_world s1"]
      c_string_terminated [OF c_string_no_null]
    by (simp del: upt_rec_numeral add: param_sfo_verifySpsfo_hook_def run_simps put_path_def strnlen_chars)
next
  have size: "length (e_path s2 Param_sfo_verifySpsfo_shell) = 1024" using shell(5) by (simp add: els_typed_def)
  have cut: "c_string (xs @ CHR 0x00 # ys) = c_string xs" for xs ys
    by (simp add: c_string_def takeWhile_tail)
  show "let len = sint (e_word k (ctx + 4) (el_world s2)) in
      if 0 \<le> len \<and> len < 1024
      then \<exists>t. param_sfo_verifySpsfo_shell_hook k orig' (b, ctx) s = ret (res', t)
        \<and> c_string (e_path t Param_sfo_verifySpsfo_shell) = c_string (map (\<lambda>i. e_byte k (dat + of_nat i) (el_world s2)) [0..<nat len])
        \<and> e_called t Param_sfo_verifySpsfo_shell = 1
      else param_sfo_verifySpsfo_shell_hook k orig' (b, ctx) s = fail OutOfBounds"
    using shell(1-4) copy_path_eq [OF shell(4) size, of k _ "el_world s2"]
    by (simp add: param_sfo_verifySpsfo_shell_hook_def member_at_def run_simps put_path_def cut Let_def)
qed

text \<open>Memory without an end of string anywhere.\<close>

definition long_paths :: "unit eapi" where
  "long_paths = quiet_eapi\<lparr>e_byte := \<lambda>_ _. CHR ''a'', e_word := \<lambda>p _. if p = 16 then 64 else 3\<rparr>"

theorem paths_overrun_witness:
  "param_sfo_verifySpsfo_hook long_paths (\<lambda>a s. ret (0, s)) (8, ()) (els_boot ()) = fail OutOfBounds
   \<and> (\<exists>t. param_sfo_verifySpsfo_shell_hook long_paths (\<lambda>a s. ret (0, s)) ((), 16) (els_boot ()) = ret (0, t)
        \<and> c_string (e_path t Param_sfo_verifySpsfo_shell) = ''aaa'')"
proof -
  have n: "strnlen_at long_paths 8 m w = m" for m w
  proof -
    have "length (takeWhile (\<lambda>c. c \<noteq> CHR 0x00) (map (\<lambda>i. CHR ''a'') xs)) = length xs" for xs :: "nat list"
      by (induction xs) simp_all
    then show ?thesis by (simp add: strnlen_at_def c_string_def long_paths_def)
  qed
  have l: "e_word long_paths 16 w = 64" "e_word long_paths 20 w = 3" for w by (simp_all add: long_paths_def)
  have c: "c_string (map (\<lambda>i. e_byte long_paths (64 + of_nat i) w) [0..<3]) = ''aaa''" for w
    by (simp add: long_paths_def c_string_def upt_rec)
  from paths_overrun [where orig = "\<lambda>a s. ret (0, s)" and orig' = "\<lambda>a s. ret (0, s)" and fil = 8 and ctx = 16
      and a = "()" and b = "()" and s = "els_boot ()" and k = long_paths, OF refl _ boot_typed refl _ l(1) _ boot_typed]
  show ?thesis by (auto simp: n l c Let_def)
qed


section \<open>The last allocations\<close>

text \<open>A sequence of calls of the allocation hook, by the addresses of its local variable and the sizes,
  with the results.\<close>

fun alloc_calls ::
    "'w eapi \<Rightarrow> (int, addr, 'w, 'm) eorig \<Rightarrow> (addr \<times> int) list \<Rightarrow> ('w, 'm) els_scheme
     \<Rightarrow> (addr list \<times> ('w, 'm) els_scheme) run" where
  "alloc_calls k orig [] s = ret ([], s)"
| "alloc_calls k orig (c # cs) s =
     run_bind (scePafAllocateMem_hook k (fst c) orig (snd c) s) (\<lambda>(r, s1).
     run_bind (alloc_calls k orig cs s1) (\<lambda>(rs, s2). ret (r # rs, s2)))"

text \<open>What an entry should say: the pointer, and the first word of the stack that lies in a module, or
  0 if there is none.\<close>

definition entry_for :: "module_table \<Rightarrow> addr \<Rightarrow> alloc_data \<Rightarrow> bool" where
  "entry_for T r e \<longleftrightarrow> ad_ptr e = r \<and> (ad_caller e = 0 \<or> find_in_segments T (ad_caller e) \<ge> 0)"

definition puts_alloc :: "alloc_data \<Rightarrow> ('w, 'm) els_scheme \<Rightarrow> ('w, 'm) els_scheme \<Rightarrow> bool" where
  "puts_alloc e s s' \<longleftrightarrow> (\<exists>t :: ('w, 'm) els_scheme. put_alloc e t = ret s' \<and> alloc_ring t = alloc_ring s)"

interpretation allocs: ring_buffer ALLOC_DATA_BUFFER_SIZE alloc_ring puts_alloc
proof
  fix e and s s' :: "('a, 'b) els_scheme"
  assume "puts_alloc e s s'" and "ring_ok ALLOC_DATA_BUFFER_SIZE (alloc_ring s)"
  then show "alloc_ring s' = ring_put ALLOC_DATA_BUFFER_SIZE e (alloc_ring s)"
    by (auto simp: puts_alloc_def dest: put_alloc_ring)
qed

definition allocates :: "(int, addr, 'w, 'm) eorig \<Rightarrow> bool" where
  "allocates orig \<longleftrightarrow> (\<forall>n s. \<exists>r t. orig n s = ret (r, t) \<and> alloc_ring t = alloc_ring s \<and> el_table t = el_table s)"

lemma put_alloc_returns:
  "ring_ok ALLOC_DATA_BUFFER_SIZE (alloc_ring s) \<Longrightarrow> \<exists>t. put_alloc e s = ret t \<and> el_table t = el_table s"
  by (auto simp: put_alloc_def Let_def ring_ok_def alloc_ring_def)

lemma alloc_hook_step:
  assumes orig: "allocates orig" and ok: "ring_ok ALLOC_DATA_BUFFER_SIZE (alloc_ring s)"
  shows "\<exists>r e t. scePafAllocateMem_hook k local orig n s = ret (r, t) \<and> entry_for (el_table s) r e
    \<and> puts_alloc e s t \<and> el_table t = el_table s"
proof -
  obtain r s1 where o1: "orig n s = ret (r, s1)" "alloc_ring s1 = alloc_ring s" "el_table s1 = el_table s"
    using orig unfolding allocates_def by blast
  define ws where "ws = listed_words (el_table s1) (\<lambda>q. if q = local then r else e_word k q (el_world s1)) local ALLOC_STACKTRACE_SIZE"
  define A where "A = ws @ replicate (ALLOC_STACKTRACE_SIZE - length ws) 0"
  define s2 where "s2 = s1\<lparr>alloc_addresses := A, alloc_addressNum := length ws\<rparr>"
  have s2: "alloc_ring s2 = alloc_ring s" "el_table s2 = el_table s" using o1 by (simp_all add: s2_def alloc_ring_def)
  with ok obtain t where t: "put_alloc \<lparr>ad_ptr = r, ad_caller = A ! 0\<rparr> s2 = ret t" "el_table t = el_table s"
    using put_alloc_returns [of s2] by metis
  have "\<forall>w \<in> set ws. find_in_segments (el_table s) w \<ge> 0" using o1(3) by (auto simp: ws_def listed_words_def)
  then have "A ! 0 = 0 \<or> find_in_segments (el_table s) (A ! 0) \<ge> 0"
    by (cases ws) (auto simp: A_def ALLOC_STACKTRACE_SIZE_def)
  moreover have "scePafAllocateMem_hook k local orig n s = ret (r, t)"
    using o1(1) t(1) by (simp add: alloc_hook_eq run_simps Let_def A_def s2_def ws_def)
  ultimately show ?thesis
    using t s2 unfolding entry_for_def puts_alloc_def
    by (intro exI [of _ r] exI [of _ "\<lparr>ad_ptr = r, ad_caller = A ! 0\<rparr>"] exI [of _ t]) auto
qed

lemma alloc_calls_trace:
  assumes orig: "allocates orig"
  shows "ring_ok ALLOC_DATA_BUFFER_SIZE (alloc_ring s) \<Longrightarrow>
    \<exists>rs es t. alloc_calls k orig cs s = ret (rs, t) \<and> list_all2 (entry_for (el_table s)) rs es
      \<and> trace puts_alloc es s t \<and> length rs = length cs"
proof (induction cs arbitrary: s)
  case Nil
  then show ?case by (auto simp: run_simps intro!: exI [of _ "[]"])
next
  case (Cons c cs)
  from alloc_hook_step [OF orig Cons.prems] obtain r e s1 where
    h: "scePafAllocateMem_hook k (fst c) orig (snd c) s = ret (r, s1)" "entry_for (el_table s) r e"
      "puts_alloc e s s1" "el_table s1 = el_table s" by blast
  from h(3) Cons.prems have "ring_ok ALLOC_DATA_BUFFER_SIZE (alloc_ring s1)"
    by (simp add: allocs.step_puts ring_put_ok)
  from Cons.IH [OF this] obtain rs es t where
    "alloc_calls k orig cs s1 = ret (rs, t)" "list_all2 (entry_for (el_table s1)) rs es"
      "trace puts_alloc es s1 t" "length rs = length cs" by blast
  with h show ?case
    by (intro exI [of _ "r # rs"] exI [of _ "e # es"] exI [of _ t]) (auto simp: run_simps)
qed

lemma find_alloc_hit:
  "\<exists>i < length es. ad_ptr (es ! i) = v \<Longrightarrow>
   \<exists>i < length es. find_alloc n es v = n + int i \<and> ad_ptr (es ! i) = v"
proof (induction es arbitrary: n)
  case (Cons e es)
  show ?case
  proof (cases "ad_ptr e = v")
    case False
    with Cons.prems have "\<exists>i < length es. ad_ptr (es ! i) = v" by (auto simp: less_Suc_eq_0_disj)
    from Cons.IH [OF this, of "n + 1"] obtain i where
      "i < length es" "find_alloc (n + 1) es v = n + 1 + int i" "ad_ptr (es ! i) = v" by blast
    with False show ?thesis by (intro exI [of _ "Suc i"]) simp
  qed auto
qed simp

text \<open>C22: The array of allocations. However often the hook is called, it returns, the array keeps its
  16384 entries and its index stays within them, and the last 16384 results are all in it: the entry
  of the \<open>j\<close>-th last call has its result and, as the caller, either 0 or an address within a module,
  and \<open>find_allocation_data\<close> finds an entry for it.\<close>

theorem allocations_remembered:
  assumes "allocates orig" and "ring_ok ALLOC_DATA_BUFFER_SIZE (alloc_ring s)"
  shows "\<exists>rs t. alloc_calls k orig cs s = ret (rs, t) \<and> ring_ok ALLOC_DATA_BUFFER_SIZE (alloc_ring t)
    \<and> length rs = length cs
    \<and> (\<forall>j < min ALLOC_DATA_BUFFER_SIZE (length rs). let r = rs ! (length rs - 1 - j) in
         entry_for (el_table s) r (ring_last ALLOC_DATA_BUFFER_SIZE (alloc_ring t) j)
         \<and> (\<exists>i < ALLOC_DATA_BUFFER_SIZE. find_allocation_data r t = int i \<and> ad_ptr (allocData t ! i) = r))"
proof -
  let ?N = ALLOC_DATA_BUFFER_SIZE
  from alloc_calls_trace [OF assms] obtain rs es t where
    run: "alloc_calls k orig cs s = ret (rs, t)" and es: "list_all2 (entry_for (el_table s)) rs es"
      "trace puts_alloc es s t" "length rs = length cs" by blast
  have ok: "ring_ok ?N (alloc_ring t)" using allocs.steps_ok [OF es(2) assms(2)] .
  have size: "length (allocData t) = ?N" using ok by (simp add: ring_ok_def alloc_ring_def)
  have last: "entry_for (el_table s) (rs ! (length rs - 1 - j)) (ring_last ?N (alloc_ring t) j)"
    if "j < min ?N (length rs)" for j
  proof -
    have len: "length es = length rs" using es(1) by (simp add: list_all2_lengthD)
    with that have "ring_last ?N (alloc_ring t) j = es ! (length rs - 1 - j)"
      using allocs.steps_keep_last [OF es(2) assms(2), of j] by simp
    moreover have "entry_for (el_table s) (rs ! (length rs - 1 - j)) (es ! (length rs - 1 - j))"
    proof (rule list_all2_nthD [OF es(1)])
      show "length rs - 1 - j < length rs" using that by (cases "length rs") auto
    qed
    ultimately show ?thesis by simp
  qed
  have found: "\<exists>i < ?N. find_allocation_data r t = int i \<and> ad_ptr (allocData t ! i) = r"
    if "ad_ptr (ring_last ?N (alloc_ring t) j) = r" for r j
  proof -
    have "0 < ?N" by (simp add: ALLOC_DATA_BUFFER_SIZE_def)
    then have "nat ((allocCtr t - 1 - int j) mod int ?N) < ?N" by (simp add: nat_less_iff)
    then have "\<exists>i < length (allocData t). ad_ptr (allocData t ! i) = r"
      using that size by (auto simp: ring_last_def alloc_ring_def)
    from find_alloc_hit [OF this, of 0] show ?thesis by (auto simp: find_allocation_data_def size)
  qed
  have "let r = rs ! (length rs - 1 - j) in
         entry_for (el_table s) r (ring_last ?N (alloc_ring t) j)
         \<and> (\<exists>i < ?N. find_allocation_data r t = int i \<and> ad_ptr (allocData t ! i) = r)"
    if "j < min ?N (length rs)" for j
  proof -
    have e: "entry_for (el_table s) (rs ! (length rs - 1 - j)) (ring_last ?N (alloc_ring t) j)" by (rule last [OF that])
    then have "ad_ptr (ring_last ?N (alloc_ring t) j) = rs ! (length rs - 1 - j)" by (simp add: entry_for_def)
    from found [OF this] e show ?thesis unfolding Let_def by blast
  qed
  with run ok es(3) show ?thesis by blast
qed

theorem allocations_remembered_witness:
  "\<exists>rs t. alloc_calls quiet_eapi (\<lambda>n s. ret (word_of_int n, s)) [(4, 64), (4, 80), (4, 96)] (els_boot ()) = ret (rs, t)
    \<and> length rs = 3 \<and> find_allocation_data (rs ! 0) t \<ge> 0"
proof -
  have a: "allocates (\<lambda>n s. ret (word_of_int n, s))" by (simp add: allocates_def run_simps)
  have r: "ring_ok ALLOC_DATA_BUFFER_SIZE (alloc_ring (els_boot ()))"
    using boot_typed [of "()"] by (simp add: els_typed_def)
  obtain rs t where run: "alloc_calls quiet_eapi (\<lambda>n s. ret (word_of_int n, s)) [(4, 64), (4, 80), (4, 96)] (els_boot ()) = ret (rs, t)"
    and size: "length rs = length [(4 :: addr, 64 :: int), (4, 80), (4, 96)]" and all: "\<forall>j < min ALLOC_DATA_BUFFER_SIZE (length rs). let r = rs ! (length rs - 1 - j) in
         entry_for (el_table (els_boot ())) r (ring_last ALLOC_DATA_BUFFER_SIZE (alloc_ring t) j)
         \<and> (\<exists>i < ALLOC_DATA_BUFFER_SIZE. find_allocation_data r t = int i \<and> ad_ptr (allocData t ! i) = r)"
    using allocations_remembered [OF a r, where k = quiet_eapi and cs = "[(4, 64), (4, 80), (4, 96)]"] by blast
  have "length rs = 3" using size by simp
  moreover from this have "find_allocation_data (rs ! 0) t \<ge> 0"
    using all [THEN spec, of 2] by (auto simp: Let_def ALLOC_DATA_BUFFER_SIZE_def)
  ultimately show ?thesis using run by blast
qed

end
