(* ===== verification/Client.thy ===== *)
theory Client
  imports Emmc_Props
begin

text \<open>
  \<open>client/psvemmc/\<close>: the command-line client, a C++ program that dumps one partition of a device to
  a file. It speaks the protocol of \<open>server/src/main.c\<close>; the two ends share no header, so that the
  packed structs of \<open>EmmcClient.h\<close> are written here a second time.

  The socket library, boost and the opening of files are parameters, the record \<open>capi\<close>; an
  uninitialised local variable of \<open>n\<close> bytes holds \<open>c_uninit k n w\<close>. A function that leaves by its
  end without a \<open>return\<close> answers \<open>None\<close>, and an exception that nobody catches ends \<open>main\<close> as
  \<open>Uncaught\<close>.
\<close>

section \<open>State and library\<close>

record addrinfo =
  ai_family :: int
  ai_socktype :: int
  ai_protocol :: int
  ai_addr :: "byte list"
  ai_addrlen :: int

record 'w capi =
  c_SOCKET_ERROR :: int
  c_INVALID_SOCKET :: int
  c_AF_UNSPEC :: int
  c_SOCK_STREAM :: int
  c_IPPROTO_TCP :: int
  c_SD_SEND :: int
  c_WSAStartup :: "'w \<Rightarrow> int \<times> 'w"
  c_WSACleanup :: "'w \<Rightarrow> int \<times> 'w"
  c_WSAGetLastError :: "'w \<Rightarrow> int"
  c_getaddrinfo :: "string \<Rightarrow> string \<Rightarrow> int \<Rightarrow> int \<Rightarrow> int \<Rightarrow> 'w \<Rightarrow> int \<times> addrinfo list \<times> 'w"
  c_freeaddrinfo :: "addrinfo list \<Rightarrow> 'w \<Rightarrow> int \<times> 'w"
  c_socket :: "int \<Rightarrow> int \<Rightarrow> int \<Rightarrow> 'w \<Rightarrow> int \<times> 'w"
  c_connect :: "int \<Rightarrow> byte list \<Rightarrow> int \<Rightarrow> 'w \<Rightarrow> int \<times> 'w"
  c_closesocket :: "int \<Rightarrow> 'w \<Rightarrow> int \<times> 'w"
  c_shutdown :: "int \<Rightarrow> int \<Rightarrow> 'w \<Rightarrow> int \<times> 'w"
  c_send :: "int \<Rightarrow> byte list \<Rightarrow> 'w \<Rightarrow> int \<times> 'w"
  c_recv :: "int \<Rightarrow> int \<Rightarrow> 'w \<Rightarrow> int \<times> byte list \<times> 'w"
  c_uninit :: "nat \<Rightarrow> 'w \<Rightarrow> byte list"
  c_open :: "string \<Rightarrow> 'w \<Rightarrow> bool \<times> 'w"
  c_generic_string :: "string \<Rightarrow> string"
  c_lexical_cast :: "string \<Rightarrow> int option"

text \<open>What the program changes: the world, the text on \<open>std::cout\<close>, the base in which it prints
  numbers, which stays what a manipulator has made it, and the files it writes.\<close>

record 'w cli =
  cw :: 'w
  cout :: string
  cout_hex :: bool
  files :: "string \<rightharpoonup> byte list"

definition ccall :: "('w \<Rightarrow> 'a \<times> 'w) \<Rightarrow> 'w cli \<Rightarrow> 'a \<times> 'w cli" where
  "ccall f s = (case f (cw s) of (r, w) \<Rightarrow> (r, s\<lparr>cw := w\<rparr>))"

definition ccall2 :: "('w \<Rightarrow> 'a \<times> 'b \<times> 'w) \<Rightarrow> 'w cli \<Rightarrow> 'a \<times> 'b \<times> 'w cli" where
  "ccall2 f s = (case f (cw s) of (r, a, w) \<Rightarrow> (r, a, s\<lparr>cw := w\<rparr>))"

definition cdo :: "('w \<Rightarrow> int \<times> 'w) \<Rightarrow> 'w cli \<Rightarrow> 'w cli" where
  "cdo f s = s\<lparr>cw := snd (f (cw s))\<rparr>"

definition endl :: string where "endl = [char_of (10 :: nat)]"

definition print :: "string \<Rightarrow> 'w cli \<Rightarrow> 'w cli" where
  "print t s = s\<lparr>cout := cout s @ t\<rparr>"

definition print_number :: "int \<Rightarrow> 'w cli \<Rightarrow> 'w cli" where
  "print_number n s = print (if cout_hex s then hex_str (n mod 4294967296) else dec_str n) s"

text \<open>\<open>std::hex\<close>, \<open>std::setfill('0')\<close> and \<open>std::setw(8)\<close> before a number.\<close>

definition print_hex8 :: "int \<Rightarrow> 'w cli \<Rightarrow> 'w cli" where
  "print_hex8 n s = print (let t = hex_str n in replicate (8 - length t) (CHR ''0'') @ t) (s\<lparr>cout_hex := True\<rparr>)"

definition print_error :: "'w capi \<Rightarrow> string \<Rightarrow> 'w cli \<Rightarrow> 'w cli" where
  "print_error k t s = print endl (print_number (c_WSAGetLastError k (cw s)) (print t s))"


section \<open>One request and its response\<close>

definition send_failed :: "'w capi \<Rightarrow> int \<Rightarrow> 'w cli \<Rightarrow> 'w cli" where
  "send_failed k sock s =
     cdo (c_WSACleanup k) (cdo (c_closesocket k sock) (print_error k ''send failed with error: '' s))"

definition bad_response :: "'w capi \<Rightarrow> int \<Rightarrow> 'w cli \<Rightarrow> 'w cli" where
  "bad_response k sock s = cdo (c_WSACleanup k) (cdo (c_closesocket k sock) s)"

text \<open>The fields of \<open>command_response_base\<close> are of type \<open>uint32_t\<close>.\<close>

definition u32_at :: "nat \<Rightarrow> byte list \<Rightarrow> int" where
  "u32_at off bs = le_val (take 4 (drop off bs))"

definition resp_command :: "byte list \<Rightarrow> int" where "resp_command = u32_at 0"
definition resp_vita_err :: "byte list \<Rightarrow> int" where "resp_vita_err = u32_at 4"
definition resp_proxy_err :: "byte list \<Rightarrow> int" where "resp_proxy_err = u32_at 8"

text \<open>A send and a single receive into a local variable.\<close>

definition exchange ::
    "'w capi \<Rightarrow> int \<Rightarrow> byte list \<Rightarrow> nat \<Rightarrow> 'w cli \<Rightarrow> (byte list option \<times> 'w cli) run" where
  "exchange k sock request n s =
     (let (iResult, s1) = ccall (c_send k sock request) s
      in if iResult = c_SOCKET_ERROR k then ret (None, send_failed k sock s1)
         else
           let (iResult, bs, s2) = ccall2 (c_recv k sock (int n)) s1
           in run_bind (mem_store 0 bs (c_uninit k n (cw s))) (\<lambda>resp.
              if iResult = c_SOCKET_ERROR k then ret (None, send_failed k sock s2)
              else ret (Some resp, s2)))"

text \<open>The receive loop. It stops only when all bytes are there or on an error.\<close>

definition store_at :: "int \<Rightarrow> byte list \<Rightarrow> byte list \<Rightarrow> byte list run" where
  "store_at off bs buf = (if off < 0 \<and> bs \<noteq> [] then fail OutOfBounds else mem_store (nat off) bs buf)"

partial_function (option) receive_all ::
    "'w capi \<Rightarrow> int \<Rightarrow> int \<Rightarrow> int \<Rightarrow> byte list \<Rightarrow> 'w cli \<Rightarrow> (bool \<times> byte list \<times> 'w cli) run" where
  "receive_all k sock bytesToReceive bytesWereReceived buf s =
     (if bytesToReceive = bytesWereReceived then ret (True, buf, s)
      else
        case ccall2 (c_recv k sock (bytesToReceive - bytesWereReceived)) s of (iResult, bs, s1) \<Rightarrow>
        run_bind (store_at bytesWereReceived bs buf) (\<lambda>buf'.
        if iResult = c_SOCKET_ERROR k then ret (False, buf', send_failed k sock s1)
        else receive_all k sock bytesToReceive (bytesWereReceived + iResult) buf' s1))"


section \<open>The commands\<close>

fun strncmp :: "nat \<Rightarrow> byte list \<Rightarrow> byte list \<Rightarrow> int run" where
  "strncmp 0 a b = ret 0"
| "strncmp (Suc n) (x # a) (y # b) =
     (if x \<noteq> y then ret (uint x - uint y) else if x = 0 then ret 0 else strncmp n a b)"
| "strncmp (Suc n) _ _ = fail OutOfBounds"

definition c_chars :: "string \<Rightarrow> byte list" where
  "c_chars t = map (\<lambda>c. word_of_int (of_char c)) t @ [0]"

definition emmc_ping :: "'w capi \<Rightarrow> int \<Rightarrow> 'w cli \<Rightarrow> (int \<times> 'w cli) run" where
  "emmc_ping k sock s =
     run_bind (exchange k sock (enc32 0) 22 s) (\<lambda>(resp, s1).
     case resp of None \<Rightarrow> ret (-1, s1)
     | Some resp0 \<Rightarrow>
         if resp_command resp0 \<noteq> 0 \<or> resp_vita_err resp0 < 0 \<or> resp_proxy_err resp0 < 0
         then ret (-1, bad_response k sock s1)
         else
           run_bind (strncmp 10 (drop 12 resp0) (c_chars ''emmcproxy'')) (\<lambda>d.
           if d \<noteq> 0 then ret (-1, s1) else ret (0, s1)))"

definition emmc_init :: "'w capi \<Rightarrow> int \<Rightarrow> int \<Rightarrow> int \<Rightarrow> 'w cli \<Rightarrow> (int \<times> 'w cli) run" where
  "emmc_init k sock bytesPerSector sectorsPerCluster s =
     run_bind (exchange k sock (enc32 2 @ enc32 bytesPerSector @ enc32 sectorsPerCluster) 12 s) (\<lambda>(resp, s1).
     case resp of None \<Rightarrow> ret (-1, s1)
     | Some resp2 \<Rightarrow>
         if resp_command resp2 \<noteq> 2 \<or> resp_vita_err resp2 < 0 \<or> resp_proxy_err resp2 < 0
         then ret (-1, bad_response k sock s1)
         else ret (0, s1))"

definition emmc_deinit :: "'w capi \<Rightarrow> int \<Rightarrow> 'w cli \<Rightarrow> (int \<times> 'w cli) run" where
  "emmc_deinit k sock s =
     run_bind (exchange k sock (enc32 3) 12 s) (\<lambda>(resp, s1).
     case resp of None \<Rightarrow> ret (-1, s1)
     | Some resp3 \<Rightarrow>
         if resp_command resp3 \<noteq> 3 \<or> resp_vita_err resp3 < 0 \<or> resp_proxy_err resp3 < 0
         then ret (-1, bad_response k sock s1)
         else ret (0, s1))"

text \<open>The six reads are two functions, each written out for the three devices, which differ in the
  number of the command. They answer with the destination as they leave it.\<close>

definition read_sector_cmd ::
    "int \<Rightarrow> 'w capi \<Rightarrow> int \<Rightarrow> int \<Rightarrow> byte list \<Rightarrow> 'w cli \<Rightarrow> (int \<times> byte list \<times> 'w cli) run" where
  "read_sector_cmd c k sock sector result s =
     (let (iResult, s1) = ccall (c_send k sock (enc32 c @ enc32 sector)) s
      in if iResult = c_SOCKET_ERROR k then ret (-1, result, send_failed k sock s1)
         else
           run_bind (receive_all k sock 524 0 (c_uninit k 524 (cw s)) s1) (\<lambda>(complete, resp, s2).
           if \<not> complete then ret (-1, result, s2)
           else if resp_command resp \<noteq> c \<or> resp_vita_err resp < 0 \<or> resp_proxy_err resp \<noteq> 0
           then ret (-1, result, bad_response k sock s2)
           else
             run_bind (mem_load 12 512 resp) (\<lambda>d.
             run_bind (mem_store 0 d result) (\<lambda>result'. ret (0, result', s2)))))"

definition emmc_read_sector ::
    "'w capi \<Rightarrow> int \<Rightarrow> int \<Rightarrow> byte list \<Rightarrow> 'w cli \<Rightarrow> (int \<times> byte list \<times> 'w cli) run" where
  "emmc_read_sector = read_sector_cmd 4"

definition emmc_read_sector_ms ::
    "'w capi \<Rightarrow> int \<Rightarrow> int \<Rightarrow> byte list \<Rightarrow> 'w cli \<Rightarrow> (int \<times> byte list \<times> 'w cli) run" where
  "emmc_read_sector_ms = read_sector_cmd 8"

definition emmc_read_sector_gc ::
    "'w capi \<Rightarrow> int \<Rightarrow> int \<Rightarrow> byte list \<Rightarrow> 'w cli \<Rightarrow> (int \<times> byte list \<times> 'w cli) run" where
  "emmc_read_sector_gc = read_sector_cmd 12"

definition read_cluster_cmd ::
    "int \<Rightarrow> 'w capi \<Rightarrow> int \<Rightarrow> int \<Rightarrow> int \<Rightarrow> byte list \<Rightarrow> 'w cli \<Rightarrow> (int \<times> byte list \<times> 'w cli) run" where
  "read_cluster_cmd c k sock cluster expectedSize data s =
     run_bind (exchange k sock (enc32 c @ enc32 cluster) 12 s) (\<lambda>(resp, s1).
     case resp of None \<Rightarrow> ret (-1, data, s1)
     | Some resp5 \<Rightarrow>
         run_bind (receive_all k sock expectedSize 0 data s1) (\<lambda>(complete, data', s2).
         if \<not> complete then ret (-1, data', s2)
         else if resp_command resp5 \<noteq> c \<or> resp_vita_err resp5 < 0 \<or> resp_proxy_err resp5 \<noteq> 0
         then ret (-1, data', bad_response k sock s2)
         else ret (0, data', s2)))"

definition emmc_read_cluster ::
    "'w capi \<Rightarrow> int \<Rightarrow> int \<Rightarrow> int \<Rightarrow> byte list \<Rightarrow> 'w cli \<Rightarrow> (int \<times> byte list \<times> 'w cli) run" where
  "emmc_read_cluster = read_cluster_cmd 5"

definition emmc_read_cluster_ms ::
    "'w capi \<Rightarrow> int \<Rightarrow> int \<Rightarrow> int \<Rightarrow> byte list \<Rightarrow> 'w cli \<Rightarrow> (int \<times> byte list \<times> 'w cli) run" where
  "emmc_read_cluster_ms = read_cluster_cmd 9"

definition emmc_read_cluster_gc ::
    "'w capi \<Rightarrow> int \<Rightarrow> int \<Rightarrow> int \<Rightarrow> byte list \<Rightarrow> 'w cli \<Rightarrow> (int \<times> byte list \<times> 'w cli) run" where
  "emmc_read_cluster_gc = read_cluster_cmd 13"

definition DUMP_MODE_EMMC :: int where "DUMP_MODE_EMMC = 0"
definition DUMP_MODE_MS :: int where "DUMP_MODE_MS = 1"
definition DUMP_MODE_GC :: int where "DUMP_MODE_GC = 2"

definition read_sector ::
    "'w capi \<Rightarrow> int \<Rightarrow> int \<Rightarrow> int \<Rightarrow> byte list \<Rightarrow> 'w cli \<Rightarrow> (int \<times> byte list \<times> 'w cli) run" where
  "read_sector k sock dumpMode sector result s =
     (if dumpMode = DUMP_MODE_EMMC then emmc_read_sector k sock sector result s
      else if dumpMode = DUMP_MODE_MS then emmc_read_sector_ms k sock sector result s
      else if dumpMode = DUMP_MODE_GC then emmc_read_sector_gc k sock sector result s
      else ret (-1, result, s))"

definition read_cluster ::
    "'w capi \<Rightarrow> int \<Rightarrow> int \<Rightarrow> int \<Rightarrow> int \<Rightarrow> byte list \<Rightarrow> 'w cli \<Rightarrow> (int \<times> byte list \<times> 'w cli) run" where
  "read_cluster k sock dumpMode cluster expectedSize data s =
     (if dumpMode = DUMP_MODE_EMMC then emmc_read_cluster k sock cluster expectedSize data s
      else if dumpMode = DUMP_MODE_MS then emmc_read_cluster_ms k sock cluster expectedSize data s
      else if dumpMode = DUMP_MODE_GC then emmc_read_cluster_gc k sock cluster expectedSize data s
      else ret (-1, data, s))"


section \<open>The partition table\<close>

record PartitionEntry =
  partitionOffset :: int
  partitionSize :: int
  partitionCode :: byte
  partitionType :: byte
  partitionActive :: byte
  partition_flags :: byte
  partition_unk :: "byte list"

record MBR =
  mbr_header :: "byte list"
  mbr_version :: int
  sizeInBlocks :: int
  mbr_unk :: "int list"
  partitions :: "PartitionEntry list"
  unk_data :: "byte list"
  mbr_signature :: int

definition NPartitions :: nat where "NPartitions = 20"

text \<open>The packed structs, from the bytes at their address.\<close>

definition PartitionEntry_at :: "byte list \<Rightarrow> PartitionEntry" where
  "PartitionEntry_at bs = \<lparr>partitionOffset = u32_at 0 bs, partitionSize = u32_at 4 bs,
     partitionCode = bs ! 8, partitionType = bs ! 9, partitionActive = bs ! 10,
     partition_flags = bs ! 11, partition_unk = take 5 (drop 12 bs)\<rparr>"

definition MBR_at :: "byte list \<Rightarrow> MBR" where
  "MBR_at bs = \<lparr>mbr_header = take 32 bs, mbr_version = u32_at 32 bs, sizeInBlocks = u32_at 36 bs,
     mbr_unk = map (\<lambda>i. u32_at (40 + 4 * i) bs) [0..<10],
     partitions = map (\<lambda>i. PartitionEntry_at (drop (80 + 17 * i) bs)) [0..<NPartitions],
     unk_data = take 90 (drop 420 bs), mbr_signature = le_val (take 2 (drop 510 bs))\<rparr>"

definition partitionCodeToString :: "byte \<Rightarrow> string" where
  "partitionCodeToString c = (case map_of
     [(0, ''empty''), (1, ''emmc''), (2, ''slb2''), (3, ''os0''), (4, ''vs0''), (5, ''vd0''), (6, ''tm0''),
      (7, ''ur0''), (8, ''ux0''), (9, ''gro0''), (-1, ''grw0''), (11, ''ud0''), (12, ''sa0''),
      (13, ''ext''), (14, ''pd0'')] c of Some t \<Rightarrow> t | None \<Rightarrow> '''')"

definition PartitionTypeToString :: "byte \<Rightarrow> string" where
  "PartitionTypeToString t = (case map_of
     [(0, ''empty''), (6, ''fat16''), (7, ''exfat''), (218, ''raw'')] t of Some n \<Rightarrow> n | None \<Rightarrow> '''')"

definition SCEHeader :: string where "SCEHeader = ''Sony Computer Entertainment Inc.''"

definition validateSceMbr :: "MBR \<Rightarrow> 'w cli \<Rightarrow> (int \<times> 'w cli) run" where
  "validateSceMbr mbr s =
     run_bind (strncmp 32 (mbr_header mbr) (c_chars SCEHeader)) (\<lambda>d.
     if d \<noteq> 0 then ret (-1, print (''Invalid header'' @ endl) s)
     else if mbr_version mbr \<noteq> 3 then ret (-1, print (''Invalid version'' @ endl) s)
     else if mbr_signature mbr \<noteq> 43605 then ret (-1, print (''Invalid signature'' @ endl) s)
     else ret (0, s))"

definition print_partition :: "PartitionEntry \<Rightarrow> 'w cli \<Rightarrow> 'w cli" where
  "print_partition p s =
     print ('' '' @ PartitionTypeToString (partitionType p) @ '' ''
         @ partitionCodeToString (partitionCode p) @ endl)
       (print_hex8 (partitionSize p) (print '' '' (print_hex8 (partitionOffset p) s)))"

fun print_partitions :: "PartitionEntry list \<Rightarrow> 'w cli \<Rightarrow> 'w cli" where
  "print_partitions [] s = s"
| "print_partitions (p # ps) s =
     (if partitionType p = 0 then s else print_partitions ps (print_partition p s))"

definition parse_sce_mbr ::
    "'w capi \<Rightarrow> int \<Rightarrow> int \<Rightarrow> byte list \<Rightarrow> 'w cli \<Rightarrow> (int option \<times> byte list \<times> 'w cli) run" where
  "parse_sce_mbr k sock dumpMode mbr s =
     run_bind (read_sector k sock dumpMode 0 (c_uninit k 512 (cw s)) s) (\<lambda>(r, mbrSector, s1).
     if r < 0 then ret (Some (-1), mbr, s1)
     else
       run_bind (mem_store 0 mbrSector mbr) (\<lambda>mbr'.
       run_bind (validateSceMbr (MBR_at mbr') s1) (\<lambda>(v, s2).
       if v < 0 then ret (Some (-1), mbr', s2)
       else
         ret (None, mbr', print_partitions (partitions (MBR_at mbr'))
           (print (''Available partitions: '' @ endl) s2)))))"


section \<open>Dumping\<close>

text \<open>The output file, if it could be opened; writes to a file that could not are dropped.\<close>

definition open_output :: "'w capi \<Rightarrow> string \<Rightarrow> 'w cli \<Rightarrow> string option \<times> 'w cli" where
  "open_output k path s =
     (let (opened, s1) = ccall (c_open k path) s
      in if opened then (Some path, s1\<lparr>files := (files s1)(path \<mapsto> [])\<rparr>) else (None, s1))"

definition write_output :: "string option \<Rightarrow> byte list \<Rightarrow> 'w cli \<Rightarrow> 'w cli" where
  "write_output outputFile bs s = (case outputFile of None \<Rightarrow> s
     | Some path \<Rightarrow> s\<lparr>files := (files s)(path \<mapsto> (case files s path of None \<Rightarrow> [] | Some old \<Rightarrow> old) @ bs)\<rparr>)"

fun dump_clusters ::
    "'w capi \<Rightarrow> int \<Rightarrow> int \<Rightarrow> int \<Rightarrow> int \<Rightarrow> string option \<Rightarrow> nat list \<Rightarrow> byte list \<Rightarrow> 'w cli
     \<Rightarrow> (bool \<times> 'w cli) run" where
  "dump_clusters k sock dumpMode clusterOffset nClustersToRead outputFile [] clusterData s = ret (True, s)"
| "dump_clusters k sock dumpMode clusterOffset nClustersToRead outputFile (i # is) clusterData s =
     run_bind (read_cluster k sock dumpMode (wrap32 (clusterOffset + int i)) (int (length clusterData))
         clusterData s) (\<lambda>(r, clusterData', s1).
     if r < 0 then ret (False, s1)
     else
       let s2 = write_output outputFile clusterData' s1;
           s3 = print_number (int i + 1) (print ''cluster '' s2);
           s4 = print endl (print_number nClustersToRead (print '' out of '' s3))
       in dump_clusters k sock dumpMode clusterOffset nClustersToRead outputFile is clusterData' s4)"

fun dump_sectors ::
    "'w capi \<Rightarrow> int \<Rightarrow> int \<Rightarrow> int \<Rightarrow> string option \<Rightarrow> nat list \<Rightarrow> byte list \<Rightarrow> 'w cli
     \<Rightarrow> (bool \<times> 'w cli) run" where
  "dump_sectors k sock dumpMode tailOffset outputFile [] sectorData s = ret (True, s)"
| "dump_sectors k sock dumpMode tailOffset outputFile (i # is) sectorData s =
     run_bind (read_sector k sock dumpMode (wrap32 (tailOffset + int i)) sectorData s) (\<lambda>(r, sectorData', s1).
     if r < 0 then ret (False, s1)
     else dump_sectors k sock dumpMode tailOffset outputFile is sectorData'
       (write_output outputFile sectorData' s1))"

definition dump_partition ::
    "'w capi \<Rightarrow> int \<Rightarrow> int \<Rightarrow> PartitionEntry \<Rightarrow> string \<Rightarrow> 'w cli \<Rightarrow> (int option \<times> 'w cli) run" where
  "dump_partition k sock dumpMode entry dumpFilePath s =
     run_bind (emmc_init k sock SD_DEFAULT_SECTOR_SIZE 8 s) (\<lambda>(r, s1).
     if r < 0 then ret (Some (-1), s1)
     else
       let nClustersToRead = partitionSize entry div 8;
           nSectorsToRead = partitionSize entry mod 8;
           clusterOffset = partitionOffset entry div 8;
           tailOffset = wrap32 (partitionOffset entry + nClustersToRead * 8);
           (outputFile, s2) = open_output k (c_generic_string k dumpFilePath) s1
       in run_bind (dump_clusters k sock dumpMode clusterOffset nClustersToRead outputFile
              [0..<nat nClustersToRead] (replicate 4096 0) s2) (\<lambda>(complete, s3).
          if \<not> complete then ret (Some (-1), s3)
          else
            run_bind (dump_sectors k sock dumpMode tailOffset outputFile [0..<nat nSectorsToRead]
                (c_uninit k 512 (cw s3)) s3) (\<lambda>(complete, s4).
            if \<not> complete then ret (Some (-1), s4)
            else
              run_bind (emmc_deinit k sock s4) (\<lambda>(r, s5).
              if r < 0 then ret (Some (-1), s5) else ret (None, s5)))))"

definition dump_device ::
    "'w capi \<Rightarrow> int \<Rightarrow> int \<Rightarrow> int \<Rightarrow> string \<Rightarrow> 'w cli \<Rightarrow> (int \<times> 'w cli) run" where
  "dump_device k sock dumpMode dumpPartitionIndex dumpFilePath s =
     run_bind (emmc_ping k sock s) (\<lambda>(r, s1).
     if r < 0 then ret (-1, s1)
     else
       run_bind (parse_sce_mbr k sock dumpMode (c_uninit k 512 (cw s)) s1) (\<lambda>(r, mbr, s2).
       if dumpPartitionIndex < 0 \<or> int NPartitions \<le> dumpPartitionIndex then fail OutOfBounds
       else
         let entry = partitions (MBR_at mbr) ! nat dumpPartitionIndex
         in if partitionType entry = 0
            then ret (-1, print (''trying to dump empty partition'' @ endl) s2)
            else
              run_bind (dump_partition k sock dumpMode entry dumpFilePath s2) (\<lambda>(r, s3).
              ret (0, s3))))"


section \<open>Connecting\<close>

definition DEFAULT_PORT :: string where "DEFAULT_PORT = ''1331''"
definition NODE_NAME :: string where "NODE_NAME = ''192.168.0.34''"

text \<open>The loop over the addresses: whether a socket could not be made, which returns at once, and
  the last value of \<open>ConnectSocket\<close>.\<close>

fun connect_first :: "'w capi \<Rightarrow> addrinfo list \<Rightarrow> int \<Rightarrow> 'w cli \<Rightarrow> bool \<times> int \<times> 'w cli" where
  "connect_first k [] ConnectSocket s = (False, ConnectSocket, s)"
| "connect_first k (ptr # ptrs) ConnectSocket s =
     (let (sock, s1) = ccall (c_socket k (ai_family ptr) (ai_socktype ptr) (ai_protocol ptr)) s
      in if sock = c_INVALID_SOCKET k
         then (True, sock, cdo (c_WSACleanup k) (print_error k ''socket failed with error: '' s1))
         else
           let (iResult, s2) = ccall (c_connect k sock (ai_addr ptr) (ai_addrlen ptr)) s1
           in if iResult = c_SOCKET_ERROR k
              then connect_first k ptrs (c_INVALID_SOCKET k) (cdo (c_closesocket k sock) s2)
              else (False, sock, s2))"

definition initialize_emmc_proxy_connection :: "'w capi \<Rightarrow> int \<Rightarrow> 'w cli \<Rightarrow> int \<times> int \<times> 'w cli" where
  "initialize_emmc_proxy_connection k ConnectSocket s =
     (let s1 = print (''Welcome to emmc client'' @ endl) s;
          (iResult, s2) = ccall (c_WSAStartup k) s1
      in if iResult \<noteq> 0
         then (-1, ConnectSocket,
           print endl (print_number iResult (print ''WSAStartup failed with error: '' s2)))
         else
           let (iResult, result, s3) = ccall2 (c_getaddrinfo k NODE_NAME DEFAULT_PORT
                  (c_AF_UNSPEC k) (c_SOCK_STREAM k) (c_IPPROTO_TCP k)) s2
           in if iResult \<noteq> 0
              then (-1, ConnectSocket, cdo (c_WSACleanup k)
                (print endl (print_number iResult (print ''getaddrinfo failed with error:'' s3))))
              else
                let (failed, sock, s4) = connect_first k result (c_INVALID_SOCKET k) s3
                in if failed then (-1, sock, s4)
                   else
                     let s5 = cdo (c_freeaddrinfo k result) s4
                     in if sock = c_INVALID_SOCKET k
                        then (-1, sock, cdo (c_WSACleanup k) (print (''Unable to connect to server!'' @ endl) s5))
                        else (0, sock, s5))"

definition deinitialize_emmc_proxy_connection :: "'w capi \<Rightarrow> int \<Rightarrow> 'w cli \<Rightarrow> int \<times> 'w cli" where
  "deinitialize_emmc_proxy_connection k ConnectSocket s =
     (let (iResult, s1) = ccall (c_shutdown k ConnectSocket (c_SD_SEND k)) s
      in if iResult = c_SOCKET_ERROR k
         then (-1, cdo (c_WSACleanup k) (cdo (c_closesocket k ConnectSocket)
           (print_error k ''shutdown failed with error: '' s1)))
         else (0, cdo (c_WSACleanup k) (cdo (c_closesocket k ConnectSocket) s1)))"


section \<open>The program\<close>

text \<open>The arguments: \<open>None\<close> is the exception of a word that is not a number.\<close>

definition parseArgs ::
    "'w capi \<Rightarrow> string list \<Rightarrow> 'w cli \<Rightarrow> ((int \<times> int \<times> string) option \<times> 'w cli) option" where
  "parseArgs k argv s =
     (if length argv < 4
      then Some (None, print (''Invalid number of arguments'' @ endl
             @ ''Usage: dumpMode dumpPartitionIndex dumpFilePath'' @ endl) s)
      else
        Option.bind (c_lexical_cast k (argv ! 1)) (\<lambda>dumpMode.
        Option.bind (c_lexical_cast k (argv ! 2)) (\<lambda>dumpPartitionIndex.
        if 3 \<le> dumpMode then Some (None, print (''dump mode index is invalid'' @ endl) s)
        else if int NPartitions \<le> dumpPartitionIndex
        then Some (None, print (''partition index is invalid'' @ endl) s)
        else Some (Some (dumpMode, dumpPartitionIndex, argv ! 3), s))))"

datatype exit = Exit int | Uncaught

definition client_main :: "'w capi \<Rightarrow> string list \<Rightarrow> 'w cli \<Rightarrow> (exit \<times> 'w cli) run" where
  "client_main k argv s =
     (case parseArgs k argv s of
        None \<Rightarrow> ret (Uncaught, s)
      | Some (None, s1) \<Rightarrow> ret (Exit 1, s1)
      | Some (Some (dumpMode, dumpPartitionIndex, dumpFilePath), s1) \<Rightarrow>
          let (r, emmc_socket, s2) = initialize_emmc_proxy_connection k 0 s1
          in if r < 0 then ret (Exit 1, s2)
             else
               run_bind (dump_device k emmc_socket dumpMode dumpPartitionIndex dumpFilePath s2) (\<lambda>(r, s3).
               let (r, s4) = deinitialize_emmc_proxy_connection k emmc_socket s3
               in if r < 0 then ret (Exit 1, s4) else ret (Exit 0, s4)))"

end
