(* ===== verification/Client_Peer.thy ===== *)
theory Client_Peer
  imports Client Server
begin

text \<open>
  What the client relies on. A server is described by the requests it is ready for and the bytes it
  answers with; the locale \<open>served\<close> is the contract of a connection to such a server, and what the
  client's functions do over it is proved in the locale, up to the file a dump leaves behind.
\<close>

section \<open>A sample library\<close>

text \<open>In which every call succeeds and does nothing, for the witnesses.\<close>

definition plain_capi :: "'w capi" where
  "plain_capi = \<lparr>c_SOCKET_ERROR = -1, c_INVALID_SOCKET = -1, c_AF_UNSPEC = 0, c_SOCK_STREAM = 1,
     c_IPPROTO_TCP = 6, c_SD_SEND = 1, c_WSAStartup = (\<lambda>w. (0, w)), c_WSACleanup = (\<lambda>w. (0, w)),
     c_WSAGetLastError = (\<lambda>w. 10054), c_getaddrinfo = (\<lambda>_ _ _ _ _ w. (0, [], w)),
     c_freeaddrinfo = (\<lambda>_ w. (0, w)), c_socket = (\<lambda>_ _ _ w. (4, w)), c_connect = (\<lambda>_ _ _ w. (0, w)),
     c_closesocket = (\<lambda>_ w. (0, w)), c_shutdown = (\<lambda>_ _ w. (0, w)),
     c_send = (\<lambda>_ bs w. (int (length bs), w)), c_recv = (\<lambda>_ _ w. (0, [], w)),
     c_uninit = (\<lambda>n w. replicate n 1), c_open = (\<lambda>_ w. (True, w)), c_generic_string = id,
     c_lexical_cast = (\<lambda>_. Some 0)\<rparr>"

definition cli_boot :: "'w \<Rightarrow> 'w cli" where
  "cli_boot w = \<lparr>cw = w, cout = [], cout_hex = False, files = Map.empty\<rparr>"


section \<open>Requests and responses\<close>

datatype request =
    Ping
  | Init int int
  | Deinit
  | Get_sector device int
  | Get_cluster device int

fun sector_cmd_of :: "device \<Rightarrow> int" where
  "sector_cmd_of Dev_emmc = 4"
| "sector_cmd_of Dev_ms = 8"
| "sector_cmd_of Dev_gc = 12"

fun cluster_cmd_of :: "device \<Rightarrow> int" where
  "cluster_cmd_of Dev_emmc = 5"
| "cluster_cmd_of Dev_ms = 9"
| "cluster_cmd_of Dev_gc = 13"

fun dump_mode :: "device \<Rightarrow> int" where
  "dump_mode Dev_emmc = DUMP_MODE_EMMC"
| "dump_mode Dev_ms = DUMP_MODE_MS"
| "dump_mode Dev_gc = DUMP_MODE_GC"

fun request_bytes :: "request \<Rightarrow> byte list" where
  "request_bytes Ping = enc32 0"
| "request_bytes (Init bps spc) = enc32 2 @ enc32 bps @ enc32 spc"
| "request_bytes Deinit = enc32 3"
| "request_bytes (Get_sector dv n) = enc32 (sector_cmd_of dv) @ enc32 n"
| "request_bytes (Get_cluster dv n) = enc32 (cluster_cmd_of dv) @ enc32 n"

text \<open>The sectors of a device from \<open>a\<close> on.\<close>

definition sectors :: "(int \<Rightarrow> byte list) \<Rightarrow> int \<Rightarrow> nat \<Rightarrow> byte list" where
  "sectors d a n = concat (map (\<lambda>i. d (a + int i)) [0..<n])"

text \<open>The requests a server can serve: its pool is the number of sectors in a cluster, if it has one,
  and a device is \<open>ready\<close> or not. Sector numbers are positive C \<open>int\<close>s.\<close>

fun allowed :: "(device \<Rightarrow> bool) \<Rightarrow> int option \<Rightarrow> request \<Rightarrow> bool" where
  "allowed ready pool Ping \<longleftrightarrow> True"
| "allowed ready pool (Init bps spc) \<longleftrightarrow> pool = None \<and> bps = 512 \<and> 0 < spc \<and> spc < 4194304"
| "allowed ready pool Deinit \<longleftrightarrow> pool \<noteq> None"
| "allowed ready pool (Get_sector dv n) \<longleftrightarrow> ready dv \<and> 0 \<le> n \<and> n < 2147483648"
| "allowed ready pool (Get_cluster dv n) \<longleftrightarrow> ready dv \<and>
     (case pool of None \<Rightarrow> False | Some spc \<Rightarrow> 0 \<le> n \<and> spc * n + spc \<le> 2147483648)"

fun pool_after :: "int option \<Rightarrow> request \<Rightarrow> int option" where
  "pool_after pool (Init bps spc) = Some spc"
| "pool_after pool Deinit = None"
| "pool_after pool q = pool"

fun response_bytes :: "(device \<Rightarrow> int \<Rightarrow> byte list) \<Rightarrow> int option \<Rightarrow> request \<Rightarrow> byte list" where
  "response_bytes disk pool Ping = packet 0 0 0 @ c_chars ''emmcproxy''"
| "response_bytes disk pool (Init bps spc) = packet 2 0 0"
| "response_bytes disk pool Deinit = packet 3 0 0"
| "response_bytes disk pool (Get_sector dv n) = packet (sector_cmd_of dv) 0 0 @ disk dv n"
| "response_bytes disk pool (Get_cluster dv n) =
     packet (cluster_cmd_of dv) 0 0
     @ (case pool of None \<Rightarrow> [] | Some spc \<Rightarrow> sectors (disk dv) (spc * n) (nat spc))"

lemma length_packet [simp]: "length (packet c v p) = 12"
  by (simp add: packet_def)

lemma sectors_0 [simp]: "sectors d a 0 = []"
  by (simp add: sectors_def)

lemma sectors_Suc: "sectors d a (Suc n) = sectors d a n @ d (a + int n)"
  by (simp add: sectors_def)

lemma length_sectors: "(\<And>n. length (d n) = 512) \<Longrightarrow> length (sectors d a n) = 512 * n"
  by (induction n) (simp_all add: sectors_Suc)

lemma sectors_add: "sectors d a (m + n) = sectors d a m @ sectors d (a + int m) n"
  by (induction n) (simp_all add: sectors_Suc add.assoc)

lemma u32_at_packet:
  "u32_at 0 (packet c v p @ bs) = c mod 4294967296" "u32_at 4 (packet c v p @ bs) = v mod 4294967296"
  "u32_at 8 (packet c v p @ bs) = p mod 4294967296"
  by (simp_all add: u32_at_def packet_def enc32_def le_val_le_bytes)

lemmas resp_simps = resp_command_def resp_vita_err_def resp_proxy_err_def u32_at_packet
  u32_at_packet [where bs = "[]", simplified]

lemma strncmp_same: "length a \<le> n \<Longrightarrow> 0 \<in> set a \<Longrightarrow> strncmp n a a = ret 0"
proof (induction n arbitrary: a)
  case (Suc n)
  then show ?case by (cases a) auto
qed simp


lemma strncmp_returns: "n \<le> length a \<Longrightarrow> n \<le> length b \<Longrightarrow> \<exists>d. strncmp n a b = ret d"
  by (induction n a b rule: strncmp.induct) auto

lemma print_fields [frame_simps]:
  "cw (print t s) = cw s" "files (print t s) = files s"
  "cw (print_number n s) = cw s" "files (print_number n s) = files s"
  "cw (print_hex8 n s) = cw s" "files (print_hex8 n s) = files s"
  by (simp_all add: print_def print_number_def print_hex8_def)

lemma print_partitions_fields [frame_simps]:
  "cw (print_partitions ps s) = cw s" "files (print_partitions ps s) = files s"
  by (induction ps arbitrary: s) (simp_all add: print_partition_def frame_simps)

lemma validate_returns:
  assumes "length bs = 512"
  shows "\<exists>v t. validateSceMbr (MBR_at bs) s = ret (v, t) \<and> cw t = cw s \<and> files t = files s"
proof -
  obtain d where "strncmp 32 (mbr_header (MBR_at bs)) (c_chars SCEHeader) = ret d"
    using strncmp_returns [of 32 "mbr_header (MBR_at bs)" "c_chars SCEHeader"] assms
    by (auto simp: MBR_at_def c_chars_def SCEHeader_def simp del: strncmp.simps)
  then show ?thesis by (simp add: validateSceMbr_def run_bind_ret ret_eq frame_simps)
qed


section \<open>The contract\<close>

text \<open>\<open>link pool bs w\<close>: in the world \<open>w\<close> the server has that pool and waits for a command, and \<open>bs\<close>
  is on its way to the client. A receive gets a part of it, which may be any but is the whole for
  the few bytes of a response's head.\<close>

locale served =
  fixes k :: "'w capi" and sock :: int and ready :: "device \<Rightarrow> bool" and disk :: "device \<Rightarrow> int \<Rightarrow> byte list"
    and link :: "int option \<Rightarrow> byte list \<Rightarrow> 'w \<Rightarrow> bool"
  assumes error_negative: "link pool bs w \<Longrightarrow> c_SOCKET_ERROR k < 0"
    and uninit_length: "link pool bs w \<Longrightarrow> length (c_uninit k n w') = n"
    and sector_length: "link pool bs w \<Longrightarrow> length (disk dv sec) = 512"
    and sends: "link pool [] w \<Longrightarrow> allowed ready pool q \<Longrightarrow> c_send k sock (request_bytes q) w = (r, w') \<Longrightarrow>
      0 \<le> r \<and> link (pool_after pool q) (response_bytes disk pool q) w'"
    and receives: "link pool bs w \<Longrightarrow> bs \<noteq> [] \<Longrightarrow> 0 < m \<Longrightarrow> c_recv k sock m w = (r, got, w') \<Longrightarrow>
      \<exists>rest. bs = got @ rest \<and> got \<noteq> [] \<and> r = int (length got) \<and> r \<le> m \<and> link pool rest w'"
    and whole: "link pool bs w \<Longrightarrow> 0 < m \<Longrightarrow> m \<le> 22 \<Longrightarrow> m \<le> int (length bs) \<Longrightarrow>
      fst (c_recv k sock m w) = m"
    and opens: "link pool bs w \<Longrightarrow> link pool bs (snd (c_open k path w))"
begin

lemma receive_from:
  assumes "link pool (xs @ rest) (cw s)" and "length buf = got + length xs"
  shows "\<exists>w. receive_all k sock (int (length buf)) (int got) buf s
      = ret (True, take got buf @ xs, s\<lparr>cw := w\<rparr>) \<and> link pool rest w"
  using assms
proof (induction "length xs" arbitrary: xs got buf s rule: less_induct)
  case less
  show ?case
  proof (cases "xs = []")
    case True
    then show ?thesis
      using less.prems by (subst receive_all.simps) (auto simp: run_simps intro: exI [of _ "cw s"])
  next
    case False
    define m where "m = int (length buf) - int got"
    have m: "m = int (length xs)" using less.prems(2) by (simp add: m_def)
    obtain r bs w where R: "c_recv k sock m (cw s) = (r, bs, w)" by (metis prod_cases3)
    obtain rest' where rest': "xs @ rest = bs @ rest'" "bs \<noteq> []" "r = int (length bs)" "r \<le> m" "link pool rest' w"
      using receives [OF less.prems(1) _ _ R] False m by auto
    have le: "length bs \<le> length xs" using rest' m by simp
    define ys where "ys = drop (length bs) xs"
    have "take (length bs) (xs @ rest) = bs" "drop (length bs) (xs @ rest) = rest'"
      by (simp_all add: rest'(1))
    with le have xs: "xs = bs @ ys" and r': "rest' = ys @ rest"
      by (simp_all add: ys_def) (metis append_take_drop_id)
    let ?g = "got + length bs" and ?b = "overlay_at got bs buf"
    have lb: "length ?b = ?g + length ys" using less.prems(2) xs by simp
    have "length ys < length xs" using xs rest'(2) by simp
    from less.hyps [OF this, of "s\<lparr>cw := w\<rparr>" ?b ?g] lb rest'(5) r'
    obtain w' where w': "receive_all k sock (int (length ?b)) (int ?g) ?b (s\<lparr>cw := w\<rparr>)
        = ret (True, take ?g ?b @ ys, s\<lparr>cw := w'\<rparr>)" "link pool rest w'"
      by auto
    have st: "store_at (int got) bs buf = ret ?b"
      using less.prems(2) xs by (simp add: store_at_def mem_store_ok)
    have ne: "r \<noteq> c_SOCKET_ERROR k" using rest'(3) error_negative [OF less.prems(1)] by simp
    have nz: "int (length buf) \<noteq> int got" using False less.prems(2) by simp
    have "receive_all k sock (int (length buf)) (int got) buf s
        = receive_all k sock (int (length ?b)) (int ?g) ?b (s\<lparr>cw := w\<rparr>)"
      using R st ne rest'(3) less.prems(2) lb nz arg_cong [OF xs, of length]
      by (subst receive_all.simps) (simp add: ccall2_def run_bind_ret m_def)
    moreover have "take ?g ?b @ ys = take got buf @ xs"
      using take_overlay_at [of got bs buf] less.prems(2) xs by simp
    ultimately show ?thesis using w' by auto
  qed
qed

lemma receive_gets:
  assumes "link pool (xs @ rest) (cw s)" and "length buf = length xs"
  shows "\<exists>w. receive_all k sock (int (length xs)) 0 buf s = ret (True, xs, s\<lparr>cw := w\<rparr>) \<and> link pool rest w"
  using receive_from [OF assms(1), of buf 0] assms(2) by simp

text \<open>A send is accepted, and the response is on its way.\<close>

lemma send_accepted:
  assumes "link pool [] (cw s)" and "allowed ready pool q"
  obtains r w where "ccall (c_send k sock (request_bytes q)) s = (r, s\<lparr>cw := w\<rparr>)"
    and "r \<noteq> c_SOCKET_ERROR k" and "link (pool_after pool q) (response_bytes disk pool q) w"
proof -
  obtain r w where S: "c_send k sock (request_bytes q) (cw s) = (r, w)" by fastforce
  with sends [OF assms S] error_negative [OF assms(1)] show ?thesis
    by (intro that [of r w]) (auto simp: ccall_def)
qed

lemma exchange_gets:
  assumes "link pool [] (cw s)" and "allowed ready pool q" and "response_bytes disk pool q = xs @ rest"
    and "length xs = n" and "0 < n" and "n \<le> 22"
  shows "\<exists>w. exchange k sock (request_bytes q) n s = ret (Some xs, s\<lparr>cw := w\<rparr>)
    \<and> link (pool_after pool q) rest w"
proof -
  obtain r w where S: "ccall (c_send k sock (request_bytes q)) s = (r, s\<lparr>cw := w\<rparr>)"
      "r \<noteq> c_SOCKET_ERROR k" "link (pool_after pool q) (xs @ rest) w"
    using send_accepted [OF assms(1,2)] assms(3) by metis
  obtain r' bs w' where R: "c_recv k sock (int n) w = (r', bs, w')" by (metis prod_cases3)
  obtain rest' where g: "xs @ rest = bs @ rest'" "r' = int (length bs)" "link (pool_after pool q) rest' w'"
    using receives [OF S(3) _ _ R] assms(4,5) by auto
  have "r' = int n" using whole [OF S(3), of "int n"] R assms(4-6) by simp
  then have "bs = xs" "rest' = rest" using g(1,2) assms(4) by auto
  moreover have "r' \<noteq> c_SOCKET_ERROR k" using g(2) error_negative [OF assms(1)] by simp
  ultimately show ?thesis
    using S(1,2) R g(3) uninit_length [OF assms(1), of n "cw s"] assms(4)
    by (intro exI [of _ w']) (simp add: exchange_def ccall2_def mem_store_full run_bind_ret ret_eq)
qed


section \<open>The commands over a connection\<close>

lemma emmc_ping_served:
  assumes "link pool [] (cw s)"
  shows "\<exists>w. emmc_ping k sock s = ret (0, s\<lparr>cw := w\<rparr>) \<and> link pool [] w"
proof -
  have len: "length (packet 0 0 0 @ c_chars ''emmcproxy'') = 22" by (simp add: c_chars_def)
  obtain w where "exchange k sock (enc32 0) 22 s = ret (Some (packet 0 0 0 @ c_chars ''emmcproxy''), s\<lparr>cw := w\<rparr>)"
      "link pool [] w"
    using exchange_gets [OF assms, of Ping "packet 0 0 0 @ c_chars ''emmcproxy''" "[]" 22] len by auto
  moreover have "strncmp 10 (c_chars ''emmcproxy'') (c_chars ''emmcproxy'') = ret 0"
    by (rule strncmp_same) (simp_all add: c_chars_def)
  ultimately show ?thesis
    by (intro exI [of _ w]) (simp add: emmc_ping_def run_bind_ret resp_simps)
qed

lemma emmc_init_served:
  assumes "link None [] (cw s)" and "0 < spc" and "spc < 4194304"
  shows "\<exists>w. emmc_init k sock 512 spc s = ret (0, s\<lparr>cw := w\<rparr>) \<and> link (Some spc) [] w"
  using exchange_gets [OF assms(1), of "Init 512 spc" "packet 2 0 0" "[]" 12] assms(2,3)
  by (auto simp: emmc_init_def run_bind_ret resp_simps)

lemma emmc_deinit_served:
  assumes "link (Some spc) [] (cw s)"
  shows "\<exists>w. emmc_deinit k sock s = ret (0, s\<lparr>cw := w\<rparr>) \<and> link None [] w"
  using exchange_gets [OF assms(1), of Deinit "packet 3 0 0" "[]" 12]
  by (auto simp: emmc_deinit_def run_bind_ret resp_simps)

lemma read_sector_served:
  assumes "link pool [] (cw s)" and "0 \<le> n" and "n < 2147483648" and "length result = 512"
    and "ready dv"
  shows "\<exists>w. read_sector k sock (dump_mode dv) n result s = ret (0, disk dv n, s\<lparr>cw := w\<rparr>) \<and> link pool [] w"
proof -
  let ?c = "sector_cmd_of dv" and ?resp = "packet (sector_cmd_of dv) 0 0 @ disk dv n"
  obtain r w where S: "ccall (c_send k sock (enc32 ?c @ enc32 n)) s = (r, s\<lparr>cw := w\<rparr>)"
      "r \<noteq> c_SOCKET_ERROR k" "link pool ?resp w"
    using send_accepted [OF assms(1), of "Get_sector dv n"] assms(2,3,5) by auto
  have len: "length ?resp = 524" using sector_length [OF assms(1)] by simp
  obtain w' where R: "receive_all k sock 524 0 (c_uninit k 524 (cw s)) (s\<lparr>cw := w\<rparr>)
      = ret (True, ?resp, s\<lparr>cw := w'\<rparr>)" "link pool [] w'"
    using receive_gets [of pool ?resp "[]" "s\<lparr>cw := w\<rparr>" "c_uninit k 524 (cw s)"] S(3) len uninit_length [OF assms(1)] by auto
  have c: "?c mod 4294967296 = ?c" by (cases dv) simp_all
  have ld: "mem_load 12 512 ?resp = ret (disk dv n)"
    using sector_length [OF assms(1)] by (simp add: mem_load_ok packet_def)
  have "read_sector_cmd ?c k sock n result s = ret (0, disk dv n, s\<lparr>cw := w'\<rparr>)"
    unfolding read_sector_cmd_def S(1) Let_def prod.case
    using S(2) R(1) c sector_length [OF assms(1)] assms(4)
    by (simp add: run_bind_ret resp_simps ld del: append_assoc)
  then show ?thesis using R(2)
    by (cases dv) (auto simp: read_sector_def DUMP_MODE_EMMC_def DUMP_MODE_MS_def DUMP_MODE_GC_def
        emmc_read_sector_def emmc_read_sector_ms_def emmc_read_sector_gc_def)
qed

lemma read_cluster_served:
  assumes "link (Some spc) [] (cw s)" and "0 < spc" and "0 \<le> n" and "spc * n + spc \<le> 2147483648"
    and "length data = 512 * nat spc" and "ready dv"
  shows "\<exists>w. read_cluster k sock (dump_mode dv) n (int (length data)) data s
      = ret (0, sectors (disk dv) (spc * n) (nat spc), s\<lparr>cw := w\<rparr>) \<and> link (Some spc) [] w"
proof -
  let ?c = "cluster_cmd_of dv" and ?d = "sectors (disk dv) (spc * n) (nat spc)"
  obtain w where X: "exchange k sock (enc32 ?c @ enc32 n) 12 s = ret (Some (packet ?c 0 0), s\<lparr>cw := w\<rparr>)"
      "link (Some spc) ?d w"
    using exchange_gets [OF assms(1), of "Get_cluster dv n" "packet ?c 0 0" ?d 12] assms(3,4,6) by auto
  have len: "length data = length ?d" using assms(5) length_sectors sector_length [OF assms(1)] by simp
  obtain w' where R: "receive_all k sock (int (length data)) 0 data (s\<lparr>cw := w\<rparr>) = ret (True, ?d, s\<lparr>cw := w'\<rparr>)"
      "link (Some spc) [] w'"
    using receive_gets [of "Some spc" ?d "[]" "s\<lparr>cw := w\<rparr>" data] X(2) len by auto
  have c: "?c mod 4294967296 = ?c" by (cases dv) simp_all
  have "read_cluster_cmd ?c k sock n (int (length data)) data s = ret (0, ?d, s\<lparr>cw := w'\<rparr>)"
    using X(1) R(1) c by (simp add: read_cluster_cmd_def run_bind_ret resp_simps)
  then show ?thesis using R(2)
    by (cases dv) (auto simp: read_cluster_def DUMP_MODE_EMMC_def DUMP_MODE_MS_def DUMP_MODE_GC_def
        emmc_read_cluster_def emmc_read_cluster_ms_def emmc_read_cluster_gc_def)
qed


section \<open>A dump over a connection\<close>

lemma dump_clusters_served:
  assumes "link (Some 8) [] (cw s)" and "files s path = Some old" and "length data = 4096"
    and "0 \<le> a" and "8 * (a + int n) < 2147483648" and "i \<le> n"
    and rdy: "ready dv"
  shows "\<exists>s'. dump_clusters k sock (dump_mode dv) a tot (Some path) [i..<n] data s = ret (True, s')
    \<and> link (Some 8) [] (cw s')
    \<and> files s' = (files s)(path \<mapsto> old @ sectors (disk dv) (8 * (a + int i)) (8 * (n - i)))"
  using assms(1,2,3,6)
proof (induction "n - i" arbitrary: i data s old)
  case 0
  then show ?case by (auto simp: ret_eq map_upd_triv)
next
  case (Suc m)
  then have lt: "i < n" and m: "m = n - Suc i" "n - i = Suc (n - Suc i)" by auto
  let ?d = "sectors (disk dv) (8 * (a + int i)) 8"
  have w: "wrap32 (a + int i) = a + int i" using assms(4,5) lt by (simp add: c_int_def)
  have b: "8 * (a + int i) + 8 \<le> 2147483648" using assms(5) lt by simp
  obtain w' where R: "read_cluster k sock (dump_mode dv) (a + int i) (int (length data)) data s
      = ret (0, ?d, s\<lparr>cw := w'\<rparr>)" "link (Some 8) [] w'"
    using read_cluster_served [OF Suc.prems(1), of "a + int i" data dv] Suc.prems(3) assms(4) b rdy by auto
  define t where "t = print endl (print_number tot (print '' out of ''
      (print_number (int i + 1) (print ''cluster '' (write_output (Some path) ?d (s\<lparr>cw := w'\<rparr>))))))"
  have t: "cw t = w'" "files t = (files s)(path \<mapsto> old @ ?d)"
    using Suc.prems(2) by (simp_all add: t_def frame_simps write_output_def)
  have ld: "length ?d = 4096" using length_sectors [of "disk dv"] sector_length [OF Suc.prems(1)] by simp
  obtain s' where "dump_clusters k sock (dump_mode dv) a tot (Some path) [Suc i..<n] ?d t = ret (True, s')"
    "link (Some 8) [] (cw s')"
    "files s' = (files t)(path \<mapsto> (old @ ?d) @ sectors (disk dv) (8 * (a + int (Suc i))) (8 * (n - Suc i)))"
    using Suc.hyps(1) [OF m(1), of t "old @ ?d" ?d] R(2) t ld lt by auto
  moreover have "sectors (disk dv) (8 * (a + int i)) (8 * (n - i))
      = ?d @ sectors (disk dv) (8 * (a + int (Suc i))) (8 * (n - Suc i))"
    using sectors_add [of "disk dv" "8 * (a + int i)" 8 "8 * (n - Suc i)"] m(2) by (simp add: algebra_simps)
  moreover have "dump_clusters k sock (dump_mode dv) a tot (Some path) [i..<n] data s
      = dump_clusters k sock (dump_mode dv) a tot (Some path) [Suc i..<n] ?d t"
    using R(1) w lt by (simp add: upt_conv_Cons run_bind_ret Let_def t_def)
  ultimately show ?case using t(2) by (simp add: ret_eq)
qed

lemma dump_sectors_served:
  assumes "link pool [] (cw s)" and "files s path = Some old" and "length data = 512"
    and "0 \<le> a" and "a + int n \<le> 2147483648" and "i \<le> n"
    and rdy: "ready dv"
  shows "\<exists>s'. dump_sectors k sock (dump_mode dv) a (Some path) [i..<n] data s = ret (True, s')
    \<and> link pool [] (cw s') \<and> files s' = (files s)(path \<mapsto> old @ sectors (disk dv) (a + int i) (n - i))"
  using assms(1,2,3,6)
proof (induction "n - i" arbitrary: i data s old)
  case 0
  then show ?case by (auto simp: ret_eq map_upd_triv)
next
  case (Suc m)
  then have lt: "i < n" and m: "m = n - Suc i" "n - i = Suc 0 + (n - Suc i)" by auto
  have w: "wrap32 (a + int i) = a + int i" using assms(4,5) lt by (simp add: c_int_def)
  obtain w' where R: "read_sector k sock (dump_mode dv) (a + int i) data s
      = ret (0, disk dv (a + int i), s\<lparr>cw := w'\<rparr>)" "link pool [] w'"
    using read_sector_served [OF Suc.prems(1), of "a + int i" data dv] Suc.prems(3) assms(4,5) lt rdy by auto
  define t where "t = write_output (Some path) (disk dv (a + int i)) (s\<lparr>cw := w'\<rparr>)"
  have t: "cw t = w'" "files t = (files s)(path \<mapsto> old @ disk dv (a + int i))"
    using Suc.prems(2) by (simp_all add: t_def write_output_def)
  obtain s' where "dump_sectors k sock (dump_mode dv) a (Some path) [Suc i..<n] (disk dv (a + int i)) t
      = ret (True, s')" "link pool [] (cw s')"
    "files s' = (files t)(path \<mapsto> (old @ disk dv (a + int i)) @ sectors (disk dv) (a + int (Suc i)) (n - Suc i))"
    using Suc.hyps(1) [OF m(1), of t "old @ disk dv (a + int i)" "disk dv (a + int i)"] R(2) t sector_length [OF Suc.prems(1)] lt
    by auto
  moreover have "sectors (disk dv) (a + int i) (n - i)
      = disk dv (a + int i) @ sectors (disk dv) (a + int (Suc i)) (n - Suc i)"
    using sectors_add [of "disk dv" "a + int i" "Suc 0" "n - Suc i"] m(2)
    by (simp add: algebra_simps sectors_Suc)
  moreover have "dump_sectors k sock (dump_mode dv) a (Some path) [i..<n] data s
      = dump_sectors k sock (dump_mode dv) a (Some path) [Suc i..<n] (disk dv (a + int i)) t"
    using R(1) w lt by (simp add: upt_conv_Cons run_bind_ret t_def)
  ultimately show ?case using t(2) by (simp add: ret_eq)
qed

text \<open>What a dump of the partition \<open>e\<close> writes: the clusters from the one its first sector is in,
  and the sectors that are left.\<close>

lemma dump_partition_served:
  assumes "link None [] (cw s)" and "0 \<le> partitionOffset e" and "0 \<le> partitionSize e"
    and "partitionOffset e + partitionSize e < 2147483648"
    and "\<And>w. fst (c_open k (c_generic_string k path) w)" and rdy: "ready dv"
  shows "\<exists>s'. dump_partition k sock (dump_mode dv) e path s = ret (None, s') \<and> link None [] (cw s')
    \<and> files s' = (files s)(c_generic_string k path \<mapsto>
        sectors (disk dv) (partitionOffset e - partitionOffset e mod 8) (8 * nat (partitionSize e div 8))
        @ sectors (disk dv) (partitionOffset e + partitionSize e - partitionSize e mod 8)
            (nat (partitionSize e mod 8)))"
proof -
  let ?file = "c_generic_string k path" and ?o = "partitionOffset e" and ?n = "partitionSize e"
  obtain w1 where I: "emmc_init k sock 512 8 s = ret (0, s\<lparr>cw := w1\<rparr>)" "link (Some 8) [] w1"
    using emmc_init_served [OF assms(1), of 8] by auto
  define w2 where "w2 = snd (c_open k ?file w1)"
  define s2 where "s2 = s\<lparr>cw := w2, files := (files s)(?file \<mapsto> [])\<rparr>"
  have O: "open_output k ?file (s\<lparr>cw := w1\<rparr>) = (Some ?file, s2)"
    using assms(5) [of w1] by (cases "c_open k ?file w1") (simp add: open_output_def ccall_def s2_def w2_def)
  have l2: "link (Some 8) [] (cw s2)" using opens [OF I(2)] by (simp add: s2_def w2_def)
  have n: "0 \<le> ?n div 8" "0 \<le> ?o div 8" using assms(2,3) by simp_all
  have "8 * (?o div 8 + ?n div 8) < 2147483648" using assms(2-4) by presburger
  then have b: "8 * (?o div 8 + int (nat (?n div 8))) < 2147483648" using n(1) by simp
  obtain s3 where C: "dump_clusters k sock (dump_mode dv) (?o div 8) (?n div 8) (Some ?file)
        [0..<nat (?n div 8)] (replicate 4096 0) s2 = ret (True, s3)" "link (Some 8) [] (cw s3)"
      "files s3 = (files s2)(?file \<mapsto> [] @ sectors (disk dv) (8 * (?o div 8 + int 0)) (8 * (nat (?n div 8) - 0)))"
    using dump_clusters_served [OF l2, of ?file "[]" "replicate 4096 0" "?o div 8" "nat (?n div 8)" 0 dv "?n div 8"]
      n(2) b rdy by (auto simp: s2_def)
  have "c_int (?o + ?n div 8 * 8)" using assms(2-4) unfolding c_int_def by presburger
  moreover have "?n div 8 * 8 = ?n - ?n mod 8" by (simp add: minus_mod_eq_div_mult)
  ultimately have tail: "wrap32 (?o + ?n div 8 * 8) = ?o + ?n - ?n mod 8" "?n div 8 * 8 = ?n - ?n mod 8"
    by simp_all
  have t0: "?n mod 8 \<le> ?o + ?n" using assms(2,3) by presburger
  obtain s4 where D: "dump_sectors k sock (dump_mode dv) (?o + ?n - ?n mod 8) (Some ?file)
        [0..<nat (?n mod 8)] (c_uninit k 512 (cw s3)) s3 = ret (True, s4)" "link (Some 8) [] (cw s4)"
      "files s4 = (files s3)(?file \<mapsto> sectors (disk dv) (8 * (?o div 8)) (8 * nat (?n div 8))
         @ sectors (disk dv) (?o + ?n - ?n mod 8) (nat (?n mod 8)))"
    using dump_sectors_served [OF C(2), of ?file _ "c_uninit k 512 (cw s3)" "?o + ?n - ?n mod 8" "nat (?n mod 8)" 0 dv]
      C(3) uninit_length [OF C(2)] assms(4) t0 rdy by auto
  obtain w5 where E: "emmc_deinit k sock s4 = ret (0, s4\<lparr>cw := w5\<rparr>)" "link None [] w5"
    using emmc_deinit_served [OF D(2)] by auto
  have "dump_partition k sock (dump_mode dv) e path s = ret (None, s4\<lparr>cw := w5\<rparr>)"
    using I(1) O C(1) D(1) E(1) tail
    by (simp add: dump_partition_def SD_DEFAULT_SECTOR_SIZE_def run_bind_ret Let_def)
  moreover have "8 * (?o div 8) = ?o - ?o mod 8" by (simp add: minus_mod_eq_mult_div)
  ultimately show ?thesis using D(3) C(3) E(2) by (auto simp: s2_def)
qed

lemma parse_sce_mbr_served:
  assumes "link pool [] (cw s)" and "length mbr = 512" and rdy: "ready dv"
  shows "\<exists>r t. parse_sce_mbr k sock (dump_mode dv) mbr s = ret (r, disk dv 0, t)
    \<and> link pool [] (cw t) \<and> files t = files s"
proof -
  obtain w where R: "read_sector k sock (dump_mode dv) 0 (c_uninit k 512 (cw s)) s
      = ret (0, disk dv 0, s\<lparr>cw := w\<rparr>)" "link pool [] w"
    using read_sector_served [OF assms(1), of 0 "c_uninit k 512 (cw s)" dv] uninit_length [OF assms(1)] rdy by auto
  obtain v t where V: "validateSceMbr (MBR_at (disk dv 0)) (s\<lparr>cw := w\<rparr>) = ret (v, t)" "cw t = w" "files t = files s"
    using validate_returns [of "disk dv 0" "s\<lparr>cw := w\<rparr>"] sector_length [OF assms(1)] by auto
  then show ?thesis
    using R sector_length [OF assms(1)] assms(2)
    by (cases "v < 0") (simp_all add: parse_sce_mbr_def run_bind_ret frame_simps ret_eq)
qed

lemma dump_device_served:
  fixes dv i
  defines "e \<equiv> partitions (MBR_at (disk dv 0)) ! i"
  assumes "link None [] (cw s)" and "i < NPartitions" and "partitionType e \<noteq> 0"
    and "partitionOffset e + partitionSize e < 2147483648"
    and "\<And>w. fst (c_open k (c_generic_string k path) w)" and rdy: "ready dv"
  shows "\<exists>s'. dump_device k sock (dump_mode dv) (int i) path s = ret (0, s') \<and> link None [] (cw s')
    \<and> files s' = (files s)(c_generic_string k path \<mapsto>
        sectors (disk dv) (partitionOffset e - partitionOffset e mod 8) (8 * nat (partitionSize e div 8))
        @ sectors (disk dv) (partitionOffset e + partitionSize e - partitionSize e mod 8)
            (nat (partitionSize e mod 8)))"
proof -
  obtain w where P: "emmc_ping k sock s = ret (0, s\<lparr>cw := w\<rparr>)" "link None [] w"
    using emmc_ping_served [OF assms(2)] by auto
  obtain r t where M: "parse_sce_mbr k sock (dump_mode dv) (c_uninit k 512 (cw s)) (s\<lparr>cw := w\<rparr>)
      = ret (r, disk dv 0, t)" "link None [] (cw t)" "files t = files s"
    using parse_sce_mbr_served [of None "s\<lparr>cw := w\<rparr>" "c_uninit k 512 (cw s)" dv] P(2) uninit_length [OF assms(2)] rdy by auto
  have "0 \<le> partitionOffset e" "0 \<le> partitionSize e"
    using assms(3) by (simp_all add: e_def MBR_at_def PartitionEntry_at_def u32_at_def le_val_nonneg)
  then obtain s' where D: "dump_partition k sock (dump_mode dv) e path t = ret (None, s')" "link None [] (cw s')"
    "files s' = (files t)(c_generic_string k path \<mapsto>
        sectors (disk dv) (partitionOffset e - partitionOffset e mod 8) (8 * nat (partitionSize e div 8))
        @ sectors (disk dv) (partitionOffset e + partitionSize e - partitionSize e mod 8)
            (nat (partitionSize e mod 8)))"
    using dump_partition_served [OF M(2), of e path dv] assms(5,6) rdy by auto
  then have "dump_device k sock (dump_mode dv) (int i) path s = ret (0, s')"
    using P(1) M(1) assms(3,4) by (simp add: dump_device_def run_bind_ret Let_def e_def)
  then show ?thesis using D(2,3) M(3) by auto
qed

end

end
