(* ===== verification/Client_Props.thy ===== *)
theory Client_Props
  imports Client_Peer
begin

text \<open>
  The client where things go wrong: a connection that is closed, a server that answers with error
  codes, a dump that fails, a partition number that does not exist.
\<close>

section \<open>A closed connection\<close>

text \<open>After the peer has closed the connection and everything it has sent is received, a receive
  answers 0, for ever.\<close>

definition hung_up :: "'w capi \<Rightarrow> int \<Rightarrow> ('w \<Rightarrow> bool) \<Rightarrow> bool" where
  "hung_up k sock closed \<longleftrightarrow> c_SOCKET_ERROR k < 0 \<and>
     (\<forall>n w r bs w'. closed w \<and> c_recv k sock n w = (r, bs, w') \<longrightarrow> r = 0 \<and> bs = [] \<and> closed w')"

lemma hung_upD:
  "hung_up k sock closed \<Longrightarrow> closed (cw s) \<Longrightarrow>
   \<exists>w. ccall2 (c_recv k sock n) s = (0, [], s\<lparr>cw := w\<rparr>) \<and> closed w \<and> c_SOCKET_ERROR k \<noteq> 0"
  unfolding hung_up_def ccall2_def by (cases "c_recv k sock n (cw s)") fastforce

lemma receive_all_hangs:
  assumes "hung_up k sock closed" and "closed (cw s)" and "got \<noteq> all_bytes"
  shows "receive_all k sock all_bytes got buf s = None"
proof (rule ccontr)
  assume "receive_all k sock all_bytes got buf s \<noteq> None"
  then obtain y where "receive_all k sock all_bytes got buf s = Some y" by auto
  then have "\<not> (hung_up k sock closed \<and> closed (cw s) \<and> got \<noteq> all_bytes)"
  proof (rule receive_all.raw_induct [rotated])
    fix loop :: "'a capi \<Rightarrow> int \<Rightarrow> int \<Rightarrow> int \<Rightarrow> byte list \<Rightarrow> 'a cli \<Rightarrow> (bool \<times> byte list \<times> 'a cli) run"
      and k sock total got buf s y
    assume IH: "\<And>k sock total got buf s y. loop k sock total got buf s = Some y \<Longrightarrow>
        \<not> (hung_up k sock closed \<and> closed (cw s) \<and> got \<noteq> total)"
      and step: "(if total = got then ret (True, buf, s)
        else case ccall2 (c_recv k sock (total - got)) s of (iResult, bs, s1) \<Rightarrow>
          run_bind (store_at got bs buf) (\<lambda>buf'.
          if iResult = c_SOCKET_ERROR k then ret (False, buf', send_failed k sock s1)
          else loop k sock total (got + iResult) buf' s1)) = Some y"
    show "\<not> (hung_up k sock closed \<and> closed (cw s) \<and> got \<noteq> total)"
    proof
      assume h: "hung_up k sock closed \<and> closed (cw s) \<and> got \<noteq> total"
      then obtain w where "ccall2 (c_recv k sock (total - got)) s = (0, [], s\<lparr>cw := w\<rparr>)" "closed w"
          "c_SOCKET_ERROR k \<noteq> 0" using hung_upD [of k sock closed s "total - got"] by blast
      then have "loop k sock total got buf (s\<lparr>cw := w\<rparr>) = Some y" "closed (cw (s\<lparr>cw := w\<rparr>))"
        using step h by (simp_all add: store_at_def run_bind_ret)
      with IH h show False by blast
    qed
  qed
  with assms show False by blast
qed

lemma sector_hangs:
  assumes "hung_up k sock closed" and "\<And>bs. 0 \<le> fst (c_send k sock bs (cw s)) \<and> closed (snd (c_send k sock bs (cw s)))"
  shows "read_sector_cmd c k sock n result s = None"
  using assms(2) [of "enc32 c @ enc32 n"] assms(1)
    receive_all_hangs [OF assms(1), of "s\<lparr>cw := snd (c_send k sock (enc32 c @ enc32 n) (cw s))\<rparr>" 0 524]
  by (auto simp: read_sector_cmd_def ccall_def Let_def run_bind_None hung_up_def split: prod.splits)

lemma cluster_hangs:
  assumes h: "hung_up k sock closed"
    and "\<And>bs. 0 \<le> fst (c_send k sock bs (cw s)) \<and> closed (snd (c_send k sock bs (cw s)))" and "0 < len"
  shows "read_cluster_cmd c k sock n len data s = None"
proof -
  obtain r v where S: "c_send k sock (enc32 c @ enc32 n) (cw s) = (r, v)" by fastforce
  then have a: "r \<noteq> c_SOCKET_ERROR k" "closed v"
    using assms(2) [of "enc32 c @ enc32 n"] h by (auto simp: hung_up_def)
  obtain w where R: "ccall2 (c_recv k sock 12) (s\<lparr>cw := v\<rparr>) = (0, [], s\<lparr>cw := w\<rparr>)" "closed w" "c_SOCKET_ERROR k \<noteq> 0"
    using hung_upD [OF h, of "s\<lparr>cw := v\<rparr>" 12] a(2) by auto
  have "exchange k sock (enc32 c @ enc32 n) 12 s = ret (Some (c_uninit k 12 (cw s)), s\<lparr>cw := w\<rparr>)"
    using S a R by (simp add: exchange_def ccall_def run_bind_ret)
  moreover have "receive_all k sock len 0 data (s\<lparr>cw := w\<rparr>) = None"
    using receive_all_hangs [OF h, of "s\<lparr>cw := w\<rparr>"] R(2) assms(3) by simp
  ultimately show ?thesis by (simp add: read_cluster_cmd_def run_bind_ret run_bind_None)
qed

text \<open>C39: A read does not end when the server closes the connection after the request: a receive
  then answers 0, which is not the error the loops look for, and they receive again for ever. So it
  is with every sector and every cluster of each of the three devices.\<close>

theorem closed_connection_hangs_client:
  assumes "hung_up k sock closed"
    and "\<And>bs. 0 \<le> fst (c_send k sock bs (cw s)) \<and> closed (snd (c_send k sock bs (cw s)))" and "0 < len"
  shows "read_sector k sock (dump_mode dv) n result s = None
    \<and> read_cluster k sock (dump_mode dv) n len data s = None"
  using sector_hangs [OF assms(1,2)] cluster_hangs [OF assms]
  by (cases dv) (auto simp: read_sector_def read_cluster_def DUMP_MODE_EMMC_def DUMP_MODE_MS_def DUMP_MODE_GC_def
      emmc_read_sector_def emmc_read_sector_ms_def emmc_read_sector_gc_def
      emmc_read_cluster_def emmc_read_cluster_ms_def emmc_read_cluster_gc_def)

theorem closed_connection_hangs_client_witness:
  "read_sector plain_capi 4 (dump_mode Dev_ms) 0 (replicate 512 0) (cli_boot ()) = None
   \<and> read_cluster plain_capi 4 (dump_mode Dev_ms) 0 4096 (replicate 4096 0) (cli_boot ()) = None"
proof -
  have "hung_up plain_capi 4 (\<lambda>w :: unit. True)" by (simp add: hung_up_def plain_capi_def)
  then show ?thesis by (rule closed_connection_hangs_client) (simp_all add: plain_capi_def)
qed


section \<open>Error codes\<close>

lemma exchange_whole:
  assumes "ccall (c_send k sock q) s = (r, s1)" and "r \<noteq> c_SOCKET_ERROR k"
    and "ccall2 (c_recv k sock (int n)) s1 = (int n, resp, s2)" and "c_SOCKET_ERROR k < 0"
    and "length resp = n" and "length (c_uninit k n (cw s)) = n"
  shows "exchange k sock q n s = ret (Some resp, s2)"
  using assms by (auto simp: exchange_def run_bind_ret)

text \<open>C40: The client does not see that the server has refused a request. The error codes of a response
  are unsigned in the client, and it checks that they are not negative: an initialisation or a
  release that the server answers with any error codes at all counts as done.\<close>

theorem refusals_accepted:
  assumes "c_SOCKET_ERROR k < 0" and "\<And>n w. length (c_uninit k n w) = n"
    and "\<And>q. \<exists>r w. c_send k sock q (cw s) = (r, w) \<and> 0 \<le> r \<and> c_recv k sock 12 w = (12, packet c vita_err proxy_err, w')"
  shows "(c = 2 \<longrightarrow> emmc_init k sock bytesPerSector sectorsPerCluster s = ret (0, s\<lparr>cw := w'\<rparr>))
    \<and> (c = 3 \<longrightarrow> emmc_deinit k sock s = ret (0, s\<lparr>cw := w'\<rparr>))"
proof -
  have X: "exchange k sock q 12 s = ret (Some (packet c vita_err proxy_err), s\<lparr>cw := w'\<rparr>)" for q
  proof -
    obtain r w where "c_send k sock q (cw s) = (r, w)" "0 \<le> r"
        "c_recv k sock 12 w = (12, packet c vita_err proxy_err, w')" using assms(3) by blast
    then show ?thesis
      using assms(1,2) by (intro exchange_whole [of k sock q s r "s\<lparr>cw := w\<rparr>"]) (auto simp: ccall_def ccall2_def)
  qed
  have "\<not> v mod 4294967296 < 0" for v :: int by (simp add: not_less)
  then show ?thesis by (simp add: emmc_init_def emmc_deinit_def X run_bind_ret resp_simps)
qed

theorem refusals_accepted_witness:
  "emmc_init (plain_capi\<lparr>c_recv := \<lambda>_ _ w. (12, packet 2 (-2) (-5), w)\<rparr>) 4 512 8 (cli_boot ())
   = ret (0, cli_boot ())"
  using refusals_accepted [of "plain_capi\<lparr>c_recv := \<lambda>_ _ w. (12, packet 2 (-2) (-5), w)\<rparr>" 4 "cli_boot ()" 2 "-2" "-5" "()" 512 8]
  by (simp add: plain_capi_def cli_boot_def)

text \<open>The other half: a read looks at \<open>proxy_err\<close>, but not at \<open>vita_err\<close>, in which the server says that
  it could not receive the request; the zeros it sends with it are taken for the sector.\<close>

lemma unread_request_accepted:
  assumes "ccall (c_send k sock (enc32 c @ enc32 n)) s = (r, s1)" and "r \<noteq> c_SOCKET_ERROR k" and "0 \<le> c" and "c < 16"
    and "receive_all k sock 524 0 (c_uninit k 524 (cw s)) s1 = ret (True, packet c (-1) 0 @ replicate 512 0, s2)"
    and "length result = 512"
  shows "read_sector_cmd c k sock n result s = ret (0, replicate 512 0, s2)"
proof -
  have "mem_load 12 512 (packet c (-1) 0 @ replicate 512 0) = ret (replicate 512 0)"
    by (simp add: mem_load_def)
  then show ?thesis using assms by (simp add: read_sector_cmd_def run_bind_ret resp_simps)
qed


section \<open>A dump that fails\<close>

text \<open>\<open>dump_device\<close> reports success whatever becomes of the dump. When the ping is answered it
  ignores the results of reading the partition table and of dumping the partition: an unreadable or
  invalid table is used as it lies in memory, uninitialised or not, and a dump that breaks off leaves
  a short file behind and the result 0.\<close>

theorem dump_failures_ignored:
  assumes "emmc_ping k sock s = ret (0, s1)"
    and "parse_sce_mbr k sock dumpMode (c_uninit k 512 (cw s)) s1 = ret (parsed, mbr, s2)"
    and "0 \<le> i" and "i < 20" and "partitionType (partitions (MBR_at mbr) ! nat i) \<noteq> 0"
    and "dump_partition k sock dumpMode (partitions (MBR_at mbr) ! nat i) path s2 = ret (dumped, s3)"
  shows "dump_device k sock dumpMode i path s = ret (0, s3)"
  using assms by (simp add: dump_device_def run_bind_ret NPartitions_def Let_def)

text \<open>A connection that answers what a script says: the ping, and after it an error to every receive.\<close>

definition script_capi :: "(int \<times> byte list) list capi" where
  "script_capi = plain_capi\<lparr>c_recv := \<lambda>_ _ w. case w of [] \<Rightarrow> (-1, [], []) | (r, bs) # w' \<Rightarrow> (r, bs, w')\<rparr>"

definition pong :: "int \<times> byte list" where
  "pong = (22, packet 0 0 0 @ c_chars ''emmcproxy'')"

lemma script_ping: "emmc_ping script_capi 4 (cli_boot [pong]) = ret (0, cli_boot [])"
proof -
  have "length (packet 0 0 0 @ c_chars ''emmcproxy'') = 22" by (simp add: c_chars_def)
  moreover have "exchange script_capi 4 (enc32 0) 22 (cli_boot [pong])
      = ret (Some (packet 0 0 0 @ c_chars ''emmcproxy''), cli_boot [])"
    by (rule exchange_whole [of _ _ _ _ 4 "cli_boot [pong]"])
      (use calculation in \<open>simp_all add: script_capi_def plain_capi_def ccall_def ccall2_def cli_boot_def pong_def\<close>)
  moreover have "strncmp 10 (c_chars ''emmcproxy'') (c_chars ''emmcproxy'') = ret 0"
    by (rule strncmp_same) (simp_all add: c_chars_def)
  ultimately show ?thesis by (simp add: emmc_ping_def run_bind_ret resp_simps)
qed

theorem dump_failures_ignored_witness:
  "\<exists>s. dump_device script_capi 4 DUMP_MODE_MS 0 ''dump.bin'' (cli_boot [pong]) = ret (0, s) \<and> files s = Map.empty"
proof -
  let ?s = "cli_boot [] :: (int \<times> byte list) list cli" and ?mbr = "replicate 512 (1 :: byte)"
  let ?e = "partitions (MBR_at ?mbr) ! nat 0"
  have u: "c_uninit script_capi n w = replicate n 1" for n w by (simp add: script_capi_def plain_capi_def)
  define s2 where "s2 = send_failed script_capi 4 ?s"
  have "receive_all script_capi 4 524 0 (replicate 524 1) ?s = ret (False, replicate 524 1, s2)"
    by (subst receive_all.simps)
      (simp add: script_capi_def plain_capi_def ccall2_def cli_boot_def store_at_def run_bind_ret s2_def)
  moreover have "ccall (c_send script_capi 4 (enc32 8 @ enc32 0)) ?s = (8, ?s)"
    by (simp add: script_capi_def plain_capi_def ccall_def cli_boot_def)
  ultimately have P: "parse_sce_mbr script_capi 4 DUMP_MODE_MS (c_uninit script_capi 512 (cw (cli_boot [pong]))) ?s
      = ret (Some (-1), ?mbr, s2)"
    by (simp add: parse_sce_mbr_def read_sector_def DUMP_MODE_EMMC_def DUMP_MODE_MS_def emmc_read_sector_ms_def
        read_sector_cmd_def u run_bind_ret script_capi_def plain_capi_def)
  have "\<exists>s3. exchange script_capi 4 q 12 s2 = ret (None, s3) \<and> files s3 = Map.empty" for q
    by (simp add: exchange_def s2_def send_failed_def print_error_def print_def print_number_def script_capi_def
        plain_capi_def ccall_def ccall2_def cli_boot_def cdo_def run_bind_ret Let_def ret_eq)
  then obtain s3 where X: "exchange script_capi 4 (enc32 2 @ enc32 512 @ enc32 8) 12 s2 = ret (None, s3)"
      "files s3 = Map.empty" by blast
  have D: "dump_partition script_capi 4 DUMP_MODE_MS ?e ''dump.bin'' s2 = ret (Some (-1), s3)"
    using X(1) by (simp add: dump_partition_def emmc_init_def run_bind_ret SD_DEFAULT_SECTOR_SIZE_def)
  have "partitionType ?e \<noteq> 0" by (simp add: MBR_at_def PartitionEntry_at_def NPartitions_def)
  from dump_failures_ignored [OF script_ping P _ _ this D] X(2) show ?thesis by auto
qed

text \<open>The partition number is checked against its upper bound only.\<close>

theorem negative_partition_faults:
  assumes "emmc_ping k sock s = ret (0, s1)"
    and "parse_sce_mbr k sock dumpMode (c_uninit k 512 (cw s)) s1 = ret (parsed, mbr, s2)" and "i < 0"
  shows "dump_device k sock dumpMode i path s = fail OutOfBounds"
  using assms by (simp add: dump_device_def run_bind_ret)

end
