(* ===== verification/Client_Safety.thy ===== *)
theory Client_Safety
  imports Client_Peer
begin

text \<open>
  The client against any server. A peer may send what it likes, in whatever pieces, and break off:
  the socket library still keeps its own promises, \<open>recv_law\<close>, and these are enough for the client to
  stay within its buffers and its file, and to end, unless the peer closes the connection.
\<close>

section \<open>Runs that end well\<close>

text \<open>No fault, a result with \<open>P\<close>, and a result at all if \<open>returns\<close>.\<close>

definition ends_well :: "bool \<Rightarrow> ('a \<Rightarrow> bool) \<Rightarrow> 'a run \<Rightarrow> bool" where
  "ends_well returns P m \<longleftrightarrow>
     (case m of None \<Rightarrow> \<not> returns | Some (Inl e) \<Rightarrow> False | Some (Inr x) \<Rightarrow> P x)"

lemma ends_well_ret [simp]: "ends_well r P (ret x) \<longleftrightarrow> P x"
  by (simp add: ends_well_def ret_def)

lemma ends_well_bind:
  assumes "ends_well r Q m" and "\<And>x. Q x \<Longrightarrow> ends_well r P (f x)"
  shows "ends_well r P (run_bind m f)"
  using assms unfolding ends_well_def run_bind_def by (cases m) (auto split: sum.splits)

lemma ends_well_mono: "ends_well r Q m \<Longrightarrow> (\<And>x. Q x \<Longrightarrow> P x) \<Longrightarrow> ends_well r P m"
  by (auto simp: ends_well_def split: option.splits sum.splits)

text \<open>A receive puts at most the bytes asked for into the buffer and answers how many, or it fails; 0
  is the answer of a connection that the peer has closed, and of no other. A variable has its size.\<close>

definition recv_law :: "bool \<Rightarrow> 'w capi \<Rightarrow> bool" where
  "recv_law stays k \<longleftrightarrow> c_SOCKET_ERROR k < 0 \<and> (\<forall>n w. length (c_uninit k n w) = n) \<and>
     (\<forall>sock n w r bs w'. 0 < n \<and> c_recv k sock n w = (r, bs, w') \<longrightarrow>
        r = c_SOCKET_ERROR k \<and> bs = [] \<or> r = int (length bs) \<and> r \<le> n \<and> (stays \<longrightarrow> 0 < r))"

lemma recv_lawD:
  assumes "recv_law stays k" and "0 < n" and "ccall2 (c_recv k sock n) s = (r, bs, s')"
  shows "(r = c_SOCKET_ERROR k \<and> bs = [] \<or> r = int (length bs) \<and> r \<le> n \<and> (stays \<longrightarrow> 0 < r)) \<and> files s' = files s"
proof (cases "c_recv k sock n (cw s)")
  case (fields r' bs' w)
  then have "r' = r" "bs' = bs" "files s' = files s" using assms(3) by (auto simp: ccall2_def)
  then show ?thesis using assms(1,2) fields unfolding recv_law_def by blast
qed

lemma files_other [frame_simps]:
  "files (cdo f s) = files s" "files (send_failed k sock s) = files s" "files (bad_response k sock s) = files s"
  "files (print_error k t s) = files s"
  by (simp_all add: cdo_def send_failed_def bad_response_def print_error_def frame_simps)

lemma files_ccall: "ccall f s = (r, s') \<Longrightarrow> files s' = files s"
  by (auto simp: ccall_def split: prod.splits)


section \<open>Receiving\<close>

lemma exchange_well:
  assumes "recv_law stays k" and "0 < n"
  shows "ends_well r (\<lambda>(resp, s'). files s' = files s \<and> pred_option (\<lambda>bs. length bs = n) resp)
    (exchange k sock q n s)"
proof -
  obtain x s1 where S: "ccall (c_send k sock q) s = (x, s1)" by fastforce
  obtain y bs s2 where R: "ccall2 (c_recv k sock (int n)) s1 = (y, bs, s2)" by (metis prod_cases3)
  have "length bs \<le> n" "files s2 = files s" using recv_lawD [OF assms(1) _ R] assms(2) files_ccall [OF S] by auto
  moreover have "length (c_uninit k n (cw s)) = n" using assms(1) by (simp add: recv_law_def)
  ultimately show ?thesis
    using S R files_ccall [OF S] by (simp add: exchange_def run_simps frame_simps)
qed

text \<open>A round of the receive loop: the end, or the next round with the buffer filled further.\<close>

lemma receive_round:
  assumes "recv_law stays k" and "0 \<le> got" and "got < int (length buf)"
    and "ccall2 (c_recv k sock (int (length buf) - got)) s = (r, bs, s1)"
  obtains buf' where "store_at got bs buf = ret buf'" and "length buf' = length buf" and "files s1 = files s"
    and "r = c_SOCKET_ERROR k \<or> 0 \<le> r \<and> got + r \<le> int (length buf) \<and> (stays \<longrightarrow> 0 < r)"
proof -
  have "bs = [] \<or> nat got + length bs \<le> length buf"
    using recv_lawD [OF assms(1) _ assms(4)] assms(2,3) by auto
  then have "\<exists>buf'. store_at got bs buf = ret buf' \<and> length buf' = length buf"
    using assms(2) by (auto simp: store_at_def run_simps)
  then show ?thesis using that recv_lawD [OF assms(1) _ assms(4)] assms(3) by auto
qed

lemma receive_all_returns:
  assumes "recv_law True k" and "0 \<le> got" and "got \<le> int (length buf)"
  shows "\<exists>c buf' s'. receive_all k sock (int (length buf)) got buf s = ret (c, buf', s')
    \<and> length buf' = length buf \<and> files s' = files s"
  using assms(2,3)
proof (induction "nat (int (length buf) - got)" arbitrary: got buf s rule: less_induct)
  case less
  show ?case
  proof (cases "got = int (length buf)")
    case True
    then show ?thesis by (subst receive_all.simps) (auto simp: ret_eq)
  next
    case False
    obtain r bs s1 where R: "ccall2 (c_recv k sock (int (length buf) - got)) s = (r, bs, s1)"
      by (metis prod_cases3)
    obtain buf' where b: "store_at got bs buf = ret buf'" "length buf' = length buf" "files s1 = files s"
        "r = c_SOCKET_ERROR k \<or> 0 \<le> r \<and> got + r \<le> int (length buf) \<and> (True \<longrightarrow> 0 < r)"
      using receive_round [OF assms(1) less.prems(1) _ R] less.prems(2) False by auto
    show ?thesis
    proof (cases "r = c_SOCKET_ERROR k")
      case True
      then show ?thesis
        using R b False by (subst receive_all.simps) (auto simp: run_bind_ret frame_simps ret_eq)
    next
      case ne: False
      have "\<exists>c buf'' s'. receive_all k sock (int (length buf')) (got + r) buf' s1 = ret (c, buf'', s')
          \<and> length buf'' = length buf' \<and> files s' = files s1"
        using b ne less.prems by (intro less.hyps) auto
      then show ?thesis
        using R b False ne by (subst receive_all.simps) (simp add: run_bind_ret)
    qed
  qed
qed

lemma receive_all_safe:
  assumes "recv_law stays k" and "0 \<le> got" and "got \<le> int (length buf)"
    and "receive_all k sock (int (length buf)) got buf s = Some y"
  shows "\<exists>c buf' s'. y = Inr (c, buf', s') \<and> length buf' = length buf \<and> files s' = files s"
proof -
  define P where "P k' sock' total got' buf1 s1 y1 \<longleftrightarrow>
      (recv_law stays k' \<and> total = int (length buf1) \<and> 0 \<le> got' \<and> got' \<le> total
       \<longrightarrow> (\<exists>c buf' s'. y1 = Inr (c, buf', s') \<and> length buf' = length buf1 \<and> files s' = files s1))"
    for k' :: "'a capi" and sock' :: int and total got' :: int and buf1 :: "byte list" and s1 :: "'a cli"
      and y1 :: "fault + bool \<times> byte list \<times> 'a cli"
  have "P k sock (int (length buf)) got buf s y"
  proof (rule receive_all.raw_induct [where P = P, OF _ assms(4)])
    fix loop :: "'a capi \<Rightarrow> int \<Rightarrow> int \<Rightarrow> int \<Rightarrow> byte list \<Rightarrow> 'a cli \<Rightarrow> (bool \<times> byte list \<times> 'a cli) run"
      and k sock total got buf s y
    assume IH: "\<And>k sock total got buf s y. loop k sock total got buf s = Some y \<Longrightarrow> P k sock total got buf s y"
      and step: "(if total = got then ret (True, buf, s)
        else case ccall2 (c_recv k sock (total - got)) s of (iResult, bs, s1) \<Rightarrow>
          run_bind (store_at got bs buf) (\<lambda>buf'.
          if iResult = c_SOCKET_ERROR k then ret (False, buf', send_failed k sock s1)
          else loop k sock total (got + iResult) buf' s1)) = Some y"
    show "P k sock total got buf s y"
      unfolding P_def
    proof (intro impI)
      assume h: "recv_law stays k \<and> total = int (length buf) \<and> 0 \<le> got \<and> got \<le> total"
      show "\<exists>c buf' s'. y = Inr (c, buf', s') \<and> length buf' = length buf \<and> files s' = files s"
      proof (cases "total = got")
        case True
        then show ?thesis using step by (auto simp: ret_def)
      next
        case False
        obtain r bs s1 where R: "ccall2 (c_recv k sock (int (length buf) - got)) s = (r, bs, s1)"
          by (metis prod_cases3)
        obtain buf' where b: "store_at got bs buf = ret buf'" "length buf' = length buf" "files s1 = files s"
            "r = c_SOCKET_ERROR k \<or> 0 \<le> r \<and> got + r \<le> int (length buf) \<and> (stays \<longrightarrow> 0 < r)"
          using receive_round [of stays k got buf sock s r bs s1] R h False by auto
        show ?thesis
        proof (cases "r = c_SOCKET_ERROR k")
          case True
          then have "y = Inr (False, buf', send_failed k sock s1)"
            using step h False R b(1) by (simp add: run_bind_ret) (simp add: ret_def)
          then show ?thesis using b by (auto simp: frame_simps)
        next
          case ne: False
          then have "P k sock total (got + r) buf' s1 y"
            using step h False R b by (intro IH) (simp add: run_bind_ret)
          then show ?thesis using h b ne by (simp add: P_def)
        qed
      qed
    qed
  qed
  then show ?thesis using assms by (simp add: P_def)
qed

lemma receive_all_well:
  assumes "recv_law stays k" and "n = int (length buf)"
  shows "ends_well stays (\<lambda>(c, buf', s'). length buf' = length buf \<and> files s' = files s)
    (receive_all k sock n 0 buf s)"
proof (cases "receive_all k sock n 0 buf s")
  case None
  then show ?thesis
    using receive_all_returns [of k 0 buf sock s] assms by (auto simp: ends_well_def ret_def)
next
  case (Some y)
  then show ?thesis
    using receive_all_safe [OF assms(1), of 0 buf sock s y] assms(2) by (auto simp: ends_well_def)
qed


section \<open>The commands\<close>

text \<open>Every step keeps the files, and a variable that receives data keeps its size.\<close>

abbreviation keeps :: "'w cli \<Rightarrow> 'a \<times> 'w cli \<Rightarrow> bool" where
  "keeps s \<equiv> \<lambda>(x, s'). files s' = files s"

abbreviation fills :: "nat \<Rightarrow> 'w cli \<Rightarrow> 'a \<times> byte list \<times> 'w cli \<Rightarrow> bool" where
  "fills n s \<equiv> \<lambda>(x, data, s'). length data = n \<and> files s' = files s"

lemma strncmp_well: "n \<le> length a \<Longrightarrow> n \<le> length b \<Longrightarrow> ends_well r (\<lambda>_. True) (strncmp n a b)"
  using strncmp_returns [of n a b] by auto

lemma emmc_ping_well:
  assumes "recv_law stays k"
  shows "ends_well stays (keeps s) (emmc_ping k sock s)"
  unfolding emmc_ping_def
  by (rule ends_well_bind [OF exchange_well [OF assms]])
    (auto simp: frame_simps c_chars_def split: option.splits intro!: ends_well_bind [OF strncmp_well])

lemma emmc_init_well:
  assumes "recv_law stays k"
  shows "ends_well stays (keeps s) (emmc_init k sock bps spc s)"
  unfolding emmc_init_def
  by (rule ends_well_bind [OF exchange_well [OF assms]]) (auto simp: frame_simps split: option.splits)

lemma emmc_deinit_well:
  assumes "recv_law stays k"
  shows "ends_well stays (keeps s) (emmc_deinit k sock s)"
  unfolding emmc_deinit_def
  by (rule ends_well_bind [OF exchange_well [OF assms]]) (auto simp: frame_simps split: option.splits)

lemma read_sector_cmd_well:
  assumes "recv_law stays k" and "length result = 512"
  shows "ends_well stays (fills 512 s) (read_sector_cmd c k sock n result s)"
proof -
  obtain r s1 where S: "ccall (c_send k sock (enc32 c @ enc32 n)) s = (r, s1)" by fastforce
  have "length (c_uninit k 524 (cw s)) = 524" using assms(1) by (simp add: recv_law_def)
  then have "ends_well stays (\<lambda>(c, buf', s'). length buf' = 524 \<and> files s' = files s1)
      (receive_all k sock 524 0 (c_uninit k 524 (cw s)) s1)"
    using receive_all_well [OF assms(1), of 524 "c_uninit k 524 (cw s)"] by simp
  then have "ends_well stays (fills 512 s)
      (run_bind (receive_all k sock 524 0 (c_uninit k 524 (cw s)) s1) (\<lambda>(complete, resp, s2).
         if \<not> complete then ret (-1, result, s2)
         else if resp_command resp \<noteq> c \<or> resp_vita_err resp < 0 \<or> resp_proxy_err resp \<noteq> 0
         then ret (-1, result, bad_response k sock s2)
         else
           run_bind (mem_load 12 512 resp) (\<lambda>d.
           run_bind (mem_store 0 d result) (\<lambda>result'. ret (0, result', s2)))))"
    by (rule ends_well_bind) (auto simp: files_ccall [OF S] frame_simps run_simps assms(2))
  then show ?thesis
    using S assms(2) files_ccall [OF S] by (auto simp: read_sector_cmd_def frame_simps)
qed

lemma read_cluster_cmd_well:
  assumes "recv_law stays k" and "len = int (length data)"
  shows "ends_well stays (fills (length data) s) (read_cluster_cmd c k sock n len data s)"
  unfolding read_cluster_cmd_def
  by (rule ends_well_bind [OF exchange_well [OF assms(1)]])
    (auto simp: frame_simps split: option.splits intro!: ends_well_bind [OF receive_all_well [OF assms]])

lemma read_sector_well:
  "recv_law stays k \<Longrightarrow> length result = 512 \<Longrightarrow>
   ends_well stays (fills 512 s) (read_sector k sock dumpMode n result s)"
  by (simp add: read_sector_def emmc_read_sector_def emmc_read_sector_ms_def emmc_read_sector_gc_def
      read_sector_cmd_well)

lemma read_cluster_well:
  "recv_law stays k \<Longrightarrow> len = int (length data) \<Longrightarrow>
   ends_well stays (fills (length data) s) (read_cluster k sock dumpMode n len data s)"
  by (simp add: read_cluster_def emmc_read_cluster_def emmc_read_cluster_ms_def emmc_read_cluster_gc_def
      read_cluster_cmd_well)

lemma parse_sce_mbr_well:
  assumes "recv_law stays k" and "length mbr = 512"
  shows "ends_well stays (fills 512 s) (parse_sce_mbr k sock dumpMode mbr s)"
proof -
  have "length (c_uninit k 512 (cw s)) = 512" using assms(1) by (simp add: recv_law_def)
  note R = read_sector_well [OF assms(1) this]
  have V: "ends_well stays (keeps t) (validateSceMbr (MBR_at bs) t)" if "length bs = 512" for bs and t :: "'a cli"
    using validate_returns [OF that, of t] by auto
  show ?thesis
    unfolding parse_sce_mbr_def
    by (rule ends_well_bind [OF R])
      (auto simp: assms(2) run_bind_ret frame_simps intro!: ends_well_bind [OF V])
qed


section \<open>The dump\<close>

text \<open>Only the file \<open>path\<close> is written.\<close>

definition writes_only :: "string \<Rightarrow> 'w cli \<Rightarrow> 'w cli \<Rightarrow> bool" where
  "writes_only path s s' \<longleftrightarrow> (\<forall>p. p \<noteq> path \<longrightarrow> files s' p = files s p)"

lemma writes_only_refl: "files s' = files s \<Longrightarrow> writes_only path s s'"
  by (simp add: writes_only_def)

lemma writes_only_trans: "writes_only path s t \<Longrightarrow> writes_only path t u \<Longrightarrow> writes_only path s u"
  by (simp add: writes_only_def)

lemma ends_well_after:
  assumes "ends_well r (\<lambda>(x, s'). writes_only path t s') m" and "writes_only path s t"
  shows "ends_well r (\<lambda>(x, s'). writes_only path s s') m"
  using assms by (auto elim!: ends_well_mono intro: writes_only_trans)

lemma write_output_only: "out \<in> {None, Some path} \<Longrightarrow> files t = files s \<Longrightarrow> writes_only path s (write_output out bs t)"
  by (auto simp: writes_only_def write_output_def)

lemma dump_clusters_well:
  assumes "recv_law stays k" and "out \<in> {None, Some path}"
  shows "ends_well stays (\<lambda>(c, s'). writes_only path s s') (dump_clusters k sock dumpMode a tot out is data s)"
proof (induction "is" arbitrary: data s)
  case Nil
  then show ?case by (simp add: writes_only_refl)
next
  case (Cons i "is")
  show ?case
    unfolding dump_clusters.simps
  proof (rule ends_well_bind [OF read_cluster_well [OF assms(1) refl]], clarify)
    fix r :: int and data' :: "byte list" and s1 :: "'a cli"
    assume s1: "files s1 = files s"
    define t where "t = print endl (print_number tot (print '' out of ''
      (print_number (int i + 1) (print ''cluster '' (write_output out data' s1)))))"
    have "writes_only path s t"
      using write_output_only [OF assms(2) s1, of data'] by (simp add: writes_only_def t_def frame_simps)
    then have "ends_well stays (\<lambda>(c, s'). writes_only path s s')
        (dump_clusters k sock dumpMode a tot out is data' t)"
      by (intro ends_well_after [OF Cons.IH])
    then show "ends_well stays (\<lambda>(c, s'). writes_only path s s') (if r < 0 then ret (False, s1)
        else let s2 = write_output out data' s1; s3 = print_number (int i + 1) (print ''cluster '' s2);
                 s4 = print endl (print_number tot (print '' out of '' s3))
             in dump_clusters k sock dumpMode a tot out is data' s4)"
      using s1 by (simp add: t_def writes_only_refl)
  qed
qed

lemma dump_sectors_well:
  assumes "recv_law stays k" and "out \<in> {None, Some path}" and "length data = 512"
  shows "ends_well stays (\<lambda>(c, s'). writes_only path s s') (dump_sectors k sock dumpMode a out is data s)"
  using assms(3)
proof (induction "is" arbitrary: data s)
  case Nil
  then show ?case by (simp add: writes_only_refl)
next
  case (Cons i "is")
  show ?case
    unfolding dump_sectors.simps
  proof (rule ends_well_bind [OF read_sector_well [OF assms(1) Cons.prems]], clarify)
    fix r :: int and data' :: "byte list" and s1 :: "'a cli"
    assume s1: "length data' = 512" "files s1 = files s"
    have "ends_well stays (\<lambda>(c, s'). writes_only path s s')
        (dump_sectors k sock dumpMode a out is data' (write_output out data' s1))"
      by (intro ends_well_after [OF Cons.IH] write_output_only assms(2) s1)
    then show "ends_well stays (\<lambda>(c, s'). writes_only path s s') (if r < 0 then ret (False, s1)
        else dump_sectors k sock dumpMode a out is data' (write_output out data' s1))"
      using s1 by (simp add: writes_only_refl)
  qed
qed


lemma dump_partition_well:
  assumes "recv_law stays k"
  shows "ends_well stays (\<lambda>(x, s'). writes_only (c_generic_string k path) s s')
    (dump_partition k sock dumpMode e path s)"
proof -
  let ?p = "c_generic_string k path" and ?W = "\<lambda>(x, s'). writes_only (c_generic_string k path) s s'"
  have D: "ends_well stays ?W (run_bind (emmc_deinit k sock t)
      (\<lambda>(r, s5). if r < 0 then ret (Some (-1), s5) else ret (None, s5)))"
    if "writes_only ?p s t" for t :: "'a cli"
    using that by (intro ends_well_bind [OF emmc_deinit_well [OF assms]]) (auto simp: writes_only_def)
  have S: "ends_well stays ?W (run_bind (dump_sectors k sock dumpMode tail out is (c_uninit k 512 (cw t)) t)
      (\<lambda>(complete, s4). if \<not> complete then ret (Some (-1), s4)
         else run_bind (emmc_deinit k sock s4)
           (\<lambda>(r, s5). if r < 0 then ret (Some (-1), s5) else ret (None, s5))))"
    if t: "writes_only ?p s t" and out: "out \<in> {None, Some ?p}" for t :: "'a cli" and tail out "is"
  proof (rule ends_well_bind [OF ends_well_after [OF dump_sectors_well [OF assms out] t]])
    show "length (c_uninit k 512 (cw t)) = 512" using assms by (simp add: recv_law_def)
  qed (auto intro: D)
  have O: "out \<in> {None, Some ?p} \<and> writes_only ?p s u"
    if "open_output k ?p t = (out, u)" and "files t = files s" for t u :: "'a cli" and out
    using that by (auto simp: open_output_def writes_only_def split: prod.splits if_splits dest: files_ccall)
  show ?thesis
    unfolding dump_partition_def Let_def
  proof (rule ends_well_bind [OF emmc_init_well [OF assms]], clarify)
    fix r :: int and t :: "'a cli"
    assume t: "files t = files s"
    obtain out u where u: "open_output k ?p t = (out, u)" by fastforce
    note C = ends_well_after [OF dump_clusters_well [OF assms O [OF u t, THEN conjunct1]] O [OF u t, THEN conjunct2]]
    show "ends_well stays ?W (if r < 0 then ret (Some (-1), t)
        else case open_output k ?p t of (outputFile, s2) \<Rightarrow>
          run_bind (dump_clusters k sock dumpMode (partitionOffset e div 8) (partitionSize e div 8) outputFile
              [0..<nat (partitionSize e div 8)] (replicate 4096 0) s2) (\<lambda>(complete, s3).
          if \<not> complete then ret (Some (-1), s3)
          else
            run_bind (dump_sectors k sock dumpMode (wrap32 (partitionOffset e + partitionSize e div 8 * 8)) outputFile
                [0..<nat (partitionSize e mod 8)] (c_uninit k 512 (cw s3)) s3) (\<lambda>(complete, s4).
            if \<not> complete then ret (Some (-1), s4)
            else
              run_bind (emmc_deinit k sock s4) (\<lambda>(r, s5).
              if r < 0 then ret (Some (-1), s5) else ret (None, s5)))))"
      using t by (auto simp: u writes_only_refl intro!: ends_well_bind [OF C] S O [OF u t, THEN conjunct1])
  qed
qed

lemma dump_device_well:
  assumes "recv_law stays k" and "0 \<le> i" and "i < 20"
  shows "ends_well stays (\<lambda>(x, s'). writes_only (c_generic_string k path) s s')
    (dump_device k sock dumpMode i path s)"
proof -
  let ?W = "\<lambda>(x, s'). writes_only (c_generic_string k path) s s'"
  have m: "length (c_uninit k 512 (cw s)) = 512" using assms(1) by (simp add: recv_law_def)
  have D: "ends_well stays ?W (run_bind (dump_partition k sock dumpMode e path t) (\<lambda>(r, s3). ret (0, s3)))"
    if "files t = files s" for e and t :: "'a cli"
    using writes_only_refl [OF that]
    by (intro ends_well_bind [OF ends_well_after [OF dump_partition_well [OF assms(1)]]]) auto
  show ?thesis
    unfolding dump_device_def Let_def
    by (rule ends_well_bind [OF emmc_ping_well [OF assms(1)]])
      (use assms(2,3) in \<open>auto simp: NPartitions_def writes_only_refl frame_simps
        intro!: ends_well_bind [OF parse_sce_mbr_well [OF assms(1) m]] D\<close>)
qed


section \<open>The program\<close>

lemma connect_first_files: "connect_first k ptrs sock s = (b, x, s') \<Longrightarrow> files s' = files s"
proof (induction ptrs arbitrary: sock s)
  case (Cons ptr ptrs)
  obtain x1 s1 where 1: "ccall (c_socket k (ai_family ptr) (ai_socktype ptr) (ai_protocol ptr)) s = (x1, s1)"
    by fastforce
  obtain x2 s2 where 2: "ccall (c_connect k x1 (ai_addr ptr) (ai_addrlen ptr)) s1 = (x2, s2)" by fastforce
  show ?case
    using Cons.prems Cons.IH [of "c_INVALID_SOCKET k" "cdo (c_closesocket k x1) s2"]
      files_ccall [OF 1] files_ccall [OF 2]
    unfolding connect_first.simps Let_def 1 prod.case 2
    by (auto simp: frame_simps split: if_splits)
qed simp

lemma initialize_files:
  assumes "initialize_emmc_proxy_connection k sock s = (r, x, s')"
  shows "files s' = files s"
proof -
  obtain i1 s1 where 1: "ccall (c_WSAStartup k) (print (''Welcome to emmc client'' @ endl) s) = (i1, s1)" by fastforce
  obtain i2 ps s2 where 2: "ccall2 (c_getaddrinfo k NODE_NAME DEFAULT_PORT
      (c_AF_UNSPEC k) (c_SOCK_STREAM k) (c_IPPROTO_TCP k)) s1 = (i2, ps, s2)" by (metis prod_cases3)
  obtain b y s3 where 3: "connect_first k ps (c_INVALID_SOCKET k) s2 = (b, y, s3)" by (metis prod_cases3)
  have "files s2 = files s1" using 2 by (auto simp: ccall2_def split: prod.splits)
  then have "files s1 = files s" "files s2 = files s" "files s3 = files s"
    using files_ccall [OF 1] connect_first_files [OF 3] by (simp_all add: frame_simps)
  then show ?thesis
    using assms unfolding initialize_emmc_proxy_connection_def Let_def 1 prod.case 2 3
    by (auto simp: frame_simps split: if_splits)
qed

lemma deinitialize_files:
  assumes "deinitialize_emmc_proxy_connection k sock s = (r, s')"
  shows "files s' = files s"
proof -
  obtain i s1 where 1: "ccall (c_shutdown k sock (c_SD_SEND k)) s = (i, s1)" by fastforce
  then show ?thesis
    using assms files_ccall [OF 1]
    by (auto simp: deinitialize_emmc_proxy_connection_def frame_simps split: if_splits)
qed

lemma parsed_index:
  "parseArgs k argv s = Some (Some (m, i, path), t) \<Longrightarrow>
   path = argv ! 3 \<and> i < 20 \<and> c_lexical_cast k (argv ! 2) = Some i \<and> files t = files s"
  by (auto simp: parseArgs_def NPartitions_def frame_simps split: if_splits bind_split_asm)

lemma parse_refused: "parseArgs k argv s = Some (None, t) \<Longrightarrow> files t = files s"
  by (auto simp: parseArgs_def frame_simps split: if_splits bind_split_asm)

text \<open>C5: Whatever the server sends, the client does not leave its buffers and writes no file but the one
  named on the command line: answers may be wrong, short, cut in any pieces, or missing, and the
  table of partitions may hold any numbers. It ends in any case as long as the peer does not close
  the connection. The number of the partition must not be negative, which the client does not check.\<close>

theorem client_safe:
  assumes "recv_law stays k" and "\<And>i. c_lexical_cast k (argv ! 2) = Some i \<Longrightarrow> 0 \<le> i"
  shows "ends_well stays (\<lambda>(x, s'). writes_only (c_generic_string k (argv ! 3)) s s') (client_main k argv s)"
proof -
  have "ends_well stays (\<lambda>(x, s'). writes_only (c_generic_string k (argv ! 3)) s s')
      (let (r, emmc_socket, s2) = initialize_emmc_proxy_connection k 0 t
       in if r < 0 then ret (Exit 1, s2)
          else run_bind (dump_device k emmc_socket m i (argv ! 3) s2) (\<lambda>(r, s3).
            let (r, s4) = deinitialize_emmc_proxy_connection k emmc_socket s3
            in if r < 0 then ret (Exit 1, s4) else ret (Exit 0, s4)))"
    if P: "parseArgs k argv s = Some (Some (m, i, path), t)" for m i path and t :: "'a cli"
  proof -
    obtain r sock s2 where I: "initialize_emmc_proxy_connection k 0 t = (r, sock, s2)" by (metis prod_cases3)
    have f: "files s2 = files s" using parsed_index [OF P] initialize_files [OF I] by simp
    have "0 \<le> i" "i < 20" using parsed_index [OF P] assms(2) by auto
    note D = ends_well_after [OF dump_device_well [OF assms(1) this] writes_only_refl [OF f]]
    show ?thesis
      using f by (auto simp: I Let_def writes_only_refl split: prod.splits intro!: ends_well_bind [OF D]
          dest!: deinitialize_files simp: writes_only_def)
  qed
  then show ?thesis
    using parsed_index [of k argv s] parse_refused [of k argv s]
    by (auto simp: client_main_def writes_only_refl split: option.splits)
qed

text \<open>For a server that babbles without end.\<close>

definition babble_capi :: "unit capi" where
  "babble_capi = plain_capi\<lparr>c_getaddrinfo := \<lambda>_ _ _ _ _ w. (0, [\<lparr>ai_family = 2, ai_socktype = 1,
       ai_protocol = 6, ai_addr = [192, 168, 0, 34], ai_addrlen = 16\<rparr>], w),
     c_recv := \<lambda>_ n w. (min n 100, replicate (nat (min n 100)) 7, w)\<rparr>"

theorem client_safe_witness:
  "ends_well True (\<lambda>(x, s'). writes_only ''dump.bin'' (cli_boot ()) s')
     (client_main babble_capi [''psvemmc'', ''0'', ''0'', ''dump.bin''] (cli_boot ()))"
proof -
  have "recv_law True babble_capi" by (auto simp: recv_law_def babble_capi_def plain_capi_def)
  moreover have "c_lexical_cast babble_capi ([''psvemmc'', ''0'', ''0'', ''dump.bin''] ! 2) = Some i \<Longrightarrow> 0 \<le> i" for i
    by (simp add: babble_capi_def plain_capi_def)
  moreover have "c_generic_string babble_capi = id" by (simp add: babble_capi_def plain_capi_def)
  ultimately show ?thesis
    using client_safe [of True babble_capi "[''psvemmc'', ''0'', ''0'', ''dump.bin'']" "cli_boot ()"] by simp
qed

end
