(* ===== verification/Client_Server.thy ===== *)
theory Client_Server
  imports Client_Peer Server_Session
begin

text \<open>
  Client, server and driver together. The client's socket is wired to the server of
  \<open>server/src/main.c\<close>: what the client sends is put before the server, which runs one turn of its
  command loop and with it the driver's own code, and what the server has sent is what the client
  receives. This satisfies the contract \<open>served\<close>, so that the file a dump leaves behind is known in
  terms of the device's sectors.
\<close>

section \<open>The machine\<close>

text \<open>One turn of \<open>receive_commands\<close>; -1 is the end of the loop.\<close>

definition turn :: "'w kapi \<Rightarrow> 'w uapi \<Rightarrow> 'w srv \<Rightarrow> (int \<times> 'w srv) run" where
  "turn k u s =
     run_bind (net_recv u 4 (enc32 (-1)) s) (\<lambda>(recvLen, word, s1).
     if recvLen \<le> 0 then ret (-1, s1)
     else case dispatch k u (dec32 word) s1 of None \<Rightarrow> ret (-1, s1) | Some m \<Rightarrow> m)"

lemma receive_commands_turn:
  "turn k u s = ret (r, t) \<Longrightarrow> 0 \<le> r \<Longrightarrow> receive_commands k u s = receive_commands k u t"
  by (subst receive_commands.simps)
    (auto simp: turn_def run_bind_eq_ret run_bind_ret ret_eq split: if_splits option.splits)

text \<open>The client's world: the server's state, and how much of what it has sent has been received. A
  receive gets at most one segment of 1460 bytes. Everything else the client calls is as in \<open>c\<close>.\<close>

type_synonym 'w wire = "'w srv \<times> nat"

definition wired ::
    "'w kapi \<Rightarrow> 'w uapi \<Rightarrow> (byte list \<Rightarrow> 'w \<Rightarrow> 'w) \<Rightarrow> ('w \<Rightarrow> byte list) \<Rightarrow> 'w wire capi \<Rightarrow> 'w wire capi" where
  "wired k u put sent c = c\<lparr>
     c_send := \<lambda>sock bs (S, n). case turn k u (S\<lparr>world := put bs (world S)\<rparr>) of
         Some (Inr (r, S')) \<Rightarrow> (int (length bs), (S', n)) | _ \<Rightarrow> (c_SOCKET_ERROR c, (S, n)),
     c_recv := \<lambda>sock m (S, n).
         let got = take (min (nat m) 1460) (drop n (sent (world S)))
         in (int (length got), got, (S, n + length got))\<rparr>"

section \<open>What is relied on\<close>

text \<open>Calls that succeed and leave the network alone: \<open>keeps\<close> relates the worlds before and after.\<close>

definition still :: "('w \<Rightarrow> byte list) \<Rightarrow> ('w \<Rightarrow> byte list) \<Rightarrow> 'w \<Rightarrow> 'w \<Rightarrow> bool" where
  "still inbox sent w w' \<longleftrightarrow> inbox w' = inbox w \<and> sent w' = sent w"

definition steady_kernel :: "'w kapi \<Rightarrow> ('w \<Rightarrow> 'w \<Rightarrow> bool) \<Rightarrow> bool" where
  "steady_kernel k keeps \<longleftrightarrow>
     (\<forall>nm n w r c w'. 0 < n \<and> k_AllocMemBlock k nm n w = (r, c, w') \<longrightarrow>
        0 \<le> r \<and> length c = nat n \<and> keeps w w') \<and>
     (\<forall>i w r a w'. k_GetMemBlockBase k i w = (r, a, w') \<longrightarrow> 0 \<le> r \<and> keeps w w') \<and>
     (\<forall>i w r w'. k_FreeMemBlock k i w = (r, w') \<longrightarrow> 0 \<le> r \<and> keeps w w') \<and>
     (\<forall>src w r n w'. k_MemcpyKernelToUser k True src w = (r, n, w') \<longrightarrow>
        0 \<le> r \<and> n = length src \<and> keeps w w')"

definition steady_user :: "'w uapi \<Rightarrow> ('w \<Rightarrow> 'w \<Rightarrow> bool) \<Rightarrow> bool" where
  "steady_user u keeps \<longleftrightarrow>
     (\<forall>nm n w r c w'. 0 < n \<and> u_AllocMemBlock u nm n w = (r, c, w') \<longrightarrow>
        0 \<le> r \<and> length c = nat n \<and> keeps w w') \<and>
     (\<forall>i w r a w'. u_GetMemBlockBase u i w = (r, a, w') \<longrightarrow> 0 \<le> r \<and> keeps w w') \<and>
     (\<forall>i w r w'. u_FreeMemBlock u i w = (r, w') \<longrightarrow> 0 \<le> r \<and> keeps w w')"

lemma steady_kernelD:
  "steady_kernel k keeps \<Longrightarrow> k_AllocMemBlock k nm n w = (r, c, w') \<Longrightarrow> 0 < n \<Longrightarrow>
   0 \<le> r \<and> length c = nat n \<and> keeps w w'"
  "steady_kernel k keeps \<Longrightarrow> k_GetMemBlockBase k i w = (r, a, w') \<Longrightarrow> 0 \<le> r \<and> keeps w w'"
  "steady_kernel k keeps \<Longrightarrow> k_FreeMemBlock k i w = (r, w') \<Longrightarrow> 0 \<le> r \<and> keeps w w'"
  "steady_kernel k keeps \<Longrightarrow> k_MemcpyKernelToUser k True src w = (r, m, w') \<Longrightarrow>
   0 \<le> r \<and> m = length src \<and> keeps w w'"
  unfolding steady_kernel_def by blast+

lemma steady_userD:
  "steady_user u keeps \<Longrightarrow> u_AllocMemBlock u nm n w = (r, c, w') \<Longrightarrow> 0 < n \<Longrightarrow>
   0 \<le> r \<and> length c = nat n \<and> keeps w w'"
  "steady_user u keeps \<Longrightarrow> u_GetMemBlockBase u i w = (r, a, w') \<Longrightarrow> 0 \<le> r \<and> keeps w w'"
  "steady_user u keeps \<Longrightarrow> u_FreeMemBlock u i w = (r, w') \<Longrightarrow> 0 \<le> r \<and> keeps w w'"
  unfolding steady_user_def by blast+

text \<open>The server's stream: sends make progress, and the few bytes of a word or of a response's head
  move at once.\<close>

definition stream_law ::
    "'w uapi \<Rightarrow> (byte list \<Rightarrow> 'w \<Rightarrow> 'w) \<Rightarrow> ('w \<Rightarrow> byte list) \<Rightarrow> ('w \<Rightarrow> byte list) \<Rightarrow> bool" where
  "stream_law u put inbox sent \<longleftrightarrow>
     (\<forall>bs w. inbox (put bs w) = inbox w @ bs \<and> sent (put bs w) = sent w) \<and>
     (\<forall>sock bs w r w'. bs \<noteq> [] \<and> u_NetSend u sock bs w = (r, w') \<longrightarrow>
        0 < r \<and> r \<le> int (length bs) \<and> (length bs \<le> 22 \<longrightarrow> r = int (length bs))
        \<and> sent w' = sent w @ take (nat r) bs \<and> inbox w' = inbox w) \<and>
     (\<forall>sock n w r bs w'. 0 < n \<and> n \<le> 8 \<and> n \<le> int (length (inbox w)) \<and> u_NetRecv u sock n w = (r, bs, w') \<longrightarrow>
        r = n \<and> inbox w = bs @ inbox w' \<and> int (length bs) = n \<and> sent w' = sent w)"

lemma stream_send:
  "stream_law u put inbox sent \<Longrightarrow> u_NetSend u sock bs w = (r, w') \<Longrightarrow> bs \<noteq> [] \<Longrightarrow>
   0 < r \<and> r \<le> int (length bs) \<and> (length bs \<le> 22 \<longrightarrow> r = int (length bs))
   \<and> sent w' = sent w @ take (nat r) bs \<and> inbox w' = inbox w"
  unfolding stream_law_def by blast

lemma stream_recv:
  "stream_law u put inbox sent \<Longrightarrow> u_NetRecv u sock n w = (r, bs, w') \<Longrightarrow> 0 < n \<Longrightarrow> n \<le> 8 \<Longrightarrow>
   n \<le> int (length (inbox w)) \<Longrightarrow>
   r = n \<and> inbox w = bs @ inbox w' \<and> int (length bs) = n \<and> sent w' = sent w"
  unfolding stream_law_def by blast

text \<open>The devices that are ready are set up in the driver, and a read of them answers with the
  sectors of \<open>disk\<close>.\<close>

definition reads_disk ::
    "'w kapi \<Rightarrow> ('w \<Rightarrow> 'w \<Rightarrow> bool) \<Rightarrow> (device \<Rightarrow> bool) \<Rightarrow> (device \<Rightarrow> int \<Rightarrow> byte list)
     \<Rightarrow> ('w, 'm) emmc_scheme \<Rightarrow> bool" where
  "reads_disk k keeps ready disk S \<longleftrightarrow> (\<forall>dv. ready dv \<longrightarrow> device_ready dv S
     \<and> (\<forall>sec n w r d w'. 0 \<le> sec \<and> 0 < n \<and> sec + n \<le> 2147483648 \<and> device_read k dv S sec n w = (r, d, w') \<longrightarrow>
         0 \<le> r \<and> d = sectors (disk dv) sec (nat n) \<and> keeps w w'))"

definition devices_of :: "('w, 'm) emmc_scheme \<Rightarrow> addr \<times> addr \<times> int \<times> int \<times> int" where
  "devices_of S = (g_emmcCtx S, g_gcCtx S, g_emmcCtxInitialized S, g_gcCtxInitialized S, g_msCtxInitialized S)"

lemma reads_disk_cong:
  "devices_of S' = devices_of S \<Longrightarrow> reads_disk k keeps ready disk S' = reads_disk k keeps ready disk S"
proof -
  assume e: "devices_of S' = devices_of S"
  have "device_ready dv S' = device_ready dv S \<and> device_read k dv S' = device_read k dv S" for dv
    using e by (cases dv) (auto simp: devices_of_def)
  then show ?thesis by (simp add: reads_disk_def)
qed

lemma reads_diskD:
  "reads_disk k keeps ready disk S \<Longrightarrow> ready dv \<Longrightarrow> device_ready dv S"
  "reads_disk k keeps ready disk S \<Longrightarrow> device_read k dv S sec n w = (r, d, w') \<Longrightarrow> ready dv \<Longrightarrow>
   0 \<le> sec \<Longrightarrow> 0 < n \<Longrightarrow> sec + n \<le> 2147483648 \<Longrightarrow>
   0 \<le> r \<and> d = sectors (disk dv) sec (nat n) \<and> keeps w w'"
  unfolding reads_disk_def by blast+

lemma devices_of_same: "same_srv s t \<Longrightarrow> devices_of t = devices_of s"
  unfolding same_srv_def by (cases s rule: srv.cases_scheme; cases t rule: srv.cases_scheme) (simp add: devices_of_def)


section \<open>The server between two commands\<close>

definition serving ::
    "'w kapi \<Rightarrow> ('w \<Rightarrow> 'w \<Rightarrow> bool) \<Rightarrow> (device \<Rightarrow> bool) \<Rightarrow> (device \<Rightarrow> int \<Rightarrow> byte list)
     \<Rightarrow> int option \<Rightarrow> 'w srv \<Rightarrow> bool" where
  "serving k keeps ready disk pool S \<longleftrightarrow> srv_ok S \<and> reads_disk k keeps ready disk S
     \<and> (case pool of None \<Rightarrow> g_clusterPoolInitialized S = 0 \<and> sv_clusterPoolInitialized S = 0
        | Some spc \<Rightarrow> g_clusterPoolInitialized S \<noteq> 0 \<and> sv_clusterPoolInitialized S \<noteq> 0
            \<and> sv_sectorsPerCluster S = spc \<and> 0 < spc)"

lemma serving_same: "same_srv S T \<Longrightarrow> serving k keeps ready disk pool T = serving k keeps ready disk pool S"
  by (simp add: serving_def srv_ok_same same_srv_fields reads_disk_cong [OF devices_of_same] split: option.split)

lemma serving_world [simp]: "serving k keeps ready disk pool (s\<lparr>world := w\<rparr>) = serving k keeps ready disk pool s"
  by (rule serving_same) simp

lemma serving_say [simp]: "serving k keeps ready disk pool (say m s) = serving k keeps ready disk pool s"
  by (rule serving_same) simp

lemma send_short:
  assumes "stream_law u put inbox sent" and "bs \<noteq> []" and "length bs \<le> 22"
  obtains w where "net_send u bs s = (int (length bs), s\<lparr>world := w\<rparr>)"
    and "sent w = sent (world s) @ bs" and "inbox w = inbox (world s)"
proof -
  obtain r w where S: "u_NetSend u (cli_sock s) bs (world s) = (r, w)" by fastforce
  show ?thesis
    using S stream_send [OF assms(1) S assms(2)] assms(3)
    by (intro that [of w]) (simp_all add: net_send_def kcall_def)
qed

lemma recv_short:
  assumes "stream_law u put inbox sent" and "inbox (world s) = xs @ rest" and "xs \<noteq> []" and "length xs \<le> 8"
    and "length buf = length xs"
  obtains w where "net_recv u (int (length xs)) buf s = ret (int (length xs), xs, s\<lparr>world := w\<rparr>)"
    and "inbox w = rest" and "sent w = sent (world s)"
proof -
  obtain r bs w where R: "u_NetRecv u (cli_sock s) (int (length xs)) (world s) = (r, bs, w)" by (metis prod_cases3)
  have "r = int (length xs)" "bs = xs" "inbox w = rest" "sent w = sent (world s)"
    using stream_recv [OF assms(1) R] assms(2-4) by auto
  then show ?thesis
    using R assms(5) by (intro that [of w]) (simp_all add: net_recv_def kcall2_eq run_bind_ret)
qed

lemma send_loop_all:
  assumes law: "stream_law u put inbox sent"
    and src: "\<And>off n. off + n \<le> length resp \<Longrightarrow> src off n = ret (take n (drop off resp))"
    and "got \<le> length resp"
  shows "\<exists>s'. send_loop u src (int (length resp)) (int got) s = ret (0, s') \<and> same_srv s s'
    \<and> sent (world s') = sent (world s) @ drop got resp \<and> inbox (world s') = inbox (world s)"
  using assms(3)
proof (induction "length resp - got" arbitrary: got s rule: less_induct)
  case less
  show ?case
  proof (cases "got = length resp")
    case True
    then show ?thesis by (subst send_loop.simps) (simp add: ret_eq)
  next
    case False
    with less.prems have lt: "got < length resp" by simp
    let ?bs = "drop got resp"
    obtain r w where S: "u_NetSend u (cli_sock s) ?bs (world s) = (r, w)" by fastforce
    have o: "0 < r" "r \<le> int (length ?bs)" "sent w = sent (world s) @ take (nat r) ?bs" "inbox w = inbox (world s)"
      using stream_send [OF law S] lt by auto
    let ?g = "got + nat r"
    have le: "?g \<le> length resp" and dec: "length resp - ?g < length resp - got" using o(1,2) lt by simp_all
    obtain s' where "send_loop u src (int (length resp)) (int ?g) (s\<lparr>world := w\<rparr>) = ret (0, s')"
        "same_srv (s\<lparr>world := w\<rparr>) s'" "sent (world s') = sent w @ drop ?g resp" "inbox (world s') = inbox w"
      using less.hyps [OF dec le, of "s\<lparr>world := w\<rparr>"] by auto
    moreover have "send_loop u src (int (length resp)) (int got) s
        = send_loop u src (int (length resp)) (int ?g) (s\<lparr>world := w\<rparr>)"
      using lt S o(1) src [of got "length resp - got"]
      by (subst send_loop.simps) (simp add: run_bind_ret net_send_def kcall_def nat_diff_distrib)
    moreover have "take (nat r) ?bs @ drop ?g resp = ?bs" by (metis add.commute append_take_drop_id drop_drop)
    ultimately show ?thesis using o(3,4) same_srv_trans [OF same_srv_world] by fastforce
  qed
qed


section \<open>The commands\<close>

lemma turn_dispatch:
  assumes "stream_law u put inbox sent" and "inbox (world s) = enc32 c @ rest" and "0 \<le> c" and "c < 16"
  obtains w m where "dispatch k u c (s\<lparr>world := w\<rparr>) = Some m" and "turn k u s = m"
    and "inbox w = rest" and "sent w = sent (world s)"
proof -
  obtain w where w: "net_recv u 4 (enc32 (-1)) s = ret (4, enc32 c, s\<lparr>world := w\<rparr>)"
      "inbox w = rest" "sent w = sent (world s)"
    by (rule recv_short [OF assms(1,2), of "enc32 (-1)"]) auto
  have "dec32 (enc32 c) = c" using assms(3,4) by (simp add: c_int_def)
  moreover obtain m where "dispatch k u c (s\<lparr>world := w\<rparr>) = Some m"
    using dispatch_None_iff [of k u c "s\<lparr>world := w\<rparr>"] assms(3,4)
    by (cases "dispatch k u c (s\<lparr>world := w\<rparr>)") auto
  ultimately show ?thesis using w by (intro that [of w m]) (simp_all add: turn_def run_bind_ret)
qed

lemma dispatch_reads:
  "dispatch k u (sector_cmd_of dv) s
   = Some (handle_read_sector (sector_cmd_of dv) (read_sector_call k dv) u s)"
  "dispatch k u (cluster_cmd_of dv) s
   = Some (handle_read_cluster (cluster_cmd_of dv) (read_cluster_call k dv) u s)"
  by (cases dv; simp add: dispatch_def handle_command_4_def handle_command_5_def handle_command_8_def
      handle_command_9_def handle_command_12_def handle_command_13_def)+

lemma dispatch_others:
  "dispatch k u 0 s = Some (ret (handle_command_0 u s))"
  "dispatch k u 2 s = Some (handle_command_2 k u s)"
  "dispatch k u 3 s = Some (ret (handle_command_3 k u s))"
  by (simp_all add: dispatch_def)

lemma say_result_0 [simp]: "say_result c 0 s = s"
  by (simp add: say_result_def)

text \<open>The system calls, on a kernel that keeps the network as it is.\<close>

lemma still_trans: "still inbox sent w w' \<Longrightarrow> still inbox sent w' w'' \<Longrightarrow> still inbox sent w w''"
  by (simp add: still_def)

lemma sector_call_steady:
  assumes K: "steady_kernel k (still inbox sent)" and D: "reads_disk k (still inbox sent) ready disk s"
    and rdy: "ready dv" and "0 \<le> n" and "n < 2147483648" and len: "\<And>n. length (disk dv n) = 512"
  shows "\<exists>w. read_sector_call k dv n (Some (replicate 512 0)) s = ret (0, Some (disk dv n), s\<lparr>world := w\<rparr>)
    \<and> still inbox sent (world s) w"
proof -
  obtain r d w1 where R: "device_read k dv s n 1 (world s) = (r, d, w1)" by (metis prod_cases3)
  have r: "0 \<le> r" "d = disk dv n" "still inbox sent (world s) w1"
    using reads_diskD(2) [OF D R rdy] assms(4,5) by (simp_all add: sectors_def)
  obtain r2 m w2 where C: "k_MemcpyKernelToUser k True d w1 = (r2, m, w2)" by (metis prod_cases3)
  have c: "0 \<le> r2" "m = length d" "still inbox sent w1 w2" using steady_kernelD(4) [OF K C] by simp_all
  have "read_sector_call k dv n (Some (replicate 512 0)) s = ret (0, Some (disk dv n), s\<lparr>world := w2\<rparr>)"
    using R r(1,2) C c(1,2) len
    by (simp add: read_sector_call_ready [OF reads_diskD(1) [OF D rdy]] read_sector_with_def kcall2_eq
        SD_DEFAULT_SECTOR_SIZE_def run_bind_ret copy_to_user_def)
  then show ?thesis using still_trans [OF r(3) c(3)] by blast
qed

lemma kblocks_world:
  fixes s :: "('w, 'm) emmc_scheme"
  shows "s\<lparr>kblocks := kb, world := w\<rparr> = s\<lparr>world := w, kblocks := kb\<rparr>"
  by (cases s rule: emmc.cases_scheme) simp

lemma cluster_call_steady:
  assumes K: "steady_kernel k (still inbox sent)" and D: "reads_disk k (still inbox sent) ready disk s"
    and rdy: "ready dv" and ok: "kpool_ok s" and init: "g_clusterPoolInitialized s \<noteq> 0"
    and spc: "g_sectorsPerCluster s = spc" "0 < spc" and "0 \<le> n" and "spc * n + spc \<le> 2147483648"
    and len: "\<And>n. length (disk dv n) = 512" and "length b = 512 * nat spc"
  shows "\<exists>w kb. read_cluster_call k dv n (Some b) s
      = ret (0, Some (sectors (disk dv) (spc * n) (nat spc)), s\<lparr>world := w, kblocks := kb\<rparr>)
    \<and> kpool_ok (s\<lparr>world := w, kblocks := kb\<rparr>) \<and> still inbox sent (world s) w"
proof -
  let ?d = "sectors (disk dv) (spc * n) (nat spc)"
  from ok init obtain a old where p: "g_clusterPoolPtr s = Block (g_clusterPool s) a"
      and old: "kblocks s (g_clusterPool s) = Some old" and bps: "g_bytesPerSector s = 512"
      and lim: "0 \<le> g_sectorsPerCluster s" "g_sectorsPerCluster s < 4194304"
      and lo: "length old = 512 * nat (g_sectorsPerCluster s)"
    by (rule kpool_okE)
  have c: "0 \<le> spc * n" using spc(2) assms(8) by simp
  then have wr: "wrap32 (spc * n) = spc * n" using spc(2) assms(9) by (simp add: c_int_def)
  obtain r d w1 where R: "device_read k dv s (spc * n) spc (world s) = (r, d, w1)" by (metis prod_cases3)
  have r: "0 \<le> r" "d = ?d" "still inbox sent (world s) w1"
    using reads_diskD(2) [OF D R rdy c spc(2) assms(9)] by simp_all
  have ld: "length d = 512 * nat spc" using r(2) length_sectors [OF len] by simp
  obtain r2 m w2 where C: "k_MemcpyKernelToUser k True d w1 = (r2, m, w2)" by (metis prod_cases3)
  have cc: "0 \<le> r2" "m = length d" "still inbox sent w1 w2" using steady_kernelD(4) [OF K C] by simp_all
  let ?kb = "(kblocks s)(g_clusterPool s \<mapsto> d)"
  have "read_cluster_call k dv n (Some b) s = ret (0, Some ?d, s\<lparr>world := w2, kblocks := ?kb\<rparr>)"
    using R r(1,2) C cc(1,2) ld lo p old bps spc wr lim pool_bytes [OF lim] assms(11)
    by (simp add: read_cluster_call_ready [OF reads_diskD(1) [OF D rdy] init] read_cluster_with_def kcall2_eq
        run_bind_ret blk_store_whole blk_load_whole copy_to_user_def Let_def kblocks_world)
  moreover have "kpool_ok (s\<lparr>world := w2, kblocks := ?kb\<rparr>)"
    using p bps lim spc ld by (intro kpool_okI) simp_all
  ultimately show ?thesis using still_trans [OF r(3) cc(3)] by blast
qed

text \<open>The read handlers.\<close>

lemma sector_handler_steady:
  assumes N: "stream_law u put inbox sent" and K: "steady_kernel k (still inbox sent)"
    and S: "serving k (still inbox sent) ready disk pool s" and rdy: "ready dv" and "0 \<le> n" and "n < 2147483648"
    and len: "\<And>dv n. length (disk dv n) = 512" and q: "inbox (world s) = enc32 n"
  shows "\<exists>s'. handle_read_sector c (read_sector_call k dv) u s = ret (0, s')
    \<and> serving k (still inbox sent) ready disk pool s' \<and> inbox (world s') = []
    \<and> sent (world s') = sent (world s) @ packet c 0 0 @ disk dv n"
proof -
  obtain w where R: "net_recv u 4 (replicate 4 0) s = ret (4, enc32 n, s\<lparr>world := w\<rparr>)"
      "inbox w = []" "sent w = sent (world s)"
    by (rule recv_short [OF N, of s "enc32 n" "[]" "replicate 4 0"]) (use q in auto)
  define t where "t = say (''psvemmc: execute command '' @ dec_str c) (s\<lparr>world := w\<rparr>)"
  have t: "same_srv s t" "world t = w"
    by (auto simp: t_def frame_simps intro: same_srv_trans [OF same_srv_world same_srv_say])
  have D: "reads_disk k (still inbox sent) ready disk t"
    using S by (simp add: serving_def reads_disk_cong [OF devices_of_same [OF t(1)]])
  obtain w2 where C: "read_sector_call k dv n (Some (replicate 512 0)) t = ret (0, Some (disk dv n), t\<lparr>world := w2\<rparr>)"
      "still inbox sent (world t) w2"
    using sector_call_steady [OF K D rdy assms(5,6) len] by blast
  let ?resp = "packet c 0 0 @ disk dv n"
  obtain s' where L: "send_loop u (\<lambda>off n. mem_load off n ?resp) (int (length ?resp)) 0 (t\<lparr>world := w2\<rparr>) = ret (0, s')"
      "same_srv (t\<lparr>world := w2\<rparr>) s'" "sent (world s') = sent w2 @ ?resp" "inbox (world s') = inbox w2"
    using send_loop_all [OF N, of ?resp "\<lambda>off n. mem_load off n ?resp" 0 "t\<lparr>world := w2\<rparr>"] by (auto simp: mem_load_ok)
  have "dec32 (enc32 n) = n" using assms(5,6) by (simp add: c_int_def)
  then have "handle_read_sector c (read_sector_call k dv) u s = ret (0, s')"
    unfolding handle_read_sector_def R(1) run_bind_ret prod.case Let_def t_def [symmetric]
    using C(1) L(1) by (simp add: run_bind_ret)
  moreover have "same_srv s s'" by (rule same_srv_trans [OF t(1) same_srv_trans [OF same_srv_world L(2)]])
  ultimately show ?thesis
    using L(3,4) C(2) R(2,3) t(2) serving_same [of s s'] S by (intro exI [of _ s']) (simp add: still_def)
qed

lemma cluster_handler_steady:
  assumes N: "stream_law u put inbox sent" and K: "steady_kernel k (still inbox sent)"
    and S: "serving k (still inbox sent) ready disk (Some spc) s" and rdy: "ready dv"
    and "0 \<le> n" and "spc * n + spc \<le> 2147483648"
    and len: "\<And>dv n. length (disk dv n) = 512" and q: "inbox (world s) = enc32 n"
  shows "\<exists>s'. handle_read_cluster c (read_cluster_call k dv) u s = ret (0, s')
    \<and> serving k (still inbox sent) ready disk (Some spc) s' \<and> inbox (world s') = []
    \<and> sent (world s') = sent (world s) @ packet c 0 0 @ sectors (disk dv) (spc * n) (nat spc)"
proof -
  let ?d = "sectors (disk dv) (spc * n) (nat spc)"
  obtain w where R: "net_recv u 4 (replicate 4 0) s = ret (4, enc32 n, s\<lparr>world := w\<rparr>)"
      "inbox w = []" "sent w = sent (world s)"
    by (rule recv_short [OF N, of s "enc32 n" "[]" "replicate 4 0"]) (use q in auto)
  define t where "t = say (''psvemmc: execute command '' @ dec_str c) (s\<lparr>world := w\<rparr>)"
  have t: "same_srv s t" "world t = w"
    by (auto simp: t_def frame_simps intro: same_srv_trans [OF same_srv_world same_srv_say])
  have St: "serving k (still inbox sent) ready disk (Some spc) t" using S serving_same [OF t(1)] by simp
  then have ok: "srv_ok t" "kpool_ok t" "reads_disk k (still inbox sent) ready disk t"
      "g_clusterPoolInitialized t \<noteq> 0" "sv_clusterPoolInitialized t \<noteq> 0" "sv_sectorsPerCluster t = spc"
      "g_sectorsPerCluster t = spc" "0 < spc" "upool_ok t"
    by (auto simp: serving_def srv_ok_def pools_agree_def)
  obtain a b where P: "sv_clusterPoolPtr t = Block (sv_clusterPool t) a" "ublocks t (sv_clusterPool t) = Some b"
      "sv_bytesPerSector t = 512" "length b = 512 * nat spc" "spc < 4194304"
    using upool_okE [OF ok(9,5)] ok(6) by metis
  have pt: "pointee (sv_clusterPoolPtr t) (ublocks t) = Some b" using P(1,2) by (simp add: pointee_def)
  obtain w2 kb where C: "read_cluster_call k dv n (Some b) t = ret (0, Some ?d, t\<lparr>world := w2, kblocks := kb\<rparr>)"
      "kpool_ok (t\<lparr>world := w2, kblocks := kb\<rparr>)" "still inbox sent (world t) w2"
    using cluster_call_steady [OF K ok(3) rdy ok(2,4,7,8) assms(5,6) len P(4)] by blast
  define t3 where "t3 = t\<lparr>world := w2, kblocks := kb\<rparr>"
  define t4 where "t4 = t3\<lparr>ublocks := (ublocks t3)(sv_clusterPool t3 \<mapsto> ?d)\<rparr>"
  have ld: "length ?d = 512 * nat spc" by (rule length_sectors [OF len])
  have put: "put_pool (Some ?d) t3 = t4" using P(1) by (simp add: t3_def t4_def put_pool_live)
  have "srv_ok t3" unfolding t3_def by (rule srv_ok_kernel [OF ok(1) C(2)])
  then have "srv_ok t4"
    unfolding t4_def using ok(5,6) ld P(1) by (intro srv_ok_put_pool) (simp_all add: t3_def)
  then have S4: "serving k (still inbox sent) ready disk (Some spc) t4"
    using ok(3-8) reads_disk_cong [of t4 t k "still inbox sent" ready disk]
    by (simp add: serving_def t3_def t4_def devices_of_def)
  obtain w5 where H: "net_send u (packet c 0 0) t4 = (12, t4\<lparr>world := w5\<rparr>)"
      "sent w5 = sent (world t4) @ packet c 0 0" "inbox w5 = inbox (world t4)"
    by (rule send_short [OF N, of "packet c 0 0" t4]) (auto simp: packet_def)
  let ?t6 = "t4\<lparr>world := w5\<rparr>"
  have src: "blk_load (sv_clusterPoolPtr ?t6) off n (ublocks ?t6) = ret (take n (drop off ?d))"
    if "off + n \<le> length ?d" for off n
    using that P(1) by (simp add: blk_load_live run_simps t3_def t4_def)
  obtain s' where L: "send_loop u (\<lambda>off n. blk_load (sv_clusterPoolPtr ?t6) off n (ublocks ?t6)) (int (length ?d)) 0 ?t6
        = ret (0, s')" "same_srv ?t6 s'" "sent (world s') = sent w5 @ ?d" "inbox (world s') = inbox w5"
    using send_loop_all [OF N src, of 0 ?t6] by auto
  have sz: "wrap32 (sv_bytesPerSector ?t6 * sv_sectorsPerCluster ?t6) = int (length ?d)"
    using P(3,5) ok(6,8) ld by (simp add: c_int_def t3_def t4_def)
  have spcn: "n \<le> spc * n" using ok(8) assms(5) by (cases "n = 0") (simp_all add: mult_le_cancel_right1)
  have "dec32 (enc32 n) = n" using spcn assms(5,6) ok(8) by (simp add: c_int_def)
  then have "handle_read_cluster c (read_cluster_call k dv) u s = ret (0, s')"
    unfolding handle_read_cluster_def R(1) run_bind_ret prod.case Let_def t_def [symmetric] pt C(1)
      t3_def [symmetric] put say_result_0 H(1) snd_conv sz
    using pt C(1) L(1) put H(1) sz by (simp add: run_bind_ret t3_def [symmetric])
  moreover have "serving k (still inbox sent) ready disk (Some spc) s'"
    using serving_same [OF same_srv_trans [OF same_srv_world L(2)]] S4 by simp
  moreover have "world t4 = w2" by (simp add: t3_def t4_def)
  ultimately show ?thesis
    using L(3,4) H(2,3) C(3) R(2,3) t(2) by (auto simp: still_def)
qed

text \<open>The handlers that make and release the pools.\<close>

lemma initializePool_steady:
  assumes U: "steady_user u (still inbox sent)" and "sv_clusterPoolInitialized s = 0"
    and "0 < spc" and "spc < 4194304"
  obtains s' where "initializePool u 512 spc s = (0, s')" and "still inbox sent (world s) (world s')"
    and "devices_of s' = devices_of s" and "upool_ok s'" and "sv_clusterPoolInitialized s' \<noteq> 0"
    and "sv_sectorsPerCluster s' = spc" and "kpool_ok s' = kpool_ok s"
    and "g_clusterPoolInitialized s' = g_clusterPoolInitialized s"
proof -
  obtain uid c w1 where A: "u_AllocMemBlock u ''cluster_pool'' (512 * spc) (world s) = (uid, c, w1)"
    by (metis prod_cases3)
  have a: "0 \<le> uid" "length c = 512 * nat spc" "still inbox sent (world s) w1"
    using steady_userD(1) [OF U A] assms(3) by (simp_all add: nat_mult_distrib)
  obtain r2 b w2 where B: "u_GetMemBlockBase u uid w1 = (r2, b, w2)" by (metis prod_cases3)
  have b: "0 \<le> r2" "still inbox sent w1 w2" using steady_userD(2) [OF U B] by simp_all
  have w: "wrap32 (512 * spc) = 512 * spc" using assms(3,4) by (simp add: c_int_def)
  let ?s = "snd (initializePool u 512 spc s)"
  have "initializePool u 512 spc s = (0, ?s)" "world ?s = w2" "devices_of ?s = devices_of s" "upool_ok ?s"
      "sv_clusterPoolInitialized ?s \<noteq> 0" "sv_sectorsPerCluster ?s = spc" "kpool_ok ?s = kpool_ok s"
      "g_clusterPoolInitialized ?s = g_clusterPoolInitialized s"
    using A B a(1,2) b(1) w assms(2-4)
    by (simp_all add: initializePool_def SD_DEFAULT_SECTOR_SIZE_def kcall2_eq Let_def devices_of_def
        upool_ok_def kpool_ok_def)
  then show ?thesis using that [of ?s] still_trans [OF a(3) b(2)] by simp
qed

lemma psvemmcInitialize_steady:
  fixes s :: "'w srv"
  assumes K: "steady_kernel k (still inbox sent)" and "g_clusterPoolInitialized s = 0"
    and "0 < spc" and "spc < 4194304"
  obtains s' where "psvemmcInitialize k 512 spc s = (0, s')" and "still inbox sent (world s) (world s')"
    and "devices_of s' = devices_of s" and "kpool_ok s'" and "g_clusterPoolInitialized s' \<noteq> 0"
    and "g_sectorsPerCluster s' = spc" and "upool_ok s' = upool_ok s"
    and "sv_clusterPoolInitialized s' = sv_clusterPoolInitialized s"
    and "sv_sectorsPerCluster s' = sv_sectorsPerCluster s"
proof -
  obtain uid c w1 where A: "k_AllocMemBlock k ''cluster_pool_kernel'' (512 * spc) (world s) = (uid, c, w1)"
    by (metis prod_cases3)
  have a: "0 \<le> uid" "length c = 512 * nat spc" "still inbox sent (world s) w1"
    using steady_kernelD(1) [OF K A] assms(3) by (simp_all add: nat_mult_distrib)
  obtain r2 b w2 where B: "k_GetMemBlockBase k uid w1 = (r2, b, w2)" by (metis prod_cases3)
  have b: "0 \<le> r2" "still inbox sent w1 w2" using steady_kernelD(2) [OF K B] by simp_all
  have w: "wrap32 (512 * spc) = 512 * spc" using assms(3,4) by (simp add: c_int_def)
  let ?s = "snd (psvemmcInitialize k 512 spc s)"
  have "psvemmcInitialize k 512 spc s = (0, ?s)" "world ?s = w2" "devices_of ?s = devices_of s" "kpool_ok ?s"
      "g_clusterPoolInitialized ?s \<noteq> 0" "g_sectorsPerCluster ?s = spc" "upool_ok ?s = upool_ok s"
      "sv_clusterPoolInitialized ?s = sv_clusterPoolInitialized s"
      "sv_sectorsPerCluster ?s = sv_sectorsPerCluster s"
    using A B a(1,2) b(1) w assms(2-4)
    by (simp_all add: psvemmcInitialize_def SD_DEFAULT_SECTOR_SIZE_def kcall2_eq Let_def devices_of_def
        upool_ok_def kpool_ok_def)
  then show ?thesis using that [of ?s] still_trans [OF a(3) b(2)] by simp
qed

lemma ping_steady:
  assumes N: "stream_law u put inbox sent" and S: "serving k keeps ready disk pool s"
  shows "\<exists>r s'. handle_command_0 u s = (r, s') \<and> 0 \<le> r \<and> serving k keeps ready disk pool s'
    \<and> inbox (world s') = inbox (world s)
    \<and> sent (world s') = sent (world s) @ packet 0 0 0 @ c_chars ''emmcproxy''"
proof -
  let ?t = "say ''psvemmc: execute command 0'' s"
  have b: "packet 0 0 0 @ u8_of_string ''emmcproxy'' @ [0] = packet 0 0 0 @ c_chars ''emmcproxy''"
    by (simp add: c_chars_def u8_of_string_def)
  obtain w where W: "net_send u (packet 0 0 0 @ c_chars ''emmcproxy'') ?t
      = (int (length (packet 0 0 0 @ c_chars ''emmcproxy'')), ?t\<lparr>world := w\<rparr>)"
    "sent w = sent (world ?t) @ packet 0 0 0 @ c_chars ''emmcproxy''" "inbox w = inbox (world ?t)"
    by (rule send_short [OF N, of "packet 0 0 0 @ c_chars ''emmcproxy''" ?t]) (auto simp: c_chars_def packet_def)
  then show ?thesis
    unfolding handle_command_0_def Let_def b W(1) using S by (simp add: frame_simps)
qed

lemma init_steady:
  assumes N: "stream_law u put inbox sent" and K: "steady_kernel k (still inbox sent)"
    and U: "steady_user u (still inbox sent)"
    and S: "serving k (still inbox sent) ready disk None s" and "0 < spc" and "spc < 4194304"
    and q: "inbox (world s) = enc32 512 @ enc32 spc"
  shows "\<exists>r s'. handle_command_2 k u s = ret (r, s') \<and> 0 \<le> r
    \<and> serving k (still inbox sent) ready disk (Some spc) s' \<and> inbox (world s') = []
    \<and> sent (world s') = sent (world s) @ packet 2 0 0"
proof -
  have s: "sv_clusterPoolInitialized s = 0" "g_clusterPoolInitialized s = 0" "srv_ok s"
      "reads_disk k (still inbox sent) ready disk s" using S by (simp_all add: serving_def)
  obtain w where R: "net_recv u 8 (replicate 8 0) s = ret (8, enc32 512 @ enc32 spc, s\<lparr>world := w\<rparr>)"
      "inbox w = []" "sent w = sent (world s)"
    by (rule recv_short [OF N, of s "enc32 512 @ enc32 spc" "[]" "replicate 8 0"]) (use q in auto)
  define t where "t = say ''psvemmc: execute command 2'' (s\<lparr>world := w\<rparr>)"
  have t: "sv_clusterPoolInitialized t = 0" "g_clusterPoolInitialized t = 0" "kpool_ok t" "world t = w"
      "devices_of t = devices_of s"
    using s by (auto simp: t_def frame_simps kpool_uninitialised devices_of_def say_def)
  obtain s3 where I: "initializePool u 512 spc t = (0, s3)" "still inbox sent (world t) (world s3)"
      "devices_of s3 = devices_of t" "upool_ok s3" "sv_clusterPoolInitialized s3 \<noteq> 0"
      "sv_sectorsPerCluster s3 = spc" "g_clusterPoolInitialized s3 = 0"
    using initializePool_steady [OF U t(1) assms(5,6)] t(2) by metis
  obtain s4 where P: "psvemmcInitialize k 512 spc s3 = (0, s4)" "still inbox sent (world s3) (world s4)"
      "devices_of s4 = devices_of s3" "kpool_ok s4" "g_clusterPoolInitialized s4 \<noteq> 0"
      "g_sectorsPerCluster s4 = spc" "upool_ok s4" "sv_clusterPoolInitialized s4 \<noteq> 0"
      "sv_sectorsPerCluster s4 = spc"
    using psvemmcInitialize_steady [OF K I(7) assms(5,6)] I(4-6) by metis
  obtain w5 where H: "net_send u (packet 2 0 0) s4 = (12, s4\<lparr>world := w5\<rparr>)"
      "sent w5 = sent (world s4) @ packet 2 0 0" "inbox w5 = inbox (world s4)"
    by (rule send_short [OF N, of "packet 2 0 0" s4]) (auto simp: packet_def)
  have "dec32 (enc32 512 @ enc32 spc) = 512" "dec32 (drop 4 (enc32 512 @ enc32 spc)) = spc"
    using assms(5,6) by (simp_all add: c_int_def)
  then have "handle_command_2 k u s = ret (12, s4\<lparr>world := w5\<rparr>)"
    unfolding handle_command_2_def R(1) run_bind_ret prod.case Let_def t_def [symmetric]
    using s(1) I(1) P(1) H(1) by simp
  moreover have "serving k (still inbox sent) ready disk (Some spc) s4"
    using P I(3) t(5) s(4) assms(5) reads_disk_cong [of s4 s k "still inbox sent" ready disk]
    by (simp add: serving_def srv_ok_def pools_agree_def)
  ultimately show ?thesis
    using H(2,3) R(2,3) I(2) P(2) t(4) by (auto simp: still_def ret_eq)
qed

lemma deinit_steady:
  assumes N: "stream_law u put inbox sent" and K: "steady_kernel k (still inbox sent)"
    and U: "steady_user u (still inbox sent)" and S: "serving k (still inbox sent) ready disk (Some spc) s"
  shows "\<exists>r s'. handle_command_3 k u s = (r, s') \<and> 0 \<le> r
    \<and> serving k (still inbox sent) ready disk None s' \<and> inbox (world s') = inbox (world s)
    \<and> sent (world s') = sent (world s) @ packet 3 0 0"
proof -
  have s: "sv_clusterPoolInitialized s \<noteq> 0" "g_clusterPoolInitialized s \<noteq> 0"
      "reads_disk k (still inbox sent) ready disk s" using S by (simp_all add: serving_def)
  define t where "t = say ''psvemmc: execute command 3'' s"
  have t: "sv_clusterPoolInitialized t \<noteq> 0" "g_clusterPoolInitialized t \<noteq> 0" "world t = world s"
      "devices_of t = devices_of s"
    using s by (auto simp: t_def frame_simps devices_of_def say_def)
  obtain r w1 where F: "k_FreeMemBlock k (g_clusterPool t) (world t) = (r, w1)" by fastforce
  have f: "0 \<le> r" "still inbox sent (world t) w1" using steady_kernelD(3) [OF K F] by simp_all
  define t2 where "t2 = t\<lparr>world := w1, kblocks := (kblocks t)(g_clusterPool t := None), g_clusterPoolInitialized := 0\<rparr>"
  have P: "psvemmcDeinitialize k t = (0, t2)"
    using t(2) F f(1) by (simp add: psvemmcDeinitialize_def kcall_def Let_def t2_def)
  obtain r' w2 where G: "u_FreeMemBlock u (sv_clusterPool t2) w1 = (r', w2)" by fastforce
  have g: "0 \<le> r'" "still inbox sent w1 w2" using steady_userD(3) [OF U G] by simp_all
  define t3 where "t3 = t2\<lparr>world := w2, ublocks := (ublocks t2)(sv_clusterPool t2 := None), sv_clusterPoolInitialized := 0\<rparr>"
  have D: "deinitializePool u t2 = (0, t3)"
    using t(1) G g(1) by (simp add: deinitializePool_def kcall_def Let_def t3_def t2_def)
  obtain w5 where H: "net_send u (packet 3 0 0) t3 = (12, t3\<lparr>world := w5\<rparr>)"
      "sent w5 = sent (world t3) @ packet 3 0 0" "inbox w5 = inbox (world t3)"
    by (rule send_short [OF N, of "packet 3 0 0" t3]) (auto simp: packet_def)
  have "devices_of t3 = devices_of s" "g_clusterPoolInitialized t3 = 0" "sv_clusterPoolInitialized t3 = 0"
    using t(4) by (simp_all add: t3_def t2_def devices_of_def)
  then have "serving k (still inbox sent) ready disk None t3"
    using s(3) reads_disk_cong [of t3 s k "still inbox sent" ready disk]
    by (simp add: serving_def srv_ok_def kpool_uninitialised pools_agree_def upool_ok_def)
  moreover have "handle_command_3 k u s = (12, t3\<lparr>world := w5\<rparr>)"
    unfolding handle_command_3_def Let_def t_def [symmetric] P prod.case using s(1) D H(1) by simp
  moreover have "world t3 = w2" by (simp add: t3_def)
  ultimately show ?thesis
    using H(2,3) f(2) g(2) t(3) by (intro exI [of _ 12] exI [of _ "t3\<lparr>world := w5\<rparr>"]) (simp add: still_def)
qed

text \<open>So a turn of the command loop serves any request the server is ready for.\<close>

lemma turn_serves:
  assumes N: "stream_law u put inbox sent" and K: "steady_kernel k (still inbox sent)"
    and U: "steady_user u (still inbox sent)" and len: "\<And>dv n. length (disk dv n) = 512"
    and S: "serving k (still inbox sent) ready disk pool s"
    and q: "inbox (world s) = request_bytes q" and ok: "allowed ready pool q"
  shows "\<exists>r s'. turn k u s = ret (r, s') \<and> 0 \<le> r
    \<and> serving k (still inbox sent) ready disk (pool_after pool q) s' \<and> inbox (world s') = []
    \<and> sent (world s') = sent (world s) @ response_bytes disk pool q"
proof -
  let ?ok = "\<lambda>w m. \<exists>r s'. m = ret (r, s') \<and> 0 \<le> r
    \<and> serving k (still inbox sent) ready disk (pool_after pool q) s' \<and> inbox (world s') = []
    \<and> sent (world s') = sent w @ response_bytes disk pool q"
  have step: ?thesis if "inbox (world s) = enc32 c @ rest" "0 \<le> c" "c < 16"
    and "\<And>w m. inbox w = rest \<Longrightarrow> dispatch k u c (s\<lparr>world := w\<rparr>) = Some m \<Longrightarrow> ?ok w m" for c rest
    using turn_dispatch [OF N that(1-3), of k] that(4) by metis
  have S': "serving k (still inbox sent) ready disk pool (s\<lparr>world := w\<rparr>)" for w using S by simp
  show ?thesis
  proof (cases q)
    case Ping
    have "?ok w m" if "inbox w = []" "dispatch k u 0 (s\<lparr>world := w\<rparr>) = Some m" for w m
      using ping_steady [OF N S', of w] that Ping by (auto simp: dispatch_others ret_eq)
    then show ?thesis using q Ping by (intro step [of 0 "[]"]) simp_all
  next
    case (Init bps spc)
    then have p: "pool = None" "bps = 512" "0 < spc" "spc < 4194304" using ok by simp_all
    have "?ok w m" if "inbox w = enc32 512 @ enc32 spc" "dispatch k u 2 (s\<lparr>world := w\<rparr>) = Some m" for w m
      using init_steady [OF N K U S' [unfolded p(1)] p(3,4), of w] that Init p(1,2) by (auto simp: dispatch_others)
    then show ?thesis using q Init p(2) by (intro step [of 2 "enc32 512 @ enc32 spc"]) simp_all
  next
    case Deinit
    then obtain spc where p: "pool = Some spc" using ok by auto
    have "?ok w m" if "inbox w = []" "dispatch k u 3 (s\<lparr>world := w\<rparr>) = Some m" for w m
      using deinit_steady [OF N K U S' [unfolded p], of w] that Deinit by (auto simp: dispatch_others ret_eq)
    then show ?thesis using q Deinit by (intro step [of 3 "[]"]) simp_all
  next
    case (Get_sector dv n)
    then have p: "ready dv" "0 \<le> n" "n < 2147483648" using ok by simp_all
    have "?ok w m" if "inbox w = enc32 n" "dispatch k u (sector_cmd_of dv) (s\<lparr>world := w\<rparr>) = Some m" for w m
      using sector_handler_steady [OF N K S' p len, of w "sector_cmd_of dv"] that Get_sector by (auto simp: dispatch_reads)
    then show ?thesis using q Get_sector by (intro step [of "sector_cmd_of dv" "enc32 n"]) (cases dv; simp)+
  next
    case (Get_cluster dv n)
    then obtain spc where p: "pool = Some spc" "ready dv" "0 \<le> n" "spc * n + spc \<le> 2147483648"
      using ok by (auto split: option.splits)
    have "?ok w m" if "inbox w = enc32 n" "dispatch k u (cluster_cmd_of dv) (s\<lparr>world := w\<rparr>) = Some m" for w m
      using cluster_handler_steady [OF N K S' [unfolded p(1)] p(2-4) len, of w "cluster_cmd_of dv"] that Get_cluster p(1)
      by (auto simp: dispatch_reads)
    then show ?thesis using q Get_cluster by (intro step [of "cluster_cmd_of dv" "enc32 n"]) (cases dv; simp)+
  qed
qed


section \<open>The connection\<close>

definition wire_laws ::
    "'w kapi \<Rightarrow> 'w uapi \<Rightarrow> (byte list \<Rightarrow> 'w \<Rightarrow> 'w) \<Rightarrow> ('w \<Rightarrow> byte list) \<Rightarrow> ('w \<Rightarrow> byte list)
     \<Rightarrow> 'w wire capi \<Rightarrow> (device \<Rightarrow> int \<Rightarrow> byte list) \<Rightarrow> bool" where
  "wire_laws k u put inbox sent c disk \<longleftrightarrow>
     steady_kernel k (still inbox sent) \<and> steady_user u (still inbox sent) \<and> stream_law u put inbox sent
     \<and> (\<forall>dv n. length (disk dv n) = 512)
     \<and> c_SOCKET_ERROR c < 0 \<and> (\<forall>n w. length (c_uninit c n w) = n) \<and> (\<forall>p w. snd (c_open c p w) = w)"

definition wire_link ::
    "'w kapi \<Rightarrow> 'w uapi \<Rightarrow> (byte list \<Rightarrow> 'w \<Rightarrow> 'w) \<Rightarrow> ('w \<Rightarrow> byte list) \<Rightarrow> ('w \<Rightarrow> byte list)
     \<Rightarrow> 'w wire capi \<Rightarrow> (device \<Rightarrow> bool) \<Rightarrow> (device \<Rightarrow> int \<Rightarrow> byte list) \<Rightarrow> int option \<Rightarrow> byte list \<Rightarrow> 'w wire \<Rightarrow> bool" where
  "wire_link k u put inbox sent c ready disk pool bs W \<longleftrightarrow>
     wire_laws k u put inbox sent c disk \<and> serving k (still inbox sent) ready disk pool (fst W)
     \<and> inbox (world (fst W)) = [] \<and> drop (snd W) (sent (world (fst W))) = bs
     \<and> snd W \<le> length (sent (world (fst W)))"

interpretation wire: served "wired k u put sent c" sock ready disk "wire_link k u put inbox sent c ready disk"
proof (unfold_locales, goal_cases)
  case (4 pool W q r W')
  obtain S n where W: "W = (S, n)" by fastforce
  have L: "wire_laws k u put inbox sent c disk" and l: "serving k (still inbox sent) ready disk pool S"
      "inbox (world S) = []" "drop n (sent (world S)) = []" "n \<le> length (sent (world S))"
    using 4(1) by (simp_all add: wire_link_def W)
  let ?S = "S\<lparr>world := put (request_bytes q) (world S)\<rparr>"
  have put: "inbox (world ?S) = request_bytes q" "sent (world ?S) = sent (world S)"
    using L l(2) by (simp_all add: wire_laws_def stream_law_def)
  obtain e S' where T: "turn k u ?S = ret (e, S')" "serving k (still inbox sent) ready disk (pool_after pool q) S'"
      "inbox (world S') = []" "sent (world S') = sent (world S) @ response_bytes disk pool q"
    using turn_serves [of u put inbox sent k disk ready pool ?S q] L l(1) put 4(2) by (auto simp: wire_laws_def)
  have "r = int (length (request_bytes q))" "W' = (S', n)"
    using 4(3) T(1) by (simp_all add: wired_def W ret_def)
  then show ?case using T(2-4) L l(3,4) by (auto simp: wire_link_def)
next
  case (5 pool bs W m r got W')
  obtain S n where W: "W = (S, n)" by fastforce
  define j where "j = min (nat m) 1460"
  have L: "wire_laws k u put inbox sent c disk" "serving k (still inbox sent) ready disk pool S"
      "inbox (world S) = []" "bs = drop n (sent (world S))" "n \<le> length (sent (world S))"
    using 5(1) by (simp_all add: wire_link_def W)
  have W': "r = int (length (take j bs))" "got = take j bs" "W' = (S, n + length (take j bs))"
    using 5(4) L(4) by (auto simp: wired_def W Let_def j_def)
  have "drop (n + length (take j bs)) (sent (world S)) = drop j bs"
    using L(4) by (cases "j \<le> length bs") (simp_all add: add.commute)
  moreover have "n + length (take j bs) \<le> length (sent (world S))" using L(4,5) by simp
  ultimately have "wire_link k u put inbox sent c ready disk pool (drop j bs) W'"
    using L(1-3) by (simp add: wire_link_def W'(3))
  moreover have "0 < j" using 5(3) by (simp add: j_def)
  ultimately show ?case
    using W'(1,2) 5(2,3) by (intro exI [of _ "drop j bs"]) (auto simp: j_def)
next
  case (6 pool bs W m)
  then show ?case by (cases W) (auto simp: wire_link_def wired_def Let_def)
qed (auto simp: wire_link_def wire_laws_def wired_def)


section \<open>A dump, from end to end\<close>

lemma wired_other [simp]:
  "c_open (wired k u put sent c) = c_open c" "c_generic_string (wired k u put sent c) = c_generic_string c"
  by (simp_all add: wired_def)

text \<open>C3: A dump is right from end to end. The client runs against the server and the driver, over a
  network that cuts the data in any pieces, and dumps a partition of a device whose partition table
  is in sector 0: if the partition begins at a multiple of eight sectors, \<open>dump_device\<close> returns 0 and
  the file holds exactly the sectors of the partition, in order, whatever its size; the server is
  left as it was, waiting for a command and without a pool.\<close>

theorem partition_dumped:
  assumes "wire_link k u put inbox sent c ready disk None [] (cw s)" and "ready dv" and "i < NPartitions"
    and e: "e = partitions (MBR_at (disk dv 0)) ! i" and "partitionType e \<noteq> 0"
    and "partitionOffset e + partitionSize e < 2147483648" and aligned: "partitionOffset e mod 8 = 0"
    and "\<And>w. fst (c_open c (c_generic_string c path) w)"
  shows "\<exists>s'. dump_device (wired k u put sent c) sock (dump_mode dv) (int i) path s = ret (0, s')
    \<and> files s' = (files s)(c_generic_string c path \<mapsto>
        sectors (disk dv) (partitionOffset e) (nat (partitionSize e)))
    \<and> wire_link k u put inbox sent c ready disk None [] (cw s')"
proof -
  let ?o = "partitionOffset e" and ?n = "partitionSize e"
  have n: "0 \<le> ?n" using assms(3) by (simp add: e MBR_at_def PartitionEntry_at_def u32_at_def le_val_nonneg)
  then have "nat ?n = 8 * nat (?n div 8) + nat (?n mod 8)" by (simp add: nat_div_distrib nat_mod_distrib)
  moreover have "0 \<le> ?n div 8" using n by simp
  then have "?o + int (8 * nat (?n div 8)) = ?o + ?n - ?n mod 8" by (simp add: minus_mod_eq_mult_div [symmetric])
  ultimately have "sectors (disk dv) ?o (8 * nat (?n div 8)) @ sectors (disk dv) (?o + ?n - ?n mod 8) (nat (?n mod 8))
      = sectors (disk dv) ?o (nat ?n)"
    using sectors_add [of "disk dv" ?o "8 * nat (?n div 8)" "nat (?n mod 8)"] by (simp add: add_diff_eq)
  then show ?thesis
    using wire.dump_device_served [of k u put inbox sent c ready disk s i dv path sock] assms by auto
qed

text \<open>C16: A partition that does not begin at a multiple of eight sectors is dumped from the wrong
  place. The client reads whole clusters, and the number of the first is the offset divided by eight:
  the clusters written begin before the partition, at the multiple of eight below its offset. The
  sectors at the end are the right ones, so that as many sectors are missing in between as are
  too many at the start.\<close>

theorem unaligned_partition_shifted:
  assumes "wire_link k u put inbox sent c ready disk None [] (cw s)" and "ready dv" and "i < NPartitions"
    and e: "e = partitions (MBR_at (disk dv 0)) ! i" and "partitionType e \<noteq> 0"
    and "partitionOffset e + partitionSize e < 2147483648"
    and off: "partitionOffset e = 8 * a + b" "0 < b" "b < 8" and len: "partitionSize e = 8 * m + t" "0 \<le> t" "t < 8"
    and "\<And>w. fst (c_open c (c_generic_string c path) w)"
  shows "\<exists>s'. dump_device (wired k u put sent c) sock (dump_mode dv) (int i) path s = ret (0, s')
    \<and> files s' = (files s)(c_generic_string c path \<mapsto>
        sectors (disk dv) (8 * a) (8 * nat m)
        @ sectors (disk dv) (partitionOffset e + 8 * m) (nat t))"
proof -
  have q: "partitionOffset e - partitionOffset e mod 8 = 8 * a" "partitionSize e div 8 = m" "partitionSize e mod 8 = t"
      "partitionOffset e + partitionSize e - t = partitionOffset e + 8 * m"
    using off len by simp_all
  show ?thesis
    using wire.dump_device_served [of k u put inbox sent c ready disk s i dv path sock, folded e] assms(1-3,5,6,13)
    unfolding q by simp blast
qed

text \<open>A single sector comes through, whatever is on the card.\<close>

theorem sector_read_end_to_end:
  assumes "wire_link k u put inbox sent c ready disk pool [] (cw s)" and "ready dv"
    and "0 \<le> n" and "n < 2147483648" and "length result = 512"
  shows "\<exists>w. read_sector (wired k u put sent c) sock (dump_mode dv) n result s = ret (0, disk dv n, s\<lparr>cw := w\<rparr>)"
  using wire.read_sector_served [OF assms(1,3,4,5,2)] by blast


section \<open>A sample machine\<close>

text \<open>A memory card with two partitions, at sectors 16 and 28, of nine sectors each.\<close>

definition sample_table :: "byte list" where
  "sample_table = butlast (c_chars SCEHeader) @ [3, 0, 0, 0] @ replicate 44 0
     @ [16, 0, 0, 0, 9, 0, 0, 0, 8, 7, 0, 0, 0, 0, 0, 0, 0] @ [28, 0, 0, 0, 9, 0, 0, 0, 7, 7, 0, 0, 0, 0, 0, 0, 0]
     @ replicate 396 0 @ [85, 170]"

definition sample_disk :: "device \<Rightarrow> int \<Rightarrow> byte list" where
  "sample_disk dv n = (if n = 0 then sample_table else replicate 512 (word_of_int n))"

definition sample_machine :: "pipe kapi" where
  "sample_machine = quiet_kernel\<lparr>k_MsifReadSector := \<lambda>sec n w. (0, sectors (sample_disk Dev_ms) sec (nat n), w)\<rparr>"

definition sample_network :: "pipe uapi" where
  "sample_network = pipe_user\<lparr>u_NetSend := \<lambda>_ bs (i, out). (int (length bs), (i, out @ bs))\<rparr>"

definition sample_put :: "byte list \<Rightarrow> pipe \<Rightarrow> pipe" where
  "sample_put bs w = (fst w @ bs, snd w)"

definition sample_wire :: "pipe wire" where
  "sample_wire = ((srv_boot ([], []))\<lparr>g_msCtxInitialized := 1\<rparr>, 0)"

lemma sample_wire_linked:
  "wire_link sample_machine sample_network sample_put fst snd plain_capi (\<lambda>dv. dv = Dev_ms) sample_disk None [] sample_wire"
proof -
  have "length sample_table = 512" by (simp add: sample_table_def c_chars_def SCEHeader_def)
  then have "wire_laws sample_machine sample_network sample_put fst snd plain_capi sample_disk"
    by (auto simp: wire_laws_def steady_kernel_def steady_user_def stream_law_def still_def sample_machine_def
        sample_network_def sample_put_def sample_disk_def quiet_kernel_def pipe_user_def plain_capi_def Let_def
        split: if_splits)
  moreover have "serving sample_machine (still fst snd) (\<lambda>dv. dv = Dev_ms) sample_disk None (fst sample_wire)"
    by (auto simp: serving_def sample_wire_def srv_ok_def kpool_ok_def upool_ok_def pools_agree_def boot_simps
        reads_disk_def sample_machine_def quiet_kernel_def still_def)
  ultimately show ?thesis by (simp add: wire_link_def sample_wire_def boot_simps)
qed

lemma sample_partitions:
  "partitions (MBR_at sample_table) ! 0 = \<lparr>partitionOffset = 16, partitionSize = 9, partitionCode = 8,
     partitionType = 7, partitionActive = 0, partition_flags = 0, partition_unk = [0, 0, 0, 0, 0]\<rparr>"
  "partitions (MBR_at sample_table) ! 1 = \<lparr>partitionOffset = 28, partitionSize = 9, partitionCode = 7,
     partitionType = 7, partitionActive = 0, partition_flags = 0, partition_unk = [0, 0, 0, 0, 0]\<rparr>"
  by (simp_all add: MBR_at_def PartitionEntry_at_def NPartitions_def u32_at_def sample_table_def c_chars_def
      SCEHeader_def)

theorem partition_dumped_witness:
  "\<exists>s'. dump_device (wired sample_machine sample_network sample_put snd plain_capi) 4 DUMP_MODE_MS 0 ''dump.bin''
      (cli_boot sample_wire) = ret (0, s')
    \<and> files s' = [''dump.bin'' \<mapsto> sectors (sample_disk Dev_ms) 16 9]"
  using partition_dumped [of sample_machine sample_network sample_put fst snd plain_capi "\<lambda>dv. dv = Dev_ms"
      sample_disk "cli_boot sample_wire" Dev_ms 0 _ "''dump.bin''" 4, OF _ _ _ refl] sample_wire_linked
  by (auto simp: cli_boot_def sample_disk_def sample_partitions NPartitions_def plain_capi_def)

theorem unaligned_partition_shifted_witness:
  "\<exists>s'. dump_device (wired sample_machine sample_network sample_put snd plain_capi) 4 DUMP_MODE_MS 1 ''dump.bin''
      (cli_boot sample_wire) = ret (0, s')
    \<and> files s' = [''dump.bin'' \<mapsto> sectors (sample_disk Dev_ms) 24 8 @ sectors (sample_disk Dev_ms) 36 1]"
  using unaligned_partition_shifted [of sample_machine sample_network sample_put fst snd plain_capi "\<lambda>dv. dv = Dev_ms"
      sample_disk "cli_boot sample_wire" Dev_ms 1 _ 3 4 1 1 "''dump.bin''" 4, OF _ _ _ refl] sample_wire_linked
  by (auto simp: cli_boot_def sample_disk_def sample_partitions sample_partitions(2) [unfolded One_nat_def]
      NPartitions_def plain_capi_def)

end
