(* ===== verification/Debug_Screen.thy ===== *)
theory Debug_Screen
  imports Screen_Font Memory
begin

text \<open>
  \<open>server/src/debugScreen.h\<close>: the console on which the server reports. Text is drawn into a frame
  buffer of 960 by 544 pixels, a colour of 32 bits each; escape codes move the cursor and change
  the colours. A C string is an array of bytes with a 0 in it, and to read past the array is a fault;
  \<open>char\<close> is unsigned on the ARM target, so that a byte is the number of its character in the font.

  What the console promises is \<open>term\<close>: a terminal of 120 by 68 cells. The frame buffer is its picture,
  for any text without escape codes; escape codes are handled as the code does, which is not always
  what they ask for.
\<close>

unbundle bit_operations_syntax

section \<open>State\<close>

type_synonym color = "32 word"

definition SCREEN_WIDTH :: nat where "SCREEN_WIDTH = 960"
definition SCREEN_HEIGHT :: nat where "SCREEN_HEIGHT = 544"
definition SCREEN_FB_WIDTH :: nat where "SCREEN_FB_WIDTH = 960"
definition SCREEN_FB_SIZE :: nat where "SCREEN_FB_SIZE = 2 * 1024 * 1024"
definition SCREEN_GLYPH_W :: nat where "SCREEN_GLYPH_W = 8"
definition SCREEN_GLYPH_H :: nat where "SCREEN_GLYPH_H = 8"

definition COLOR_WHITE :: color where "COLOR_WHITE = 0xFFFFFFFF"
definition COLOR_BLACK :: color where "COLOR_BLACK = 0xFF000000"
definition COLOR_DEFAULT_FG :: color where "COLOR_DEFAULT_FG = COLOR_WHITE"
definition COLOR_DEFAULT_BG :: color where "COLOR_DEFAULT_BG = COLOR_BLACK"

text \<open>The static variables, with the frame buffer's pixels, where \<open>fb_base\<close> is \<open>False\<close> for a null
  pointer; and the kernel's functions. An uninitialised array of \<open>n\<close> bytes holds \<open>d_uninit d n w\<close>.\<close>

record 'w dbgscr =
  dw :: 'w
  psvDebugScreenMutex :: int
  CoordX :: nat
  CoordY :: nat
  ColorFg :: color
  ColorBg :: color
  fb_base :: bool
  vram :: "nat \<Rightarrow> color"

record 'w dispapi =
  d_CreateMutex :: "string \<Rightarrow> 'w \<Rightarrow> int \<times> 'w"
  d_LockMutex :: "int \<Rightarrow> 'w \<Rightarrow> 'w"
  d_UnlockMutex :: "int \<Rightarrow> 'w \<Rightarrow> 'w"
  d_AllocMemBlock :: "string \<Rightarrow> nat \<Rightarrow> 'w \<Rightarrow> int \<times> 'w"
  d_GetMemBlockBase :: "int \<Rightarrow> 'w \<Rightarrow> (nat \<Rightarrow> color) option \<times> 'w"
  d_SetFrameBuf :: "bool \<Rightarrow> nat \<Rightarrow> nat \<Rightarrow> nat \<Rightarrow> 'w \<Rightarrow> int \<times> 'w"
  d_uninit :: "nat \<Rightarrow> 'w \<Rightarrow> byte list"

text \<open>The addition of \<open>uint32_t\<close> values.\<close>

definition u32 :: "nat \<Rightarrow> nat" where "u32 n = n mod 4294967296"

definition scr_boot :: "'w \<Rightarrow> 'w dbgscr" where
  "scr_boot w = \<lparr>dw = w, psvDebugScreenMutex = 0, CoordX = 0, CoordY = 0, ColorFg = COLOR_DEFAULT_FG,
     ColorBg = COLOR_DEFAULT_BG, fb_base = False, vram = (\<lambda>_. 0)\<rparr>"

definition poke :: "nat \<Rightarrow> color \<Rightarrow> 'w dbgscr \<Rightarrow> 'w dbgscr run" where
  "poke off c s =
     (if \<not> fb_base s then fail NullDeref
      else if SCREEN_FB_SIZE div 4 \<le> off then fail OutOfBounds
      else ret (s\<lparr>vram := (vram s)(off := c)\<rparr>))"


section \<open>Operations\<close>

definition psvDebugScreenSetFgColor :: "color \<Rightarrow> 'w dbgscr \<Rightarrow> color \<times> 'w dbgscr" where
  "psvDebugScreenSetFgColor color s = (ColorFg s, s\<lparr>ColorFg := color\<rparr>)"

definition psvDebugScreenSetBgColor :: "color \<Rightarrow> 'w dbgscr \<Rightarrow> color \<times> 'w dbgscr" where
  "psvDebugScreenSetBgColor color s = (ColorBg s, s\<lparr>ColorBg := color\<rparr>)"

definition BIT2BYTE :: "nat \<Rightarrow> color" where
  "BIT2BYTE b = (if bit b 2 then 0x800000 else 0) OR (if bit b 1 then 0x8000 else 0) OR (if bit b 0 then 0x80 else 0)"

definition set_graphics :: "nat \<Rightarrow> 'w dbgscr \<Rightarrow> 'w dbgscr" where
  "set_graphics v s =
     (if v div 10 = 0 then snd (psvDebugScreenSetBgColor COLOR_DEFAULT_BG (snd (psvDebugScreenSetFgColor COLOR_DEFAULT_FG s)))
      else if v div 10 = 3 then snd (psvDebugScreenSetFgColor (BIT2BYTE (v mod 10)) s)
      else if v div 10 = 9 then snd (psvDebugScreenSetFgColor (BIT2BYTE (v mod 10) OR 0x7F7F7F7F) s)
      else if v div 10 = 4 then snd (psvDebugScreenSetBgColor (BIT2BYTE (v mod 10)) s)
      else if v div 10 = 10 then snd (psvDebugScreenSetBgColor (BIT2BYTE (v mod 10) OR 0x7F7F7F7F) s)
      else s)"

text \<open>The loop of \<open>psvDebugScreenEscape\<close> from the index \<open>i\<close>, with \<open>p\<close> the current parameter.\<close>

function escape_loop :: "byte list \<Rightarrow> nat \<Rightarrow> nat \<Rightarrow> nat list \<Rightarrow> 'w dbgscr \<Rightarrow> (nat \<times> 'w dbgscr) run" where
  "escape_loop str i p params s =
     (if 8 \<le> i then ret (i, s)
      else if length str \<le> i then fail OutOfBounds
      else
        let c = str ! i
        in if c = 0 then ret (i, s)
           else if 48 \<le> c \<and> c \<le> 57
           then if 8 \<le> p then fail OutOfBounds
                else escape_loop str (i + 1) p (params[p := params ! p * 10 + (unat c - 48)]) s
           else if c = 59 then escape_loop str (i + 1) (p + 1) params s
           else if c = 102 \<or> c = 72
           then ret (i, s\<lparr>CoordX := u32 (params ! 0 * SCREEN_GLYPH_W), CoordY := u32 (params ! 1 * SCREEN_GLYPH_H)\<rparr>)
           else if c = 109
           then if 8 \<le> p then fail OutOfBounds else ret (i, fold set_graphics (take (p + 1) params) s)
           else escape_loop str (i + 1) p params s)"
  by pat_completeness auto
termination by (relation "measure (\<lambda>(str, i, p, params, s). 8 - i)") auto

definition psvDebugScreenEscape :: "byte list \<Rightarrow> 'w dbgscr \<Rightarrow> (nat \<times> 'w dbgscr) run" where
  "psvDebugScreenEscape str s = escape_loop str 0 0 (replicate 8 0) s"

definition psvDebugScreenInit :: "'w dispapi \<Rightarrow> 'w dbgscr \<Rightarrow> int \<times> 'w dbgscr" where
  "psvDebugScreenInit d s =
     (let (m, w1) = d_CreateMutex d ''log_mutex'' (dw s);
          (displayblock, w2) = d_AllocMemBlock d ''display'' SCREEN_FB_SIZE w1;
          (base, w3) = d_GetMemBlockBase d displayblock w2;
          s1 = s\<lparr>dw := w3, psvDebugScreenMutex := m\<rparr>;
          s2 = (case base of None \<Rightarrow> s1 | Some pixels \<Rightarrow> s1\<lparr>fb_base := True, vram := pixels\<rparr>);
          (r, w4) = d_SetFrameBuf d (fb_base s2) SCREEN_WIDTH SCREEN_WIDTH SCREEN_HEIGHT (dw s2)
      in (r, s2\<lparr>dw := w4\<rparr>))"

fun clear_loop :: "nat list \<Rightarrow> color \<Rightarrow> 'w dbgscr \<Rightarrow> 'w dbgscr run" where
  "clear_loop [] bg_color s = ret s"
| "clear_loop (i # is) bg_color s = run_bind (poke i bg_color s) (clear_loop is bg_color)"

definition psvDebugScreenClear :: "color \<Rightarrow> 'w dbgscr \<Rightarrow> 'w dbgscr run" where
  "psvDebugScreenClear bg_color s =
     clear_loop [0..<SCREEN_WIDTH * SCREEN_HEIGHT] bg_color (s\<lparr>CoordX := 0, CoordY := 0\<rparr>)"

text \<open>One row of a character, and its eight rows; \<open>vram_ptr\<close> and \<open>font\<close> are offsets.\<close>

fun glyph_row :: "byte \<Rightarrow> nat list \<Rightarrow> nat \<Rightarrow> 'w dbgscr \<Rightarrow> 'w dbgscr run" where
  "glyph_row b [] vram_ptr s = ret s"
| "glyph_row b (j # js) vram_ptr s =
     run_bind (poke vram_ptr (if b AND drop_bit j 128 \<noteq> 0 then ColorFg s else ColorBg s) s)
       (glyph_row b js (vram_ptr + 1))"

fun glyph_rows :: "nat list \<Rightarrow> nat \<Rightarrow> nat \<Rightarrow> 'w dbgscr \<Rightarrow> 'w dbgscr run" where
  "glyph_rows [] font vram_ptr s = ret s"
| "glyph_rows (i # is) font vram_ptr s =
     (if length psvDebugScreenFont \<le> font then fail OutOfBounds
      else run_bind (glyph_row (psvDebugScreenFont ! font) [0..<SCREEN_GLYPH_W] vram_ptr s)
        (glyph_rows is (font + 1) (vram_ptr + SCREEN_FB_WIDTH)))"

definition wrap_line :: "'w dbgscr \<Rightarrow> 'w dbgscr" where
  "wrap_line s = (if SCREEN_WIDTH < u32 (CoordX s + 8)
     then s\<lparr>CoordY := u32 (CoordY s + SCREEN_GLYPH_H), CoordX := 0\<rparr> else s)"

definition wrap_screen :: "'w dbgscr \<Rightarrow> 'w dbgscr run" where
  "wrap_screen s = (if SCREEN_HEIGHT < u32 (CoordY s + 8) then psvDebugScreenClear (ColorBg s) s else ret s)"

definition draw_char :: "byte \<Rightarrow> 'w dbgscr \<Rightarrow> 'w dbgscr run" where
  "draw_char c s =
     run_bind (glyph_rows [0..<SCREEN_GLYPH_W] (unat c * 8) (u32 (CoordX s + CoordY s * SCREEN_FB_WIDTH)) s)
       (\<lambda>s1. ret (s1\<lparr>CoordX := u32 (CoordX s1 + SCREEN_GLYPH_W)\<rparr>))"

text \<open>The loop over the text. The escape code is read from the third byte of the text, wherever the
  loop has got to.\<close>

function puts_loop :: "byte list \<Rightarrow> nat \<Rightarrow> 'w dbgscr \<Rightarrow> (nat \<times> 'w dbgscr) run" where
  "puts_loop text c s =
     (if length text \<le> c then fail OutOfBounds
      else if text ! c = 0 then ret (c, s)
      else
        run_bind (wrap_screen (wrap_line s)) (\<lambda>s2.
        if text ! c = 10
        then puts_loop text (c + 1) (s2\<lparr>CoordX := 0, CoordY := u32 (CoordY s2 + SCREEN_GLYPH_H)\<rparr>)
        else if text ! c = 13 then puts_loop text (c + 1) (s2\<lparr>CoordX := 0\<rparr>)
        else if text ! c = 27 \<and> length text \<le> c + 1 then fail OutOfBounds
        else if text ! c = 27 \<and> text ! (c + 1) = 91
        then run_bind (psvDebugScreenEscape (drop 2 text) s2) (\<lambda>(i, s3). puts_loop text (c + (i + 2) + 1) s3)
        else run_bind (draw_char (text ! c) s2) (puts_loop text (c + 1))))"
  by pat_completeness auto
termination by (relation "measure (\<lambda>(text, c, s). length text - c)") auto

declare escape_loop.simps [simp del] puts_loop.simps [simp del]

definition psvDebugScreenPuts :: "'w dispapi \<Rightarrow> byte list \<Rightarrow> 'w dbgscr \<Rightarrow> (nat \<times> 'w dbgscr) run" where
  "psvDebugScreenPuts d text s =
     run_bind (puts_loop text 0 (s\<lparr>dw := d_LockMutex d (psvDebugScreenMutex s) (dw s)\<rparr>)) (\<lambda>(c, s1).
     ret (c, s1\<lparr>dw := d_UnlockMutex d (psvDebugScreenMutex s1) (dw s1)\<rparr>))"

text \<open>The text is what \<open>vsnprintf\<close> makes of the format; at most 511 bytes of it are kept.\<close>

definition psvDebugScreenPrintf :: "'w dispapi \<Rightarrow> byte list \<Rightarrow> 'w dbgscr \<Rightarrow> (nat \<times> 'w dbgscr) run" where
  "psvDebugScreenPrintf d text s =
     (let kept = take 511 text @ [0];
          buf = kept @ drop (length kept) (d_uninit d 512 (dw s))
      in run_bind (psvDebugScreenPuts d buf s) (\<lambda>(_, s1). ret (length text, s1)))"


section \<open>The terminal\<close>

text \<open>What a cell shows: what was in memory before, nothing, or a character in two colours.\<close>

datatype cell = Unknown | Blank color | Glyph byte color color

record terminal =
  col :: nat
  row :: nat
  fg :: color
  bg :: color
  cells :: "nat \<Rightarrow> nat \<Rightarrow> cell"

definition fresh :: terminal where
  "fresh = \<lparr>col = 0, row = 0, fg = COLOR_WHITE, bg = COLOR_BLACK, cells = (\<lambda>r c. Unknown)\<rparr>"

definition wrapped :: "terminal \<Rightarrow> terminal" where
  "wrapped t =
     (let t1 = (if 120 \<le> col t then t\<lparr>col := 0, row := row t + 1\<rparr> else t)
      in if 68 \<le> row t1 then t1\<lparr>col := 0, row := 0, cells := (\<lambda>r c. Blank (bg t1))\<rparr> else t1)"

definition type_char :: "byte \<Rightarrow> terminal \<Rightarrow> terminal" where
  "type_char ch t =
     (let t2 = wrapped t
      in if ch = 10 then t2\<lparr>col := 0, row := row t2 + 1\<rparr>
         else if ch = 13 then t2\<lparr>col := 0\<rparr>
         else t2\<lparr>col := col t2 + 1, cells := (\<lambda>r c. if r = row t2 \<and> c = col t2
                 then Glyph ch (fg t2) (bg t2) else cells t2 r c)\<rparr>)"

definition lit :: "nat \<Rightarrow> nat \<Rightarrow> bool" where
  "lit i x \<longleftrightarrow> psvDebugScreenFont ! i AND drop_bit x 128 \<noteq> 0"

fun cell_pixel :: "cell \<Rightarrow> nat \<Rightarrow> nat \<Rightarrow> color option" where
  "cell_pixel Unknown y x = None"
| "cell_pixel (Blank b) y x = Some b"
| "cell_pixel (Glyph ch f b) y x = Some (if lit (unat ch * 8 + y) x then f else b)"

text \<open>The offset of a pixel of a cell, and the frame buffer as a picture of a terminal.\<close>

definition pixel_at :: "nat \<Rightarrow> nat \<Rightarrow> nat \<Rightarrow> nat \<Rightarrow> nat" where
  "pixel_at r c y x = (8 * r + y) * 960 + (8 * c + x)"

definition pictured :: "terminal \<Rightarrow> 'w dbgscr \<Rightarrow> bool" where
  "pictured t s \<longleftrightarrow> CoordX s = 8 * col t \<and> CoordY s = 8 * row t \<and> ColorFg s = fg t \<and> ColorBg s = bg t
     \<and> fb_base s \<and> col t \<le> 120 \<and> row t + col t div 120 \<le> 68
     \<and> (\<forall>r c y x k. r < 68 \<and> c < 120 \<and> y < 8 \<and> x < 8 \<and> cell_pixel (cells t r c) y x = Some k
         \<longrightarrow> vram s (pixel_at r c y x) = k)"

lemma eights_inj: "8 * a + b = 8 * a' + b' \<Longrightarrow> b < 8 \<Longrightarrow> b' < 8 \<Longrightarrow> a = a' \<and> b = b'" for a :: nat
  by presburger

lemma pixel_at_inj:
  assumes "pixel_at r c y x = pixel_at r' c' y' x'" and "c < 120" "x < 8" "y < 8" "c' < 120" "x' < 8" "y' < 8"
  shows "r = r' \<and> c = c' \<and> y = y' \<and> x = x'"
proof -
  have d: "pixel_at r c y x div 960 = 8 * r + y \<and> pixel_at r c y x mod 960 = 8 * c + x"
    if "c < 120" "x < 8" for r c y x
  proof -
    have "8 * c + x < 960" using that by simp
    then show ?thesis by (simp only: pixel_at_def div_mult_self3 mod_mult_self3) simp
  qed
  have "8 * r + y = 8 * r' + y'" "8 * c + x = 8 * c' + x'"
    using d [of c x r y] d [of c' x' r' y'] assms by simp_all
  then show ?thesis using assms(3,4,6,7) eights_inj by metis
qed

lemma pixel_at_bound: "r < 68 \<Longrightarrow> c < 120 \<Longrightarrow> y < 8 \<Longrightarrow> x < 8 \<Longrightarrow> pixel_at r c y x < 522240"
  by (simp add: pixel_at_def)


section \<open>Drawing\<close>

lemmas screen_consts = SCREEN_WIDTH_def SCREEN_HEIGHT_def SCREEN_FB_WIDTH_def SCREEN_FB_SIZE_def
  SCREEN_GLYPH_W_def SCREEN_GLYPH_H_def

lemma u32_id [simp]: "n < 4294967296 \<Longrightarrow> u32 n = n"
  by (simp add: u32_def)

lemma poke_in [simp]:
  "fb_base s \<Longrightarrow> off < 524288 \<Longrightarrow> poke off c s = ret (s\<lparr>vram := (vram s)(off := c)\<rparr>)"
  by (simp add: poke_def screen_consts)

lemma clear_loop_fills:
  "fb_base s \<Longrightarrow> \<forall>i \<in> set is. i < 524288 \<Longrightarrow>
   clear_loop is b s = ret (s\<lparr>vram := (\<lambda>i. if i \<in> set is then b else vram s i)\<rparr>)"
proof (induction "is" arbitrary: s)
  case (Cons i "is")
  have "(\<lambda>j. if j \<in> set is then b else ((vram s)(i := b)) j) = (\<lambda>j. if j \<in> set (i # is) then b else vram s j)"
    by auto
  then show ?case using Cons by (simp add: run_bind_ret cong: if_cong)
qed simp

lemma psvDebugScreenClear_fills:
  "fb_base s \<Longrightarrow> psvDebugScreenClear b s
     = ret (s\<lparr>CoordX := 0, CoordY := 0, vram := (\<lambda>i. if i < 522240 then b else vram s i)\<rparr>)"
  by (simp add: psvDebugScreenClear_def clear_loop_fills screen_consts del: upt_conv_Cons cong: if_cong)

lemma glyph_row_draws:
  assumes "fb_base s" and "p + length js \<le> 524288"
  shows "glyph_row b js p s = ret (s\<lparr>vram := (\<lambda>i. if p \<le> i \<and> i < p + length js
      then (if b AND drop_bit (js ! (i - p)) 128 \<noteq> 0 then ColorFg s else ColorBg s) else vram s i)\<rparr>)"
  using assms
proof (induction js arbitrary: p s)
  case Nil
  have "(\<lambda>i. if p \<le> i \<and> i < p + length [] then (if b AND drop_bit ([] ! (i - p)) 128 \<noteq> 0 then ColorFg s else ColorBg s)
      else vram s i) = vram s" by (rule ext) auto
  then show ?case by (simp only: glyph_row.simps) simp
next
  case (Cons j js)
  let ?k = "\<lambda>j. if b AND drop_bit j 128 \<noteq> 0 then ColorFg s else ColorBg s"
  have "(\<lambda>i. if p + 1 \<le> i \<and> i < p + 1 + length js then ?k (js ! (i - (p + 1))) else ((vram s)(p := ?k j)) i)
      = (\<lambda>i. if p \<le> i \<and> i < p + length (j # js) then ?k ((j # js) ! (i - p)) else vram s i)"
    by (auto simp: fun_eq_iff nth_Cons')
  then show ?case
    using Cons.prems Cons.IH [of "s\<lparr>vram := (vram s)(p := ?k j)\<rparr>" "p + 1"]
    by (simp add: run_bind_ret cong: if_cong)
qed

lemma glyph_rows_draw:
  assumes "fb_base s" and "p + 960 * length is \<le> 524288" and "f + length is \<le> 2048"
  shows "\<exists>v. glyph_rows is f p s = ret (s\<lparr>vram := v\<rparr>)
    \<and> (\<forall>y x. y < length is \<and> x < 8 \<longrightarrow> v (p + 960 * y + x) = (if lit (f + y) x then ColorFg s else ColorBg s))
    \<and> (\<forall>i. (\<forall>y x. y < length is \<and> x < 8 \<longrightarrow> i \<noteq> p + 960 * y + x) \<longrightarrow> v i = vram s i)"
  using assms
proof (induction "is" arbitrary: f p s)
  case Nil
  then show ?case by (auto intro: exI [of _ "vram s"])
next
  case (Cons i0 "is")
  define v0 where "v0 = (\<lambda>i. if p \<le> i \<and> i < p + 8
      then (if lit f (i - p) then ColorFg s else ColorBg s) else vram s i)"
  have "(\<lambda>i. if p \<le> i \<and> i < p + 8 then (if psvDebugScreenFont ! f AND drop_bit ([0..<8] ! (i - p)) 128 \<noteq> 0
      then ColorFg s else ColorBg s) else vram s i) = v0"
    by (auto simp: v0_def fun_eq_iff lit_def)
  then have row: "glyph_row (psvDebugScreenFont ! f) [0..<8] p s = ret (s\<lparr>vram := v0\<rparr>)"
    using glyph_row_draws [of s p "[0..<8]" "psvDebugScreenFont ! f"] Cons.prems by simp
  obtain v where v: "glyph_rows is (f + 1) (p + 960) (s\<lparr>vram := v0\<rparr>) = ret (s\<lparr>vram := v\<rparr>)"
      "\<And>y x. y < length is \<Longrightarrow> x < 8 \<Longrightarrow> v (p + 960 + 960 * y + x) = (if lit (f + 1 + y) x then ColorFg s else ColorBg s)"
      "\<And>i. (\<And>y x. y < length is \<Longrightarrow> x < 8 \<Longrightarrow> i \<noteq> p + 960 + 960 * y + x) \<Longrightarrow> v i = v0 i"
    using Cons.IH [of "s\<lparr>vram := v0\<rparr>" "p + 960" "f + 1"] Cons.prems by auto
  have "glyph_rows (i0 # is) f p s = ret (s\<lparr>vram := v\<rparr>)"
    using row v(1) Cons.prems(3) by (simp add: length_font screen_consts run_bind_ret)
  moreover have "v (p + 960 * y + x) = (if lit (f + y) x then ColorFg s else ColorBg s)"
    if "y < Suc (length is)" "x < 8" for y x
  proof (cases y)
    case 0
    have "v (p + x) = v0 (p + x)" using that by (intro v(3)) simp
    then show ?thesis using that 0 by (simp add: v0_def)
  next
    case (Suc y')
    then show ?thesis using v(2) [of y' x] that by (simp add: algebra_simps)
  qed
  moreover have "v i = vram s i" if o: "\<And>y x. y < Suc (length is) \<Longrightarrow> x < 8 \<Longrightarrow> i \<noteq> p + 960 * y + x" for i
  proof -
    have "v i = v0 i" using o [of "Suc y" x for y x] by (intro v(3)) (metis Suc_less_eq add.assoc mult_Suc_right)
    moreover have "\<not> (p \<le> i \<and> i < p + 8)" using o [of 0 "i - p"] by (auto simp: less_diff_conv2)
    ultimately show ?thesis by (simp add: v0_def)
  qed
  ultimately show ?case by (intro exI [of _ v]) auto
qed


section \<open>The picture\<close>

text \<open>A character goes into its cell and leaves the other cells alone.\<close>

lemma draw_char_pictures:
  assumes P: "pictured t s" and "row t < 68" and "col t < 120"
  shows "\<exists>s'. draw_char ch s = ret s' \<and> pictured (t\<lparr>col := col t + 1, cells := (\<lambda>r c.
      if r = row t \<and> c = col t then Glyph ch (fg t) (bg t) else cells t r c)\<rparr>) s'"
proof -
  let ?p = "pixel_at (row t) (col t) 0 0" and ?f = "unat ch * 8"
  have co: "CoordX s = 8 * col t" "CoordY s = 8 * row t" "ColorFg s = fg t" "ColorBg s = bg t" "fb_base s"
    using P by (simp_all add: pictured_def)
  have px: "?p + 960 * y + x = pixel_at (row t) (col t) y x" for y x by (simp add: pixel_at_def)
  have "CoordX s + CoordY s * 960 = ?p" using co by (simp add: pixel_at_def)
  moreover have "?p \<le> 515512" using assms(2,3) by (simp add: pixel_at_def)
  moreover have "unat ch \<le> 255" using unsigned_less [of ch, where ?'a = nat] by simp
  ultimately obtain v where v: "glyph_rows [0..<8] ?f (u32 (CoordX s + CoordY s * 960)) s = ret (s\<lparr>vram := v\<rparr>)"
      "\<And>y x. y < 8 \<Longrightarrow> x < 8 \<Longrightarrow> v (?p + 960 * y + x) = (if lit (?f + y) x then fg t else bg t)"
      "\<And>i. (\<And>y x. y < 8 \<Longrightarrow> x < 8 \<Longrightarrow> i \<noteq> ?p + 960 * y + x) \<Longrightarrow> v i = vram s i"
    using glyph_rows_draw [of s ?p "[0..<8]" ?f] co by auto
  have other: "v (pixel_at r c y x) = vram s (pixel_at r c y x)"
    if "c < 120" "y < 8" "x < 8" "\<not> (r = row t \<and> c = col t)" for r c y x
    using v(3) [of "pixel_at r c y x"] pixel_at_inj [of r c y x "row t" "col t"] that assms(3) by (auto simp: px)
  have "pictured (t\<lparr>col := col t + 1, cells := (\<lambda>r c.
      if r = row t \<and> c = col t then Glyph ch (fg t) (bg t) else cells t r c)\<rparr>) (s\<lparr>vram := v, CoordX := 8 * col t + 8\<rparr>)"
    using P other v(2) assms(2,3) unfolding pictured_def px by (auto split: if_splits)
  moreover have "draw_char ch s = ret (s\<lparr>vram := v, CoordX := 8 * col t + 8\<rparr>)"
    using v(1) co(1) assms(3) by (simp add: draw_char_def screen_consts run_bind_ret)
  ultimately show ?thesis by blast
qed

lemma wrap_pictures:
  assumes P: "pictured t s"
  shows "\<exists>s2. wrap_screen (wrap_line s) = ret s2 \<and> pictured (wrapped t) s2 \<and> row (wrapped t) < 68 \<and> col (wrapped t) < 120"
proof -
  define t1 where "t1 = (if 120 \<le> col t then t\<lparr>col := 0, row := row t + 1\<rparr> else t)"
  have t2: "wrapped t = (if 68 \<le> row t1 then t1\<lparr>col := 0, row := 0, cells := (\<lambda>r c. Blank (bg t1))\<rparr> else t1)"
    by (simp add: wrapped_def t1_def Let_def)
  have co: "CoordX s = 8 * col t" "CoordY s = 8 * row t" "fb_base s" "col t \<le> 120" "row t + col t div 120 \<le> 68"
    using P by (simp_all add: pictured_def)
  have P1: "pictured t1 (wrap_line s)"
    using P co by (auto simp: t1_def wrap_line_def pictured_def screen_consts)
  then have c1: "CoordY (wrap_line s) = 8 * row t1" "fb_base (wrap_line s)" "ColorBg (wrap_line s) = bg t1" "row t1 \<le> 68"
    by (simp_all add: pictured_def)
  have "col t1 < 120" using co by (simp add: t1_def)
  show ?thesis
  proof (cases "68 \<le> row t1")
    case True
    let ?s2 = "(wrap_line s)\<lparr>CoordX := 0, CoordY := 0, vram := (\<lambda>i. if i < 522240 then bg t1 else vram (wrap_line s) i)\<rparr>"
    have "wrap_screen (wrap_line s) = ret ?s2"
      using True c1 by (simp add: wrap_screen_def screen_consts psvDebugScreenClear_fills)
    moreover have "pictured (wrapped t) ?s2"
      using P1 True by (auto simp: pictured_def t2 pixel_at_bound)
    ultimately show ?thesis using True by (simp add: t2 ret_eq)
  next
    case False
    then show ?thesis
      using P1 c1 \<open>col t1 < 120\<close> by (simp add: t2 wrap_screen_def screen_consts ret_eq)
  qed
qed


section \<open>Texts\<close>

definition plain :: "byte \<Rightarrow> bool" where
  "plain ch \<longleftrightarrow> ch \<noteq> 0 \<and> ch \<noteq> 27"

lemma puts_step:
  assumes P: "pictured t s" and c: "c < length text" "plain (text ! c)"
  shows "\<exists>s'. puts_loop text c s = puts_loop text (c + 1) s' \<and> pictured (type_char (text ! c) t) s'"
proof -
  define t2 where "t2 = wrapped t"
  obtain s2 where s2: "wrap_screen (wrap_line s) = ret s2" "pictured t2 s2" "row t2 < 68" "col t2 < 120"
    using wrap_pictures [OF P] unfolding t2_def by blast
  have type: "type_char ch t = (if ch = 10 then t2\<lparr>col := 0, row := row t2 + 1\<rparr> else if ch = 13 then t2\<lparr>col := 0\<rparr>
      else t2\<lparr>col := col t2 + 1, cells := (\<lambda>r c. if r = row t2 \<and> c = col t2
                 then Glyph ch (fg t2) (bg t2) else cells t2 r c)\<rparr>)" for ch
    unfolding type_char_def t2_def Let_def by (rule refl)
  have Y: "CoordY s2 = 8 * row t2" using s2(2) by (simp add: pictured_def)
  consider (newline) "text ! c = 10" | (return) "text ! c = 13" | (char) "text ! c \<noteq> 10" "text ! c \<noteq> 13" by blast
  then show ?thesis
  proof cases
    case newline
    moreover have "pictured (t2\<lparr>col := 0, row := row t2 + 1\<rparr>) (s2\<lparr>CoordX := 0, CoordY := 8 * row t2 + 8\<rparr>)"
      using s2 by (simp add: pictured_def)
    ultimately show ?thesis
      using c s2(1,3) Y by (subst puts_loop.simps) (auto simp: run_bind_ret type screen_consts plain_def)
  next
    case return
    moreover have "pictured (t2\<lparr>col := 0\<rparr>) (s2\<lparr>CoordX := 0\<rparr>)" using s2 by (simp add: pictured_def)
    ultimately show ?thesis
      using c s2(1) by (subst puts_loop.simps) (auto simp: run_bind_ret type plain_def)
  next
    case char
    obtain s3 where "draw_char (text ! c) s2 = ret s3" "pictured (type_char (text ! c) t) s3"
      using draw_char_pictures [OF s2(2,3,4), of "text ! c"] char by (auto simp: type)
    then show ?thesis
      using c s2(1) char by (subst puts_loop.simps) (auto simp: run_bind_ret plain_def)
  qed
qed

lemma puts_pictures:
  "pictured t s \<Longrightarrow> \<forall>ch \<in> set cs. plain ch \<Longrightarrow>
   \<exists>s'. puts_loop (pre @ cs @ 0 # rest) (length pre) s = ret (length pre + length cs, s')
     \<and> pictured (fold type_char cs t) s'"
proof (induction cs arbitrary: pre t s)
  case Nil
  then show ?case by (subst puts_loop.simps) (auto simp: ret_eq)
next
  case (Cons ch cs)
  obtain s1 where s1: "puts_loop (pre @ (ch # cs) @ 0 # rest) (length pre) s
      = puts_loop (pre @ (ch # cs) @ 0 # rest) (length pre + 1) s1" "pictured (type_char ch t) s1"
    using puts_step [OF Cons.prems(1), of "length pre" "pre @ (ch # cs) @ 0 # rest"] Cons.prems(2) by auto
  then show ?case using Cons.IH [OF s1(2), of "pre @ [ch]"] Cons.prems(2) by simp
qed

lemma printf_pictures:
  assumes P: "pictured t s" and "\<forall>ch \<in> set m. plain ch"
  shows "\<exists>s'. psvDebugScreenPrintf d m s = ret (length m, s') \<and> pictured (fold type_char (take 511 m) t) s'"
proof -
  let ?l = "s\<lparr>dw := d_LockMutex d (psvDebugScreenMutex s) (dw s)\<rparr>"
  have "pictured t ?l" using P by (simp add: pictured_def)
  then obtain s1 where s1: "puts_loop ([] @ take 511 m @ 0 # drop (length (take 511 m @ [0])) (d_uninit d 512 (dw s)))
      (length []) ?l = ret (length [] + length (take 511 m), s1)" "pictured (fold type_char (take 511 m) t) s1"
    using puts_pictures [of t ?l "take 511 m" "[]" "drop (length (take 511 m @ [0])) (d_uninit d 512 (dw s))"] assms(2)
    by (auto dest: in_set_takeD)
  then have "psvDebugScreenPrintf d m s = ret (length m, s1\<lparr>dw := d_UnlockMutex d (psvDebugScreenMutex s1) (dw s1)\<rparr>)"
    by (simp add: psvDebugScreenPrintf_def psvDebugScreenPuts_def run_bind_ret Let_def)
  then show ?thesis using s1(2) by (auto simp: ret_eq pictured_def)
qed

text \<open>The messages of a session, one after the other.\<close>

fun print_all :: "'w dispapi \<Rightarrow> byte list list \<Rightarrow> 'w dbgscr \<Rightarrow> 'w dbgscr run" where
  "print_all d [] s = ret s"
| "print_all d (m # ms) s = run_bind (psvDebugScreenPrintf d m s) (\<lambda>(n, s1). print_all d ms s1)"

lemma print_all_pictures:
  "pictured t s \<Longrightarrow> \<forall>m \<in> set ms. \<forall>ch \<in> set m. plain ch \<Longrightarrow>
   \<exists>s'. print_all d ms s = ret s' \<and> pictured (fold type_char (concat (map (take 511) ms)) t) s'"
proof (induction ms arbitrary: t s)
  case (Cons m ms)
  obtain s1 where "psvDebugScreenPrintf d m s = ret (length m, s1)" "pictured (fold type_char (take 511 m) t) s1"
    using printf_pictures [OF Cons.prems(1), of m d] Cons.prems(2) by auto
  then show ?case using Cons.IH [of "fold type_char (take 511 m) t" s1] Cons.prems(2) by (simp add: run_bind_ret)
qed (simp add: ret_eq)

lemma init_pictures:
  assumes "\<And>b w. fst (d_GetMemBlockBase d b w) \<noteq> None"
  shows "pictured fresh (snd (psvDebugScreenInit d (scr_boot w)))"
proof -
  obtain m w1 where 1: "d_CreateMutex d ''log_mutex'' w = (m, w1)" by fastforce
  obtain b w2 where 2: "d_AllocMemBlock d ''display'' SCREEN_FB_SIZE w1 = (b, w2)" by fastforce
  obtain p w3 where 3: "d_GetMemBlockBase d b w2 = (Some p, w3)"
    using assms [of b w2] by (cases "d_GetMemBlockBase d b w2") auto
  show ?thesis
    unfolding psvDebugScreenInit_def scr_boot_def
    by (simp add: 1 2 3 pictured_def fresh_def COLOR_DEFAULT_FG_def COLOR_DEFAULT_BG_def split: prod.splits)
qed

text \<open>C17: The debug screen is the picture of a terminal. From the start of the server, when it gets its
  frame buffer, any sequence of messages without escape codes is printed without an access outside
  the frame buffer, the font or the text; afterwards the pixels, the cursor and the colours are those
  of a terminal of 120 by 68 cells in which the first 511 characters of each message were typed: it
  goes to the next line after the last column and starts anew on an empty screen after the last line.\<close>

theorem screen_pictures_terminal:
  assumes "\<And>b w. fst (d_GetMemBlockBase d b w) \<noteq> None" and "\<forall>m \<in> set ms. \<forall>ch \<in> set m. plain ch"
  shows "\<exists>s'. print_all d ms (snd (psvDebugScreenInit d (scr_boot w))) = ret s'
    \<and> pictured (fold type_char (concat (map (take 511) ms)) fresh) s'"
  using print_all_pictures [OF init_pictures [OF assms(1)] assms(2)] .

definition quiet_display :: "unit dispapi" where
  "quiet_display = \<lparr>d_CreateMutex = \<lambda>_ w. (1, w), d_LockMutex = \<lambda>_ w. w, d_UnlockMutex = \<lambda>_ w. w,
     d_AllocMemBlock = \<lambda>_ _ w. (2, w), d_GetMemBlockBase = \<lambda>_ w. (Some (\<lambda>_. 0), w),
     d_SetFrameBuf = \<lambda>_ _ _ _ w. (0, w), d_uninit = \<lambda>n w. replicate n 1\<rparr>"

text \<open>``hi'' on one line and ``!'' on the next.\<close>

theorem screen_pictures_terminal_witness:
  "\<exists>s'. print_all quiet_display [[104, 105, 10], [33]] (snd (psvDebugScreenInit quiet_display (scr_boot ()))) = ret s'
    \<and> pictured (fold type_char [104, 105, 10, 33] fresh) s'"
  using screen_pictures_terminal [of quiet_display "[[104, 105, 10], [33]]" "()"]
  by (simp add: quiet_display_def plain_def)


section \<open>Where it goes wrong\<close>

text \<open>The results of \<open>psvDebugScreenInit\<close>'s calls are not looked at: without a frame buffer the first
  character is drawn through a null pointer.\<close>

lemma null_frame_buffer_faults:
  assumes "\<And>b w. fst (d_GetMemBlockBase d b w) = None" and "plain ch" and "ch \<noteq> 10" and "ch \<noteq> 13"
  shows "psvDebugScreenPuts d (ch # text) (snd (psvDebugScreenInit d (scr_boot w))) = fail NullDeref"
proof -
  obtain m w1 where 1: "d_CreateMutex d ''log_mutex'' w = (m, w1)" by fastforce
  obtain b w2 where 2: "d_AllocMemBlock d ''display'' SCREEN_FB_SIZE w1 = (b, w2)" by fastforce
  obtain w3 where 3: "d_GetMemBlockBase d b w2 = (None, w3)"
    using assms(1) [of b w2] by (cases "d_GetMemBlockBase d b w2") auto
  define s where "s = snd (psvDebugScreenInit d (scr_boot w))"
  have s: "\<not> fb_base s" "CoordX s = 0" "CoordY s = 0"
    unfolding s_def psvDebugScreenInit_def scr_boot_def by (simp_all add: 1 2 3 split: prod.splits)
  let ?l = "s\<lparr>dw := d_LockMutex d (psvDebugScreenMutex s) (dw s)\<rparr>"
  have "unat ch < 256" using unsigned_less [of ch, where ?'a = nat] by simp
  then have "draw_char ch ?l = fail NullDeref"
    using s by (simp add: draw_char_def screen_consts length_font poke_def upt_rec run_simps)
  moreover have "wrap_screen (wrap_line ?l) = ret ?l"
    using s by (simp add: wrap_screen_def wrap_line_def screen_consts)
  ultimately have "puts_loop (ch # text) 0 ?l = fail NullDeref"
    using assms(2-4) by (subst puts_loop.simps) (simp add: run_simps plain_def)
  then show ?thesis by (simp add: psvDebugScreenPuts_def s_def [symmetric] run_simps)
qed

text \<open>An escape code that is not complete. The parser stops at the end of the text, the caller steps over
  it and goes on reading behind the text.\<close>

lemma escape_digits:
  "\<forall>ch \<in> set ds. 48 \<le> ch \<and> ch \<le> 57 \<Longrightarrow> length pre + length ds < 8 \<Longrightarrow>
   escape_loop (pre @ ds @ [0]) (length pre) 0 params s = ret (length pre + length ds, s)"
proof (induction ds arbitrary: pre params)
  case Nil
  then show ?case by (subst escape_loop.simps) simp
next
  case (Cons ch ds)
  have "ch \<noteq> 0" using Cons.prems(1) by auto
  then show ?case
    using Cons.prems Cons.IH [of "pre @ [ch]" "params[0 := params ! 0 * 10 + (unat ch - 48)]"]
    by (subst escape_loop.simps) (simp add: Let_def)
qed

lemma unterminated_escape_overruns:
  assumes P: "pictured t s" and "\<forall>ch \<in> set ds. 48 \<le> ch \<and> ch \<le> 57" and "length ds < 8"
  shows "psvDebugScreenPuts d (27 # 91 # ds @ [0]) s = fail OutOfBounds"
proof -
  let ?l = "s\<lparr>dw := d_LockMutex d (psvDebugScreenMutex s) (dw s)\<rparr>"
  have "pictured t ?l" using P by (simp add: pictured_def)
  then obtain s2 where s2: "wrap_screen (wrap_line ?l) = ret s2" using wrap_pictures by blast
  have E: "psvDebugScreenEscape (ds @ [0]) s2 = ret (length ds, s2)"
    using escape_digits [of ds "[]" "replicate 8 0" s2] assms(2,3) by (simp add: psvDebugScreenEscape_def)
  have "puts_loop (27 # 91 # ds @ [0]) (length ds + 3) s2 = fail OutOfBounds"
    by (subst puts_loop.simps) simp
  then have "puts_loop (27 # 91 # ds @ [0]) 0 ?l = fail OutOfBounds"
    using s2 E by (subst puts_loop.simps) (simp add: run_bind_ret numeral_3_eq_3)
  then show ?thesis by (simp add: psvDebugScreenPuts_def run_simps)
qed

text \<open>An escape code that is not at the start of the text is looked for at the start: after two newlines
  the colour is set to red, but the loop steps by the length from the third byte on, and so over
  the end of the text.\<close>

lemma late_escape_overruns:
  "puts_loop [10, 10, 27, 91, 51, 49, 109, 0] 0 (scr_boot w) = fail OutOfBounds"
  by (simp add: puts_loop.simps escape_loop.simps psvDebugScreenEscape_def wrap_screen_def wrap_line_def scr_boot_def
      screen_consts run_simps)

end
