(* ===== verification/Spec2Isabelle.thy ===== *)
theory Spec2Isabelle
  imports Server_Session Driver Hooks_Errors_Props Hooks_Log El_Unload El_Props Client_Props Client_Safety
    Client_Server Debug_Screen
begin

text \<open>
  psvemmc gives a client on the network access to the flash memory of a PS Vita. It is a kernel
  driver (\<open>driver/\<close>), a user-mode TCP server (\<open>server/\<close>), a command-line client in C++ (\<open>client/\<close>)
  that dumps partitions, and a second module that logs errors (\<open>error_logger/\<close>). The driver exports
  system calls that read sectors and clusters of the eMMC, the game card and the memory card; the
  server turns commands from the network into those calls. A build with \<open>ENABLE_REVERSING\<close>
  (\<open>driver/defines.h\<close>) also patches the running kernel with hooks, and one with \<open>ENABLE_NETWORK\<close>
  opens a debug connection.

  \<^bold>\<open>Theories and code.\<close>
  \<^item> \<open>Prelude\<close>, \<open>Memory\<close>, \<open>Kernel_Api\<close>: results of C code that may fault (\<open>run\<close>: a value, a fault,
    or no return), \<open>int\<close> arithmetic with its wrap-around, bytes and blocks of memory, the kernel's
    functions as the record \<open>kapi\<close> over an arbitrary world, and the state all parts of the driver
    share (\<open>kbase\<close>).
  \<^item> \<open>Glog\<close>: \<open>driver/glog.c\<close> and \<open>driver/sdstor_log.c\<close>, two log files with a reference count.
  \<^item> \<open>Emmc\<close>, \<open>Emmc_Props\<close>: the system calls of \<open>driver/psvemmc.c\<close> and its device set-up.
  \<^item> \<open>Server\<close>, \<open>Server_Net\<close>, \<open>Server_Safety\<close>, \<open>Server_Props\<close>, \<open>Server_Session\<close>: \<open>server/src/main.c\<close>,
    from its loops over the socket and its sixteen command handlers to the command loop, the
    accept loop and \<open>main\<close>. The server's state contains the driver's, so that a command runs the
    driver's own code.
  \<^item> \<open>Screen_Font\<close>, \<open>Debug_Screen\<close>: \<open>server/src/debugScreenFont.c\<close> and \<open>server/src/debugScreen.h\<close>, the
    console that shows the server's messages (the field \<open>screen\<close> of its state), and the terminal it
    is a picture of.
  \<^item> \<open>Qsort\<close>, \<open>Mtable\<close>: \<open>driver/qsort.c\<close> and \<open>driver/mtable.c\<close>, the sorted table of the memory
    segments of all modules.
  \<^item> \<open>Stacktrace\<close>: \<open>driver/stacktrace.c\<close> and \<open>driver/thread_test.c\<close>.
  \<^item> \<open>Dump\<close>: \<open>driver/dump.c\<close> and \<open>dump_block_devices\<close> of \<open>driver/psvemmc.c\<close>.
  \<^item> \<open>Dnet\<close>: \<open>driver/net.c\<close>, the debug connection; the listener and the senders interleave as the
    step relation \<open>netstep\<close>.
  \<^item> \<open>Hook_Table\<close>, \<open>Hook_Registry\<close>: \<open>driver/debug.c\<close>. The table lists what the straight-line code
    installs, reports and releases, one entry for each statement in its order; the registry is the
    code that all statements of a kind share.
  \<^item> \<open>Hooks_Vfs\<close>: \<open>driver/hooks_vfs_ops.c\<close> and \<open>driver/hooks_vfs_funcs.c\<close>, the hooks of the file
    system operations and their re-entrancy guard, with the step relation \<open>guard_step\<close> for several
    threads.
  \<^item> \<open>Hooks_Sd\<close>, \<open>Hooks_Errors\<close>, \<open>Hooks_Errors_Props\<close>, \<open>Hooks_Log\<close>: \<open>driver/hooks_misc.c\<close>. A hook is a
    transformer of the original function, which may be any transformer of the driver's state that
    returns a result, faults or does not return. \<open>Log_Frame\<close> is what logging leaves alone, \<open>Ring\<close> the
    contract of arrays that are written round and round.
  \<^item> \<open>Client\<close>: \<open>client/psvemmc/*.cpp\<close>, from connecting, the commands and the partition table to the
    dump and \<open>main\<close>, over the state \<open>cli\<close> (the screen, the files, the socket library's world).
    \<open>Client_Peer\<close>: requests and responses as the two ends encode them, and the locale \<open>served\<close>, the
    contract of a connection, with what the client's functions do over it. \<open>Client_Server\<close>: the
    client's socket wired to the server and, through it, the driver (\<open>wired\<close>, \<open>turn\<close>), which meets the
    contract (the interpretation \<open>wire\<close>). \<open>Client_Props\<close>: connections and dumps that fail;
    \<open>Client_Safety\<close>: the client against a server that may send anything.
  \<^item> \<open>Driver\<close>: \<open>module_start\<close> and \<open>module_stop\<close> of \<open>driver/psvemmc.c\<close>, over all of the above.
  \<^item> \<open>El_Base\<close>, \<open>El_Hooks\<close>, \<open>El_Listener\<close>, \<open>El_Race\<close>, \<open>El_Module\<close>, \<open>El_Unload\<close>, \<open>El_Props\<close>: the module
    in \<open>error_logger/\<close>. \<open>El_Base\<close> has its state \<open>els\<close>, the functions it imports (\<open>eapi\<close>) and its own
    copies of the log, the module table and the stack trace (the sorting routine is the driver's);
    \<open>El_Hooks\<close> the thirty hooks of \<open>error_logger.c\<close>; \<open>El_Listener\<close> the thread that polls the flags they
    raise, each poll an entry of a table in the code's order; \<open>El_Race\<close> a hook and that thread side
    by side, as the step relation \<open>race\<close>; \<open>El_Module\<close> what is installed, reported and released, with
    \<open>module_start\<close> and \<open>module_stop\<close>; \<open>El_Unload\<close> and \<open>El_Props\<close> properties of the whole module.

  \<^bold>\<open>How the code is modelled.\<close> C globals are the fields of the state records and functions pass the
  state along; the names are those of the code. Library, kernel, firmware and taiHEN functions are
  parameters: arguments of the definitions, grouped in the records \<open>kapi\<close>, \<open>uapi\<close>, \<open>cpu\<close>, \<open>firmware\<close>,
  \<open>vfs_env\<close>, \<open>tai\<close>, \<open>eapi\<close>, \<open>capi\<close>, \<open>dispapi\<close>; what a theorem needs of them is a named hypothesis
  (\<open>alloc_law\<close>, \<open>dev_law\<close>, \<open>block_law\<close>, \<open>copy_law\<close>, \<open>wire_law\<close>, \<open>tai_law\<close>, \<open>el_law\<close>,
  \<open>wire_laws\<close> and so on) that states their documented behaviour, and the witnesses instantiate them
  with concrete functions. A wild access is a fault and not a
  value: null and dead pointers, accesses past the end of a block, an array or the caller's
  buffer. \<open>snprintf\<close> into the shared buffer is the text it makes.

  \<^bold>\<open>Loops and termination.\<close> Loops over arrays and lists are structural or come with a termination
  proof. Loops that need not end (sending, receiving, accepting, the command loop, following a
  linked list) are \<open>partial_function (option)\<close>: not returning is \<open>None\<close>, and that they return, or
  when they do not, is proved (in \<open>Server_Net\<close>, \<open>Server_Session\<close>, \<open>Dnet\<close>, \<open>Dump\<close>,
  \<open>El_Listener\<close>, \<open>Client_Peer\<close>, \<open>Client_Props\<close>, \<open>Client_Safety\<close>). No fuel is used.

  \<^bold>\<open>What is shown.\<close>
  \<^item> Memory safety of the server's commands and of the driver's calls, with the invariants of the
    two cluster pools (\<open>Server_Props\<close>, \<open>Emmc_Props\<close>), and the inputs that break it: a command after
    the pool was released, a driver pool larger than the server's, a byte count that wraps.
  \<^item> What the calls deliver: sectors, clusters and packets, sent and received in any fragments.
  \<^item> The command loop refines an abstract protocol (\<open>Server_Session\<close>).
  \<^item> A dump is right from end to end: client, server and driver together leave exactly the sectors
    of the partition in the file, if the partition begins at a multiple of eight sectors, and which
    sectors they leave otherwise (\<open>Client_Server\<close>). The client never ends a read when the connection
    is closed, takes refusals for success and reports success for a dump that failed
    (\<open>Client_Props\<close>); but whatever a server sends, it stays within its buffers and its one file, and
    ends while the connection is open (\<open>Client_Safety\<close>).
  \<^item> The console refines a terminal (\<open>pictured\<close>), for texts without escape codes; incomplete and late
    escape codes make it read over the end of the text (\<open>Debug_Screen\<close>).
  \<^item> The in-place quicksort sorts and permutes; an address is attributed to the right segment.
  \<^item> The logs' contract is the locale \<open>refcount_log\<close>, interpreted for both files; the comparison
    of segments is a \<open>comparator\<close> for the sorting routine.
  \<^item> Loading, using and unloading the driver leaves no memory behind (\<open>Driver\<close>), and loading and
    unloading the hooks leaves the kernel patched as it was (\<open>Hook_Registry\<close>).
  \<^item> The debug connection: complete padded messages, one client in the driver's life, a listener
    that cannot be stopped (\<open>Dnet\<close>).
  \<^item> The logging hooks are transparent (\<open>Hooks_Log\<close>); the recording hooks hold the last error and the
    number of calls, while the gate is open (\<open>Hooks_Errors_Props\<close>); the arrays hold the last devices
    and mounts; reads of SD cards are moved (\<open>Hooks_Sd\<close>).
  \<^item> The guarded hooks answer as the original does and refuse nested calls; two threads can undo
    the guard (\<open>Hooks_Vfs\<close>).
  \<^item> The error logger: its hooks keep the types of the globals and remember the last allocations,
    long paths run over their buffers (\<open>El_Props\<close>); a pass of the listener writes the pending
    reports in the code's order (\<open>El_Listener\<close>); calls far enough apart reach the log with their own
    values, while a flag raised early or a second call mixes old and new ones (\<open>El_Race\<close>); unloading
    the module gives the hooks back and leaves its listener running (\<open>El_Unload\<close>).
  \<^item> The contract of arrays written round and round is the locale \<open>ring_buffer\<close>, interpreted for the
    arrays of the driver's hooks and for the error logger's allocations.

  \<^bold>\<open>Not modelled.\<close> Errors of the disk while the client writes its file; that opening the file fails
  is modelled. Formatting: a message is the text that \<open>vsnprintf\<close> makes. Two empty functions of
  \<open>hooks_vfs_ops.c\<close>, variables of \<open>hooks_misc.c\<close> and \<open>error_logger.c\<close> that no code uses and code
  within comments are left out, and so is the text of \<open>sceIoOpenForDriver_hook\<close>, which no build
  compiles. The structures of \<open>vfs_types.h\<close>, \<open>sector_api.h\<close> and the like are modelled in the fields
  that the code reads or writes; the numbers taiHEN answers with are parameters.
\<close>

end
